(* ===== verification/Rust_Std.thy ===== *)
theory Rust_Std
  imports
    Main
    "HOL-Library.Word"
    "HOL-Library.Char_ord"
    "HOL-Library.List_Lexorder"
    "HOL-Library.Product_Lexorder" "HOL-Library.Code_Target_Nat"
begin

text \<open>
  The prelude: the part of the Rust language and standard library that the modelled sources
  use, and the lemmas every component shares.

  A Rust \<open>String\<close> or \<open>Vec<u8>\<close> is a \<^typ>\<open>string\<close>, one \<^typ>\<open>char\<close> per byte
  (text is UTF-8), so \<open>len()\<close> is \<^const>\<open>length\<close> and string order is the byte-wise
  lexicographic order of \<open>List_Lexorder\<close>.  A \<open>Result<a, e>\<close> is \<open>e + a\<close>, \<open>Inl\<close> the
  error.  Unsigned machine integers that are only counted are \<^typ>\<open>nat\<close> with their bound
  written out (\<open>saturating_add64\<close>, \<open>checked_add64\<close>); bit-wise ones are words.
\<close>

named_theorems rust_std \<open>unfolding rules for the modelled standard library\<close>
named_theorems store_simps \<open>rewrite rules for the tables of the service database\<close>

abbreviation byte :: "char \<Rightarrow> nat" where
  "byte c \<equiv> of_char c"

section \<open>Machine integers\<close>

definition u64_max :: nat where
  "u64_max = 2 ^ 64 - 1"

definition saturating_add64 :: "nat \<Rightarrow> nat \<Rightarrow> nat" where
  "saturating_add64 a b = min (a + b) u64_max"

definition checked_add64 :: "nat \<Rightarrow> nat \<Rightarrow> nat option" where
  "checked_add64 a b = (if a + b \<le> u64_max then Some (a + b) else None)"

definition wrapping_add64 :: "nat \<Rightarrow> nat \<Rightarrow> nat" where
  "wrapping_add64 a b = (a + b) mod 2 ^ 64"

definition wrapping_i32 :: "int \<Rightarrow> int" where
  "wrapping_i32 i = (i + 2 ^ 31) mod 2 ^ 32 - 2 ^ 31"

definition saturating_inc_i32 :: "int \<Rightarrow> int" where
  "saturating_inc_i32 i = min (i + 1) (2 ^ 31 - 1)"

definition clamp :: "'a::linorder \<Rightarrow> 'a \<Rightarrow> 'a \<Rightarrow> 'a" where
  "clamp lo hi x = (if x < lo then lo else if hi < x then hi else x)"

lemma checked_add64_Some: "checked_add64 a b = Some c \<longleftrightarrow> c = a + b \<and> a + b \<le> u64_max"
  by (auto simp: checked_add64_def)

lemma clamp_bounds: "lo \<le> hi \<Longrightarrow> lo \<le> clamp lo hi x \<and> clamp lo hi x \<le> hi"
  by (auto simp: clamp_def)

section \<open>Characters\<close>

definition is_ascii_digit :: "char \<Rightarrow> bool" where
  "is_ascii_digit c \<longleftrightarrow> 48 \<le> byte c \<and> byte c \<le> 57"

definition is_ascii_upper :: "char \<Rightarrow> bool" where
  "is_ascii_upper c \<longleftrightarrow> 65 \<le> byte c \<and> byte c \<le> 90"

definition is_ascii_alphanumeric :: "char \<Rightarrow> bool" where
  "is_ascii_alphanumeric c \<longleftrightarrow>
     is_ascii_digit c \<or> is_ascii_upper c \<or> 97 \<le> byte c \<and> byte c \<le> 122"

definition ascii_lower :: "char \<Rightarrow> char" where
  "ascii_lower c = (if is_ascii_upper c then char_of (byte c + 32) else c)"

definition to_ascii_lowercase :: "string \<Rightarrow> string" where
  "to_ascii_lowercase s = map ascii_lower s"

definition eq_ignore_ascii_case :: "string \<Rightarrow> string \<Rightarrow> bool" where
  "eq_ignore_ascii_case a b \<longleftrightarrow> to_ascii_lowercase a = to_ascii_lowercase b"

lemma byte_ascii_lower:
  "byte (ascii_lower c) = (if is_ascii_upper c then byte c + 32 else byte c)"
  by (auto simp: ascii_lower_def is_ascii_upper_def)

lemma ascii_lower_idem [simp]: "ascii_lower (ascii_lower c) = ascii_lower c"
proof -
  have "\<not> is_ascii_upper (ascii_lower c)"
    by (auto simp: is_ascii_upper_def [of "ascii_lower c"] byte_ascii_lower)
      (auto simp: is_ascii_upper_def split: if_splits)
  then show ?thesis by (simp add: ascii_lower_def)
qed

lemma to_ascii_lowercase_idem [simp]:
  "to_ascii_lowercase (to_ascii_lowercase s) = to_ascii_lowercase s"
  by (simp add: to_ascii_lowercase_def)

lemma length_to_ascii_lowercase [simp]: "length (to_ascii_lowercase s) = length s"
  by (simp add: to_ascii_lowercase_def)

section \<open>White space and trimming\<close>

text \<open>
  The length in bytes of the \<open>White_Space\<close> character at the head of a UTF-8 string, 0 when
  the head is none; and the same read backwards, for the end of a string.
\<close>

definition ws1 :: "nat \<Rightarrow> bool" where
  "ws1 a \<longleftrightarrow> (9 \<le> a \<and> a \<le> 13) \<or> a = 32"

definition ws2 :: "nat \<Rightarrow> nat \<Rightarrow> bool" where
  "ws2 a b \<longleftrightarrow> a = 0xC2 \<and> (b = 0x85 \<or> b = 0xA0)"

definition ws3 :: "nat \<Rightarrow> nat \<Rightarrow> nat \<Rightarrow> bool" where
  "ws3 a b c \<longleftrightarrow>
     (a = 0xE1 \<and> b = 0x9A \<and> c = 0x80)
     \<or> (a = 0xE2 \<and> b = 0x80 \<and>
          ((0x80 \<le> c \<and> c \<le> 0x8A) \<or> c = 0xA8 \<or> c = 0xA9 \<or> c = 0xAF))
     \<or> (a = 0xE2 \<and> b = 0x81 \<and> c = 0x9F)
     \<or> (a = 0xE3 \<and> b = 0x80 \<and> c = 0x80)"

fun ws_len :: "string \<Rightarrow> nat" where
  "ws_len [] = 0"
| "ws_len [a] = (if ws1 (byte a) then 1 else 0)"
| "ws_len [a, b] = (if ws1 (byte a) then 1 else if ws2 (byte a) (byte b) then 2 else 0)"
| "ws_len (a # b # c # _) =
     (if ws1 (byte a) then 1 else if ws2 (byte a) (byte b) then 2
      else if ws3 (byte a) (byte b) (byte c) then 3 else 0)"

fun ws_len_rev :: "string \<Rightarrow> nat" where
  "ws_len_rev [] = 0"
| "ws_len_rev [a] = (if ws1 (byte a) then 1 else 0)"
| "ws_len_rev [b, a] = (if ws1 (byte b) then 1 else if ws2 (byte a) (byte b) then 2 else 0)"
| "ws_len_rev (c # b # a # _) =
     (if ws1 (byte c) then 1 else if ws2 (byte b) (byte c) then 2
      else if ws3 (byte a) (byte b) (byte c) then 3 else 0)"

function skip_ws :: "(string \<Rightarrow> nat) \<Rightarrow> string \<Rightarrow> string" where
  "skip_ws len s = (if s = [] \<or> len s = 0 then s else skip_ws len (drop (len s) s))"
  by pat_completeness auto
termination
  by (relation "measure (\<lambda>(len, s). length s)") auto

declare skip_ws.simps [simp del]

definition trim_start :: "string \<Rightarrow> string" where
  "trim_start s = skip_ws ws_len s"

definition trim_end :: "string \<Rightarrow> string" where
  "trim_end s = rev (skip_ws ws_len_rev (rev s))"

definition trim :: "string \<Rightarrow> string" where
  "trim s = trim_end (trim_start s)"

definition is_blank :: "string \<Rightarrow> bool" where
  "is_blank s \<longleftrightarrow> trim s = []"

lemma skip_ws_stop: "len s = 0 \<Longrightarrow> skip_ws len s = s"
  by (simp add: skip_ws.simps)

lemma skip_ws_Nil [simp]: "skip_ws len [] = []"
  by (simp add: skip_ws.simps)

lemma skip_ws_suffix: "\<exists>p. s = p @ skip_ws len s"
proof (induction len s rule: skip_ws.induct)
  case (1 len s)
  show ?case
  proof (cases "s = [] \<or> len s = 0")
    case True
    then show ?thesis by (simp add: skip_ws.simps [of len s])
  next
    case False
    with "1.IH" obtain p where "drop (len s) s = p @ skip_ws len (drop (len s) s)"
      by blast
    then have "s = (take (len s) s @ p) @ skip_ws len (drop (len s) s)"
      by (metis append_take_drop_id append.assoc)
    with False show ?thesis by (metis skip_ws.simps)
  qed
qed

lemma set_skip_ws: "set (skip_ws len s) \<subseteq> set s"
  using skip_ws_suffix [of s len] by (metis Un_upper2 set_append)

lemma set_trim: "set (trim s) \<subseteq> set s"
  unfolding trim_def trim_end_def trim_start_def
  using set_skip_ws [of ws_len s] set_skip_ws [of ws_len_rev "rev (skip_ws ws_len s)"]
  by auto

lemma length_skip_ws: "length (skip_ws len s) \<le> length s"
  using skip_ws_suffix [of s len] by (metis le_add2 length_append)

lemma length_trim: "length (trim s) \<le> length s"
  unfolding trim_def trim_end_def trim_start_def
  by (metis length_rev length_skip_ws order.trans)

lemma trim_Nil [simp]: "trim [] = []"
  by (simp add: trim_def trim_end_def trim_start_def)

text \<open>A string of visible ASCII characters is not changed by trimming.\<close>

definition graphic :: "char \<Rightarrow> bool" where
  "graphic c \<longleftrightarrow> 33 \<le> byte c \<and> byte c \<le> 126"

lemma ws_len_graphic: "graphic c \<Longrightarrow> ws_len (c # s) = 0"
  by (cases "(c # s)" rule: ws_len.cases) (auto simp: graphic_def ws1_def ws2_def ws3_def)

lemma ws_len_rev_graphic: "graphic c \<Longrightarrow> ws_len_rev (c # s) = 0"
  by (cases "(c # s)" rule: ws_len_rev.cases) (auto simp: graphic_def ws1_def ws2_def ws3_def)

lemma trim_graphic:
  assumes "s = [] \<or> graphic (hd s) \<and> graphic (last s)"
  shows "trim s = s"
proof (cases "s = []")
  case False
  then obtain c t where s: "s = c # t" by (cases s) auto
  obtain d u where r: "rev s = d # u" using False by (cases "rev s") auto
  have "graphic c" "graphic d"
    using assms False s r by (auto simp: hd_rev [symmetric])
  then have "skip_ws ws_len s = s" "skip_ws ws_len_rev (rev s) = rev s"
    unfolding r by (simp_all add: s skip_ws_stop ws_len_graphic ws_len_rev_graphic)
  then show ?thesis by (simp add: trim_def trim_end_def trim_start_def)
qed simp

text \<open>Trimming removes no visible ASCII character.\<close>

lemma ws_not_graphic:
  "ws1 (byte c) \<Longrightarrow> \<not> graphic c" "ws2 (byte c) n \<Longrightarrow> \<not> graphic c" "ws2 m (byte c) \<Longrightarrow> \<not> graphic c"
  "ws3 (byte c) n k \<Longrightarrow> \<not> graphic c" "ws3 m (byte c) k \<Longrightarrow> \<not> graphic c" "ws3 m n (byte c) \<Longrightarrow> \<not> graphic c"
  by (auto simp: ws1_def ws2_def ws3_def graphic_def)

lemma take_ws_graphic: "graphic c \<Longrightarrow> c \<notin> set (take (ws_len s) s)"
  by (cases s rule: ws_len.cases) (auto dest: ws_not_graphic simp: numeral_2_eq_2 numeral_3_eq_3)

lemma take_ws_rev_graphic: "graphic c \<Longrightarrow> c \<notin> set (take (ws_len_rev s) s)"
  by (cases s rule: ws_len_rev.cases) (auto dest: ws_not_graphic simp: numeral_2_eq_2 numeral_3_eq_3)

lemma skip_ws_mem:
  assumes "\<And>s. c \<notin> set (take (len s) s)" and "c \<in> set s"
  shows "c \<in> set (skip_ws len s)"
  using assms(2)
proof (induction "length s" arbitrary: s rule: less_induct)
  case less
  have d: "c \<in> set (drop (len s) s)"
    using less.prems assms(1) [of s] by (metis Un_iff append_take_drop_id set_append)
  show ?case
  proof (cases "s = [] \<or> len s = 0")
    case True
    with less.prems show ?thesis by (simp add: skip_ws.simps [of len s])
  next
    case False
    with less.hyps [OF _ d] show ?thesis by (simp add: skip_ws.simps [of len s])
  qed
qed

lemma graphic_in_trim:
  assumes "graphic c" and "c \<in> set s"
  shows "c \<in> set (trim s)"
proof -
  have "c \<in> set (skip_ws ws_len s)"
    using assms by (intro skip_ws_mem take_ws_graphic)
  then have "c \<in> set (skip_ws ws_len_rev (rev (skip_ws ws_len s)))"
    using assms(1) by (intro skip_ws_mem take_ws_rev_graphic) simp_all
  then show ?thesis by (simp add: trim_def trim_end_def trim_start_def)
qed


section \<open>Searching and splitting\<close>

fun split_once_char :: "char \<Rightarrow> string \<Rightarrow> (string \<times> string) option" where
  "split_once_char c [] = None"
| "split_once_char c (x # s) =
     (if x = c then Some ([], s) else map_option (\<lambda>(a, b). (x # a, b)) (split_once_char c s))"

definition rsplit_once_char :: "char \<Rightarrow> string \<Rightarrow> (string \<times> string) option" where
  "rsplit_once_char c s = map_option (\<lambda>(a, b). (rev b, rev a)) (split_once_char c (rev s))"

fun split_on :: "(char \<Rightarrow> bool) \<Rightarrow> string \<Rightarrow> string list" where
  "split_on p [] = [[]]"
| "split_on p (x # s) =
     (if p x then [] # split_on p s
      else (case split_on p s of [] \<Rightarrow> [[x]] | l # ls \<Rightarrow> (x # l) # ls))"

text \<open>The index of the first occurrence of a byte pattern: \<open>str::find\<close>, \<open>windows(n).position\<close>.\<close>

fun find_sub :: "string \<Rightarrow> string \<Rightarrow> nat option" where
  "find_sub pat [] = (if pat = [] then Some 0 else None)"
| "find_sub pat (x # s) =
     (if take (length pat) (x # s) = pat then Some 0 else map_option Suc (find_sub pat s))"

definition contains_sub :: "string \<Rightarrow> string \<Rightarrow> bool" where
  "contains_sub pat s \<longleftrightarrow> find_sub pat s \<noteq> None"

definition split_once_str :: "string \<Rightarrow> string \<Rightarrow> (string \<times> string) option" where
  "split_once_str pat s =
     (case find_sub pat s of None \<Rightarrow> None | Some i \<Rightarrow> Some (take i s, drop (i + length pat) s))"

definition strip_prefix :: "string \<Rightarrow> string \<Rightarrow> string option" where
  "strip_prefix pat s =
     (if take (length pat) s = pat then Some (drop (length pat) s) else None)"

abbreviation CR :: char where "CR \<equiv> CHR 0x0D"
abbreviation LF :: char where "LF \<equiv> CHR 0x0A"
abbreviation crlf :: string where "crlf \<equiv> [CR, LF]"

definition strip_cr :: "string \<Rightarrow> string" where
  "strip_cr s = (if s \<noteq> [] \<and> last s = CR then butlast s else s)"

definition str_lines :: "string \<Rightarrow> string list" where
  "str_lines s =
     (let ps = split_on (\<lambda>c. c = LF) s
      in map strip_cr (butlast ps) @ (if last ps = [] then [] else [last ps]))"

function split_ws_from :: "string \<Rightarrow> string \<Rightarrow> string list" where
  "split_ws_from acc s =
     (if s = [] then (if acc = [] then [] else [rev acc])
      else if ws_len s = 0 then split_ws_from (hd s # acc) (tl s)
      else (if acc = [] then [] else [rev acc]) @ split_ws_from [] (drop (ws_len s) s))"
  by pat_completeness auto
termination
  by (relation "measure (\<lambda>(acc, s). length s)") auto

declare split_ws_from.simps [simp del]

definition split_whitespace :: "string \<Rightarrow> string list" where
  "split_whitespace s = split_ws_from [] s"

definition nth_or_empty :: "string list \<Rightarrow> nat \<Rightarrow> string" where
  "nth_or_empty xs i = (if i < length xs then xs ! i else [])"

lemma split_once_char_Some:
  "split_once_char c s = Some (a, b) \<Longrightarrow> s = a @ c # b \<and> c \<notin> set a"
  by (induction s arbitrary: a) (auto split: if_splits)

lemma split_once_char_None: "split_once_char c s = None \<longleftrightarrow> c \<notin> set s"
  by (induction s) auto

lemma split_once_char_append: "c \<notin> set a \<Longrightarrow> split_once_char c (a @ c # b) = Some (a, b)"
  by (induction a) auto

lemma cut_at_char:
  fixes c :: char
  assumes "a @ c # b = a' @ c # b'" "c \<notin> set a" "c \<notin> set a'"
  shows "a = a' \<and> b = b'"
proof -
  have "split_once_char c (a' @ c # b') = Some (a, b)"
    using split_once_char_append [OF assms(2), of b] unfolding assms(1) .
  then show ?thesis
    unfolding split_once_char_append [OF assms(3)] by simp
qed

lemma find_sub_Some:
  "find_sub pat s = Some i \<Longrightarrow> take (length pat) (drop i s) = pat \<and> i \<le> length s"
  by (induction pat s arbitrary: i rule: find_sub.induct) (auto split: if_splits)

lemma find_sub_length:
  "find_sub pat s = Some i \<Longrightarrow> i + length pat \<le> length s"
  by (induction pat s arbitrary: i rule: find_sub.induct)
    (auto split: if_splits dest: arg_cong [where f = length])

lemma find_sub_least:
  "take (length pat) (drop j s) = pat \<Longrightarrow> j \<le> length s \<Longrightarrow>
     \<exists>i. find_sub pat s = Some i \<and> i \<le> j"
proof (induction pat s arbitrary: j rule: find_sub.induct)
  case (2 pat x s)
  then show ?case by (cases j) fastforce+
qed simp

lemma find_sub_first:
  assumes "pat \<noteq> []"
    and "\<And>j. j < length a \<Longrightarrow> take (length pat) (drop j (a @ pat @ b)) \<noteq> pat"
  shows "find_sub pat (a @ pat @ b) = Some (length a)"
proof -
  have "take (length pat) (drop (length a) (a @ pat @ b)) = pat" by simp
  then obtain i where i: "find_sub pat (a @ pat @ b) = Some i" "i \<le> length a"
    using find_sub_least [of pat "length a" "a @ pat @ b"] by auto
  then have "\<not> i < length a"
    using find_sub_Some [OF i(1)] assms(2) by blast
  with i show ?thesis by simp
qed

lemma find_sub_take:
  assumes "find_sub pat s = Some i"
  shows "find_sub pat (take n s) = (if i + length pat \<le> n then Some i else None)"
proof (cases "i + length pat \<le> n")
  case True
  then have "length pat \<le> n - i" by simp
  then have at: "take (length pat) (drop i (take n s)) = pat"
    using find_sub_Some [OF assms] by (simp add: drop_take min_def)
  have "i \<le> length (take n s)"
    using find_sub_length [OF assms] True by simp
  from find_sub_least [OF at this] obtain j where
    j: "find_sub pat (take n s) = Some j" "j \<le> i" by blast
  have "length pat + j \<le> n"
    using find_sub_length [OF j(1)] by simp
  then have "take (length pat) (drop j s) = pat"
    using find_sub_Some [OF j(1)] by (simp add: drop_take min_def split: if_splits)
  moreover have "j \<le> length s" using find_sub_length [OF j(1)] by simp
  ultimately have "i \<le> j"
    using find_sub_least [of pat j s] assms by auto
  with j True show ?thesis by simp
next
  case False
  have "find_sub pat (take n s) = None"
  proof (rule ccontr)
    assume "find_sub pat (take n s) \<noteq> None"
    then obtain j where j: "find_sub pat (take n s) = Some j" by blast
    have b: "length pat + j \<le> n" using find_sub_length [OF j] by simp
    then have "take (length pat) (drop j s) = pat"
      using find_sub_Some [OF j] by (simp add: drop_take min_def split: if_splits)
    moreover have "j \<le> length s" using find_sub_length [OF j] by simp
    ultimately have "i \<le> j" using find_sub_least [of pat j s] assms by auto
    with b False show False by simp
  qed
  with False show ?thesis by simp
qed

section \<open>Integers as text\<close>

fun digits_val :: "nat \<Rightarrow> string \<Rightarrow> nat option" where
  "digits_val acc [] = Some acc"
| "digits_val acc (c # s) =
     (if is_ascii_digit c then digits_val (acc * 10 + (byte c - 48)) s else None)"

definition parse_unsigned :: "nat \<Rightarrow> string \<Rightarrow> nat option" where
  "parse_unsigned bound s =
     (let ds = (if s \<noteq> [] \<and> hd s = CHR ''+'' then tl s else s)
      in if ds = [] then None
         else (case digits_val 0 ds of
                 None \<Rightarrow> None
               | Some n \<Rightarrow> if n \<le> bound then Some n else None))"

definition parse_i64 :: "string \<Rightarrow> int option" where
  "parse_i64 s =
     (if s \<noteq> [] \<and> hd s = CHR ''-'' then
        (if tl s = [] then None
         else (case digits_val 0 (tl s) of
                 None \<Rightarrow> None
               | Some n \<Rightarrow> if n \<le> 2 ^ 63 then Some (- int n) else None))
      else map_option int (parse_unsigned (2 ^ 63 - 1) s))"

abbreviation parse_u8 :: "string \<Rightarrow> nat option" where
  "parse_u8 \<equiv> parse_unsigned 255"
abbreviation parse_u16 :: "string \<Rightarrow> nat option" where
  "parse_u16 \<equiv> parse_unsigned 65535"
abbreviation parse_u64 :: "string \<Rightarrow> nat option" where
  "parse_u64 \<equiv> parse_unsigned u64_max"

fun show_nat :: "nat \<Rightarrow> string" where
  "show_nat n = (if n < 10 then [char_of (48 + n)]
                 else show_nat (n div 10) @ [char_of (48 + n mod 10)])"

declare show_nat.simps [simp del]

definition show_int :: "int \<Rightarrow> string" where
  "show_int i = (if i < 0 then CHR ''-'' # show_nat (nat (- i)) else show_nat (nat i))"

definition pad_zeros :: "nat \<Rightarrow> string \<Rightarrow> string" where
  "pad_zeros w s = replicate (w - length s) (CHR ''0'') @ s"

lemma byte_digit: "d < 10 \<Longrightarrow> byte (char_of (48 + d :: nat)) = 48 + d"
  by simp

lemma is_ascii_digit_char_of: "d < 10 \<Longrightarrow> is_ascii_digit (char_of (48 + d :: nat))"
  by (simp add: is_ascii_digit_def)

lemma digits_val_append:
  "digits_val acc (a @ b) =
     (case digits_val acc a of None \<Rightarrow> None | Some n \<Rightarrow> digits_val n b)"
  by (induction a arbitrary: acc) auto

lemma show_nat_digits: "c \<in> set (show_nat n) \<Longrightarrow> is_ascii_digit c"
proof (induction n rule: show_nat.induct)
  case (1 n)
  then show ?case
    by (cases "n < 10") (auto simp: show_nat.simps [of n] is_ascii_digit_char_of)
qed

lemma show_nat_not_Nil [simp]: "show_nat n \<noteq> []"
  by (simp add: show_nat.simps [of n])

lemma digits_val_show_nat: "digits_val 0 (show_nat n) = Some n"
proof (induction n rule: show_nat.induct)
  case (1 n)
  show ?case
  proof (cases "n < 10")
    case True
    then show ?thesis
      by (simp add: show_nat.simps [of n] is_ascii_digit_char_of byte_digit)
  next
    case False
    with "1.IH" have "digits_val 0 (show_nat (n div 10)) = Some (n div 10)" by simp
    with False show ?thesis
      by (simp add: show_nat.simps [of n] digits_val_append is_ascii_digit_char_of byte_digit)
  qed
qed

lemma parse_unsigned_show_nat: "n \<le> bound \<Longrightarrow> parse_unsigned bound (show_nat n) = Some n"
proof -
  assume "n \<le> bound"
  moreover have "hd (show_nat n) \<noteq> CHR ''+''"
    using show_nat_digits [of "hd (show_nat n)" n] by (auto simp: is_ascii_digit_def)
  ultimately show ?thesis by (simp add: parse_unsigned_def digits_val_show_nat)
qed

lemma digits_val_digits: "digits_val acc s = Some n \<Longrightarrow> c \<in> set s \<Longrightarrow> is_ascii_digit c"
  by (induction s arbitrary: acc) (auto split: if_splits)

lemma parse_unsigned_bound: "parse_unsigned bound s = Some n \<Longrightarrow> n \<le> bound"
  by (auto simp: parse_unsigned_def Let_def split: if_splits option.splits)

lemma parse_unsigned_chars:
  "parse_unsigned bound s = Some n \<Longrightarrow> c \<in> set s \<Longrightarrow> is_ascii_digit c \<or> c = CHR ''+''"
  by (cases s)
    (auto simp: parse_unsigned_def Let_def split: if_splits option.splits
       dest!: digits_val_digits [rotated])

lemma parse_i64_chars:
  "parse_i64 s = Some n \<Longrightarrow> c \<in> set s \<Longrightarrow>
     is_ascii_digit c \<or> c = CHR ''+'' \<or> c = CHR ''-''"
  by (cases s)
    (auto simp: parse_i64_def split: if_splits option.splits
       dest: digits_val_digits parse_unsigned_chars)

lemma parse_i64_no_newline: "parse_i64 s = Some n \<Longrightarrow> LF \<notin> set s"
  using parse_i64_chars [of s n LF] by (auto simp: is_ascii_digit_def)

section \<open>UTF-8\<close>

text \<open>
  One step of the decoder of \<open>String::from_utf8_lossy\<close>: the number of bytes it consumes
  and whether they are a well-formed character (an ill-formed maximal prefix is replaced by
  U+FFFD).
\<close>

definition utf8_cont :: "nat \<Rightarrow> bool" where
  "utf8_cont b \<longleftrightarrow> 0x80 \<le> b \<and> b \<le> 0xBF"

definition utf8_second3 :: "nat \<Rightarrow> nat \<Rightarrow> bool" where
  "utf8_second3 a b \<longleftrightarrow>
     (if a = 0xE0 then 0xA0 \<le> b \<and> b \<le> 0xBF
      else if a = 0xED then 0x80 \<le> b \<and> b \<le> 0x9F else utf8_cont b)"

definition utf8_second4 :: "nat \<Rightarrow> nat \<Rightarrow> bool" where
  "utf8_second4 a b \<longleftrightarrow>
     (if a = 0xF0 then 0x90 \<le> b \<and> b \<le> 0xBF
      else if a = 0xF4 then 0x80 \<le> b \<and> b \<le> 0x8F else utf8_cont b)"

definition utf8_at :: "string \<Rightarrow> nat \<Rightarrow> nat" where
  "utf8_at s i = (if i < length s then byte (s ! i) else 0)"

definition utf8_step :: "string \<Rightarrow> nat \<times> bool" where
  "utf8_step s =
     (let a = utf8_at s 0; b = utf8_at s 1; c = utf8_at s 2; d = utf8_at s 3
      in if a < 0x80 then (1, True)
         else if 0xC2 \<le> a \<and> a \<le> 0xDF then (if utf8_cont b then (2, True) else (1, False))
         else if 0xE0 \<le> a \<and> a \<le> 0xEF then
           (if \<not> utf8_second3 a b then (1, False)
            else if \<not> utf8_cont c then (2, False) else (3, True))
         else if 0xF0 \<le> a \<and> a \<le> 0xF4 then
           (if \<not> utf8_second4 a b then (1, False)
            else if \<not> utf8_cont c then (2, False)
            else if \<not> utf8_cont d then (3, False) else (4, True))
         else (1, False))"

definition replacement_char :: string where
  "replacement_char = [CHR 0xEF, CHR 0xBF, CHR 0xBD]"

lemma utf8_step_pos: "0 < fst (utf8_step s)"
  by (simp add: utf8_step_def Let_def)

function from_utf8_lossy :: "string \<Rightarrow> string" where
  "from_utf8_lossy s =
     (if s = [] then []
      else (if snd (utf8_step s) then take (fst (utf8_step s)) s else replacement_char)
           @ from_utf8_lossy (drop (fst (utf8_step s)) s))"
  by pat_completeness auto
termination
proof (relation "measure length")
  fix s :: string
  assume "s \<noteq> []"
  with utf8_step_pos [of s] show "(drop (fst (utf8_step s)) s, s) \<in> measure length"
    by (simp add: diff_less)
qed simp

declare from_utf8_lossy.simps [simp del]

function is_utf8 :: "string \<Rightarrow> bool" where
  "is_utf8 s =
     (if s = [] then True
      else if snd (utf8_step s) then is_utf8 (drop (fst (utf8_step s)) s) else False)"
  by pat_completeness auto
termination
proof (relation "measure length")
  fix s :: string
  assume "s \<noteq> []" and "snd (utf8_step s)"
  with utf8_step_pos [of s] show "(drop (fst (utf8_step s)) s, s) \<in> measure length"
    by (simp add: diff_less)
qed simp

declare is_utf8.simps [simp del]

text \<open>
  The text of a \<open>Utf8Error\<close>: the byte position of the first ill-formed sequence, and whether the
  input ended inside a sequence that could still have been completed.
\<close>

definition utf8_char_width :: "nat \<Rightarrow> nat" where
  "utf8_char_width b =
     (if b < 0x80 then 1
      else if 0xC2 \<le> b \<and> b \<le> 0xDF then 2
      else if 0xE0 \<le> b \<and> b \<le> 0xEF then 3
      else if 0xF0 \<le> b \<and> b \<le> 0xF4 then 4 else 0)"

function utf8_error_at :: "nat \<Rightarrow> string \<Rightarrow> (nat \<times> nat option) option" where
  "utf8_error_at i s =
     (if s = [] then None
      else if snd (utf8_step s)
      then utf8_error_at (i + fst (utf8_step s)) (drop (fst (utf8_step s)) s)
      else Some (i, if length s = fst (utf8_step s) \<and> length s < utf8_char_width (byte (hd s))
                    then None else Some (fst (utf8_step s))))"
  by pat_completeness auto
termination
proof (relation "measure (\<lambda>(i, s). length s)")
  fix i and s :: string
  assume "s \<noteq> []" and "snd (utf8_step s)"
  with utf8_step_pos [of s]
  show "((i + fst (utf8_step s), drop (fst (utf8_step s)) s), (i, s)) \<in> measure (\<lambda>(i, s). length s)"
    by (cases s) auto
qed simp

declare utf8_error_at.simps [simp del]

definition utf8_error_text :: "nat \<times> nat option \<Rightarrow> string" where
  "utf8_error_text e =
     (case e of
        (i, Some n) \<Rightarrow> ''invalid utf-8 sequence of '' @ show_nat n @ '' bytes from index '' @ show_nat i
      | (i, None) \<Rightarrow> ''incomplete utf-8 byte sequence from index '' @ show_nat i)"

lemma utf8_error_at_None: "utf8_error_at i s = None \<longleftrightarrow> is_utf8 s"
proof (induction i s rule: utf8_error_at.induct)
  case (1 i s)
  then show ?case
    by (subst utf8_error_at.simps, subst is_utf8.simps) simp
qed

lemma from_utf8_lossy_valid: "is_utf8 s \<Longrightarrow> from_utf8_lossy s = s"
proof (induction s rule: from_utf8_lossy.induct)
  case (1 s)
  show ?case
  proof (cases "s = []")
    case True
    then show ?thesis by (simp add: from_utf8_lossy.simps)
  next
    case False
    with "1.prems" have "snd (utf8_step s)" "is_utf8 (drop (fst (utf8_step s)) s)"
      by (simp_all add: is_utf8.simps [of s] split: if_splits)
    with False "1.IH" show ?thesis
      by (simp add: from_utf8_lossy.simps [of s])
  qed
qed

lemma length_from_utf8_lossy: "length (from_utf8_lossy s) \<le> 3 * length s"
proof (induction s rule: from_utf8_lossy.induct)
  case (1 s)
  show ?case
  proof (cases "s = []")
    case True
    then show ?thesis by (simp add: from_utf8_lossy.simps)
  next
    case False
    let ?n = "fst (utf8_step s)"
    let ?h = "if snd (utf8_step s) then take ?n s else replacement_char"
    have "length (drop ?n s) + 1 \<le> length s" "length (take ?n s) + length (drop ?n s) = length s"
      using False utf8_step_pos [of s] by (cases s; cases ?n; simp)+
    then have "length ?h + 3 * length (drop ?n s) \<le> 3 * length s"
      by (auto simp: replacement_char_def)
    moreover have "from_utf8_lossy s = ?h @ from_utf8_lossy (drop ?n s)"
      using False by (simp add: from_utf8_lossy.simps [of s])
    ultimately show ?thesis using "1.IH" False by simp
  qed
qed

lemma is_utf8_ascii: "(\<And>c. c \<in> set s \<Longrightarrow> byte c < 0x80) \<Longrightarrow> is_utf8 s"
proof (induction s)
  case (Cons c s)
  have "byte c < 0x80" by (rule Cons.prems) simp
  then have step: "utf8_step (c # s) = (1, True)"
    unfolding utf8_step_def utf8_at_def Let_def by simp
  have "is_utf8 s" by (rule Cons.IH) (simp add: Cons.prems)
  then show ?case by (simp add: is_utf8.simps [of "c # s"] step)
qed (simp add: is_utf8.simps)

lemma is_utf8_ascii_all: "list_all (\<lambda>c. byte c < 0x80) s \<Longrightarrow> is_utf8 s"
  by (rule is_utf8_ascii) (simp add: list_all_iff)

lemma from_utf8_lossy_ascii_take:
  assumes "list_all (\<lambda>c. byte c < 0x80) s"
  shows "from_utf8_lossy (take n s) = take n s"
proof (rule from_utf8_lossy_valid, rule is_utf8_ascii)
  fix c assume "c \<in> set (take n s)"
  then have "c \<in> set s" by (rule in_set_takeD)
  then show "byte c < 0x80" using assms by (simp add: list_all_iff)
qed

text \<open>Rules that evaluate the text functions on a literal.\<close>

lemmas text_eval =
  trim_def trim_start_def trim_end_def skip_ws.simps ws1_def ws2_def ws3_def
  eq_ignore_ascii_case_def to_ascii_lowercase_def ascii_lower_def is_ascii_upper_def
  strip_cr_def split_whitespace_def split_ws_from.simps char_of_eq_iff

section \<open>Locks\<close>

text \<open>
  A \<open>Mutex\<close> whose holder panicked is poisoned, and \<open>lock()\<close> then returns an error.
\<close>

datatype 'a mutex = Mutex (mx_poisoned: bool) (mx_value: 'a)

definition lock :: "'a mutex \<Rightarrow> 'a option" where
  "lock m = (if mx_poisoned m then None else Some (mx_value m))"

definition unlock :: "'a mutex \<Rightarrow> 'a \<Rightarrow> 'a mutex" where
  "unlock m v = Mutex (mx_poisoned m) v"

lemma lock_Some: "lock m = Some v \<longleftrightarrow> m = Mutex False v"
  by (cases m) (auto simp: lock_def)

lemma unlock_sel [simp]: "mx_value (unlock m v) = v" "mx_poisoned (unlock m v) = mx_poisoned m"
  by (simp_all add: unlock_def)

lemma lock_unlock [simp]: "lock (unlock m v) = (if mx_poisoned m then None else Some v)"
  by (simp add: lock_def)

end
