(* ===== verification/Json_Value.thy ===== *)
theory Json_Value
  imports Rust_Std
begin

text \<open>
  The \<open>serde_json::Value\<close> tree that every service exchanges, with the accessors the sources
  call on it.  A \<open>Map\<close> is a \<open>BTreeMap\<close> (the \<open>preserve_order\<close> feature is off), here an
  association list that \<open>obj_insert\<close> keeps sorted by key.  A 64-bit float is kept as its bit
  pattern.  The text codec \<open>from_str\<close>/\<open>to_string\<close> is third-party code: it is a parameter of
  type \<open>serde\<close> of every definition that uses it.
\<close>

datatype json_number = PosInt nat | NegInt int | FloatBits "64 word"

datatype json =
    JNull
  | JBool bool
  | JNumber json_number
  | JString string
  | JArray "json list"
  | JObject "(string \<times> json) list"

record serde =
  from_str :: "string \<Rightarrow> string + json"
  to_string :: "json \<Rightarrow> string"

abbreviation jint :: "nat \<Rightarrow> json" where
  "jint n \<equiv> JNumber (PosInt n)"

definition jnum :: "int \<Rightarrow> json" where
  "jnum i = JNumber (if 0 \<le> i then PosInt (nat i) else NegInt i)"

section \<open>Objects\<close>

fun obj_insert :: "string \<Rightarrow> 'a \<Rightarrow> (string \<times> 'a) list \<Rightarrow> (string \<times> 'a) list" where
  "obj_insert k v [] = [(k, v)]"
| "obj_insert k v ((k', v') # m) =
     (if k = k' then (k, v) # m
      else if k < k' then (k, v) # (k', v') # m
      else (k', v') # obj_insert k v m)"

definition obj_of :: "(string \<times> 'a) list \<Rightarrow> (string \<times> 'a) list" where
  "obj_of kvs = foldl (\<lambda>m (k, v). obj_insert k v m) [] kvs"

text \<open>The \<open>json!({ ... })\<close> macro: an object built by inserting the fields in order.\<close>

definition mk_obj :: "(string \<times> json) list \<Rightarrow> json" where
  "mk_obj kvs = JObject (obj_of kvs)"

fun value_get :: "string \<Rightarrow> json \<Rightarrow> json option" where
  "value_get k (JObject m) = map_of m k"
| "value_get k _ = None"

fun is_object :: "json \<Rightarrow> bool" where
  "is_object (JObject _) = True"
| "is_object _ = False"

fun as_object :: "json \<Rightarrow> (string \<times> json) list option" where
  "as_object (JObject m) = Some m"
| "as_object _ = None"

fun as_str :: "json \<Rightarrow> string option" where
  "as_str (JString s) = Some s"
| "as_str _ = None"

fun as_bool :: "json \<Rightarrow> bool option" where
  "as_bool (JBool b) = Some b"
| "as_bool _ = None"

fun as_i64 :: "json \<Rightarrow> int option" where
  "as_i64 (JNumber (PosInt n)) = (if n < 2 ^ 63 then Some (int n) else None)"
| "as_i64 (JNumber (NegInt i)) = Some i"
| "as_i64 _ = None"

fun as_u64 :: "json \<Rightarrow> nat option" where
  "as_u64 (JNumber (PosInt n)) = Some n"
| "as_u64 _ = None"

definition get_str :: "string \<Rightarrow> json \<Rightarrow> string option" where
  "get_str k v = Option.bind (value_get k v) as_str"

definition get_bool :: "string \<Rightarrow> json \<Rightarrow> bool option" where
  "get_bool k v = Option.bind (value_get k v) as_bool"

definition get_i64 :: "string \<Rightarrow> json \<Rightarrow> int option" where
  "get_i64 k v = Option.bind (value_get k v) as_i64"

definition from_str_ok :: "serde \<Rightarrow> string \<Rightarrow> json option" where
  "from_str_ok sd s = (case from_str sd s of Inl _ \<Rightarrow> None | Inr v \<Rightarrow> Some v)"

definition from_str_or_empty :: "serde \<Rightarrow> string \<Rightarrow> json" where
  "from_str_or_empty sd s = (case from_str_ok sd s of None \<Rightarrow> JObject [] | Some v \<Rightarrow> v)"

definition unwrap_or :: "'a \<Rightarrow> 'a option \<Rightarrow> 'a" where
  "unwrap_or d o' = (case o' of None \<Rightarrow> d | Some x \<Rightarrow> x)"

fun find_map :: "('a \<Rightarrow> 'b option) \<Rightarrow> 'a list \<Rightarrow> 'b option" where
  "find_map f [] = None"
| "find_map f (x # xs) = (case f x of None \<Rightarrow> find_map f xs | Some y \<Rightarrow> Some y)"

lemma unwrap_or_simps [simp]: "unwrap_or d None = d" "unwrap_or d (Some x) = x"
  by (simp_all add: unwrap_or_def)

lemma find_map_Some: "find_map f xs = Some y \<Longrightarrow> \<exists>x\<in>set xs. f x = Some y"
  by (induction xs) (auto split: option.splits)

text \<open>The documented behaviour of the codec that round trips rely on.\<close>

definition serde_roundtrip :: "serde \<Rightarrow> json \<Rightarrow> bool" where
  "serde_roundtrip sd v \<longleftrightarrow> from_str sd (to_string sd v) = Inr v"

section \<open>Objects behave as maps\<close>

definition sorted_keys :: "(string \<times> 'a) list \<Rightarrow> bool" where
  "sorted_keys m \<longleftrightarrow> sorted_wrt (<) (map fst m)"

lemma map_of_obj_insert [simp]: "map_of (obj_insert k v m) = (map_of m)(k \<mapsto> v)"
  by (induction k v m rule: obj_insert.induct) auto

lemma obj_insert_keys: "fst ` set (obj_insert k v m) = insert k (fst ` set m)"
  by (induction k v m rule: obj_insert.induct) auto

lemma sorted_keys_obj_insert: "sorted_keys m \<Longrightarrow> sorted_keys (obj_insert k v m)"
proof (induction k v m rule: obj_insert.induct)
  case (2 k v k' v' m)
  have keys: "set (map fst (obj_insert k v m)) = insert k (set (map fst m))"
    using obj_insert_keys [of k v m] by simp
  show ?case
  proof (cases "k = k' \<or> k < k'")
    case True
    with 2 show ?thesis
      by (auto simp: sorted_keys_def intro: less_trans)
  next
    case False
    with 2 have "sorted_keys (obj_insert k v m)" by (simp add: sorted_keys_def)
    with False 2 keys show ?thesis
      by (simp add: sorted_keys_def) (metis neqE)
  qed
qed (simp add: sorted_keys_def)

lemma map_of_foldl_insert:
  "map_of (foldl (\<lambda>m (k, v). obj_insert k v m) m0 kvs) = map_of m0 ++ map_of (rev kvs)"
  by (induction kvs arbitrary: m0) (auto simp: map_add_def fun_eq_iff split: option.splits)

lemma map_of_obj_of: "map_of (obj_of kvs) = map_of (rev kvs)"
  by (simp add: obj_of_def map_of_foldl_insert)

lemma sorted_keys_foldl_insert:
  "sorted_keys m0 \<Longrightarrow> sorted_keys (foldl (\<lambda>m (k, v). obj_insert k v m) m0 kvs)"
  by (induction kvs arbitrary: m0) (auto simp: sorted_keys_obj_insert)

lemma sorted_keys_obj_of: "sorted_keys (obj_of kvs)"
  unfolding obj_of_def by (rule sorted_keys_foldl_insert) (simp add: sorted_keys_def)

lemma value_get_mk_obj [simp]: "value_get k (mk_obj kvs) = map_of (rev kvs) k"
  by (simp add: mk_obj_def map_of_obj_of)

lemma is_object_mk_obj [simp]: "is_object (mk_obj kvs)"
  by (simp add: mk_obj_def)

lemma is_object_conv: "is_object v \<longleftrightarrow> (\<exists>m. v = JObject m)"
  by (cases v) auto

end
