(* ===== verification/Trigger_Http.thy ===== *)
theory Trigger_Http
  imports Json_Value
begin

text \<open>
  The HTTP layer of the trigger gateway, \<open>app/trigger/src/main.rs\<close>: response formatting,
  the incremental request reader, header lookup and the client side of the calls to the
  inspection service.  A stream is the list of the results its \<open>read\<close> calls return; the
  network exchange of a connection is a parameter.
\<close>

section \<open>Responses\<close>

definition json_ct :: string where
  "json_ct = ''application/json; charset=utf-8''"

definition trigger_http_response :: "string \<Rightarrow> string \<Rightarrow> string \<Rightarrow> string" where
  "trigger_http_response status content_type body =
     ''HTTP/1.1 '' @ status @ crlf
     @ ''Content-Type: '' @ content_type @ crlf
     @ ''Content-Length: '' @ show_nat (length body) @ crlf
     @ ''X-Content-Type-Options: nosniff'' @ crlf
     @ ''Cache-Control: no-store'' @ crlf
     @ ''Connection: close'' @ crlf @ crlf @ body"

definition json_response :: "serde \<Rightarrow> string \<Rightarrow> json \<Rightarrow> string" where
  "json_response sd status v = trigger_http_response status json_ct (to_string sd v)"

section \<open>Requests\<close>

definition split_path_and_query :: "string \<Rightarrow> string \<times> string" where
  "split_path_and_query raw_path =
     (case split_once_char (CHR ''?'') raw_path of
        Some (a, b) \<Rightarrow> (a, b)
      | None \<Rightarrow> (raw_path, []))"

definition header_of_line :: "string \<Rightarrow> string \<Rightarrow> string option" where
  "header_of_line name line =
     (case split_once_char (CHR '':'') line of
        None \<Rightarrow> None
      | Some (key, v) \<Rightarrow> if eq_ignore_ascii_case (trim key) name then Some (trim v) else None)"

definition request_header :: "string \<Rightarrow> string \<Rightarrow> string option" where
  "request_header request name =
     find_map (header_of_line name)
       (takeWhile (\<lambda>line. trim line \<noteq> []) (drop 1 (str_lines request)))"

definition content_length_from_headers :: "string \<Rightarrow> nat" where
  "content_length_from_headers request =
     unwrap_or 0 (Option.bind (request_header request ''Content-Length'') parse_u64)"

definition header_end_index :: "string \<Rightarrow> nat option" where
  "header_end_index bytes = map_option (\<lambda>i. i + 4) (find_sub (crlf @ crlf) bytes)"

datatype read_result = ReadErr | ReadBytes string

definition max_request :: nat where
  "max_request = 1024 * 1024"

text \<open>
  The read loop: it ends at the end of the stream (an empty read, also the end of the list),
  at a read error, at the size limit, or when the announced body is complete.  The addition
  of the announced length is a \<open>usize\<close> addition, which wraps in a release build.
\<close>

fun read_http_loop :: "string \<Rightarrow> read_result list \<Rightarrow> string option" where
  "read_http_loop bytes [] = Some (from_utf8_lossy bytes)"
| "read_http_loop bytes (ReadErr # rs) = None"
| "read_http_loop bytes (ReadBytes chunk # rs) =
     (if chunk = [] then Some (from_utf8_lossy bytes)
      else
        let bytes' = bytes @ chunk
        in (case header_end_index bytes' of
              None \<Rightarrow> if max_request < length bytes' then None else read_http_loop bytes' rs
            | Some header_end \<Rightarrow>
                let total = wrapping_add64 header_end
                      (content_length_from_headers (from_utf8_lossy (take header_end bytes')))
                in if total \<le> length bytes' then Some (from_utf8_lossy (take total bytes'))
                   else if max_request < total then None
                   else read_http_loop bytes' rs))"

definition read_http_request :: "read_result list \<Rightarrow> string option" where
  "read_http_request reads = read_http_loop [] reads"

section \<open>Calls to the inspection service\<close>

definition origin_host_port :: "string \<Rightarrow> (string \<times> nat) option" where
  "origin_host_port origin =
     (case strip_prefix ''http://'' (trim origin) of
        None \<Rightarrow> None
      | Some rest \<Rightarrow>
          (case rsplit_once_char (CHR '':'')
                  (hd (split_on (\<lambda>c. c \<in> {CHR ''/'', CHR ''?'', CHR ''#''}) rest)) of
             None \<Rightarrow> None
           | Some (host, port) \<Rightarrow>
               (case parse_u16 port of None \<Rightarrow> None | Some p \<Rightarrow> Some (host, p))))"

text \<open>
  One request and the bytes the peer answers until it closes the connection; \<open>None\<close> when the
  name does not resolve, the connection fails or the transfer breaks.
\<close>

type_synonym exchange = "string \<Rightarrow> nat \<Rightarrow> string \<Rightarrow> string option"

definition operator_header :: "string option \<Rightarrow> string" where
  "operator_header token =
     (case token of
        Some t \<Rightarrow>
          if 32 \<le> length t \<and> CR \<notin> set t \<and> LF \<notin> set t
          then ''X-Trigger-Operator-Token: '' @ t @ crlf else []
      | None \<Rightarrow> [])"

definition post_request :: "string \<Rightarrow> nat \<Rightarrow> string \<Rightarrow> string option \<Rightarrow> string \<Rightarrow> string" where
  "post_request host port path token body =
     ''POST '' @ path @ '' HTTP/1.1'' @ crlf
     @ ''Host: '' @ host @ '':'' @ show_nat port @ crlf
     @ ''Connection: close'' @ crlf
     @ ''Content-Type: application/json'' @ crlf
     @ ''Content-Length: '' @ show_nat (length body) @ crlf
     @ operator_header token @ crlf @ body"

definition json_body_of :: "serde \<Rightarrow> string \<Rightarrow> json option" where
  "json_body_of sd response =
     (case find_sub (crlf @ crlf) response of
        None \<Rightarrow> None
      | Some i \<Rightarrow> from_str_ok sd (drop (i + 4) response))"

definition post_json ::
  "serde \<Rightarrow> exchange \<Rightarrow> string option \<Rightarrow> string \<Rightarrow> string \<Rightarrow> string \<Rightarrow> json option" where
  "post_json sd net token origin path body =
     (case origin_host_port origin of
        None \<Rightarrow> None
      | Some (host, port) \<Rightarrow>
          (case net host port (post_request host port path token body) of
             None \<Rightarrow> None
           | Some response \<Rightarrow> json_body_of sd response))"

definition get_json :: "serde \<Rightarrow> exchange \<Rightarrow> string \<Rightarrow> string \<Rightarrow> json option" where
  "get_json sd net origin path =
     (case origin_host_port origin of
        None \<Rightarrow> None
      | Some (host, port) \<Rightarrow>
          (case net host port
                  (''GET '' @ path @ '' HTTP/1.1'' @ crlf
                   @ ''Host: '' @ host @ '':'' @ show_nat port @ crlf
                   @ ''Connection: close'' @ crlf @ crlf) of
             None \<Rightarrow> None
           | Some response \<Rightarrow> json_body_of sd response))"


section \<open>Lemmas on headers\<close>

lemma split_on_length: "p \<in> set (split_on P s) \<Longrightarrow> length p \<le> length s"
proof (induction s arbitrary: p)
  case (Cons c s)
  then show ?case by (fastforce split: if_splits list.splits)
qed simp

lemma str_lines_length:
  assumes "l \<in> set (str_lines s)"
  shows "length l \<le> length s"
proof -
  let ?ps = "split_on (\<lambda>c. c = LF) s"
  have "?ps \<noteq> []" by (cases s) (auto split: list.splits)
  then have last: "last ?ps \<in> set ?ps" by simp
  have strip: "length (strip_cr p) \<le> length p" for p by (simp add: strip_cr_def)
  from assms consider p where "p \<in> set ?ps" "l = strip_cr p" | "l = last ?ps"
    by (auto simp: str_lines_def Let_def split: if_splits dest: in_set_butlastD)
  then show ?thesis
    using last split_on_length [of _ "\<lambda>c. c = LF" s] strip by cases (auto intro: order_trans)
qed

lemma request_header_length:
  assumes "request_header request name = Some v"
  shows "length v \<le> length request"
proof -
  from assms obtain line where
    l: "line \<in> set (str_lines request)" "header_of_line name line = Some v"
    by (auto simp: request_header_def dest!: find_map_Some set_takeWhileD in_set_dropD)
  then obtain key v' where "split_once_char (CHR '':'') line = Some (key, v')" "v = trim v'"
    by (auto simp: header_of_line_def split: option.splits if_splits)
  then have "length v \<le> length line"
    using length_trim [of v'] by (auto dest!: split_once_char_Some)
  with str_lines_length [OF l(1)] show ?thesis by simp
qed

section \<open>Lemmas on the request reader\<close>

lemma header_end_index_take:
  assumes "header_end_index s = Some e"
  shows "header_end_index (take n s) = (if e \<le> n then Some e else None)"
  using assms find_sub_take [of "crlf @ crlf" s "e - 4" n]
  by (auto simp: header_end_index_def)

lemma header_end_index_le: "header_end_index s = Some e \<Longrightarrow> e \<le> length s"
  by (auto simp: header_end_index_def dest: find_sub_length)

lemma read_http_loop_bound:
  assumes "\<And>c. ReadBytes c \<in> set reads \<Longrightarrow> length c \<le> 4096"
    and "length bytes \<le> max_request"
    and "read_http_loop bytes reads = Some r"
  shows "length r \<le> 3 * (max_request + 4096)"
  using assms
proof (induction bytes reads rule: read_http_loop.induct)
  case (1 bytes)
  then show ?case using length_from_utf8_lossy [of bytes] by simp
next
  case (2 bytes rs)
  then show ?case by simp
next
  case (3 bytes chunk rs)
  let ?b = "bytes @ chunk"
  have c: "length chunk \<le> 4096" using "3.prems"(1) by simp
  have lossy: "length (from_utf8_lossy t) \<le> 3 * (max_request + 4096)" if "length t \<le> length ?b" for t
    using length_from_utf8_lossy [of t] that c "3.prems"(2) by simp
  show ?case
  proof (cases "chunk = []")
    case True
    with "3.prems" lossy [of bytes] show ?thesis by simp
  next
    case ne: False
    show ?thesis
    proof (cases "header_end_index ?b")
      case None
      with "3.prems" ne have "read_http_loop ?b rs = Some r" "length ?b \<le> max_request"
        by (simp_all split: if_splits)
      then show ?thesis using "3.IH"(1) [OF ne refl None] "3.prems"(1) by simp
    next
      case (Some e)
      let ?t = "wrapping_add64 e (content_length_from_headers (from_utf8_lossy (take e ?b)))"
      show ?thesis
      proof (cases "?t \<le> length ?b")
        case True
        with "3.prems" ne Some have "r = from_utf8_lossy (take ?t ?b)"
          by (simp add: Let_def)
        then show ?thesis using lossy [of "take ?t ?b"] by simp
      next
        case False
        with "3.prems" ne Some have "read_http_loop ?b rs = Some r" "\<not> max_request < ?t"
          by (simp_all add: Let_def split: if_splits)
        with False have "length ?b \<le> max_request" by simp
        then show ?thesis
          using "3.IH"(2) [OF ne refl Some refl False] \<open>\<not> max_request < ?t\<close>
            \<open>read_http_loop ?b rs = Some r\<close> "3.prems"(1) by simp
      qed
    qed
  qed
qed

text \<open>However a complete request is cut into reads, the reader returns exactly that request.\<close>

lemma read_http_loop_complete:
  assumes req: "header_end_index req = Some e"
      "content_length_from_headers (from_utf8_lossy (take e req)) = length req - e"
      "length req \<le> max_request"
    and "p @ concat cs = req" "cs \<noteq> []" "\<And>c. c \<in> set cs \<Longrightarrow> c \<noteq> []"
    and "length p < length req"
  shows "read_http_loop p (map ReadBytes cs @ rest) = Some (from_utf8_lossy req)"
  using assms(4-)
proof (induction cs arbitrary: p)
  case Nil
  then show ?case by simp
next
  case (Cons c cs)
  let ?b = "p @ c"
  have b: "?b = take (length ?b) req" using Cons.prems(1) by (metis append.assoc append_eq_conv_conj concat.simps(2))
  have ne: "c \<noteq> []" using Cons.prems by simp
  have he: "e \<le> length req" using header_end_index_le [OF req(1)] .
  have total: "wrapping_add64 e (length req - e) = length req"
    using he req(3) by (simp add: wrapping_add64_def max_request_def)
  have le: "length ?b \<le> length req" using Cons.prems(1) by (metis append.assoc concat.simps(2) length_append le_add1)
  have cont: "read_http_loop ?b (map ReadBytes cs @ rest) = Some (from_utf8_lossy req)"
    if "length ?b < length req"
  proof -
    have "cs \<noteq> []" using that Cons.prems(1) by auto
    then show ?thesis using Cons.IH [of ?b] Cons.prems that by simp
  qed
  have hx: "header_end_index ?b = (if e \<le> length ?b then Some e else None)"
    using header_end_index_take [OF req(1), of "length ?b"] b he by simp
  show ?case
  proof (cases "e \<le> length ?b")
    case False
    then have "length ?b < length req" using he by simp
    with False ne hx cont le req(3) show ?thesis by simp
  next
    case True
    have "take e ?b = take e req" using b True by (metis min.absorb1 take_take)
    with True ne hx have
      "read_http_loop p (map ReadBytes (c # cs) @ rest) =
         (if length req \<le> length ?b then Some (from_utf8_lossy (take (length req) ?b))
          else if max_request < length req then None
          else read_http_loop ?b (map ReadBytes cs @ rest))"
      by (simp add: Let_def req(2) total)
    moreover have "take (length req) ?b = req" if "length req \<le> length ?b"
      using that b le by (metis le_antisym take_all)
    ultimately show ?thesis using cont req(3) by (simp add: not_le)
  qed
qed

section \<open>Properties of the request reader\<close>

text \<open>
  However the network cuts a complete request into non-empty reads, the reader returns exactly
  that request (decoded as UTF-8), and does not touch what the stream holds after it.
\<close>
theorem read_http_request_complete:
  assumes "header_end_index req = Some e"
    and "content_length_from_headers (from_utf8_lossy (take e req)) = length req - e"
    and "length req \<le> max_request"
    and "concat cs = req" and "[] \<notin> set cs"
  shows "read_http_request (map ReadBytes cs @ rest) = Some (from_utf8_lossy req)"
proof -
  from assms(1) have "4 \<le> e" by (auto simp: header_end_index_def)
  with header_end_index_le [OF assms(1)] have "length ([] :: string) < length req" by (cases req) auto
  then show ?thesis
    unfolding read_http_request_def using assms(4,5)
    by (intro read_http_loop_complete [OF assms(1-3)]) auto
qed

text \<open>
  The reader holds a bounded amount of data: with the 4096-byte buffer of the code, what it
  returns is at most three times (the cost of replacing ill-formed bytes) the limit of one
  mebibyte plus one buffer.
\<close>
theorem read_http_request_bounded:
  assumes "\<forall>c. ReadBytes c \<in> set reads \<longrightarrow> length c \<le> 4096"
    and "read_http_request reads = Some r"
  shows "length r \<le> 3 * (max_request + 4096)"
  by (rule read_http_loop_bound [OF _ _ assms(2) [unfolded read_http_request_def]])
    (use assms(1) in auto)

text \<open>
  The announced length wraps.  A request whose header block ends at \<open>e\<close> and announces so many
  bytes that the sum passes \<open>2 ^ 64\<close> is not refused as too large: the reader returns at once, with
  only the first \<open>e + n - 2 ^ 64\<close> bytes, a prefix of the header block itself.
\<close>
theorem content_length_wraps:
  assumes "header_end_index bytes = Some e" and "length bytes < 2 ^ 64"
    and "content_length_from_headers (from_utf8_lossy (take e bytes)) = n"
    and "2 ^ 64 \<le> e + n" and "n < 2 ^ 64"
  shows "read_http_request (ReadBytes bytes # rest) = Some (from_utf8_lossy (take (e + n - 2 ^ 64) bytes))
    \<and> e + n - 2 ^ 64 < e"
proof -
  have e: "e \<le> length bytes" by (rule header_end_index_le [OF assms(1)])
  with assms(2,4,5) have w: "wrapping_add64 e n = e + n - 2 ^ 64"
    by (simp add: wrapping_add64_def mod_if)
  have ne: "bytes \<noteq> []" using assms(1) by (auto simp: header_end_index_def)
  have lt: "e + n - 2 ^ 64 < e" using assms(4,5) by linarith
  with e have "e + n - 2 ^ 64 \<le> length bytes" by linarith
  with assms(1,3) w ne lt show ?thesis by (simp add: read_http_request_def Let_def)
qed

section \<open>Concrete instances\<close>

definition demo_get :: string where
  "demo_get = ''GET / HTTP/1.1'' @ crlf @ crlf"

definition demo_wrap :: string where
  "demo_wrap = ''P'' @ crlf @ ''Content-Length:18446744073709551615'' @ crlf @ crlf"

lemma demo_get_eval:
  "header_end_index demo_get = Some 18"
  "content_length_from_headers (from_utf8_lossy (take 18 demo_get)) = 0"
proof -
  have all: "list_all (\<lambda>c. byte c < 0x80) demo_get" by (simp add: demo_get_def)
  show "header_end_index demo_get = Some 18" by (simp add: header_end_index_def demo_get_def)
  show "content_length_from_headers (from_utf8_lossy (take 18 demo_get)) = 0"
    unfolding from_utf8_lossy_ascii_take [OF all]
    by (simp add: content_length_from_headers_def demo_get_def request_header_def str_lines_def
        header_of_line_def text_eval)
qed

theorem read_http_request_complete_witness:
  "read_http_request (map ReadBytes [''GET / '', ''HTTP/1.1'' @ crlf, crlf] @ [ReadErr])
     = Some (from_utf8_lossy demo_get)"
  by (rule read_http_request_complete [OF demo_get_eval(1)])
    (simp_all add: demo_get_eval(2), simp_all add: demo_get_def max_request_def)

theorem read_http_request_bounded_witness:
  "length (from_utf8_lossy ''GET'') \<le> 3 * (max_request + 4096)"
  by (rule read_http_request_bounded [where reads = "[ReadBytes ''GET'']"])
    (simp_all add: read_http_request_def header_end_index_def max_request_def)

lemma demo_wrap_eval:
  "header_end_index demo_wrap = Some 42"
  "content_length_from_headers (from_utf8_lossy (take 42 demo_wrap)) = 18446744073709551615"
proof -
  have all: "list_all (\<lambda>c. byte c < 0x80) demo_wrap" by (simp add: demo_wrap_def)
  show "header_end_index demo_wrap = Some 42" by (simp add: header_end_index_def demo_wrap_def)
  show "content_length_from_headers (from_utf8_lossy (take 42 demo_wrap)) = 18446744073709551615"
    unfolding from_utf8_lossy_ascii_take [OF all]
    by (simp add: content_length_from_headers_def demo_wrap_def request_header_def str_lines_def
        header_of_line_def text_eval parse_unsigned_def is_ascii_digit_def u64_max_def)
qed

theorem content_length_wraps_witness:
  "read_http_request (ReadBytes demo_wrap # [])
     = Some (from_utf8_lossy (take (42 + 18446744073709551615 - 2 ^ 64) demo_wrap))
   \<and> 42 + 18446744073709551615 - 2 ^ 64 < (42 :: nat)"
  by (rule content_length_wraps [OF demo_wrap_eval(1) _ demo_wrap_eval(2)])
    (simp_all add: demo_wrap_def)

end
