(* ===== verification/Net_Addr.thy ===== *)
theory Net_Addr
  imports Rust_Std
begin

text \<open>
  IP addresses as \<open>std::net::IpAddr\<close> has them: the parser of textual addresses (both
  families, with the compressed and the embedded IPv4 forms of IPv6) and \<open>is_loopback\<close>.
\<close>

unbundle bit_operations_syntax

datatype ip_addr = V4 "32 word" | V6 "128 word"

definition to_digit :: "nat \<Rightarrow> char \<Rightarrow> nat option" where
  "to_digit radix c =
     (let b = byte c;
          d = (if 48 \<le> b \<and> b \<le> 57 then b - 48
               else if 97 \<le> b \<and> b \<le> 122 then b - 87
               else if 65 \<le> b \<and> b \<le> 90 then b - 55 else radix)
      in if d < radix then Some d else None)"

fun read_digits :: "nat \<Rightarrow> string \<Rightarrow> nat list \<times> string" where
  "read_digits radix [] = ([], [])"
| "read_digits radix (c # s) =
     (case to_digit radix c of
        None \<Rightarrow> ([], c # s)
      | Some d \<Rightarrow> (let (ds, rest) = read_digits radix s in (d # ds, rest)))"

definition read_number ::
  "nat \<Rightarrow> nat \<Rightarrow> bool \<Rightarrow> nat \<Rightarrow> string \<Rightarrow> (nat \<times> string) option" where
  "read_number radix max_digits allow_zero_prefix bound s =
     (let (ds, rest) = read_digits radix s; n = foldl (\<lambda>a d. a * radix + d) 0 ds
      in if ds = [] \<or> max_digits < length ds
            \<or> (\<not> allow_zero_prefix \<and> hd ds = 0 \<and> 1 < length ds) \<or> bound < n
         then None else Some (n, rest))"

definition read_separator ::
  "char \<Rightarrow> nat \<Rightarrow> (string \<Rightarrow> ('a \<times> string) option) \<Rightarrow> string \<Rightarrow> ('a \<times> string) option" where
  "read_separator sep i inner s =
     (if i = 0 then inner s
      else (case s of [] \<Rightarrow> None | x # r \<Rightarrow> if x = sep then inner r else None))"

fun read_octets :: "nat \<Rightarrow> nat \<Rightarrow> string \<Rightarrow> (nat list \<times> string) option" where
  "read_octets 0 i s = Some ([], s)"
| "read_octets (Suc n) i s =
     (case read_separator (CHR ''.'') i (read_number 10 3 False 255) s of
        None \<Rightarrow> None
      | Some (o1, rest) \<Rightarrow> map_option (\<lambda>(os, r). (o1 # os, r)) (read_octets n (Suc i) rest))"

definition read_ipv4_addr :: "string \<Rightarrow> (nat list \<times> string) option" where
  "read_ipv4_addr s = read_octets 4 0 s"

fun read_groups :: "nat \<Rightarrow> nat \<Rightarrow> string \<Rightarrow> nat list \<times> bool \<times> string" where
  "read_groups 0 i s = ([], False, s)"
| "read_groups (Suc n) i s =
     (case (if 0 < n then read_separator (CHR '':'') i read_ipv4_addr s else None) of
        Some (os, rest) \<Rightarrow>
          ([os ! 0 * 256 + os ! 1, os ! 2 * 256 + os ! 3], True, rest)
      | None \<Rightarrow>
          (case read_separator (CHR '':'') i (read_number 16 4 True 65535) s of
             None \<Rightarrow> ([], False, s)
           | Some (g, rest) \<Rightarrow>
               (let (gs, v4, r) = read_groups n (Suc i) rest in (g # gs, v4, r))))"

definition read_ipv6_addr :: "string \<Rightarrow> (nat list \<times> string) option" where
  "read_ipv6_addr s =
     (let (head, head_v4, rest) = read_groups 8 0 s
      in if length head = 8 then Some (head, rest)
         else if head_v4 then None
         else (case strip_prefix ''::'' rest of
                 None \<Rightarrow> None
               | Some rest' \<Rightarrow>
                   (let (tail, _, r) = read_groups (8 - (length head + 1)) 0 rest'
                    in Some (head @ replicate (8 - length head - length tail) 0 @ tail, r))))"

definition v4_of_octets :: "nat list \<Rightarrow> 32 word" where
  "v4_of_octets os = foldl (\<lambda>a p. a * 256 + word_of_nat p) 0 os"

definition v6_of_groups :: "nat list \<Rightarrow> 128 word" where
  "v6_of_groups gs = foldl (\<lambda>a p. a * 65536 + word_of_nat p) 0 gs"

definition parse_ip_addr :: "string \<Rightarrow> ip_addr option" where
  "parse_ip_addr s =
     (case read_ipv4_addr s of
        Some (os, rest) \<Rightarrow> if rest = [] then Some (V4 (v4_of_octets os)) else None
      | None \<Rightarrow>
          (case read_ipv6_addr s of
             Some (gs, rest) \<Rightarrow> if rest = [] then Some (V6 (v6_of_groups gs)) else None
           | None \<Rightarrow> None))"

fun is_loopback :: "ip_addr \<Rightarrow> bool" where
  "is_loopback (V4 a) = (drop_bit 24 a = 127)"
| "is_loopback (V6 a) = (a = 1)"

lemma read_octets_length: "read_octets n i s = Some (os, r) \<Longrightarrow> length os = n"
  by (induction n i s arbitrary: os r rule: read_octets.induct) (auto split: option.splits)


text \<open>Rules that evaluate the parsers on a literal.\<close>

lemma read_octets_numeral:
  "read_octets (numeral k) i s =
     (case read_separator (CHR ''.'') i (read_number 10 3 False 255) s of
        None \<Rightarrow> None
      | Some (o1, rest) \<Rightarrow>
          map_option (\<lambda>(os, r). (o1 # os, r)) (read_octets (pred_numeral k) (Suc i) rest))"
  by (subst numeral_eq_Suc) simp

lemma read_groups_numeral:
  "read_groups (numeral k) i s =
     (case (if 0 < pred_numeral k then read_separator (CHR '':'') i read_ipv4_addr s else None) of
        Some (os, rest) \<Rightarrow>
          ([os ! 0 * 256 + os ! 1, os ! 2 * 256 + os ! 3], True, rest)
      | None \<Rightarrow>
          (case read_separator (CHR '':'') i (read_number 16 4 True 65535) s of
             None \<Rightarrow> ([], False, s)
           | Some (g, rest) \<Rightarrow>
               (let (gs, v4, r) = read_groups (pred_numeral k) (Suc i) rest in (g # gs, v4, r))))"
  by (subst numeral_eq_Suc) simp

lemma replicate_pred_numeral: "replicate (numeral k) x = x # replicate (pred_numeral k) x"
  by (subst numeral_eq_Suc) simp

lemmas ip_eval =
  parse_ip_addr_def read_ipv4_addr_def read_ipv6_addr_def read_octets_numeral
  read_groups_numeral read_number_def to_digit_def read_separator_def
  v4_of_octets_def v6_of_groups_def strip_prefix_def replicate_pred_numeral

end
