(* ===== verification/Trigger_Security.thy ===== *)
theory Trigger_Security
  imports Trigger_Http Net_Addr
begin

text \<open>
  The security layer of the trigger gateway, \<open>app/trigger/src/main.rs\<close>: the source allow
  list, the configuration read from the environment, message authentication with its replay
  cache, and operator authorisation.  The environment is a map from variable names to values;
  HMAC-SHA256 and SHA-256 are third-party code and appear as the parameters \<open>hmac\<close>
  (\<open>None\<close>: the key is refused) and \<open>sha256\<close>.
\<close>

unbundle bit_operations_syntax

type_synonym env_vars = "string \<Rightarrow> string option"
type_synonym hmac_fn = "string \<Rightarrow> string \<Rightarrow> string option"
type_synonym sha256_fn = "string \<Rightarrow> string"

section \<open>Source rules\<close>

datatype source_rule = Address ip_addr | Cidr ip_addr nat

definition source_rule_parse :: "string \<Rightarrow> source_rule option" where
  "source_rule_parse value =
     (let v = trim value
      in (case split_once_char (CHR ''/'') v of
            Some (address, prefix) \<Rightarrow>
              (case parse_ip_addr address of
                 None \<Rightarrow> None
               | Some a \<Rightarrow>
                   (case parse_u8 prefix of
                      None \<Rightarrow> None
                    | Some p \<Rightarrow>
                        (case a of
                           V4 _ \<Rightarrow> if p \<le> 32 then Some (Cidr a p) else None
                         | V6 _ \<Rightarrow> if p \<le> 128 then Some (Cidr a p) else None)))
          | None \<Rightarrow> map_option Address (parse_ip_addr v)))"

fun source_rule_contains :: "source_rule \<Rightarrow> ip_addr \<Rightarrow> bool" where
  "source_rule_contains (Address expected) actual = (expected = actual)"
| "source_rule_contains (Cidr (V4 network) prefix) (V4 actual) =
     (let mask = (if prefix = 0 then 0 else push_bit (32 - prefix) (- 1 :: 32 word))
      in network AND mask = actual AND mask)"
| "source_rule_contains (Cidr (V6 network) prefix) (V6 actual) =
     (let mask = (if prefix = 0 then 0 else push_bit (128 - prefix) (- 1 :: 128 word))
      in network AND mask = actual AND mask)"
| "source_rule_contains _ _ = False"

section \<open>Configuration\<close>

record security_config =
  sec_production :: bool
  sec_auth_required :: bool
  sec_shared_secret :: string
  sec_operator_token :: string
  sec_allowed_sources :: "source_rule list"
  sec_auth_window_seconds :: int
  sec_allow_mode_mutation :: bool

definition env_flag :: "env_vars \<Rightarrow> string \<Rightarrow> bool option" where
  "env_flag env name =
     (case env name of
        None \<Rightarrow> None
      | Some value \<Rightarrow>
          (let v = to_ascii_lowercase (trim value)
           in if v \<in> {''1'', ''true'', ''yes'', ''on''} then Some True
              else if v \<in> {''0'', ''false'', ''no'', ''off''} then Some False
              else None))"

fun parse_allowlist :: "string list \<Rightarrow> string + source_rule list" where
  "parse_allowlist [] = Inr []"
| "parse_allowlist (v # vs) =
     (if trim v = [] then parse_allowlist vs
      else (case source_rule_parse v of
              None \<Rightarrow> Inl (''invalid TRIGGER_SOURCE_ALLOWLIST entry: '' @ v)
            | Some r \<Rightarrow>
                (case parse_allowlist vs of Inl e \<Rightarrow> Inl e | Inr rs \<Rightarrow> Inr (r # rs))))"

definition default_auth_window_seconds :: int where
  "default_auth_window_seconds = 30"

definition env_production :: "env_vars \<Rightarrow> bool" where
  "env_production env \<longleftrightarrow>
     to_ascii_lowercase (trim (unwrap_or ''development'' (env ''STEEL_RUNTIME_PROFILE'')))
       = ''production''"

definition host_exposes_remote :: "string \<Rightarrow> bool" where
  "host_exposes_remote host \<longleftrightarrow>
     (case parse_ip_addr host of None \<Rightarrow> True | Some address \<Rightarrow> \<not> is_loopback address)"

definition env_allowlist :: "env_vars \<Rightarrow> string + source_rule list" where
  "env_allowlist env =
     parse_allowlist
       (split_on (\<lambda>c. c = CHR '','') (unwrap_or [] (env ''TRIGGER_SOURCE_ALLOWLIST'')))"

definition env_auth_window :: "env_vars \<Rightarrow> int" where
  "env_auth_window env =
     unwrap_or default_auth_window_seconds
       (Option.bind (env ''TRIGGER_AUTH_WINDOW_SECONDS'') parse_i64)"

definition security_config_from_env :: "env_vars \<Rightarrow> string \<Rightarrow> string + security_config" where
  "security_config_from_env env host =
     (let production = env_production env;
          explicit_auth = unwrap_or False (env_flag env ''TRIGGER_AUTH_REQUIRED'');
          auth_required = (production \<or> explicit_auth);
          shared_secret = unwrap_or [] (env ''TRIGGER_SHARED_SECRET'');
          operator_token = unwrap_or [] (env ''TRIGGER_OPERATOR_TOKEN'');
          auth_window_seconds = env_auth_window env
      in if auth_required \<and> length shared_secret < 32
         then Inl ''TRIGGER_SHARED_SECRET must contain at least 32 bytes when trigger authentication is required''
         else if production \<and> length operator_token < 32
         then Inl ''TRIGGER_OPERATOR_TOKEN must contain at least 32 bytes in production''
         else
      (case env_allowlist env of
         Inl e \<Rightarrow> Inl e
       | Inr allowed_sources \<Rightarrow>
         if production \<and> host_exposes_remote host \<and> allowed_sources = []
         then Inl ''production trigger gateway bound beyond loopback requires TRIGGER_SOURCE_ALLOWLIST''
         else if \<not> (5 \<le> auth_window_seconds \<and> auth_window_seconds \<le> 300)
         then Inl ''TRIGGER_AUTH_WINDOW_SECONDS must be between 5 and 300''
         else Inr \<lparr> sec_production = production,
                    sec_auth_required = auth_required,
                    sec_shared_secret = shared_secret,
                    sec_operator_token = operator_token,
                    sec_allowed_sources = allowed_sources,
                    sec_auth_window_seconds = auth_window_seconds,
                    sec_allow_mode_mutation =
                      unwrap_or (\<not> production) (env_flag env ''TRIGGER_ALLOW_MODE_MUTATION'') \<rparr>))"

definition config_source_allowed :: "security_config \<Rightarrow> ip_addr \<Rightarrow> bool" where
  "config_source_allowed c address \<longleftrightarrow>
     is_loopback address
     \<or> (sec_allowed_sources c = [] \<and> \<not> sec_production c)
     \<or> list_ex (\<lambda>rule. source_rule_contains rule address) (sec_allowed_sources c)"

section \<open>Gateway state\<close>

record listener_status =
  http_enabled :: bool
  http_bound :: bool
  tcp_enabled :: bool
  tcp_bound :: bool
  udp_enabled :: bool
  udp_bound :: bool

record gateway_state =
  gw_mode :: string
  gw_accepting :: bool
  gw_in_flight :: nat
  gw_security :: security_config
  gw_replay_nonces :: "(string \<times> int) list"
  gw_listeners :: listener_status

type_synonym gateway = "gateway_state mutex"

definition source_allowed :: "gateway \<Rightarrow> ip_addr \<Rightarrow> bool" where
  "source_allowed st peer =
     (case lock st of None \<Rightarrow> False | Some g \<Rightarrow> config_source_allowed (gw_security g) peer)"

definition security_snapshot :: "gateway \<Rightarrow> json" where
  "security_snapshot st =
     (case lock st of
        None \<Rightarrow> mk_obj [(''error'', JString ''security_state_unavailable'')]
      | Some g \<Rightarrow>
          let c = gw_security g
          in mk_obj
               [(''profile'', JString (if sec_production c then ''production'' else ''development'')),
                (''authenticationRequired'', JBool (sec_auth_required c)),
                (''operatorAuthenticationRequired'', JBool (sec_production c)),
                (''sourceAllowlistConfigured'', JBool (sec_allowed_sources c \<noteq> [])),
                (''authWindowSeconds'',
                   JNumber (if 0 \<le> sec_auth_window_seconds c
                            then PosInt (nat (sec_auth_window_seconds c))
                            else NegInt (sec_auth_window_seconds c))),
                (''modeMutationAllowed'', JBool (sec_allow_mode_mutation c))])"

section \<open>Message authentication\<close>

fun decode_hex_pairs :: "string \<Rightarrow> string option" where
  "decode_hex_pairs (a # b # s) =
     (case to_digit 16 a of
        None \<Rightarrow> None
      | Some high \<Rightarrow>
          (case to_digit 16 b of
             None \<Rightarrow> None
           | Some low \<Rightarrow>
               map_option (\<lambda>r. char_of (high * 16 + low) # r) (decode_hex_pairs s)))"
| "decode_hex_pairs _ = Some []"

definition decode_hex :: "string \<Rightarrow> string option" where
  "decode_hex value = (if length value mod 2 \<noteq> 0 then None else decode_hex_pairs value)"

definition signature_message :: "string \<Rightarrow> string \<Rightarrow> string \<Rightarrow> string \<Rightarrow> string" where
  "signature_message timestamp nonce transport body =
     ''steel-trigger-v1'' @ [LF] @ timestamp @ [LF] @ nonce @ [LF] @ transport @ [LF] @ body"

definition valid_nonce :: "string \<Rightarrow> bool" where
  "valid_nonce value \<longleftrightarrow>
     16 \<le> length value \<and> length value \<le> 128
     \<and> list_all (\<lambda>b. is_ascii_alphanumeric b \<or> b \<in> set ''-_.:'') value"

record auth_error =
  ae_code :: nat
  ae_error :: string

definition auth_error_of :: "nat \<Rightarrow> string \<Rightarrow> auth_error" where
  "auth_error_of c e = \<lparr> ae_code = c, ae_error = e \<rparr>"

definition auth_error_response :: "auth_error \<Rightarrow> json" where
  "auth_error_response e =
     mk_obj [(''code'', jint (ae_code e)), (''error'', JString (ae_error e))]"

definition max_replay_entries :: nat where
  "max_replay_entries = 10000"

definition as_u64_cast :: "int \<Rightarrow> nat" where
  "as_u64_cast i = nat (i mod 2 ^ 64)"

definition authenticate_message ::
  "hmac_fn \<Rightarrow> gateway \<Rightarrow> string \<Rightarrow> string \<Rightarrow> string \<Rightarrow> string \<Rightarrow> string \<Rightarrow> int
     \<Rightarrow> (auth_error + unit) \<times> gateway" where
  "authenticate_message hmac st timestamp nonce signature transport body now =
     (case lock st of
        None \<Rightarrow> (Inl (auth_error_of 503 ''security_state_unavailable''), st)
      | Some g \<Rightarrow>
     (let sec = gw_security g in
      if \<not> sec_auth_required sec then (Inr (), st)
      else
     (case parse_i64 timestamp of
        None \<Rightarrow> (Inl (auth_error_of 401 ''invalid_trigger_timestamp''), st)
      | Some timestamp_value \<Rightarrow>
      if nat \<bar>now - timestamp_value\<bar> > as_u64_cast (sec_auth_window_seconds sec)
      then (Inl (auth_error_of 401 ''trigger_timestamp_out_of_window''), st)
      else if \<not> valid_nonce nonce
      then (Inl (auth_error_of 401 ''invalid_trigger_nonce''), st)
      else
     (case decode_hex signature of
        None \<Rightarrow> (Inl (auth_error_of 401 ''invalid_trigger_signature''), st)
      | Some sig \<Rightarrow>
     (case hmac (sec_shared_secret sec) (signature_message timestamp nonce transport body) of
        None \<Rightarrow> (Inl (auth_error_of 503 ''trigger_auth_unavailable''), st)
      | Some tag \<Rightarrow>
      if tag \<noteq> sig then (Inl (auth_error_of 401 ''invalid_trigger_signature''), st)
      else
     (let cutoff = now - sec_auth_window_seconds sec;
          retained = filter (\<lambda>(_, seen_at). cutoff \<le> seen_at) (gw_replay_nonces g);
          g1 = g\<lparr>gw_replay_nonces := retained\<rparr>
      in if map_of retained nonce \<noteq> None
         then (Inl (auth_error_of 409 ''trigger_replay_detected''), unlock st g1)
         else if max_replay_entries \<le> length retained
         then (Inl (auth_error_of 503 ''trigger_replay_cache_full''), unlock st g1)
         else (Inr (), unlock st (g1\<lparr>gw_replay_nonces := (nonce, now) # retained\<rparr>))))))))"

section \<open>Operator authorisation\<close>

definition constant_time_token_matches :: "sha256_fn \<Rightarrow> string \<Rightarrow> string \<Rightarrow> bool" where
  "constant_time_token_matches sha256 expected supplied \<longleftrightarrow>
     (let difference = (word_of_nat (length expected) XOR word_of_nat (length supplied) :: 64 word)
      in foldl (\<lambda>d (left, right).
                  d OR ucast ((word_of_nat (byte left) :: 8 word) XOR word_of_nat (byte right)))
           difference (zip (sha256 expected) (sha256 supplied)) = 0)"

definition authorize_operator_request ::
  "serde \<Rightarrow> sha256_fn \<Rightarrow> string \<Rightarrow> ip_addr \<Rightarrow> gateway \<Rightarrow> string + unit" where
  "authorize_operator_request sd sha256 request peer st =
     (if \<not> is_loopback peer
      then Inl (json_response sd ''403 Forbidden''
             (mk_obj [(''code'', jint 403), (''error'', JString ''local_operator_only'')]))
      else
     (case lock st of
        None \<Rightarrow> Inl (json_response sd ''503 Service Unavailable''
             (mk_obj [(''code'', jint 503), (''error'', JString ''security_state_unavailable'')]))
      | Some g \<Rightarrow>
      if \<not> sec_production (gw_security g) then Inr ()
      else
      let supplied = unwrap_or [] (request_header request ''X-Trigger-Operator-Token'')
      in if supplied = []
            \<or> \<not> constant_time_token_matches sha256 (sec_operator_token (gw_security g)) supplied
         then Inl (json_response sd ''401 Unauthorized''
             (mk_obj [(''code'', jint 401), (''error'', JString ''trigger_operator_auth_required'')]))
         else Inr ()))"

definition http_auth_error :: "serde \<Rightarrow> auth_error \<Rightarrow> string" where
  "http_auth_error sd e =
     json_response sd
       (if ae_code e = 409 then ''409 Conflict''
        else if ae_code e = 503 then ''503 Service Unavailable''
        else ''401 Unauthorized'')
       (auth_error_response e)"

definition authorize_http_trigger ::
  "serde \<Rightarrow> hmac_fn \<Rightarrow> sha256_fn \<Rightarrow> string \<Rightarrow> string \<Rightarrow> ip_addr \<Rightarrow> int \<Rightarrow> gateway
     \<Rightarrow> (string + unit) \<times> gateway" where
  "authorize_http_trigger sd hmac sha256 request body peer now st =
     (if \<not> source_allowed st peer
      then (Inl (json_response sd ''403 Forbidden''
              (mk_obj [(''code'', jint 403), (''error'', JString ''trigger_source_forbidden'')])), st)
      else if request_header request ''X-Trigger-Operator-Token'' \<noteq> None
      then (authorize_operator_request sd sha256 request peer st, st)
      else
      let timestamp = unwrap_or [] (request_header request ''X-Trigger-Timestamp'');
          nonce = unwrap_or [] (request_header request ''X-Trigger-Nonce'');
          signature = unwrap_or [] (request_header request ''X-Trigger-Signature'');
          auth_required =
            (case lock st of None \<Rightarrow> True | Some g \<Rightarrow> sec_auth_required (gw_security g))
      in if auth_required \<and> (timestamp = [] \<or> nonce = [] \<or> signature = [])
         then (Inl (http_auth_error sd (auth_error_of 401 ''trigger_auth_required'')), st)
         else (case authenticate_message hmac st timestamp nonce signature ''http'' body now of
                 (Inl e, st') \<Rightarrow> (Inl (http_auth_error sd e), st')
               | (Inr _, st') \<Rightarrow> (Inr (), st')))"


section \<open>Sequences of authentication attempts\<close>

text \<open>
  Every transport authenticates under the gateway lock, so the attempts of all threads form
  one sequence.
\<close>

record auth_call =
  ac_timestamp :: string
  ac_nonce :: string
  ac_signature :: string
  ac_transport :: string
  ac_body :: string
  ac_now :: int

definition auth_step :: "hmac_fn \<Rightarrow> gateway \<Rightarrow> auth_call \<Rightarrow> (auth_error + unit) \<times> gateway" where
  "auth_step hmac st c =
     authenticate_message hmac st (ac_timestamp c) (ac_nonce c) (ac_signature c)
       (ac_transport c) (ac_body c) (ac_now c)"

fun auth_run :: "hmac_fn \<Rightarrow> gateway \<Rightarrow> auth_call list \<Rightarrow> gateway" where
  "auth_run hmac st [] = st"
| "auth_run hmac st (c # cs) = auth_run hmac (snd (auth_step hmac st c)) cs"

text \<open>The documented bounds of the configuration and of the replay cache.\<close>

definition config_ok :: "security_config \<Rightarrow> bool" where
  "config_ok c \<longleftrightarrow>
     5 \<le> sec_auth_window_seconds c \<and> sec_auth_window_seconds c \<le> 300
     \<and> (sec_auth_required c \<longrightarrow> 32 \<le> length (sec_shared_secret c))
     \<and> (sec_production c \<longrightarrow> sec_auth_required c \<and> 32 \<le> length (sec_operator_token c))"

definition replay_cache_ok :: "gateway_state \<Rightarrow> bool" where
  "replay_cache_ok g \<longleftrightarrow>
     distinct (map fst (gw_replay_nonces g)) \<and> length (gw_replay_nonces g) \<le> max_replay_entries"

section \<open>Lemmas\<close>

lemma and_mask_eq:
  fixes a b :: "'l::len word"
  shows "a AND push_bit k (- 1) = b AND push_bit k (- 1) \<longleftrightarrow> drop_bit k a = drop_bit k b"
proof
  assume l: "a AND push_bit k (- 1) = b AND push_bit k (- 1)"
  show "drop_bit k a = drop_bit k b"
  proof (rule bit_word_eqI)
    fix n assume "n < LENGTH('l)"
    have "bit (a AND push_bit k (- 1)) (k + n) = bit (b AND push_bit k (- 1)) (k + n)"
      using l by simp
    then show "bit (drop_bit k a) n = bit (drop_bit k b) n"
      by (auto simp: bit_simps dest: bit_imp_le_length)
  qed
next
  assume r: "drop_bit k a = drop_bit k b"
  show "a AND push_bit k (- 1) = b AND push_bit k (- 1)"
  proof (rule bit_word_eqI)
    fix n assume "n < LENGTH('l)"
    have "bit (drop_bit k a) (n - k) = bit (drop_bit k b) (n - k)" using r by simp
    then show "bit (a AND push_bit k (- 1)) n = bit (b AND push_bit k (- 1)) n"
      by (auto simp: bit_simps)
  qed
qed

lemmas and_not_mask_eq = and_mask_eq [unfolded push_bit_minus_one_eq_not_mask]

lemma drop_bit_prefix:
  fixes a b :: "'l::len word"
  assumes "k \<le> LENGTH('l)"
  shows "drop_bit (LENGTH('l) - k) a = drop_bit (LENGTH('l) - k) b
    \<longleftrightarrow> (\<forall>i<k. bit a (LENGTH('l) - 1 - i) = bit b (LENGTH('l) - 1 - i))"
proof -
  let ?d = "LENGTH('l) - k"
  have "drop_bit ?d a = drop_bit ?d b \<longleftrightarrow> (\<forall>n<k. bit a (?d + n) = bit b (?d + n))"
  proof
    assume "drop_bit ?d a = drop_bit ?d b"
    then have "bit (drop_bit ?d a) n = bit (drop_bit ?d b) n" for n by simp
    then show "\<forall>n<k. bit a (?d + n) = bit b (?d + n)" by (simp add: bit_simps)
  next
    assume r: "\<forall>n<k. bit a (?d + n) = bit b (?d + n)"
    show "drop_bit ?d a = drop_bit ?d b"
    proof (rule bit_word_eqI)
      fix n
      show "bit (drop_bit ?d a) n = bit (drop_bit ?d b) n"
        using r by (cases "n < k") (auto simp: bit_simps dest: bit_imp_le_length)
    qed
  qed
  also have "\<dots> \<longleftrightarrow> (\<forall>i<k. bit a (LENGTH('l) - 1 - i) = bit b (LENGTH('l) - 1 - i))"
  proof -
    have e: "?d + (k - 1 - i) = LENGTH('l) - 1 - i" if "i < k" for i using assms that by simp
    have f: "k - 1 - (k - 1 - i) = i" "k - 1 - i < k" if "i < k" for i using that by simp_all
    show ?thesis
    proof
      assume l: "\<forall>n<k. bit a (?d + n) = bit b (?d + n)"
      show "\<forall>i<k. bit a (LENGTH('l) - 1 - i) = bit b (LENGTH('l) - 1 - i)"
      proof (intro allI impI)
        fix i assume i: "i < k"
        show "bit a (LENGTH('l) - 1 - i) = bit b (LENGTH('l) - 1 - i)"
          using l [rule_format, OF f(2) [OF i]] unfolding e [OF i] .
      qed
    next
      assume r: "\<forall>i<k. bit a (LENGTH('l) - 1 - i) = bit b (LENGTH('l) - 1 - i)"
      show "\<forall>n<k. bit a (?d + n) = bit b (?d + n)"
      proof (intro allI impI)
        fix n assume n: "n < k"
        show "bit a (?d + n) = bit b (?d + n)"
          using r [rule_format, OF f(2) [OF n]] unfolding e [OF f(2) [OF n], symmetric] f(1) [OF n] .
      qed
    qed
  qed
  finally show ?thesis .
qed

lemma valid_nonce_no_newline: "valid_nonce m \<Longrightarrow> LF \<notin> set m"
proof
  assume "valid_nonce m" and "LF \<in> set m"
  then have "is_ascii_alphanumeric LF \<or> LF \<in> set ''-_.:''"
    unfolding valid_nonce_def list_all_iff by blast
  then show False
    by (simp add: is_ascii_alphanumeric_def is_ascii_digit_def is_ascii_upper_def)
qed

lemma security_config_from_env_ok:
  "security_config_from_env env host = Inr c \<Longrightarrow> config_ok c"
  unfolding security_config_from_env_def Let_def config_ok_def
  by (auto split: if_split_asm sum.split_asm)

text \<open>An authentication attempt changes nothing but the replay cache.\<close>

lemma authenticate_message_frame:
  assumes "authenticate_message hmac st ts nonce sig tr body now = (r, st')"
  shows "mx_poisoned st' = mx_poisoned st
    \<and> (\<exists>c. mx_value st' = (mx_value st)\<lparr>gw_replay_nonces := c\<rparr>)"
  using assms unfolding authenticate_message_def
  by (auto simp: Let_def lock_Some unlock_def split: option.splits if_splits
      intro: exI [of _ "gw_replay_nonces (mx_value st)"])

lemma auth_step_config:
  "lock (snd (auth_step hmac st c)) = Some g' \<Longrightarrow>
     \<exists>g. lock st = Some g \<and> gw_security g' = gw_security g"
  unfolding auth_step_def authenticate_message_def
  by (auto simp: Let_def lock_Some unlock_def split: option.splits if_splits)

lemma auth_run_config:
  "lock (auth_run hmac st cs) = Some g' \<Longrightarrow>
     \<exists>g. lock st = Some g \<and> gw_security g' = gw_security g"
proof (induction cs arbitrary: st)
  case (Cons c cs)
  then obtain g where "lock (snd (auth_step hmac st c)) = Some g" "gw_security g' = gw_security g"
    by auto
  with auth_step_config show ?case by metis
qed simp

lemma auth_step_poisoned: "mx_poisoned (snd (auth_step hmac st c)) = mx_poisoned st"
  unfolding auth_step_def authenticate_message_def
  by (auto simp: Let_def split: option.splits if_splits)

text \<open>An accepted message under mandatory authentication passed every check.\<close>

lemma authenticate_accept:
  assumes "authenticate_message hmac st ts nonce sig tr body now = (Inr (), st')"
    and "lock st = Some g" and "sec_auth_required (gw_security g)"
  shows "\<exists>v s. parse_i64 ts = Some v
      \<and> nat \<bar>now - v\<bar> \<le> as_u64_cast (sec_auth_window_seconds (gw_security g))
      \<and> valid_nonce nonce
      \<and> decode_hex sig = Some s
      \<and> hmac (sec_shared_secret (gw_security g)) (signature_message ts nonce tr body) = Some s
      \<and> (\<forall>(n, t)\<in>set (gw_replay_nonces g).
           n = nonce \<longrightarrow> t < now - sec_auth_window_seconds (gw_security g))
      \<and> st' = Mutex False (g\<lparr>gw_replay_nonces := (nonce, now) #
           filter (\<lambda>(_, t). now - sec_auth_window_seconds (gw_security g) \<le> t)
             (gw_replay_nonces g)\<rparr>)"
proof -
  let ?r = "filter (\<lambda>(_, t). now - sec_auth_window_seconds (gw_security g) \<le> t)
             (gw_replay_nonces g)"
  have fresh: "map_of ?r nonce = None \<longleftrightarrow> (\<forall>(n, t)\<in>set (gw_replay_nonces g).
           n = nonce \<longrightarrow> t < now - sec_auth_window_seconds (gw_security g))"
    by (force simp: map_of_eq_None_iff)
  show ?thesis
    using assms unfolding authenticate_message_def fresh [symmetric]
    by (auto simp: Let_def lock_Some unlock_def split: option.splits if_splits)
qed

lemma auth_step_cache_ok:
  assumes "replay_cache_ok (mx_value st)"
  shows "replay_cache_ok (mx_value (snd (auth_step hmac st c)))"
proof -
  have "distinct (map fst (filter P (gw_replay_nonces (mx_value st))))"
    "length (filter P (gw_replay_nonces (mx_value st))) \<le> max_replay_entries" for P
    using assms
    by (auto simp: replay_cache_ok_def distinct_map_filter intro: le_trans [OF length_filter_le])
  moreover have "map_of xs n = None \<Longrightarrow> n \<notin> fst ` set xs" for n and xs :: "(string \<times> int) list"
    by (simp add: map_of_eq_None_iff)
  ultimately show ?thesis
    using assms unfolding auth_step_def authenticate_message_def
    by (auto simp: Let_def lock_def replay_cache_ok_def not_le Suc_le_eq
        split: option.splits if_splits)
qed

lemma auth_run_cache_ok:
  "replay_cache_ok (mx_value st) \<Longrightarrow> replay_cache_ok (mx_value (auth_run hmac st cs))"
  by (induction cs arbitrary: st) (auto simp: auth_step_cache_ok)

text \<open>A cached nonce survives every attempt made within the window after it was seen.\<close>

definition remembers :: "gateway \<Rightarrow> security_config \<Rightarrow> string \<Rightarrow> int \<Rightarrow> bool" where
  "remembers st sec nonce seen \<longleftrightarrow>
     (\<exists>g. lock st = Some g \<and> gw_security g = sec \<and> (nonce, seen) \<in> set (gw_replay_nonces g))"

lemma auth_step_remembers:
  assumes "remembers st sec nonce seen"
    and "ac_now c \<le> seen + sec_auth_window_seconds sec"
  shows "remembers (snd (auth_step hmac st c)) sec nonce seen"
  using assms unfolding remembers_def auth_step_def authenticate_message_def
  by (auto simp: Let_def lock_Some unlock_def split: option.splits if_splits)

lemma auth_run_remembers:
  assumes "remembers st sec nonce seen"
    and "\<And>c. c \<in> set cs \<Longrightarrow> ac_now c \<le> seen + sec_auth_window_seconds sec"
  shows "remembers (auth_run hmac st cs) sec nonce seen"
  using assms by (induction cs arbitrary: st) (auto simp: auth_step_remembers)

lemma remembers_refuses:
  assumes "remembers st sec (ac_nonce c) seen" and "sec_auth_required sec"
    and "ac_now c \<le> seen + sec_auth_window_seconds sec"
  shows "fst (auth_step hmac st c) \<noteq> Inr ()"
proof
  assume acc: "fst (auth_step hmac st c) = Inr ()"
  from assms(1) obtain g where g: "lock st = Some g" "gw_security g = sec"
    "(ac_nonce c, seen) \<in> set (gw_replay_nonces g)"
    by (auto simp: remembers_def)
  from acc have "authenticate_message hmac st (ac_timestamp c) (ac_nonce c) (ac_signature c)
       (ac_transport c) (ac_body c) (ac_now c) = (Inr (), snd (auth_step hmac st c))"
    by (simp add: auth_step_def prod_eq_iff)
  then have "\<forall>(n, t)\<in>set (gw_replay_nonces g).
        n = ac_nonce c \<longrightarrow> t < ac_now c - sec_auth_window_seconds sec"
    using authenticate_accept [OF _ g(1)] g(2) assms(2) by blast
  with g(3) assms(3) show False by force
qed

lemma foldl_or_zero:
  "foldl (\<lambda>d p. d OR f p) (w :: 64 word) xs = 0 \<longleftrightarrow> w = 0 \<and> (\<forall>p\<in>set xs. f p = 0)"
proof (induction xs arbitrary: w)
  case (Cons x xs)
  have "w OR f x = 0 \<longleftrightarrow> w = 0 \<and> f x = 0" by (metis or_eq_0_iff)
  then show ?case by (simp add: Cons.IH)
qed simp

lemma word_of_byte_inj: "(word_of_nat (byte a) :: 8 word) = word_of_nat (byte b) \<longleftrightarrow> a = b"
proof
  have "byte c < 2 ^ LENGTH(8)" for c :: char
    using nat_of_char_less_256 [of c] by simp
  then have small: "take_bit LENGTH(8) (byte c) = byte c" for c :: char
    by (simp add: take_bit_nat_eq_self)
  assume "(word_of_nat (byte a) :: 8 word) = word_of_nat (byte b)"
  then have "byte a = byte b"
    unfolding word_of_nat_eq_iff small .
  then show "a = b" by simp
qed simp

lemma xor_eq_0_iff_eq: "a XOR b = 0 \<longleftrightarrow> a = (b :: 'l::len word)"
  by (auto simp: bit_eq_iff bit_xor_iff)

lemma ucast_eq_0_iff_8: "(ucast (w :: 8 word) :: 64 word) = 0 \<longleftrightarrow> w = 0"
proof
  assume z: "(ucast w :: 64 word) = 0"
  show "w = 0"
  proof (rule bit_word_eqI)
    fix n assume "n < LENGTH(8)"
    then have "bit (ucast w :: 64 word) n = bit w n" by (simp add: bit_simps)
    with z show "bit w n = bit 0 n" by simp
  qed
qed simp

lemma zip_all_eq: "length xs = length ys \<Longrightarrow> (\<forall>(a, b)\<in>set (zip xs ys). a = b) \<longleftrightarrow> xs = ys"
  by (induction xs ys rule: list_induct2) auto

lemma parse_allowlist_entries:
  "parse_allowlist vs = Inr rs \<Longrightarrow>
     rs = List.map_filter source_rule_parse (filter (\<lambda>v. trim v \<noteq> []) vs)"
  by (induction vs arbitrary: rs) (auto simp: List.map_filter_simps split: if_splits option.splits sum.splits)


section \<open>Properties\<close>

text \<open>
  C29: Soundness of message authentication.  When authentication is mandatory and an attempt
  is accepted, the timestamp is an integer at most the configured window away from the
  gateway's clock, the nonce is well formed, the signature is the HMAC of exactly the
  message's four parts under the shared secret, the nonce was not in the cache of the
  window, and the only change of state is that the expired nonces are dropped and this one is
  recorded.
\<close>
theorem authenticate_sound:
  assumes "lock st = Some g" and "config_ok (gw_security g)" and "sec_auth_required (gw_security g)"
    and "authenticate_message hmac st ts nonce sig tr body now = (Inr (), st')"
  shows "\<exists>v s. parse_i64 ts = Some v
      \<and> \<bar>now - v\<bar> \<le> sec_auth_window_seconds (gw_security g)
      \<and> valid_nonce nonce
      \<and> decode_hex sig = Some s
      \<and> hmac (sec_shared_secret (gw_security g)) (signature_message ts nonce tr body) = Some s
      \<and> (\<forall>(n, t)\<in>set (gw_replay_nonces g).
           n = nonce \<longrightarrow> t < now - sec_auth_window_seconds (gw_security g))
      \<and> st' = Mutex False (g\<lparr>gw_replay_nonces := (nonce, now) #
           filter (\<lambda>(_, t). now - sec_auth_window_seconds (gw_security g) \<le> t)
             (gw_replay_nonces g)\<rparr>)"
proof -
  let ?w = "sec_auth_window_seconds (gw_security g)"
  have w: "as_u64_cast ?w = nat ?w"
    using assms(2) by (auto simp: config_ok_def as_u64_cast_def)
  from authenticate_accept [OF assms(4,1,3)] w assms(2) show ?thesis
    by (auto simp: config_ok_def nat_le_iff)
qed



text \<open>
  The replay window has a gap for messages dated in the future.  A message whose timestamp
  is a full window ahead of the clock is accepted, and the very same message is accepted a
  second time one second after its nonce has left the cache, because it still lies within the
  timestamp window then.
\<close>
theorem future_dated_replay_accepted:
  assumes "lock st = Some g" and "config_ok (gw_security g)" and "sec_auth_required (gw_security g)"
    and "gw_replay_nonces g = []"
    and "parse_i64 (ac_timestamp c) = Some (ac_now c + sec_auth_window_seconds (gw_security g))"
    and "valid_nonce (ac_nonce c)"
    and "decode_hex (ac_signature c) = Some s"
    and "hmac (sec_shared_secret (gw_security g))
           (signature_message (ac_timestamp c) (ac_nonce c) (ac_transport c) (ac_body c)) = Some s"
  shows "let again = c\<lparr>ac_now := ac_now c + sec_auth_window_seconds (gw_security g) + 1\<rparr>
         in fst (auth_step hmac st c) = Inr ()
            \<and> fst (auth_step hmac (auth_run hmac st [c]) again) = Inr ()"
proof -
  let ?w = "sec_auth_window_seconds (gw_security g)"
  have w: "as_u64_cast ?w = nat ?w" "5 \<le> ?w"
    using assms(2) by (auto simp: config_ok_def as_u64_cast_def)
  have st: "st = Mutex False g" using assms(1) by (simp add: lock_Some)
  have first: "auth_step hmac st c =
      (Inr (), Mutex False (g\<lparr>gw_replay_nonces := [(ac_nonce c, ac_now c)]\<rparr>))"
    using assms(3-) w
    by (simp add: st auth_step_def authenticate_message_def Let_def lock_def unlock_def
        max_replay_entries_def)
  let ?again = "c\<lparr>ac_now := ac_now c + ?w + 1\<rparr>"
  have "fst (auth_step hmac (auth_run hmac st [c]) ?again) = Inr ()"
    using assms(3-) w
    by (simp add: first auth_step_def [of hmac _ ?again] authenticate_message_def Let_def
        lock_def unlock_def max_replay_entries_def)
  with first show ?thesis by (simp add: Let_def)
qed

text \<open>
  The signed text determines the message.  Two messages whose timestamps are integers,
  whose nonces are well formed and whose transport names hold no newline are signed as the
  same text only if timestamp, nonce, transport and body all agree, so a signature cannot be
  moved to another transport or body.
\<close>
theorem signature_message_injective:
  assumes "parse_i64 ts \<noteq> None" "parse_i64 ts' \<noteq> None"
    and "valid_nonce n" "valid_nonce n'"
    and "LF \<notin> set tr" "LF \<notin> set tr'"
    and "signature_message ts n tr body = signature_message ts' n' tr' body'"
  shows "ts = ts' \<and> n = n' \<and> tr = tr' \<and> body = body'"
proof -
  have ts: "LF \<notin> set ts" "LF \<notin> set ts'"
    using assms(1,2) by (auto dest: parse_i64_no_newline)
  have "ts @ LF # (n @ LF # (tr @ LF # body)) = ts' @ LF # (n' @ LF # (tr' @ LF # body'))"
    using assms(7) by (simp add: signature_message_def)
  from cut_at_char [OF this ts]
  have 1: "ts = ts'" "n @ LF # (tr @ LF # body) = n' @ LF # (tr' @ LF # body')"
    by simp_all
  from cut_at_char [OF 1(2) valid_nonce_no_newline [OF assms(3)] valid_nonce_no_newline [OF assms(4)]]
  have 2: "n = n'" "tr @ LF # body = tr' @ LF # body'"
    by simp_all
  from cut_at_char [OF 2(2) assms(5,6)] 1 2 show ?thesis by simp
qed

text \<open>
  Bounded replay cache.  From a cache with distinct nonces and at most
  \<open>max_replay_entries\<close> entries, no sequence of attempts makes it hold a nonce twice or grow
  beyond that bound.
\<close>
theorem replay_cache_bounded:
  assumes "replay_cache_ok (mx_value st)"
  shows "distinct (map fst (gw_replay_nonces (mx_value (auth_run hmac st cs))))
     \<and> length (gw_replay_nonces (mx_value (auth_run hmac st cs))) \<le> 10000"
  using auth_run_cache_ok [OF assms, of hmac cs]
  by (simp add: replay_cache_ok_def max_replay_entries_def)

text \<open>
  A CIDR rule contains exactly the addresses of its family that agree with the network
  on the first \<open>prefix\<close> bits, and an address of the other family never.
\<close>
theorem cidr_contains_iff:
  assumes "p \<le> 32" and "q \<le> 128"
  shows "(source_rule_contains (Cidr (V4 net4) p) (V4 a4)
            \<longleftrightarrow> (\<forall>i<p. bit net4 (31 - i) = bit a4 (31 - i)))
       \<and> (source_rule_contains (Cidr (V6 net6) q) (V6 a6)
            \<longleftrightarrow> (\<forall>i<q. bit net6 (127 - i) = bit a6 (127 - i)))
       \<and> \<not> source_rule_contains (Cidr (V4 net4) p) (V6 a6)
       \<and> \<not> source_rule_contains (Cidr (V6 net6) q) (V4 a4)"
proof -
  have m4: "source_rule_contains (Cidr (V4 net4) p) (V4 a4)
      \<longleftrightarrow> drop_bit (32 - p) net4 = drop_bit (32 - p) a4"
    by (cases "p = 0") (simp_all add: Let_def push_bit_minus_one_eq_not_mask and_not_mask_eq)
  have m6: "source_rule_contains (Cidr (V6 net6) q) (V6 a6)
      \<longleftrightarrow> drop_bit (128 - q) net6 = drop_bit (128 - q) a6"
    by (cases "q = 0") (simp_all add: Let_def push_bit_minus_one_eq_not_mask and_not_mask_eq)
  show ?thesis
    unfolding m4 m6
    using assms drop_bit_prefix [of p net4 a4] drop_bit_prefix [of q net6 a6] by simp
qed


text \<open>
  A configuration that \<open>SecurityConfig::from_env\<close> accepts is fail-closed.  The window is
  between 5 and 300 seconds; whenever authentication is required the secret has at least 32
  bytes; and in the production profile authentication is required, the operator token has at
  least 32 bytes, a host that is not a loopback address needs a non-empty allow list, and mode
  changes are off unless the environment allows them.
\<close>
theorem security_config_fail_closed:
  assumes "security_config_from_env env host = Inr c"
  shows "config_ok c
     \<and> (sec_production c \<longrightarrow>
          env_production env
          \<and> sec_auth_required c
          \<and> (sec_allow_mode_mutation c \<longrightarrow>
               env_flag env ''TRIGGER_ALLOW_MODE_MUTATION'' = Some True)
          \<and> (host_exposes_remote host \<longrightarrow> sec_allowed_sources c \<noteq> []))"
proof -
  have flag: "unwrap_or False f \<longleftrightarrow> f = Some True" for f
    by (cases f) auto
  show ?thesis
    using assms unfolding security_config_from_env_def Let_def config_ok_def
    by (auto simp: flag split: if_split_asm sum.split_asm)
qed

lemma constant_time_matches:
  assumes "\<And>x. length (sha256 x) = 32"
    and "length expected < 2 ^ 64" and "length supplied < 2 ^ 64"
  shows "constant_time_token_matches sha256 expected supplied
     \<longleftrightarrow> length expected = length supplied \<and> sha256 expected = sha256 supplied"
proof -
  let ?zip = "zip (sha256 expected) (sha256 supplied)"
  have len: "(word_of_nat (length expected) :: 64 word) XOR word_of_nat (length supplied) = 0
      \<longleftrightarrow> length expected = length supplied"
    using assms(2,3) by (simp add: xor_eq_0_iff_eq word_of_nat_eq_iff take_bit_nat_eq_self)
  have bytes: "(ucast ((word_of_nat (byte a) :: 8 word) XOR word_of_nat (byte b)) :: 64 word) = 0
      \<longleftrightarrow> a = b" for a b
    by (simp add: ucast_eq_0_iff_8 xor_eq_0_iff_eq word_of_byte_inj)
  have "constant_time_token_matches sha256 expected supplied
      \<longleftrightarrow> length expected = length supplied \<and> (\<forall>(a, b)\<in>set ?zip. a = b)"
    unfolding constant_time_token_matches_def Let_def split_def foldl_or_zero len bytes
    by (auto simp: split_def)
  then show ?thesis
    using zip_all_eq [of "sha256 expected" "sha256 supplied"] assms(1) by simp
qed

text \<open>
  The comparison of operator tokens accepts exactly the tokens of the right length with
  the right digest, for any digest function of 32 bytes and tokens of less than 2^64 bytes.
\<close>
theorem constant_time_token_matches_iff:
  assumes "\<And>x. length (sha256 x) = 32"
    and "length expected < 2 ^ 64" and "length supplied < 2 ^ 64"
  shows "constant_time_token_matches sha256 expected supplied
     \<longleftrightarrow> length expected = length supplied \<and> sha256 expected = sha256 supplied"
  by (rule constant_time_matches [OF assms])

text \<open>
  A trigger request admitted over HTTP comes from an allowed source and carries the operator
  header (with the right token in the production profile), or needs no authentication, or is
  authenticated under the transport name \<open>http\<close>.
\<close>

lemma authorize_http_trigger_accepted:
  assumes "authorize_http_trigger sd hmac sha256 request body peer now st = (Inr (), st')"
  shows "\<exists>g. lock st = Some g \<and> config_source_allowed (gw_security g) peer
    \<and> ((\<exists>token. request_header request ''X-Trigger-Operator-Token'' = Some token
            \<and> is_loopback peer
            \<and> (sec_production (gw_security g) \<longrightarrow>
                 constant_time_token_matches sha256 (sec_operator_token (gw_security g)) token))
       \<or> \<not> sec_auth_required (gw_security g)
       \<or> (\<exists>ts nonce sig. request_header request ''X-Trigger-Timestamp'' = Some ts
            \<and> request_header request ''X-Trigger-Nonce'' = Some nonce
            \<and> request_header request ''X-Trigger-Signature'' = Some sig
            \<and> authenticate_message hmac st ts nonce sig ''http'' body now = (Inr (), st')))"
  using assms
  unfolding authorize_http_trigger_def authorize_operator_request_def source_allowed_def Let_def
  by (auto simp: unwrap_or_def split: if_splits option.splits prod.splits sum.splits)

text \<open>
  Outside the production profile the operator header alone admits a loopback request:
  even with mandatory authentication configured, a local trigger request that carries any
  value of that header is admitted without a signature and without entering the replay cache.
\<close>
theorem operator_header_bypasses_signature:
  assumes "lock st = Some g" and "sec_auth_required (gw_security g)"
    and "\<not> sec_production (gw_security g)" and "is_loopback peer"
    and "request_header request ''X-Trigger-Operator-Token'' = Some token"
  shows "authorize_http_trigger sd hmac sha256 request body peer now st = (Inr (), st)"
  using assms
  by (simp add: authorize_http_trigger_def authorize_operator_request_def source_allowed_def
      config_source_allowed_def)


section \<open>A concrete gateway\<close>

definition demo_config :: security_config where
  "demo_config =
     \<lparr> sec_production = False, sec_auth_required = True,
       sec_shared_secret = replicate 32 (CHR ''s''), sec_operator_token = [],
       sec_allowed_sources = [Cidr (V4 0x0A000000) 8], sec_auth_window_seconds = 30,
       sec_allow_mode_mutation = True \<rparr>"

definition demo_listeners :: listener_status where
  "demo_listeners =
     \<lparr> http_enabled = True, http_bound = True, tcp_enabled = True, tcp_bound = True,
       udp_enabled = False, udp_bound = False \<rparr>"

definition demo_state :: gateway_state where
  "demo_state =
     \<lparr> gw_mode = ''api'', gw_accepting = True, gw_in_flight = 0, gw_security = demo_config,
       gw_replay_nonces = [], gw_listeners = demo_listeners \<rparr>"

definition demo_gateway :: gateway where
  "demo_gateway = Mutex False demo_state"

definition demo_hmac :: hmac_fn where
  "demo_hmac = (\<lambda>key message. Some [CHR 0xAB])"

definition demo_sha256 :: sha256_fn where
  "demo_sha256 = (\<lambda>s. take 32 (s @ replicate 32 (CHR 0x00)))"

definition demo_serde :: serde where
  "demo_serde = \<lparr> from_str = (\<lambda>s. Inr (JString s)), to_string = (\<lambda>v. ''{}'') \<rparr>"

definition demo_call :: "string \<Rightarrow> int \<Rightarrow> auth_call" where
  "demo_call ts now =
     \<lparr> ac_timestamp = ts, ac_nonce = ''0123456789abcdef'', ac_signature = ''ab'',
       ac_transport = ''http'', ac_body = ''{}'', ac_now = now \<rparr>"

definition demo_request :: string where
  "demo_request =
     ''POST /api/trigger/steel-in HTTP/1.1'' @ crlf
     @ ''X-Trigger-Operator-Token: any'' @ crlf @ crlf @ ''{}''"

lemmas demo_defs = demo_config_def demo_state_def demo_gateway_def demo_hmac_def demo_call_def

lemma demo_config_ok: "config_ok (gw_security demo_state)" "sec_auth_required (gw_security demo_state)"
  by (simp_all add: demo_defs config_ok_def)

lemma demo_lock: "lock demo_gateway = Some demo_state"
  by (simp add: demo_gateway_def lock_def)

lemma demo_nonce: "valid_nonce ''0123456789abcdef''"
  by (simp add: valid_nonce_def is_ascii_alphanumeric_def is_ascii_digit_def is_ascii_upper_def)

lemma demo_parse: "parse_i64 ''100'' = Some 100" "parse_i64 ''130'' = Some 130"
  by (simp_all add: parse_i64_def parse_unsigned_def is_ascii_digit_def)

lemma demo_hex: "decode_hex ''ab'' = Some [CHR 0xAB]"
  by (simp add: decode_hex_def to_digit_def char_of_eq_iff)

lemma demo_accept:
  "auth_step demo_hmac demo_gateway (demo_call ''100'' 100) =
     (Inr (), Mutex False (demo_state\<lparr>gw_replay_nonces := [(''0123456789abcdef'', 100)]\<rparr>))"
  by (simp add: auth_step_def authenticate_message_def demo_call_def demo_lock demo_parse demo_nonce
      demo_hex Let_def max_replay_entries_def unlock_def)
    (simp add: demo_defs as_u64_cast_def Let_def max_replay_entries_def unlock_def)

lemma demo_header: "request_header demo_request ''X-Trigger-Operator-Token'' = Some ''any''"
  by (simp add: demo_request_def request_header_def str_lines_def header_of_line_def text_eval)

theorem authenticate_sound_witness:
  "\<exists>v s. parse_i64 ''100'' = Some v
      \<and> \<bar>100 - v\<bar> \<le> sec_auth_window_seconds (gw_security demo_state)
      \<and> valid_nonce ''0123456789abcdef''
      \<and> decode_hex ''ab'' = Some s
      \<and> demo_hmac (sec_shared_secret (gw_security demo_state))
          (signature_message ''100'' ''0123456789abcdef'' ''http'' ''{}'') = Some s
      \<and> (\<forall>(n, t)\<in>set (gw_replay_nonces demo_state).
           n = ''0123456789abcdef'' \<longrightarrow> t < 100 - sec_auth_window_seconds (gw_security demo_state))
      \<and> Mutex False (demo_state\<lparr>gw_replay_nonces := [(''0123456789abcdef'', 100)]\<rparr>)
          = Mutex False (demo_state\<lparr>gw_replay_nonces := (''0123456789abcdef'', 100) #
              filter (\<lambda>(_, t). 100 - sec_auth_window_seconds (gw_security demo_state) \<le> t)
                (gw_replay_nonces demo_state)\<rparr>)"
  using demo_accept unfolding auth_step_def
  by (intro authenticate_sound [OF demo_lock demo_config_ok]) (simp add: demo_call_def)


theorem future_dated_replay_accepted_witness:
  "let again = (demo_call ''130'' 100)\<lparr>ac_now := 131\<rparr>
   in fst (auth_step demo_hmac demo_gateway (demo_call ''130'' 100)) = Inr ()
      \<and> fst (auth_step demo_hmac (auth_run demo_hmac demo_gateway [demo_call ''130'' 100]) again) = Inr ()"
  using future_dated_replay_accepted [OF demo_lock demo_config_ok,
      where c = "demo_call ''130'' 100" and s = "[CHR 0xAB]" and hmac = demo_hmac]
  by (simp add: demo_call_def demo_parse demo_nonce demo_hex)
    (simp add: demo_defs)

theorem signature_message_injective_witness:
  "''100'' = ''100'' \<and> ''0123456789abcdef'' = ''0123456789abcdef''
     \<and> ''tcp'' = ''tcp'' \<and> ''{}'' = ''{}''"
  by (rule signature_message_injective [of "''100''" "''100''"])
    (simp_all add: demo_parse demo_nonce)

theorem replay_cache_bounded_witness:
  "distinct (map fst (gw_replay_nonces (mx_value
       (auth_run demo_hmac demo_gateway [demo_call ''100'' 100]))))
   \<and> length (gw_replay_nonces (mx_value
       (auth_run demo_hmac demo_gateway [demo_call ''100'' 100]))) \<le> 10000"
  by (rule replay_cache_bounded)
    (simp add: replay_cache_ok_def demo_gateway_def demo_state_def)


theorem cidr_contains_iff_witness:
  "source_rule_contains (Cidr (V4 0x0A326F8D) 8) (V4 0x0A326F8D)
   \<and> source_rule_contains (Cidr (V6 1) 128) (V6 1)
   \<and> \<not> source_rule_contains (Cidr (V4 0x0A326F8D) 8) (V6 1)
   \<and> \<not> source_rule_contains (Cidr (V6 1) 128) (V4 0x0A326F8D)"
  using cidr_contains_iff [of 8 128 "0x0A326F8D" "0x0A326F8D" 1 1] by simp

definition demo_env :: env_vars where
  "demo_env =
     [''STEEL_RUNTIME_PROFILE'' \<mapsto> ''Production'',
      ''TRIGGER_SHARED_SECRET'' \<mapsto> replicate 32 (CHR ''s''),
      ''TRIGGER_OPERATOR_TOKEN'' \<mapsto> replicate 32 (CHR ''t'')]"

definition demo_env_config :: security_config where
  "demo_env_config =
     \<lparr> sec_production = True, sec_auth_required = True,
       sec_shared_secret = replicate 32 (CHR ''s''),
       sec_operator_token = replicate 32 (CHR ''t''),
       sec_allowed_sources = [], sec_auth_window_seconds = 30,
       sec_allow_mode_mutation = False \<rparr>"

lemma demo_env_accepted: "security_config_from_env demo_env ''127.0.0.1'' = Inr demo_env_config"
proof -
  have "env_production demo_env"
    by (simp add: env_production_def demo_env_def text_eval)
  moreover have "\<not> host_exposes_remote ''127.0.0.1''"
    by (simp add: host_exposes_remote_def ip_eval)
  moreover have "env_allowlist demo_env = Inr []"
    by (simp add: env_allowlist_def demo_env_def)
  moreover have "env_auth_window demo_env = 30"
    by (simp add: env_auth_window_def default_auth_window_seconds_def demo_env_def)
  ultimately show ?thesis
    by (simp add: security_config_from_env_def demo_env_config_def Let_def)
      (simp add: demo_env_def env_flag_def)
qed

theorem security_config_fail_closed_witness:
  "security_config_from_env demo_env ''127.0.0.1'' = Inr demo_env_config
     \<and> config_ok demo_env_config \<and> sec_production demo_env_config
     \<and> env_production demo_env \<and> sec_auth_required demo_env_config"
proof -
  have "sec_production demo_env_config" by (simp add: demo_env_config_def)
  with security_config_fail_closed [OF demo_env_accepted] demo_env_accepted show ?thesis by blast
qed

theorem constant_time_token_matches_iff_witness:
  "constant_time_token_matches demo_sha256 ''abc'' ''abd''
     \<longleftrightarrow> length ''abc'' = length ''abd'' \<and> demo_sha256 ''abc'' = demo_sha256 ''abd''"
  by (rule constant_time_token_matches_iff) (simp_all add: demo_sha256_def)

theorem operator_header_bypasses_signature_witness:
  "authorize_http_trigger demo_serde demo_hmac demo_sha256 demo_request ''{}'' (V4 0x7F000001) 100
     demo_gateway = (Inr (), demo_gateway)"
  by (rule operator_header_bypasses_signature [OF demo_lock demo_config_ok(2) _ _ demo_header])
    (simp_all add: demo_defs)

end
