(* ===== verification/Admission.thy ===== *)
theory Admission
  imports Rust_Std
begin

text \<open>
  Counted admission with draining, the contract the trigger gateway and the inspection service
  share: a request is admitted while the gate accepts (and, when it drains, only if it
  completes work already begun), every admitted request holds a guard, and dropping the guard
  lowers the count.  The lemmas are about every interleaving of these atomic operations.
\<close>

datatype 'r gate_event = Admit 'r | Release | Drain

text \<open>
  One atomic operation on the gate, with the number of guards that are alive.  A guard that
  does not exist cannot be dropped.
\<close>

fun gate_step ::
  "('s \<Rightarrow> 'r \<Rightarrow> 's option) \<Rightarrow> ('s \<Rightarrow> 's) \<Rightarrow> ('s \<Rightarrow> 's) \<Rightarrow> 's \<times> nat \<Rightarrow> 'r gate_event \<Rightarrow> 's \<times> nat"
where
  "gate_step admit release drain (s, live) (Admit r) =
     (case admit s r of None \<Rightarrow> (s, live) | Some t \<Rightarrow> (t, live + 1))"
| "gate_step admit release drain (s, live) Release =
     (if live = 0 then (s, live) else (release s, live - 1))"
| "gate_step admit release drain (s, live) Drain = (drain s, live)"

definition gate_run ::
  "('s \<Rightarrow> 'r \<Rightarrow> 's option) \<Rightarrow> ('s \<Rightarrow> 's) \<Rightarrow> ('s \<Rightarrow> 's) \<Rightarrow> 's \<times> nat \<Rightarrow> 'r gate_event list \<Rightarrow> 's \<times> nat"
where
  "gate_run admit release drain = foldl (gate_step admit release drain)"

definition count_releases :: "'r gate_event list \<Rightarrow> nat" where
  "count_releases evs = length (filter (\<lambda>e. e = Release) evs)"

locale admission_gate =
  fixes usable :: "'s \<Rightarrow> bool"
    and accepting :: "'s \<Rightarrow> bool"
    and in_flight :: "'s \<Rightarrow> nat"
    and completion :: "'r \<Rightarrow> bool"
    and admit :: "'s \<Rightarrow> 'r \<Rightarrow> 's option"
    and release :: "'s \<Rightarrow> 's"
    and drain :: "'s \<Rightarrow> 's"
  assumes admit_accepted: "usable s \<Longrightarrow> admit s r = Some t \<Longrightarrow> in_flight s < u64_max
        \<Longrightarrow> usable t \<and> in_flight t = in_flight s + 1 \<and> accepting t = accepting s"
    and admit_draining: "usable s \<Longrightarrow> \<not> accepting s \<Longrightarrow> \<not> completion r \<Longrightarrow> admit s r = None"
    and release_counts: "usable s
        \<Longrightarrow> usable (release s) \<and> in_flight (release s) = in_flight s - 1
            \<and> accepting (release s) = accepting s"
    and drain_closes: "usable s
        \<Longrightarrow> usable (drain s) \<and> in_flight (drain s) = in_flight s \<and> \<not> accepting (drain s)"
begin

lemma step_counts:
  assumes "usable s" and "in_flight s = live" and "live < u64_max"
    and "gate_step admit release drain (s, live) e = (t, live')"
  shows "usable t \<and> in_flight t = live' \<and> live' \<le> live + 1"
  using assms admit_accepted [of s] release_counts [of s] drain_closes [of s]
  by (cases e) (auto split: option.splits if_splits)

text \<open>The counter is the number of guards alive, in every interleaving.\<close>

lemma run_counts:
  assumes "usable s" and "in_flight s = live" and "live + length evs \<le> u64_max"
  shows "usable (fst (gate_run admit release drain (s, live) evs))
    \<and> in_flight (fst (gate_run admit release drain (s, live) evs))
        = snd (gate_run admit release drain (s, live) evs)"
  using assms
proof (induction evs arbitrary: s live)
  case Nil
  then show ?case by (simp add: gate_run_def)
next
  case (Cons e evs)
  obtain t n where st: "gate_step admit release drain (s, live) e = (t, n)" by fastforce
  from Cons.prems have "live < u64_max" by simp
  from step_counts [OF Cons.prems(1,2) this st] Cons.IH [of t n] Cons.prems(3) show ?case
    by (simp add: gate_run_def st)
qed

text \<open>
  Once draining, a run that admits no completion only lowers the counter, by one for each
  guard dropped: the gate drains as soon as the guards alive at the start are gone.
\<close>

lemma run_drains:
  assumes "usable s" and "\<not> accepting s" and "in_flight s = live"
    and "\<And>r. Admit r \<in> set evs \<Longrightarrow> \<not> completion r"
  shows "usable (fst (gate_run admit release drain (s, live) evs))
    \<and> \<not> accepting (fst (gate_run admit release drain (s, live) evs))
    \<and> in_flight (fst (gate_run admit release drain (s, live) evs)) = live - count_releases evs"
  using assms
proof (induction evs arbitrary: s live)
  case Nil
  then show ?case by (simp add: gate_run_def count_releases_def)
next
  case (Cons e evs)
  have IH: "usable t \<Longrightarrow> \<not> accepting t \<Longrightarrow> in_flight t = n \<Longrightarrow>
      usable (fst (foldl (gate_step admit release drain) (t, n) evs))
      \<and> \<not> accepting (fst (foldl (gate_step admit release drain) (t, n) evs))
      \<and> in_flight (fst (foldl (gate_step admit release drain) (t, n) evs)) = n - count_releases evs"
    for t n using Cons.IH [of t n] Cons.prems(4) by (simp add: gate_run_def)
  show ?case
  proof (cases e)
    case (Admit r)
    with Cons.prems admit_draining [of s r] IH [of s live] show ?thesis
      by (simp add: gate_run_def count_releases_def)
  next
    case Release
    with Cons.prems release_counts [of s] IH [of s 0] IH [of "release s" "live - 1"] show ?thesis
      by (auto simp: gate_run_def count_releases_def)
  next
    case Drain
    with Cons.prems drain_closes [of s] IH [of "drain s" live] show ?thesis
      by (simp add: gate_run_def count_releases_def)
  qed
qed

end

end
