(* ===== verification/Trigger_Gateway.thy ===== *)
theory Trigger_Gateway
  imports Trigger_Security Transition_System Admission
begin

text \<open>
  The request handling of the trigger gateway, \<open>app/trigger/src/main.rs\<close>: admission and
  draining, modes, routing, and the HTTP, TCP and UDP handlers.  A handler returns its answer,
  the new gateway state and the list of calls it made to the inspection service (target path
  and body), in order.  The wall clock is the argument \<open>now\<close>, the network the parameter
  \<open>net\<close>.
\<close>

section \<open>Admission\<close>

definition trigger_draining_json :: json where
  "trigger_draining_json =
     mk_obj [(''code'', jint 503), (''error'', JString ''trigger_draining'')]"

definition gateway_state_unavailable_json :: json where
  "gateway_state_unavailable_json =
     mk_obj [(''code'', jint 503), (''error'', JString ''gateway_state_unavailable'')]"

definition admit_trigger :: "gateway \<Rightarrow> bool \<Rightarrow> (json + unit) \<times> gateway" where
  "admit_trigger st completion =
     (case lock st of
        None \<Rightarrow> (Inl gateway_state_unavailable_json, st)
      | Some g \<Rightarrow>
          if \<not> gw_accepting g \<and> \<not> completion then (Inl trigger_draining_json, st)
          else (case checked_add64 (gw_in_flight g) 1 of
                  None \<Rightarrow> (Inl gateway_state_unavailable_json, st)
                | Some n \<Rightarrow> (Inr (), unlock st (g\<lparr>gw_in_flight := n\<rparr>))))"

text \<open>Dropping a \<open>TriggerAdmissionGuard\<close> (a saturating decrement).\<close>

definition drop_admission_guard :: "gateway \<Rightarrow> gateway" where
  "drop_admission_guard st =
     (case lock st of
        None \<Rightarrow> st
      | Some g \<Rightarrow> unlock st (g\<lparr>gw_in_flight := gw_in_flight g - 1\<rparr>))"

definition completion_target :: "string \<Rightarrow> bool" where
  "completion_target target \<longleftrightarrow> target = ''/api/production/tasks/steel-out''"

definition admission_status_json :: "gateway \<Rightarrow> json" where
  "admission_status_json st =
     (case lock st of
        Some g \<Rightarrow>
          mk_obj [(''accepting'', JBool (gw_accepting g)),
                  (''inFlight'', jint (gw_in_flight g)),
                  (''drained'', JBool (\<not> gw_accepting g \<and> gw_in_flight g = 0))]
      | None \<Rightarrow>
          mk_obj [(''accepting'', JBool False), (''inFlight'', JNull), (''drained'', JBool False),
                  (''error'', JString ''gateway_state_unavailable'')])"

definition enter_drain :: "serde \<Rightarrow> gateway \<Rightarrow> (string + json) \<times> gateway" where
  "enter_drain sd st =
     (case lock st of
        None \<Rightarrow>
          (Inl (json_response sd ''503 Service Unavailable''
             (mk_obj [(''code'', jint 503), (''error'', JString ''gateway_state_unavailable'')])), st)
      | Some g \<Rightarrow>
          (Inr (mk_obj [(''code'', jint 0), (''accepting'', JBool False),
                        (''inFlight'', jint (gw_in_flight g)),
                        (''drained'', JBool (gw_in_flight g = 0))]),
           unlock st (g\<lparr>gw_accepting := False\<rparr>)))"

definition trigger_admission_http_response :: "serde \<Rightarrow> json \<Rightarrow> string" where
  "trigger_admission_http_response sd e = json_response sd ''503 Service Unavailable'' e"

section \<open>Listeners and modes\<close>

definition listeners_ready :: "listener_status \<Rightarrow> bool" where
  "listeners_ready l \<longleftrightarrow>
     (\<not> http_enabled l \<or> http_bound l) \<and> (\<not> tcp_enabled l \<or> tcp_bound l)
     \<and> (\<not> udp_enabled l \<or> udp_bound l)"

definition listeners_to_json :: "listener_status \<Rightarrow> json" where
  "listeners_to_json l =
     mk_obj
       [(''http'', mk_obj [(''enabled'', JBool (http_enabled l)), (''bound'', JBool (http_bound l))]),
        (''tcp'', mk_obj [(''enabled'', JBool (tcp_enabled l)), (''bound'', JBool (tcp_bound l))]),
        (''udp'', mk_obj [(''enabled'', JBool (udp_enabled l)), (''bound'', JBool (udp_bound l))])]"

definition zh_manual :: string where
  "zh_manual = [CHR 0xE6, CHR 0x89, CHR 0x8B, CHR 0xE5, CHR 0x8A, CHR 0xA8]"
definition zh_gray :: string where
  "zh_gray = [CHR 0xE7, CHR 0x81, CHR 0xB0, CHR 0xE5, CHR 0xBA, CHR 0xA6]"
definition zh_secondary :: string where
  "zh_secondary = [CHR 0xE4, CHR 0xBA, CHR 0x8C, CHR 0xE7, CHR 0xBA, CHR 0xA7]"

definition normalize_gateway_mode :: "string \<Rightarrow> string" where
  "normalize_gateway_mode value =
     (let v = to_ascii_lowercase (trim value)
      in if v \<in> {''manual'', zh_manual} then ''manual''
         else if v \<in> {''gray'', ''grey'', ''grayscale'', zh_gray} then ''gray''
         else if v \<in> {''secondary'', ''level2'', ''l2'', zh_secondary} then ''secondary''
         else if v = ''tcp'' then ''tcp''
         else if v = ''udp'' then ''udp''
         else ''api'')"

definition gateway_mode_from_env :: "env_vars \<Rightarrow> string" where
  "gateway_mode_from_env env = normalize_gateway_mode (unwrap_or ''api'' (env ''TRIGGER_MODE''))"

definition current_mode :: "gateway \<Rightarrow> string" where
  "current_mode st = (case lock st of None \<Rightarrow> ''api'' | Some g \<Rightarrow> gw_mode g)"

definition set_current_mode :: "gateway \<Rightarrow> string \<Rightarrow> string \<times> gateway" where
  "set_current_mode st mode =
     (let normalized = normalize_gateway_mode mode
      in (normalized,
          case lock st of None \<Rightarrow> st | Some g \<Rightarrow> unlock st (g\<lparr>gw_mode := normalized\<rparr>)))"

definition mode_label :: "string \<Rightarrow> string" where
  "mode_label mode =
     (if mode = ''manual'' then zh_manual
      else if mode = ''gray'' then zh_gray
      else if mode = ''secondary'' then zh_secondary
      else if mode = ''tcp'' then ''TCP''
      else if mode = ''udp'' then ''UDP''
      else ''API'')"

definition allowed_modes :: "string list" where
  "allowed_modes = [''api'', ''tcp'', ''udp'', ''gray'', ''secondary'', ''manual'']"

definition mode_json_fields :: "string \<Rightarrow> (string \<times> json) list" where
  "mode_json_fields mode =
     [(''code'', jint 0), (''mode'', JString mode), (''modeLabel'', JString (mode_label mode)),
      (''manualAllowed'', JBool (mode = ''manual'')),
      (''allowedModes'', JArray (map JString allowed_modes))]"

definition mode_json :: "string \<Rightarrow> json" where
  "mode_json mode = mk_obj (mode_json_fields mode)"

section \<open>Routing\<close>

definition replace_char :: "char \<Rightarrow> char \<Rightarrow> string \<Rightarrow> string" where
  "replace_char a b s = map (\<lambda>c. if c = a then b else c) s"

definition event_service_path :: "string \<Rightarrow> string option" where
  "event_service_path event =
     (let e = replace_char (CHR ''_'') (CHR ''-'') (to_ascii_lowercase (trim event))
      in if e \<in> {''steel-info'', ''info'', ''material-info''}
         then Some ''/api/production/tasks/steel-info''
         else if e \<in> {''steel-in'', ''in'', ''enter''} then Some ''/api/production/tasks/steel-in''
         else if e \<in> {''steel-out'', ''out'', ''leave''} then Some ''/api/production/tasks/steel-out''
         else if e \<in> {''secondary-data'', ''l2-data''} then Some ''/api/production/secondary-data''
         else if e = ''capture-summary'' then Some ''/api/production/capture-summary''
         else if e = ''capture-once'' then Some ''/api/production/capture-once''
         else if e = ''defect'' then Some ''/api/production/defect''
         else if e \<in> {''event'', ''trigger-event''} then Some ''/api/production/tasks/trigger-event''
         else None)"

definition gateway_source :: "string \<Rightarrow> string" where
  "gateway_source path =
     (if contains_sub ''/plc/'' path then ''plc''
      else if contains_sub ''/l2/'' path then ''l2''
      else ''trigger-gateway'')"

definition service_path_for :: "string \<Rightarrow> string option" where
  "service_path_for path =
     (if path \<in> {''/api/trigger/steel-info'', ''/api/l2/steel-info''}
      then Some ''/api/production/tasks/steel-info''
      else if path \<in> {''/api/trigger/steel-in'', ''/api/plc/steel-in''}
      then Some ''/api/production/tasks/steel-in''
      else if path \<in> {''/api/trigger/steel-out'', ''/api/plc/steel-out''}
      then Some ''/api/production/tasks/steel-out''
      else if path \<in> {''/api/trigger/secondary-data'', ''/api/l2/secondary-data''}
      then Some ''/api/production/secondary-data''
      else if path = ''/api/trigger/capture-summary'' then Some ''/api/production/capture-summary''
      else if path = ''/api/trigger/capture-once'' then Some ''/api/production/capture-once''
      else if path = ''/api/trigger/defect'' then Some ''/api/production/defect''
      else if path \<in> {''/api/trigger/event'', ''/api/plc/event''}
      then Some ''/api/production/tasks/trigger-event''
      else None)"

definition manual_service_path_for :: "string \<Rightarrow> string option" where
  "manual_service_path_for path =
     (if path \<in> {''/api/trigger/manual/steel-info'', ''/api/manual/steel-info''}
      then Some ''/api/production/tasks/steel-info''
      else if path \<in> {''/api/trigger/manual/steel-in'', ''/api/manual/steel-in''}
      then Some ''/api/production/tasks/steel-in''
      else if path \<in> {''/api/trigger/manual/steel-out'', ''/api/manual/steel-out''}
      then Some ''/api/production/tasks/steel-out''
      else None)"

definition manual_mode_required_response :: "serde \<Rightarrow> string \<Rightarrow> string" where
  "manual_mode_required_response sd mode =
     json_response sd ''409 Conflict''
       (mk_obj
          [(''code'', jint 409), (''error'', JString ''manual_mode_required''),
           (''mode'', JString mode), (''manualAllowed'', JBool False),
           (''message'',
            JString ''manual steel-in/out controls are only available when trigger mode is manual'')])"

text \<open>\<open>entry(k).or_insert(v)\<close>: an existing field is kept.\<close>

definition obj_or_insert ::
  "string \<Rightarrow> json \<Rightarrow> (string \<times> json) list \<Rightarrow> (string \<times> json) list" where
  "obj_or_insert k v m = (case map_of m k of None \<Rightarrow> obj_insert k v m | Some _ \<Rightarrow> m)"

definition enriched :: "serde \<Rightarrow> string \<Rightarrow> string \<Rightarrow> string \<Rightarrow> json" where
  "enriched sd body source mode =
     (let payload = from_str_or_empty sd (trim body);
          object = (case as_object payload of
                      Some m \<Rightarrow> m
                    | None \<Rightarrow> obj_of [(''raw'', payload)])
      in JObject (obj_or_insert ''mode'' (JString mode)
                   (obj_or_insert ''source'' (JString source) object)))"

definition enrich_payload :: "serde \<Rightarrow> string \<Rightarrow> string \<Rightarrow> string \<Rightarrow> string" where
  "enrich_payload sd body source mode = to_string sd (enriched sd body source mode)"

section \<open>The runtime of the handlers\<close>

text \<open>
  What a handler reaches outside the gateway state: the JSON codec, the keyed hash, the digest,
  the network, the operator token of the environment, the origin of the inspection service and
  the text of the manual page.
\<close>

record gateway_runtime =
  rt_serde :: serde
  rt_hmac :: hmac_fn
  rt_sha256 :: sha256_fn
  rt_net :: exchange
  rt_token :: "string option"
  rt_origin :: string
  rt_page :: string

datatype service_call = GetCall string | PostCall string string

definition inspection_service_offline :: json where
  "inspection_service_offline =
     mk_obj [(''code'', jint 503), (''error'', JString ''inspection_service_offline'')]"

definition service_post :: "gateway_runtime \<Rightarrow> string \<Rightarrow> string \<Rightarrow> json" where
  "service_post rt target body =
     unwrap_or inspection_service_offline
       (post_json (rt_serde rt) (rt_net rt) (rt_token rt) (rt_origin rt) target body)"

definition service_code :: "json \<Rightarrow> json" where
  "service_code service = jnum (unwrap_or 503 (get_i64 ''code'' service))"

section \<open>The TCP and UDP transports\<close>

definition invalid_payload_json :: json where
  "invalid_payload_json =
     mk_obj [(''code'', jint 400), (''error'', JString ''invalid_payload''),
             (''message'', JString ''trigger payload must be a JSON object'')]"

definition trigger_auth_required_json :: json where
  "trigger_auth_required_json =
     mk_obj [(''code'', jint 401), (''error'', JString ''trigger_auth_required'')]"

definition timestamp_text :: "serde \<Rightarrow> json option \<Rightarrow> string" where
  "timestamp_text sd v =
     (case v of None \<Rightarrow> [] | Some (JString s) \<Rightarrow> s | Some other \<Rightarrow> to_string sd other)"

definition authenticated_network_payload ::
  "serde \<Rightarrow> hmac_fn \<Rightarrow> string \<Rightarrow> string \<Rightarrow> gateway \<Rightarrow> int \<Rightarrow> (json + json) \<times> gateway" where
  "authenticated_network_payload sd hmac body transport st now =
     (case from_str sd (trim body) of
        Inl e \<Rightarrow>
          (Inl (mk_obj [(''code'', jint 400), (''error'', JString ''invalid_json''),
                        (''message'', JString e)]), st)
      | Inr envelope \<Rightarrow>
      if \<not> is_object envelope then (Inl invalid_payload_json, st)
      else
     (case value_get ''payload'' envelope of
        None \<Rightarrow>
          if (case lock st of None \<Rightarrow> True | Some g \<Rightarrow> sec_auth_required (gw_security g))
          then (Inl trigger_auth_required_json, st)
          else (Inr envelope, st)
      | Some payload \<Rightarrow>
      if \<not> is_object payload
      then (Inl (mk_obj [(''code'', jint 400), (''error'', JString ''invalid_trigger_payload'')]), st)
      else
     (case Option.bind (value_get ''auth'' envelope) as_object of
        None \<Rightarrow> (Inl trigger_auth_required_json, st)
      | Some auth \<Rightarrow>
     (case authenticate_message hmac st
             (timestamp_text sd (map_of auth ''timestamp''))
             (unwrap_or [] (Option.bind (map_of auth ''nonce'') as_str))
             (unwrap_or [] (Option.bind (map_of auth ''signature'') as_str))
             transport (to_string sd payload) now of
        (Inl e, st') \<Rightarrow> (Inl (auth_error_response e), st')
      | (Inr _, st') \<Rightarrow> (Inr payload, st')))))"

definition supported_events :: "string list" where
  "supported_events =
     [''steel-info'', ''steel-in'', ''steel-out'', ''secondary-data'', ''capture-once'',
      ''capture-summary'', ''defect'', ''event'']"

definition payload_event :: "json \<Rightarrow> string" where
  "payload_event payload =
     unwrap_or []
       (Option.bind
          (case value_get ''event'' payload of
             Some v \<Rightarrow> Some v
           | None \<Rightarrow> (case value_get ''type'' payload of
                        Some v \<Rightarrow> Some v
                      | None \<Rightarrow> value_get ''action'' payload))
          as_str)"

definition network_trigger_response ::
  "gateway_runtime \<Rightarrow> string \<Rightarrow> string \<Rightarrow> ip_addr \<Rightarrow> int \<Rightarrow> gateway
     \<Rightarrow> json \<times> gateway \<times> service_call list" where
  "network_trigger_response rt body transport peer now st =
     (if \<not> source_allowed st peer
      then (mk_obj [(''code'', jint 403), (''error'', JString ''trigger_source_forbidden'')], st, [])
      else
     (case authenticated_network_payload (rt_serde rt) (rt_hmac rt) body transport st now of
        (Inl e, st1) \<Rightarrow> (e, st1, [])
      | (Inr payload, st1) \<Rightarrow>
     (let event = payload_event payload
      in case event_service_path event of
           None \<Rightarrow>
             (mk_obj [(''code'', jint 400), (''error'', JString ''unsupported_event''),
                      (''event'', JString event),
                      (''supportedEvents'', JArray (map JString supported_events))], st1, [])
         | Some target \<Rightarrow>
     (case admit_trigger st1 (completion_target target) of
        (Inl e, st2) \<Rightarrow> (e, st2, [])
      | (Inr _, st2) \<Rightarrow>
     (let mode = current_mode st2;
          enriched_body = enrich_payload (rt_serde rt) (to_string (rt_serde rt) payload) transport mode;
          service = service_post rt target enriched_body
      in (mk_obj [(''code'', service_code service),
                  (''gateway'', JString ''steel-trigger-gateway''),
                  (''transport'', JString transport), (''mode'', JString mode),
                  (''event'', JString event), (''target'', JString target),
                  (''service'', service)],
          drop_admission_guard st2, [PostCall target enriched_body]))))))"

text \<open>
  A TCP connection: each line with the time it is handled and whether writing the answer
  succeeds.  \<open>ReadErr\<close> is also a line that is not UTF-8.  The loop ends at the end of the stream,
  at a read error and at a failed write.
\<close>

fun handle_tcp_trigger ::
  "gateway_runtime \<Rightarrow> ip_addr \<Rightarrow> (read_result \<times> int \<times> bool) list \<Rightarrow> gateway
     \<Rightarrow> string list \<times> gateway \<times> service_call list" where
  "handle_tcp_trigger rt peer [] st = ([], st, [])"
| "handle_tcp_trigger rt peer ((ReadErr, now, w) # ls) st = ([], st, [])"
| "handle_tcp_trigger rt peer ((ReadBytes line, now, w) # ls) st =
     (if line = [] then ([], st, [])
      else if 65536 < length line \<or> trim line \<noteq> []
      then
       (let (response, st1, calls) =
              (if 65536 < length line
               then (mk_obj [(''code'', jint 413), (''error'', JString ''payload_too_large'')], st, [])
               else network_trigger_response rt line ''tcp'' peer now st)
        in if \<not> w then ([], st1, calls)
           else
            (let (out, st2, calls2) = handle_tcp_trigger rt peer ls st1
             in ((to_string (rt_serde rt) response @ [LF]) # out, st2, calls @ calls2)))
      else handle_tcp_trigger rt peer ls st)"

text \<open>One datagram of the UDP loop.\<close>

definition handle_udp_datagram ::
  "gateway_runtime \<Rightarrow> string \<Rightarrow> ip_addr \<Rightarrow> int \<Rightarrow> gateway \<Rightarrow> json \<times> gateway \<times> service_call list" where
  "handle_udp_datagram rt datagram peer now st =
     (case utf8_error_at 0 datagram of
        None \<Rightarrow> network_trigger_response rt datagram ''udp'' peer now st
      | Some e \<Rightarrow>
          (mk_obj [(''code'', jint 400), (''error'', JString ''invalid_utf8''),
                   (''message'', JString (utf8_error_text e))], st, []))"

section \<open>The HTTP transport\<close>

definition forward_admitted ::
  "gateway_runtime \<Rightarrow> string \<Rightarrow> string \<Rightarrow> string \<Rightarrow> string \<Rightarrow> gateway
     \<Rightarrow> string \<times> gateway \<times> service_call list" where
  "forward_admitted rt target source body mode st =
     (case admit_trigger st (completion_target target) of
        (Inl e, st1) \<Rightarrow> (trigger_admission_http_response (rt_serde rt) e, st1, [])
      | (Inr _, st1) \<Rightarrow>
     (let payload = enrich_payload (rt_serde rt) body source mode;
          service = service_post rt target payload
      in (json_response (rt_serde rt) ''200 OK''
            (mk_obj [(''code'', service_code service),
                     (''gateway'', JString ''steel-trigger-gateway''),
                     (''mode'', JString mode), (''target'', JString target),
                     (''service'', service)]),
          drop_admission_guard st1, [PostCall target payload])))"

definition not_found_response :: string where
  "not_found_response =
     trigger_http_response ''404 Not Found'' json_ct
       (''{'' @ [CHR 0x22] @ ''code'' @ [CHR 0x22] @ '':404,'' @ [CHR 0x22] @ ''error'' @ [CHR 0x22]
        @ '':'' @ [CHR 0x22] @ ''not_found'' @ [CHR 0x22] @ ''}'')"

definition unavailable_listeners :: listener_status where
  "unavailable_listeners =
     \<lparr> http_enabled = True, http_bound = False, tcp_enabled = True, tcp_bound = False,
       udp_enabled = True, udp_bound = False \<rparr>"

definition trigger_status_json :: "json \<Rightarrow> string \<Rightarrow> gateway \<Rightarrow> json" where
  "trigger_status_json service mode st =
     (let listeners = (case lock st of None \<Rightarrow> unavailable_listeners | Some g \<Rightarrow> gw_listeners g);
          admission = admission_status_json st
      in case mode_json mode of
           JObject m \<Rightarrow>
             JObject (foldl (\<lambda>m (k, v). obj_insert k v m) m
               [(''service'', JString ''steel-trigger-gateway''),
                (''gatewayReady'', JBool (listeners_ready listeners)),
                (''listeners'', listeners_to_json listeners),
                (''security'', security_snapshot st),
                (''accepting'', unwrap_or (JBool False) (value_get ''accepting'' admission)),
                (''inFlight'', unwrap_or JNull (value_get ''inFlight'' admission)),
                (''drained'', unwrap_or JNull (value_get ''drained'' admission)),
                (''inspectionServiceHealthy'', JBool (get_i64 ''code'' service = Some 0))])
         | v \<Rightarrow> v)"

definition mode_mutation_response ::
  "gateway_runtime \<Rightarrow> string \<Rightarrow> string \<Rightarrow> ip_addr \<Rightarrow> gateway \<Rightarrow> string \<times> gateway" where
  "mode_mutation_response rt request body peer st =
     (if \<not> (case lock st of None \<Rightarrow> False | Some g \<Rightarrow> sec_allow_mode_mutation (gw_security g))
      then (json_response (rt_serde rt) ''423 Locked''
              (mk_obj [(''code'', jint 423), (''error'', JString ''trigger_mode_locked'')]), st)
      else
     (case authorize_operator_request (rt_serde rt) (rt_sha256 rt) request peer st of
        Inl response \<Rightarrow> (response, st)
      | Inr _ \<Rightarrow>
     (let requested = unwrap_or ''api'' (Option.bind (from_str_ok (rt_serde rt) body) (get_str ''mode''));
          (mode, st1) = set_current_mode st requested
      in (json_response (rt_serde rt) ''200 OK'' (mode_json mode), st1))))"

definition drain_response ::
  "gateway_runtime \<Rightarrow> string \<Rightarrow> ip_addr \<Rightarrow> gateway \<Rightarrow> string \<times> gateway" where
  "drain_response rt request peer st =
     (case authorize_operator_request (rt_serde rt) (rt_sha256 rt) request peer st of
        Inl response \<Rightarrow> (response, st)
      | Inr _ \<Rightarrow>
     (case enter_drain (rt_serde rt) st of
        (Inl response, st1) \<Rightarrow> (response, st1)
      | (Inr status, st1) \<Rightarrow> (json_response (rt_serde rt) ''200 OK'' status, st1)))"

definition manual_page_response :: "gateway_runtime \<Rightarrow> ip_addr \<Rightarrow> gateway \<Rightarrow> string" where
  "manual_page_response rt peer st =
     (let production = (case lock st of None \<Rightarrow> True | Some g \<Rightarrow> sec_production (gw_security g))
      in if is_loopback peer \<and> \<not> production
         then trigger_http_response ''200 OK'' ''text/html; charset=utf-8'' (rt_page rt)
         else json_response (rt_serde rt) ''403 Forbidden''
                (mk_obj [(''code'', jint 403), (''error'', JString ''local_operator_only'')]))"

definition trigger_post_response ::
  "gateway_runtime \<Rightarrow> string \<Rightarrow> string \<Rightarrow> string \<Rightarrow> string \<Rightarrow> ip_addr \<Rightarrow> int \<Rightarrow> gateway
     \<Rightarrow> string \<times> gateway \<times> service_call list" where
  "trigger_post_response rt request path body mode peer now st =
     (case manual_service_path_for path of
        Some target \<Rightarrow>
          (case authorize_operator_request (rt_serde rt) (rt_sha256 rt) request peer st of
             Inl response \<Rightarrow> (response, st, [])
           | Inr _ \<Rightarrow>
               if mode \<noteq> ''manual'' then (manual_mode_required_response (rt_serde rt) mode, st, [])
               else forward_admitted rt target ''manual'' body mode st)
      | None \<Rightarrow>
     (case service_path_for path of
        Some target \<Rightarrow>
          (case authorize_http_trigger (rt_serde rt) (rt_hmac rt) (rt_sha256 rt) request body peer now st of
             (Inl response, st1) \<Rightarrow> (response, st1, [])
           | (Inr _, st1) \<Rightarrow> forward_admitted rt target (gateway_source path) body mode st1)
      | None \<Rightarrow> (not_found_response, st, [])))"

definition request_method :: "string \<Rightarrow> string" where
  "request_method request = nth_or_empty (split_whitespace (nth_or_empty (str_lines request) 0)) 0"

definition request_path :: "string \<Rightarrow> string" where
  "request_path request =
     fst (split_path_and_query
            (nth_or_empty (split_whitespace (nth_or_empty (str_lines request) 0)) 1))"

definition request_body :: "string \<Rightarrow> string" where
  "request_body request =
     (case split_once_str (crlf @ crlf) request of None \<Rightarrow> [] | Some (_, body) \<Rightarrow> body)"

definition route_request ::
  "gateway_runtime \<Rightarrow> string \<Rightarrow> ip_addr \<Rightarrow> int \<Rightarrow> gateway \<Rightarrow> string \<times> gateway \<times> service_call list" where
  "route_request rt request peer now st =
     (let method = request_method request; path = request_path request;
          body = request_body request; mode = current_mode st
      in if method = ''OPTIONS'' then (trigger_http_response ''204 No Content'' json_ct [], st, [])
         else if method = ''GET'' \<and> path \<in> {''/'', ''/manual''}
         then (manual_page_response rt peer st, st, [])
         else if method = ''GET'' \<and> path = ''/api/trigger/mode''
         then (json_response (rt_serde rt) ''200 OK'' (mode_json mode), st, [])
         else if method = ''POST'' \<and> path = ''/api/trigger/mode''
         then (let (r, st1) = mode_mutation_response rt request body peer st in (r, st1, []))
         else if method = ''POST'' \<and> path = ''/api/trigger/drain''
         then (let (r, st1) = drain_response rt request peer st in (r, st1, []))
         else if method = ''GET'' \<and> path \<in> {''/health'', ''/api/trigger/status''}
         then (let service = unwrap_or inspection_service_offline
                     (get_json (rt_serde rt) (rt_net rt) (rt_origin rt) ''/api/production/status'')
               in (json_response (rt_serde rt) ''200 OK'' (trigger_status_json service mode st), st,
                   [GetCall ''/api/production/status'']))
         else if method = ''POST'' then trigger_post_response rt request path body mode peer now st
         else (not_found_response, st, []))"

definition handle_client ::
  "gateway_runtime \<Rightarrow> ip_addr option \<Rightarrow> read_result list \<Rightarrow> int \<Rightarrow> gateway
     \<Rightarrow> string option \<times> gateway \<times> service_call list" where
  "handle_client rt peer_addr reads now st =
     (case peer_addr of
        None \<Rightarrow> (None, st, [])
      | Some peer \<Rightarrow>
     (case read_http_request reads of
        None \<Rightarrow> (None, st, [])
      | Some request \<Rightarrow>
     (let (response, st1, calls) = route_request rt request peer now st
      in (Some response, st1, calls))))"

section \<open>Start-up\<close>

definition service_origin :: "env_vars \<Rightarrow> string" where
  "service_origin env = unwrap_or ''http://127.0.0.1:4873'' (env ''INSPECTION_SERVICE_ORIGIN'')"

definition gateway_host :: "env_vars \<Rightarrow> string" where
  "gateway_host env = unwrap_or ''127.0.0.1'' (env ''TRIGGER_GATEWAY_HOST'')"

definition gateway_port :: "env_vars \<Rightarrow> string \<Rightarrow> nat \<Rightarrow> nat" where
  "gateway_port env name dflt = unwrap_or dflt (Option.bind (env name) parse_u16)"

definition bind_listener ::
  "string \<Rightarrow> (string \<Rightarrow> nat \<Rightarrow> string option) \<Rightarrow> string \<Rightarrow> nat \<Rightarrow> string + unit" where
  "bind_listener kind bind host port =
     (case bind host port of
        None \<Rightarrow> Inr ()
      | Some e \<Rightarrow> Inl (''failed to bind '' @ kind @ '' trigger listener '' @ host @ '':'' @ show_nat port
                     @ '': '' @ e))"

text \<open>
  The start of \<open>main\<close> up to the accept loop; the \<open>bind\<close> functions give the error of the
  operating system, if any, for a host and port.
\<close>

definition gateway_start ::
  "env_vars \<Rightarrow> (string \<Rightarrow> nat \<Rightarrow> string option) \<Rightarrow> (string \<Rightarrow> nat \<Rightarrow> string option)
     \<Rightarrow> string + gateway" where
  "gateway_start env bind_tcp bind_udp =
     (let port = gateway_port env ''TRIGGER_GATEWAY_PORT'' 4881;
          tcp_port = gateway_port env ''TRIGGER_TCP_PORT'' 4882;
          udp_port = gateway_port env ''TRIGGER_UDP_PORT'' 4883;
          host = gateway_host env
      in case security_config_from_env env host of
           Inl e \<Rightarrow> Inl e
         | Inr security \<Rightarrow>
      (case (if tcp_port = 0 then Inr () else bind_listener ''TCP'' bind_tcp host tcp_port) of
         Inl e \<Rightarrow> Inl e
       | Inr _ \<Rightarrow>
      (case (if udp_port = 0 then Inr () else bind_listener ''UDP'' bind_udp host udp_port) of
         Inl e \<Rightarrow> Inl e
       | Inr _ \<Rightarrow>
      (case bind_listener ''HTTP'' bind_tcp host port of
         Inl e \<Rightarrow> Inl e
       | Inr _ \<Rightarrow>
           Inr (Mutex False
             \<lparr> gw_mode = gateway_mode_from_env env, gw_accepting = True, gw_in_flight = 0,
               gw_security = security, gw_replay_nonces = [],
               gw_listeners =
                 \<lparr> http_enabled = (port \<noteq> 0), http_bound = True,
                   tcp_enabled = (tcp_port \<noteq> 0), tcp_bound = (tcp_port \<noteq> 0),
                   udp_enabled = (udp_port \<noteq> 0), udp_bound = (udp_port \<noteq> 0) \<rparr> \<rparr>)))))"

end
