(* ===== verification/Trigger_Safety.thy ===== *)
theory Trigger_Safety
  imports Trigger_Gateway
begin

text \<open>
  What the trigger gateway guarantees: its lock-level transition system and invariant, that
  every handler is a run of that system, which requests reach the inspection service, and that
  draining ends.
\<close>

section \<open>The transition system of the gateway\<close>

text \<open>
  The atomic operations on the shared state, with the number of admission guards alive.  The
  threads of the gateway interleave them in any order.  \<open>gw_panic\<close> is a panic of a thread that
  holds the lock.
\<close>

inductive gateway_step :: "serde \<Rightarrow> hmac_fn \<Rightarrow> gateway \<times> nat \<Rightarrow> gateway \<times> nat \<Rightarrow> bool"
  for sd hmac
where
  gw_admit: "admit_trigger st c = (Inr (), st') \<Longrightarrow> gateway_step sd hmac (st, n) (st', n + 1)"
| gw_release: "gateway_step sd hmac (st, Suc n) (drop_admission_guard st, n)"
| gw_drain: "gateway_step sd hmac (st, n) (snd (enter_drain sd st), n)"
| gw_set_mode: "gateway_step sd hmac (st, n) (snd (set_current_mode st m), n)"
| gw_authenticate: "gateway_step sd hmac (st, n) (snd (auth_step hmac st c), n)"
| gw_panic: "gateway_step sd hmac (st, n) (Mutex True (mx_value st), n)"

definition gateway_init :: "gateway \<times> nat \<Rightarrow> bool" where
  "gateway_init s \<longleftrightarrow>
     snd s = 0 \<and> (\<exists>env bind_tcp bind_udp. gateway_start env bind_tcp bind_udp = Inr (fst s))"

definition gateway_inv :: "gateway \<times> nat \<Rightarrow> bool" where
  "gateway_inv s \<longleftrightarrow>
     (let g = mx_value (fst s)
      in gw_mode g \<in> set allowed_modes
         \<and> config_ok (gw_security g)
         \<and> replay_cache_ok g
         \<and> listeners_ready (gw_listeners g)
         \<and> snd s \<le> gw_in_flight g
         \<and> (\<not> mx_poisoned (fst s) \<longrightarrow> gw_in_flight g = snd s))"

text \<open>
  The specification of an authentic message: dated within the window, with a well-formed nonce
  that no accepted message of the window used, and signed with the shared secret.
\<close>

definition authentic ::
  "hmac_fn \<Rightarrow> gateway_state \<Rightarrow> string \<Rightarrow> string \<Rightarrow> string \<Rightarrow> string \<Rightarrow> string \<Rightarrow> int \<Rightarrow> bool" where
  "authentic hmac g ts nonce sig tr body now \<longleftrightarrow>
     (\<exists>v. parse_i64 ts = Some v \<and> \<bar>now - v\<bar> \<le> sec_auth_window_seconds (gw_security g))
     \<and> valid_nonce nonce
     \<and> (\<forall>(n, t)\<in>set (gw_replay_nonces g).
          n = nonce \<longrightarrow> t < now - sec_auth_window_seconds (gw_security g))
     \<and> decode_hex sig \<noteq> None
     \<and> hmac (sec_shared_secret (gw_security g)) (signature_message ts nonce tr body) = decode_hex sig"

section \<open>Lemmas\<close>

lemma admit_trigger_accepted:
  assumes "admit_trigger st c = (Inr (), st')"
  shows "\<exists>g. st = Mutex False g \<and> (gw_accepting g \<or> c) \<and> gw_in_flight g < u64_max
    \<and> st' = Mutex False (g\<lparr>gw_in_flight := gw_in_flight g + 1\<rparr>)"
  using assms
  by (auto simp: admit_trigger_def lock_Some checked_add64_def unlock_def
      split: option.splits if_splits)

lemma admit_trigger_refused: "admit_trigger st c = (Inl e, st') \<Longrightarrow> st' = st"
  by (auto simp: admit_trigger_def split: option.splits if_splits)

lemma normalize_gateway_mode_allowed: "normalize_gateway_mode m \<in> set allowed_modes"
  by (simp add: normalize_gateway_mode_def allowed_modes_def Let_def)

lemma gateway_start_inv:
  assumes "gateway_start env bind_tcp bind_udp = Inr st"
  shows "gateway_inv (st, 0)"
proof -
  obtain sec where sec: "security_config_from_env env (gateway_host env) = Inr sec"
    using assms by (auto simp: gateway_start_def Let_def split: sum.splits)
  have "config_ok sec" by (rule security_config_from_env_ok [OF sec])
  with assms sec show ?thesis
    by (auto simp: gateway_start_def gateway_inv_def Let_def gateway_mode_from_env_def
        normalize_gateway_mode_allowed replay_cache_ok_def listeners_ready_def
        split: sum.splits if_splits)
qed

lemma auth_step_frame:
  "mx_poisoned (snd (auth_step hmac st c)) = mx_poisoned st
    \<and> (\<exists>rc. mx_value (snd (auth_step hmac st c)) = (mx_value st)\<lparr>gw_replay_nonces := rc\<rparr>)"
  unfolding auth_step_def by (rule authenticate_message_frame [OF surjective_pairing])

lemma gateway_step_inv:
  assumes "gateway_step sd hmac s t" and "gateway_inv s"
  shows "gateway_inv t"
  using assms
proof (cases rule: gateway_step.cases)
  case (gw_admit st c st' n)
  from admit_trigger_accepted [OF gw_admit(3)] gw_admit(1,2) assms(2) show ?thesis
    by (auto simp: gateway_inv_def replay_cache_ok_def Let_def)
next
  case (gw_release st n)
  with assms(2) show ?thesis
    by (auto simp: gateway_inv_def replay_cache_ok_def Let_def drop_admission_guard_def lock_def
        unlock_def)
next
  case (gw_drain st n)
  with assms(2) show ?thesis
    by (auto simp: gateway_inv_def replay_cache_ok_def Let_def enter_drain_def lock_def unlock_def)
next
  case (gw_set_mode st n m)
  with assms(2) show ?thesis
    by (auto simp: gateway_inv_def replay_cache_ok_def Let_def set_current_mode_def lock_def
        unlock_def normalize_gateway_mode_allowed)
next
  case (gw_authenticate st n c)
  have "replay_cache_ok (mx_value st) \<Longrightarrow> replay_cache_ok (mx_value (snd (auth_step hmac st c)))"
    by (rule auth_step_cache_ok)
  with gw_authenticate assms(2) auth_step_frame [of hmac st c] show ?thesis
    by (auto simp: gateway_inv_def Let_def)
next
  case (gw_panic st n)
  with assms(2) show ?thesis by (simp add: gateway_inv_def Let_def)
qed

interpretation gw: inductive_invariant gateway_init "gateway_step sd hmac" gateway_inv
  for sd hmac
proof unfold_locales
  fix s assume "gateway_init s"
  then show "gateway_inv s"
    using gateway_start_inv by (cases s) (auto simp: gateway_init_def)
next
  fix s t assume "gateway_step sd hmac s t" "gateway_inv s"
  then show "gateway_inv t" by (rule gateway_step_inv)
qed

interpretation tg: admission_gate
  "\<lambda>st :: gateway. \<not> mx_poisoned st" "\<lambda>st. gw_accepting (mx_value st)"
  "\<lambda>st. gw_in_flight (mx_value st)" completion_target
  "\<lambda>st target. case admit_trigger st (completion_target target) of
     (Inl _, _) \<Rightarrow> None | (Inr _, st') \<Rightarrow> Some st'"
  drop_admission_guard "\<lambda>st. snd (enter_drain sd st)"
  for sd
  by unfold_locales
    (auto simp: admit_trigger_def drop_admission_guard_def enter_drain_def lock_def unlock_def
      checked_add64_def split: sum.splits if_splits option.splits)

section \<open>Handlers are runs of the transition system\<close>

abbreviation gateway_steps :: "gateway_runtime \<Rightarrow> gateway \<times> nat \<Rightarrow> gateway \<times> nat \<Rightarrow> bool" where
  "gateway_steps rt \<equiv> (gateway_step (rt_serde rt) (rt_hmac rt))\<^sup>*\<^sup>*"

lemma authenticate_message_steps:
  assumes "authenticate_message (rt_hmac rt) st ts nonce sig tr body now = (r, st')"
  shows "gateway_steps rt (st, n) (st', n)"
proof -
  let ?c = "\<lparr>ac_timestamp = ts, ac_nonce = nonce, ac_signature = sig, ac_transport = tr,
    ac_body = body, ac_now = now\<rparr>"
  have "snd (auth_step (rt_hmac rt) st ?c) = st'" using assms by (simp add: auth_step_def)
  with gw_authenticate [of "rt_serde rt" "rt_hmac rt" st n ?c] show ?thesis by simp
qed

lemma admit_release_steps:
  assumes "admit_trigger st c = (Inr (), st')"
  shows "gateway_steps rt (st, n) (drop_admission_guard st', n)"
proof -
  from gw_admit [OF assms]
  have "gateway_step (rt_serde rt) (rt_hmac rt) (st, n) (st', Suc n)" by simp
  moreover have "gateway_step (rt_serde rt) (rt_hmac rt) (st', Suc n) (drop_admission_guard st', n)"
    by (rule gw_release)
  ultimately show ?thesis by (rule converse_rtranclp_into_rtranclp [OF _ r_into_rtranclp])
qed

lemma authenticated_network_payload_steps:
  assumes "authenticated_network_payload (rt_serde rt) (rt_hmac rt) body tr st now = (r, st')"
  shows "gateway_steps rt (st, n) (st', n)"
  using assms unfolding authenticated_network_payload_def
  by (auto split: sum.splits option.splits if_splits prod.splits
      intro: authenticate_message_steps)

lemma network_trigger_steps:
  assumes "network_trigger_response rt body tr peer now st = (r, st', calls)"
  shows "gateway_steps rt (st, n) (st', n)"
proof -
  obtain p st1 where p: "authenticated_network_payload (rt_serde rt) (rt_hmac rt) body tr st now
      = (p, st1)" by fastforce
  have s1: "gateway_steps rt (st, n) (st1, n)" by (rule authenticated_network_payload_steps [OF p])
  have "st' = st \<or> st' = st1 \<or> (\<exists>c st2. admit_trigger st1 c = (Inr (), st2)
      \<and> st' = drop_admission_guard st2)"
    using assms p unfolding network_trigger_response_def
    by (auto simp: Let_def split: if_splits sum.splits option.splits prod.splits
        dest: admit_trigger_refused)
  with s1 show ?thesis by (auto intro: rtranclp_trans admit_release_steps)
qed

lemma handle_tcp_steps:
  "handle_tcp_trigger rt peer ls st = (out, st', calls) \<Longrightarrow> gateway_steps rt (st, n) (st', n)"
proof (induction rt peer ls st arbitrary: out st' calls rule: handle_tcp_trigger.induct)
  case (3 rt peer line now w ls st)
  let ?ans = "if 65536 < length line
      then (mk_obj [(''code'', jint 413), (''error'', JString ''payload_too_large'')], st, [])
      else network_trigger_response rt line ''tcp'' peer now st"
  obtain response st1 calls1 where a: "?ans = (response, st1, calls1)" by (cases ?ans) auto
  have s1: "gateway_steps rt (st, n) (st1, n)"
    using a by (auto split: if_splits intro: network_trigger_steps)
  obtain o2 st2 calls2 where b: "handle_tcp_trigger rt peer ls st1 = (o2, st2, calls2)"
    by (cases "handle_tcp_trigger rt peer ls st1") auto
  show ?case
  proof (cases "line = [] \<or> 65536 \<ge> length line \<and> trim line = []")
    case True
    with "3.prems" "3.IH"(2) show ?thesis by (auto split: if_splits)
  next
    case False
    have s2: "gateway_steps rt (st1, n) (st2, n)" if w
      using "3.IH"(1) [OF _ _ a [symmetric]] False that b by auto
    from False "3.prems" a b have "st' = (if w then st2 else st1)"
      by (auto simp: Let_def split: if_splits)
    with s1 s2 show ?thesis by (auto intro: rtranclp_trans)
  qed
qed auto

lemma forward_admitted_steps:
  assumes "forward_admitted rt target source body mode st = (r, st', calls)"
  shows "gateway_steps rt (st, n) (st', n)"
proof -
  have "st' = st \<or> (\<exists>st1. admit_trigger st (completion_target target) = (Inr (), st1)
      \<and> st' = drop_admission_guard st1)"
    using assms unfolding forward_admitted_def
    by (auto simp: Let_def split: sum.splits prod.splits dest: admit_trigger_refused)
  then show ?thesis by (auto intro: admit_release_steps)
qed

lemma authorize_http_trigger_steps:
  assumes "authorize_http_trigger (rt_serde rt) (rt_hmac rt) sha256 request body peer now st = (r, st')"
  shows "gateway_steps rt (st, n) (st', n)"
  using assms unfolding authorize_http_trigger_def
  by (auto simp: Let_def split: if_splits sum.splits prod.splits intro: authenticate_message_steps)

lemma trigger_post_steps:
  assumes "trigger_post_response rt request path body mode peer now st = (r, st', calls)"
  shows "gateway_steps rt (st, n) (st', n)"
proof (cases "manual_service_path_for path")
  case None
  obtain q st1 where q: "authorize_http_trigger (rt_serde rt) (rt_hmac rt) (rt_sha256 rt)
      request body peer now st = (q, st1)" by fastforce
  have s1: "gateway_steps rt (st, n) (st1, n)" by (rule authorize_http_trigger_steps [OF q])
  show ?thesis
    using assms None q s1 unfolding trigger_post_response_def
    by (auto split: option.splits sum.splits intro: rtranclp_trans forward_admitted_steps)
next
  case (Some target)
  with assms show ?thesis
    unfolding trigger_post_response_def
    by (auto split: sum.splits if_splits intro: forward_admitted_steps)
qed

lemma mode_mutation_steps:
  "gateway_steps rt (st, n) (snd (mode_mutation_response rt request body peer st), n)"
  unfolding mode_mutation_response_def
  by (auto simp: Let_def split: sum.splits prod.splits intro: r_into_rtranclp)
    (metis gw_set_mode r_into_rtranclp snd_conv)

lemma drain_steps: "gateway_steps rt (st, n) (snd (drain_response rt request peer st), n)"
  unfolding drain_response_def
  by (auto split: sum.splits prod.splits) (metis gw_drain r_into_rtranclp snd_conv)+

lemma route_request_steps:
  assumes "route_request rt request peer now st = (r, st', calls)"
  shows "gateway_steps rt (st, n) (st', n)"
proof -
  have "st' = st \<or> st' = snd (mode_mutation_response rt request (request_body request) peer st)
      \<or> st' = snd (drain_response rt request peer st)
      \<or> trigger_post_response rt request (request_path request) (request_body request)
           (current_mode st) peer now st = (r, st', calls)"
    using assms unfolding route_request_def
    by (auto simp: Let_def split: if_splits prod.splits)
  then show ?thesis
    by (auto intro: mode_mutation_steps drain_steps trigger_post_steps)
qed

section \<open>Which requests are forwarded\<close>

lemma forward_admitted_calls:
  assumes "forward_admitted rt target source body mode st = (r, st', calls)"
    and "PostCall t b \<in> set calls"
  shows "t = target \<and> b = enrich_payload (rt_serde rt) body source mode \<and> calls = [PostCall t b]
    \<and> (\<exists>g. lock st = Some g \<and> (gw_accepting g \<or> completion_target target))"
  using assms unfolding forward_admitted_def
  by (auto simp: Let_def lock_Some split: sum.splits prod.splits dest: admit_trigger_accepted)

lemma route_request_calls:
  assumes "route_request rt request peer now st = (r, st', calls)" and "PostCall t b \<in> set calls"
  shows "request_method request = ''POST''
    \<and> trigger_post_response rt request (request_path request) (request_body request)
           (current_mode st) peer now st = (r, st', calls)"
  using assms unfolding route_request_def
  by (auto simp: Let_def split: if_splits prod.splits)

lemma authorize_operator_request_accepted:
  assumes "authorize_operator_request sd sha256 request peer st = Inr u"
  shows "\<exists>g. lock st = Some g \<and> is_loopback peer
    \<and> (sec_production (gw_security g) \<longrightarrow>
         (\<exists>token. request_header request ''X-Trigger-Operator-Token'' = Some token
            \<and> constant_time_token_matches sha256 (sec_operator_token (gw_security g)) token))"
  using assms unfolding authorize_operator_request_def
  by (auto simp: Let_def unwrap_or_def split: if_splits option.splits)

lemma authorize_http_trigger_frame:
  assumes "authorize_http_trigger sd hmac sha256 request body peer now st = (r, st')"
  shows "mx_poisoned st' = mx_poisoned st
    \<and> (\<exists>c. mx_value st' = (mx_value st)\<lparr>gw_replay_nonces := c\<rparr>)"
  using assms unfolding authorize_http_trigger_def
  by (auto simp: Let_def split: if_splits sum.splits prod.splits
      dest: authenticate_message_frame intro: exI [of _ "gw_replay_nonces (mx_value st)"])

lemma authenticated_network_payload_frame:
  assumes "authenticated_network_payload sd hmac body tr st now = (r, st')"
  shows "mx_poisoned st' = mx_poisoned st
    \<and> (\<exists>c. mx_value st' = (mx_value st)\<lparr>gw_replay_nonces := c\<rparr>)"
  using assms unfolding authenticated_network_payload_def
  by (auto split: if_splits sum.splits prod.splits option.splits
      dest: authenticate_message_frame intro: exI [of _ "gw_replay_nonces (mx_value st)"])

lemma manual_post_calls:
  assumes "trigger_post_response rt request path body mode peer now st = (r, st', calls)"
    and "PostCall t b \<in> set calls" and "manual_service_path_for path = Some target"
  shows "t = target \<and> mode = ''manual'' \<and> calls = [PostCall t b]
    \<and> authorize_operator_request (rt_serde rt) (rt_sha256 rt) request peer st = Inr ()
    \<and> b = enrich_payload (rt_serde rt) body ''manual'' mode
    \<and> (\<exists>g. lock st = Some g \<and> (gw_accepting g \<or> completion_target t))"
proof -
  from assms have
    "authorize_operator_request (rt_serde rt) (rt_sha256 rt) request peer st = Inr ()"
    "mode = ''manual''" "forward_admitted rt target ''manual'' body mode st = (r, st', calls)"
    unfolding trigger_post_response_def by (auto split: sum.splits if_splits)
  with forward_admitted_calls [OF this(3) assms(2)] show ?thesis by auto
qed

lemma service_post_calls:
  assumes "trigger_post_response rt request path body mode peer now st = (r, st', calls)"
    and "PostCall t b \<in> set calls" and "manual_service_path_for path = None"
  shows "service_path_for path = Some t \<and> calls = [PostCall t b]
    \<and> b = enrich_payload (rt_serde rt) body (gateway_source path) mode
    \<and> (\<exists>st1. authorize_http_trigger (rt_serde rt) (rt_hmac rt) (rt_sha256 rt) request body peer now st
              = (Inr (), st1))
    \<and> (\<exists>g. lock st = Some g \<and> (gw_accepting g \<or> completion_target t))"
proof -
  from assms obtain target st1 where a: "service_path_for path = Some target"
    "authorize_http_trigger (rt_serde rt) (rt_hmac rt) (rt_sha256 rt) request body peer now st
       = (Inr (), st1)"
    "forward_admitted rt target (gateway_source path) body mode st1 = (r, st', calls)"
    unfolding trigger_post_response_def by (auto split: sum.splits option.splits prod.splits)
  from forward_admitted_calls [OF a(3) assms(2)] authorize_http_trigger_frame [OF a(2)] a
  show ?thesis by (cases st; cases st1) (auto simp: lock_Some)
qed

lemma network_calls:
  assumes "network_trigger_response rt body tr peer now st = (r, st', calls)"
    and "PostCall t b \<in> set calls"
  shows "\<exists>g payload st1. lock st = Some g \<and> config_source_allowed (gw_security g) peer
    \<and> authenticated_network_payload (rt_serde rt) (rt_hmac rt) body tr st now = (Inr payload, st1)
    \<and> event_service_path (payload_event payload) = Some t
    \<and> b = enrich_payload (rt_serde rt) (to_string (rt_serde rt) payload) tr (gw_mode g)
    \<and> (gw_accepting g \<or> completion_target t) \<and> calls = [PostCall t b]"
proof -
  from assms obtain payload st1 target st2 where
    a: "source_allowed st peer"
      "authenticated_network_payload (rt_serde rt) (rt_hmac rt) body tr st now = (Inr payload, st1)"
      "event_service_path (payload_event payload) = Some target"
      "admit_trigger st1 (completion_target target) = (Inr (), st2)"
      "calls = [PostCall target (enrich_payload (rt_serde rt) (to_string (rt_serde rt) payload) tr
         (current_mode st2))]"
    unfolding network_trigger_response_def
    by (auto simp: Let_def split: sum.splits option.splits prod.splits if_splits)
  from admit_trigger_accepted [OF a(4)] authenticated_network_payload_frame [OF a(2)] a assms(2)
  show ?thesis
    by (cases st) (auto simp: lock_def source_allowed_def current_mode_def)
qed

lemma network_payload_authenticated:
  assumes "authenticated_network_payload sd hmac body tr st now = (Inr payload, st1)"
    and "lock st = Some g" and "sec_auth_required (gw_security g)"
  shows "\<exists>m auth. from_str sd (trim body) = Inr (JObject m)
    \<and> map_of m ''payload'' = Some payload \<and> map_of m ''auth'' = Some (JObject auth)
    \<and> authenticate_message hmac st (timestamp_text sd (map_of auth ''timestamp''))
        (unwrap_or [] (Option.bind (map_of auth ''nonce'') as_str))
        (unwrap_or [] (Option.bind (map_of auth ''signature'') as_str))
        tr (to_string sd payload) now = (Inr (), st1)"
proof -
  have obj: "as_object v = Some m \<longleftrightarrow> v = JObject m" for v m by (cases v) auto
  show ?thesis
    using assms unfolding authenticated_network_payload_def
    by (auto simp: is_object_conv obj bind_eq_Some_conv split: sum.splits option.splits if_splits prod.splits)
qed

lemma authenticate_message_authentic:
  assumes "authenticate_message hmac st ts nonce sig tr body now = (Inr (), st')"
    and "lock st = Some g" and "config_ok (gw_security g)" and "sec_auth_required (gw_security g)"
  shows "authentic hmac g ts nonce sig tr body now"
proof -
  have "as_u64_cast (sec_auth_window_seconds (gw_security g)) = nat (sec_auth_window_seconds (gw_security g))"
    using assms(3) by (auto simp: config_ok_def as_u64_cast_def)
  with authenticate_accept [OF assms(1,2,4)] assms(3) show ?thesis
    by (auto simp: authentic_def config_ok_def nat_le_iff)
qed

section \<open>Draining is permanent\<close>

definition gateway_closed :: "gateway \<times> nat \<Rightarrow> bool" where
  "gateway_closed s \<longleftrightarrow> \<not> gw_accepting (mx_value (fst s))"

lemma gateway_step_closed:
  assumes "gateway_step sd hmac s t" and "gateway_closed s"
  shows "gateway_closed t"
  using assms
proof (cases rule: gateway_step.cases)
  case (gw_admit st c st' n)
  with admit_trigger_accepted [OF gw_admit(3)] assms(2) show ?thesis
    by (auto simp: gateway_closed_def)
next
  case (gw_authenticate st n c)
  with auth_step_frame [of hmac st c] assms(2) show ?thesis by (auto simp: gateway_closed_def)
qed (use assms(2) in \<open>auto simp: gateway_closed_def drop_admission_guard_def enter_drain_def
       set_current_mode_def Let_def lock_def unlock_def\<close>)

interpretation gwc: inductive_invariant gateway_closed "gateway_step sd hmac" gateway_closed
  for sd hmac
  by unfold_locales (auto intro: gateway_step_closed)

lemma closed_steps: "gateway_steps rt (st, n) (st', n) \<Longrightarrow> gateway_closed (st, n) \<Longrightarrow> gateway_closed (st', n)"
  by (rule gwc.steps_inv)

lemma network_closed_calls:
  assumes "network_trigger_response rt body tr peer now st = (r, st', calls)"
    and "PostCall t b \<in> set calls" and "gateway_closed (st, n)"
  shows "completion_target t"
  using network_calls [OF assms(1,2)] assms(3) by (auto simp: gateway_closed_def lock_Some)

lemma tcp_closed_calls:
  "handle_tcp_trigger rt peer ls st = (out, st', calls) \<Longrightarrow> PostCall t b \<in> set calls
     \<Longrightarrow> gateway_closed (st, n) \<Longrightarrow> completion_target t"
proof (induction rt peer ls st arbitrary: out st' calls rule: handle_tcp_trigger.induct)
  case (3 rt peer line now w ls st)
  let ?ans = "if 65536 < length line
      then (mk_obj [(''code'', jint 413), (''error'', JString ''payload_too_large'')], st, [])
      else network_trigger_response rt line ''tcp'' peer now st"
  obtain response st1 calls1 where a: "?ans = (response, st1, calls1)" by (cases ?ans) auto
  have c1: "gateway_closed (st1, n)"
    using a "3.prems"(3)
    by (auto split: if_splits intro: closed_steps network_trigger_steps)
  have k1: "completion_target t" if "PostCall t b \<in> set calls1"
    using a that network_closed_calls [OF _ that "3.prems"(3)] by (auto split: if_splits)
  obtain o2 st2 calls2 where b: "handle_tcp_trigger rt peer ls st1 = (o2, st2, calls2)"
    by (cases "handle_tcp_trigger rt peer ls st1") auto
  show ?case
  proof (cases "line = [] \<or> 65536 \<ge> length line \<and> trim line = []")
    case True
    with "3.prems" "3.IH"(2) show ?thesis by (auto split: if_splits)
  next
    case False
    have k2: "completion_target t" if w "PostCall t b \<in> set calls2"
      using "3.IH"(1) [OF _ _ a [symmetric]] False that b c1 by auto
    from False "3.prems" a b have "calls = (if w then calls1 @ calls2 else calls1)"
      by (auto simp: Let_def split: if_splits)
    with k1 k2 "3.prems"(2) show ?thesis by (auto split: if_splits)
  qed
qed auto

lemma client_closed_calls:
  assumes "handle_client rt peer_addr reads now st = (r, st', calls)"
    and "PostCall t b \<in> set calls" and "gateway_closed (st, n)"
  shows "completion_target t"
proof -
  obtain peer request r' where route: "route_request rt request peer now st = (r', st', calls)"
    using assms(1,2) by (auto simp: handle_client_def split: prod.splits option.splits)
  note post = route_request_calls [OF route assms(2), THEN conjunct2]
  show ?thesis
  proof (cases "manual_service_path_for (request_path request)")
    case None
    from service_post_calls [OF post assms(2) None] assms(3) show ?thesis
      by (auto simp: gateway_closed_def lock_Some)
  next
    case (Some m)
    from manual_post_calls [OF post assms(2) Some] assms(3) show ?thesis
      by (auto simp: gateway_closed_def lock_Some)
  qed
qed

section \<open>Properties\<close>


text \<open>
  C5: What reaches the inspection service over TCP and UDP.  A message forwards at most one
  trigger; with authentication required, its envelope names a payload and an authentication
  record that is authentic for this transport and the canonical text of that payload, and what
  is forwarded, to the target of the payload's event, is the enriched text of that same payload.
\<close>
theorem network_post_authenticated:
  assumes "network_trigger_response rt body tr peer now st = (r, st', calls)"
    and "lock st = Some g" and "config_ok (gw_security g)" and "sec_auth_required (gw_security g)"
    and "PostCall target forwarded \<in> set calls"
  shows "calls = [PostCall target forwarded] \<and> config_source_allowed (gw_security g) peer
    \<and> (gw_accepting g \<or> target = ''/api/production/tasks/steel-out'')
    \<and> (\<exists>m payload auth. from_str (rt_serde rt) (trim body) = Inr (JObject m)
        \<and> map_of m ''payload'' = Some payload \<and> map_of m ''auth'' = Some (JObject auth)
        \<and> authentic (rt_hmac rt) g (timestamp_text (rt_serde rt) (map_of auth ''timestamp''))
            (unwrap_or [] (Option.bind (map_of auth ''nonce'') as_str))
            (unwrap_or [] (Option.bind (map_of auth ''signature'') as_str)) tr
            (to_string (rt_serde rt) payload) now
        \<and> event_service_path (payload_event payload) = Some target
        \<and> forwarded = enrich_payload (rt_serde rt) (to_string (rt_serde rt) payload) tr (gw_mode g))"
proof -
  from network_calls [OF assms(1,5)] assms(2) obtain payload st1 where
    a: "config_source_allowed (gw_security g) peer"
      "authenticated_network_payload (rt_serde rt) (rt_hmac rt) body tr st now = (Inr payload, st1)"
      "event_service_path (payload_event payload) = Some target"
      "forwarded = enrich_payload (rt_serde rt) (to_string (rt_serde rt) payload) tr (gw_mode g)"
      "gw_accepting g \<or> completion_target target" "calls = [PostCall target forwarded]"
    by auto
  from network_payload_authenticated [OF a(2) assms(2,4)] a
    authenticate_message_authentic [OF _ assms(2,3,4)] show ?thesis
    by (fastforce simp: completion_target_def)
qed

text \<open>
  C8: The invariant of the gateway.  In every state the interleaved threads can reach from a
  successful start, the mode is one of the six modes, the configuration satisfies its bounds, the
  replay cache has distinct nonces and at most 10000 of them, and every enabled listener is bound;
  the counter equals the number of admission guards alive unless a panic poisoned the lock; and
  the status document reports \<open>drained\<close> only when the gateway refuses new triggers and no guard is
  alive.
\<close>
theorem gateway_reachable:
  assumes "reachable gateway_init (gateway_step sd hmac) (st, live)"
  shows "gw_mode (mx_value st) \<in> set allowed_modes \<and> config_ok (gw_security (mx_value st))
    \<and> replay_cache_ok (mx_value st) \<and> listeners_ready (gw_listeners (mx_value st))
    \<and> (\<forall>g. lock st = Some g \<longrightarrow> gw_in_flight g = live)
    \<and> (value_get ''drained'' (admission_status_json st) = Some (JBool True) \<longrightarrow>
         live = 0 \<and> \<not> gw_accepting (mx_value st))"
  using gw.reachable_inv [OF assms]
  by (auto simp: gateway_inv_def Let_def lock_def admission_status_json_def split: option.splits)

text \<open>
  C9: Refinement.  Every handler, on every input, is a run of the lock-level transition system
  that ends with the guards it started with: an HTTP connection, a TCP connection of any number of
  lines, and a UDP datagram.
\<close>
theorem handlers_refine_gateway_steps:
  "gateway_steps rt (st, n) (fst (snd (handle_client rt peer_addr reads now st)), n)
   \<and> gateway_steps rt (st, n) (fst (snd (handle_tcp_trigger rt peer ls st)), n)
   \<and> gateway_steps rt (st, n) (fst (snd (handle_udp_datagram rt datagram peer now st)), n)"
proof (intro conjI)
  show "gateway_steps rt (st, n) (fst (snd (handle_client rt peer_addr reads now st)), n)"
    unfolding handle_client_def
    by (auto split: option.splits prod.splits intro: route_request_steps)
  obtain out st' calls where "handle_tcp_trigger rt peer ls st = (out, st', calls)"
    by (cases "handle_tcp_trigger rt peer ls st") auto
  then show "gateway_steps rt (st, n) (fst (snd (handle_tcp_trigger rt peer ls st)), n)"
    by (auto dest: handle_tcp_steps)
  obtain r st2 calls2 where "network_trigger_response rt datagram ''udp'' peer now st = (r, st2, calls2)"
    by (cases "network_trigger_response rt datagram ''udp'' peer now st") auto
  then show "gateway_steps rt (st, n) (fst (snd (handle_udp_datagram rt datagram peer now st)), n)"
    unfolding handle_udp_datagram_def
    by (auto split: option.splits dest: network_trigger_steps)
qed

text \<open>
  Draining ends.  After the operator drains the gateway, in every interleaving that admits no
  completion the status document reports \<open>drained\<close> as soon as the guards alive at that moment
  have been dropped.
\<close>
theorem gateway_drains:
  assumes "lock st = Some g"
    and "\<forall>target. Admit target \<in> set evs \<longrightarrow> \<not> completion_target target"
    and "gw_in_flight g \<le> count_releases evs"
    and "gate_run (\<lambda>st target. case admit_trigger st (completion_target target) of
             (Inl _, _) \<Rightarrow> None | (Inr _, st') \<Rightarrow> Some st')
           drop_admission_guard (\<lambda>st. snd (enter_drain sd st))
           (snd (enter_drain sd st), gw_in_flight g) evs = (st', live)"
  shows "value_get ''drained'' (admission_status_json st') = Some (JBool True)"
proof -
  have u: "\<not> mx_poisoned st" "mx_value st = g" using assms(1) by (auto simp: lock_def split: if_splits)
  have "\<not> mx_poisoned st' \<and> \<not> gw_accepting (mx_value st')
      \<and> gw_in_flight (mx_value st') = gw_in_flight g - count_releases evs"
    using tg.run_drains [of "snd (enter_drain sd st)" "gw_in_flight g" evs sd]
      tg.drain_closes [of st sd] assms u by auto
  with assms(3) show ?thesis by (simp add: admission_status_json_def lock_def)
qed

text \<open>
  C27: Draining is permanent and forwards completions only.  From a gateway that refuses new
  triggers, every interleaving leads to gateways that refuse them, and there no HTTP connection,
  TCP connection or datagram forwards anything but the completion \<open>steel-out\<close>.
\<close>
theorem draining_forwards_completions_only:
  assumes "\<not> gw_accepting (mx_value st0)"
    and "(gateway_step (rt_serde rt) (rt_hmac rt))\<^sup>*\<^sup>* (st0, n) (st, m)"
    and "PostCall target body \<in> set (snd (snd (handle_client rt peer_addr reads now st)))
         \<union> set (snd (snd (handle_tcp_trigger rt peer ls st)))
         \<union> set (snd (snd (handle_udp_datagram rt datagram peer now st)))"
  shows "\<not> gw_accepting (mx_value st) \<and> target = ''/api/production/tasks/steel-out''"
proof -
  have c: "gateway_closed (st, m)"
    by (rule gwc.steps_inv [OF assms(2)]) (simp add: gateway_closed_def assms(1))
  have "completion_target target"
    using assms(3)
  proof (elim UnE)
    assume "PostCall target body \<in> set (snd (snd (handle_client rt peer_addr reads now st)))"
    then show ?thesis by (metis client_closed_calls c prod.collapse)
  next
    assume "PostCall target body \<in> set (snd (snd (handle_tcp_trigger rt peer ls st)))"
    then show ?thesis by (metis tcp_closed_calls c prod.collapse)
  next
    assume "PostCall target body \<in> set (snd (snd (handle_udp_datagram rt datagram peer now st)))"
    then have "PostCall target body
        \<in> set (snd (snd (network_trigger_response rt datagram ''udp'' peer now st)))"
      by (auto simp: handle_udp_datagram_def split: option.splits)
    then show ?thesis by (metis network_closed_calls c prod.collapse)
  qed
  with c show ?thesis by (simp add: gateway_closed_def completion_target_def)
qed

text \<open>
  Enrichment loses nothing.  The payload forwarded to the inspection service has every field
  the sender gave with the sender's value (a body that is not an object becomes the field \<open>raw\<close>,
  an unreadable body the empty object), and \<open>source\<close> and \<open>mode\<close> are added only where absent.
\<close>
theorem enrich_payload_fields:
  "value_get k (enriched sd body source mode) =
     (let given = (case from_str sd (trim body) of
                     Inl _ \<Rightarrow> Map.empty
                   | Inr (JObject m) \<Rightarrow> map_of m
                   | Inr v \<Rightarrow> [''raw'' \<mapsto> v])
      in case given k of
           Some v \<Rightarrow> Some v
         | None \<Rightarrow> if k = ''source'' then Some (JString source)
                   else if k = ''mode'' then Some (JString mode) else None)"
proof -
  have ins: "map_of (obj_or_insert k' v m) = (case map_of m k' of None \<Rightarrow> (map_of m)(k' \<mapsto> v) | Some _ \<Rightarrow> map_of m)"
    for k' v m by (simp add: obj_or_insert_def split: option.splits)
  show ?thesis
    by (auto simp: enriched_def Let_def ins from_str_or_empty_def from_str_ok_def map_of_obj_of
        split: option.splits sum.splits json.splits)
qed

text \<open>
  Mode names round trip.  Normalising gives one of the six modes, leaves each of them alone,
  and reads the label the status document shows for a mode back as that mode.
\<close>
theorem gateway_mode_roundtrip:
  "normalize_gateway_mode name \<in> set allowed_modes
   \<and> normalize_gateway_mode (normalize_gateway_mode name) = normalize_gateway_mode name
   \<and> normalize_gateway_mode (mode_label (normalize_gateway_mode name)) = normalize_gateway_mode name"
proof -
  have "\<forall>m\<in>set allowed_modes. normalize_gateway_mode m = m \<and> normalize_gateway_mode (mode_label m) = m"
    by (simp add: allowed_modes_def normalize_gateway_mode_def mode_label_def zh_manual_def zh_gray_def
        zh_secondary_def text_eval)
  with normalize_gateway_mode_allowed [of name] show ?thesis by blast
qed

section \<open>Concrete instances\<close>

definition demo_signed :: string where
  "demo_signed =
     ''POST /api/trigger/steel-in HTTP/1.1'' @ crlf
     @ ''X-Trigger-Timestamp: 100'' @ crlf
     @ ''X-Trigger-Nonce: 0123456789abcdef'' @ crlf
     @ ''X-Trigger-Signature: ab'' @ crlf
     @ ''Content-Length: 2'' @ crlf @ crlf @ ''{}''"

definition demo_runtime :: gateway_runtime where
  "demo_runtime =
     \<lparr> rt_serde = demo_serde, rt_hmac = demo_hmac, rt_sha256 = demo_sha256,
       rt_net = (\<lambda>host port request. None), rt_token = None,
       rt_origin = ''http://127.0.0.1:4873'', rt_page = ''<html></html>'' \<rparr>"

lemma demo_runtime_sel [simp]:
  "rt_serde demo_runtime = demo_serde" "rt_hmac demo_runtime = demo_hmac"
  "rt_sha256 demo_runtime = demo_sha256"
  by (simp_all add: demo_runtime_def)

lemma demo_state_sel [simp]:
  "gw_mode demo_state = ''api''" "gw_accepting demo_state" "gw_in_flight demo_state = 0"
  "gw_security demo_state = demo_config" "gw_replay_nonces demo_state = []"
  by (simp_all add: demo_state_def)

lemma demo_signed_headers:
  "request_header demo_signed ''X-Trigger-Operator-Token'' = None"
  "request_header demo_signed ''X-Trigger-Timestamp'' = Some ''100''"
  "request_header demo_signed ''X-Trigger-Nonce'' = Some ''0123456789abcdef''"
  "request_header demo_signed ''X-Trigger-Signature'' = Some ''ab''"
  by (simp_all add: demo_signed_def request_header_def str_lines_def header_of_line_def text_eval)

lemma demo_signed_parts:
  "request_method demo_signed = ''POST''" "request_path demo_signed = ''/api/trigger/steel-in''"
  "request_body demo_signed = ''{}''"
  by (simp_all add: demo_signed_def request_method_def request_path_def request_body_def str_lines_def
      nth_or_empty_def split_path_and_query_def split_once_str_def text_eval)

lemma demo_signed_read: "read_http_request [ReadBytes demo_signed] = Some demo_signed"
proof -
  have all: "list_all (\<lambda>c. byte c < 0x80) demo_signed" by (simp add: demo_signed_def)
  note u = from_utf8_lossy_ascii_take [OF all]
  have l: "length demo_signed \<le> max_request" "demo_signed \<noteq> []" "2 \<le> length demo_signed"
    by (simp_all add: demo_signed_def max_request_def)
  have e: "header_end_index demo_signed = Some (length demo_signed - 2)"
    by (simp add: header_end_index_def demo_signed_def)
  have "content_length_from_headers (take (length demo_signed - 2) demo_signed) = 2"
    by (simp add: content_length_from_headers_def demo_signed_def request_header_def str_lines_def
        header_of_line_def text_eval parse_unsigned_def is_ascii_digit_def u64_max_def)
  then have c: "content_length_from_headers (from_utf8_lossy (take (length demo_signed - 2) demo_signed))
      = length demo_signed - (length demo_signed - 2)"
    using l(3) by (simp add: u)
  show ?thesis
    using read_http_loop_complete [OF e c l(1), of "[]" "[demo_signed]" "[]"] l(2) u [of "length demo_signed"]
    by (simp add: read_http_request_def)
qed

definition demo_after :: gateway where
  "demo_after = Mutex False (demo_state\<lparr>gw_replay_nonces := [(''0123456789abcdef'', 100)]\<rparr>)"

lemma demo_authenticated:
  "authenticate_message demo_hmac demo_gateway ''100'' ''0123456789abcdef'' ''ab'' tr body 100
     = (Inr (), demo_after)"
  by (simp add: authenticate_message_def demo_lock demo_parse demo_nonce
      demo_hex Let_def max_replay_entries_def unlock_def demo_after_def)
    (simp add: demo_defs as_u64_cast_def Let_def max_replay_entries_def unlock_def)

lemma demo_source: "source_allowed demo_gateway (V4 0x0A000001)"
  by (simp add: source_allowed_def demo_lock config_source_allowed_def)
    (simp add: demo_defs Let_def and_not_mask_eq drop_bit_eq_div)

lemma demo_signed_authorized:
  "authorize_http_trigger demo_serde demo_hmac demo_sha256 demo_signed ''{}'' (V4 0x0A000001) 100
     demo_gateway = (Inr (), demo_after)"
  by (simp add: authorize_http_trigger_def demo_source demo_lock demo_signed_headers demo_authenticated)

lemma demo_admit: "admit_trigger demo_after c = (Inr (), Mutex False (demo_state\<lparr>gw_in_flight := 1,
    gw_replay_nonces := [(''0123456789abcdef'', 100)]\<rparr>))"
  by (simp add: admit_trigger_def demo_after_def lock_def demo_state_def checked_add64_def u64_max_def
      unlock_def)

lemma demo_handle_client:
  "\<exists>resp st'. handle_client demo_runtime (Some (V4 0x0A000001)) [ReadBytes demo_signed] 100 demo_gateway
     = (Some resp, st', [PostCall ''/api/production/tasks/steel-in''
          (enrich_payload demo_serde ''{}'' ''trigger-gateway'' ''api'')])"
  by (simp add: handle_client_def demo_signed_read route_request_def demo_signed_parts Let_def
      trigger_post_response_def manual_service_path_for_def service_path_for_def
      demo_signed_authorized forward_admitted_def demo_admit gateway_source_def contains_sub_def
      current_mode_def demo_lock completion_target_def)


definition demo_closed :: gateway where
  "demo_closed = Mutex False (demo_state\<lparr>gw_accepting := False\<rparr>)"

definition demo_envelope_auth :: "(string \<times> json) list" where
  "demo_envelope_auth =
     [(''nonce'', JString ''0123456789abcdef''), (''signature'', JString ''ab''),
      (''timestamp'', JString ''100'')]"

definition demo_payload :: json where
  "demo_payload = JObject [(''event'', JString ''STEEL_OUT'')]"

definition demo_net_serde :: serde where
  "demo_net_serde =
     \<lparr> from_str = (\<lambda>s. if s = ''E''
         then Inr (JObject [(''auth'', JObject demo_envelope_auth), (''payload'', demo_payload)])
         else Inr (JObject [])),
       to_string = (\<lambda>v. ''P'') \<rparr>"

definition demo_net_runtime :: gateway_runtime where
  "demo_net_runtime =
     \<lparr> rt_serde = demo_net_serde, rt_hmac = demo_hmac, rt_sha256 = demo_sha256,
       rt_net = (\<lambda>host port request. None), rt_token = None,
       rt_origin = ''http://127.0.0.1:4873'', rt_page = [] \<rparr>"

lemma demo_net_runtime_sel [simp]:
  "rt_serde demo_net_runtime = demo_net_serde" "rt_hmac demo_net_runtime = demo_hmac"
  by (simp_all add: demo_net_runtime_def)

lemma demo_closed_lock: "lock demo_closed = Some (demo_state\<lparr>gw_accepting := False\<rparr>)"
  by (simp add: demo_closed_def lock_def)

lemma demo_closed_auth:
  "authenticate_message demo_hmac demo_closed ''100'' ''0123456789abcdef'' ''ab'' tr body 100
     = (Inr (), Mutex False (demo_state\<lparr>gw_accepting := False,
          gw_replay_nonces := [(''0123456789abcdef'', 100)]\<rparr>))"
  by (simp add: authenticate_message_def demo_closed_lock demo_parse demo_nonce
      demo_hex Let_def max_replay_entries_def unlock_def)
    (simp add: demo_defs demo_closed_def as_u64_cast_def Let_def max_replay_entries_def unlock_def)

lemma demo_closed_source: "source_allowed demo_closed (V4 0x7F000001)"
  by (simp add: source_allowed_def demo_closed_lock config_source_allowed_def)

lemma demo_payload_event:
  "event_service_path (payload_event demo_payload) = Some ''/api/production/tasks/steel-out''"
  by (simp add: payload_event_def demo_payload_def event_service_path_def replace_char_def text_eval
      Let_def)

lemma demo_network:
  "\<exists>r st'. network_trigger_response demo_net_runtime ''E'' ''udp'' (V4 0x7F000001) 100 demo_closed
     = (r, st', [PostCall ''/api/production/tasks/steel-out''
          (enrich_payload demo_net_serde ''P'' ''udp'' ''api'')])"
proof -
  have t: "trim ''E'' = ''E''" by (simp add: text_eval)
  have p: "authenticated_network_payload demo_net_serde demo_hmac ''E'' ''udp'' demo_closed 100
      = (Inr demo_payload, Mutex False (demo_state\<lparr>gw_accepting := False,
          gw_replay_nonces := [(''0123456789abcdef'', 100)]\<rparr>))"
    by (simp add: authenticated_network_payload_def t demo_net_serde_def demo_envelope_auth_def
        timestamp_text_def demo_closed_auth demo_payload_def)
  show ?thesis
    by (simp add: network_trigger_response_def demo_closed_source p demo_payload_event Let_def
        admit_trigger_def completion_target_def lock_def checked_add64_def u64_max_def current_mode_def
        demo_state_def unlock_def)
      (simp add: demo_net_serde_def)
qed

theorem network_post_authenticated_witness:
  "\<exists>m payload auth. from_str demo_net_serde (trim ''E'') = Inr (JObject m)
     \<and> map_of m ''payload'' = Some payload \<and> map_of m ''auth'' = Some (JObject auth)
     \<and> authentic demo_hmac (demo_state\<lparr>gw_accepting := False\<rparr>)
         (timestamp_text demo_net_serde (map_of auth ''timestamp''))
         (unwrap_or [] (Option.bind (map_of auth ''nonce'') as_str))
         (unwrap_or [] (Option.bind (map_of auth ''signature'') as_str)) ''udp''
         (to_string demo_net_serde payload) 100
     \<and> event_service_path (payload_event payload) = Some ''/api/production/tasks/steel-out''"
proof -
  obtain r st' where h:
    "network_trigger_response demo_net_runtime ''E'' ''udp'' (V4 0x7F000001) 100 demo_closed
     = (r, st', [PostCall ''/api/production/tasks/steel-out''
          (enrich_payload demo_net_serde ''P'' ''udp'' ''api'')])"
    using demo_network by blast
  have c: "config_ok (gw_security (demo_state\<lparr>gw_accepting := False\<rparr>))"
    "sec_auth_required (gw_security (demo_state\<lparr>gw_accepting := False\<rparr>))"
    using demo_config_ok by simp_all
  show ?thesis
    using network_post_authenticated [OF h demo_closed_lock c list.set_intros(1)]
    unfolding demo_net_runtime_sel by blast
qed

theorem draining_forwards_completions_only_witness:
  "\<exists>target body.
     PostCall target body
       \<in> set (snd (snd (handle_udp_datagram demo_net_runtime ''E'' (V4 0x7F000001) 100 demo_closed)))
     \<and> \<not> gw_accepting (mx_value demo_closed) \<and> target = ''/api/production/tasks/steel-out''"
proof -
  obtain r st' target body where h:
    "network_trigger_response demo_net_runtime ''E'' ''udp'' (V4 0x7F000001) 100 demo_closed
     = (r, st', [PostCall target body])"
    using demo_network by blast
  have "utf8_error_at 0 ''E'' = None"
    unfolding utf8_error_at_None by (rule is_utf8_ascii_all) simp
  then have u: "PostCall target body
      \<in> set (snd (snd (handle_udp_datagram demo_net_runtime ''E'' (V4 0x7F000001) 100 demo_closed)))"
    by (simp add: handle_udp_datagram_def h)
  have n: "\<not> gw_accepting (mx_value demo_closed)" by (simp add: demo_closed_def)
  show ?thesis
    using draining_forwards_completions_only [OF n rtranclp.rtrancl_refl UnI2 [OF u]] u by blast
qed

theorem gateway_drains_witness:
  "value_get ''drained'' (admission_status_json demo_closed) = Some (JBool True)"
  by (rule gateway_drains [where st = "Mutex False (demo_state\<lparr>gw_in_flight := 1\<rparr>)"
        and evs = "[Admit ''/api/production/tasks/steel-in'', Release]" and live = 0
        and sd = demo_serde and g = "demo_state\<lparr>gw_in_flight := 1\<rparr>"])
    (simp_all add: lock_def count_releases_def completion_target_def gate_run_def enter_drain_def
      admit_trigger_def drop_admission_guard_def unlock_def demo_closed_def demo_state_def)

lemma demo_start:
  "\<exists>st. gateway_start demo_env (\<lambda>host port. None) (\<lambda>host port. None) = Inr st"
proof -
  have h: "gateway_host demo_env = ''127.0.0.1''" by (simp add: gateway_host_def demo_env_def)
  show ?thesis by (simp add: gateway_start_def Let_def h demo_env_accepted bind_listener_def)
qed

theorem gateway_reachable_witness:
  "\<exists>st. gateway_start demo_env (\<lambda>host port. None) (\<lambda>host port. None) = Inr st
     \<and> config_ok (gw_security (mx_value st)) \<and> replay_cache_ok (mx_value st)
     \<and> listeners_ready (gw_listeners (mx_value st))
     \<and> lock st = Some (mx_value st) \<and> gw_in_flight (mx_value st) = 0"
proof -
  obtain st where st: "gateway_start demo_env (\<lambda>host port. None) (\<lambda>host port. None) = Inr st"
    using demo_start by blast
  then have "reachable gateway_init (gateway_step demo_serde demo_hmac) (st, 0)"
    by (intro reachable_init) (auto simp: gateway_init_def)
  moreover have "lock st = Some (mx_value st)"
    using st by (auto simp: gateway_start_def Let_def lock_def split: sum.splits)
  ultimately show ?thesis using gateway_reachable [of demo_serde demo_hmac st 0] st by blast
qed

end
