(* ===== verification/Database.thy ===== *)
theory Database
  imports Rust_Std
begin

text \<open>
  The part of the service database the task queue, the calibration ledger and the accounts use,
  \<open>app/service/src/db\<close>: the entities as records, tables as lists of rows in insertion order, and
  the statements the operations are built from.  Every statement may fail: \<open>dbe_fault\<close> gives the
  error of the statement with a given number, if any, and \<open>dbe_millis\<close> and \<open>dbe_nanos\<close> the clock at
  that point.  An operation is a function from the database to an error or result and the database
  after the statements that were executed; a failed operation keeps what they did.
\<close>

section \<open>Entities\<close>

record production_task =
  t_id :: string
  t_idempotency_key :: string
  t_kind :: string
  t_material_id :: string
  t_session_id :: string
  t_chain_id :: string
  t_depends_on_task_id :: string
  t_dependency_policy :: string
  t_blocked_reason :: string
  t_status :: string
  t_phase :: string
  t_payload :: string
  t_result :: string
  t_error :: string
  t_actor :: string
  t_progress :: int
  t_attempts :: int
  t_max_attempts :: int
  t_cancel_requested :: bool
  t_created_at :: string
  t_started_at :: string
  t_finished_at :: string
  t_updated_at :: string

record calibration_operation =
  o_id :: string
  o_kind :: string
  o_request_hash :: string
  o_request_json :: string
  o_status :: string
  o_provider_http_status :: int
  o_provider_response_body :: string
  o_error :: string
  o_actor :: string
  o_parent_operation_id :: string
  o_reconciliation_outcome :: string
  o_reconciliation_id :: string
  o_resolved_by :: string
  o_resolved_at :: string
  o_row_version :: int
  o_created_at :: string
  o_dispatch_started_at :: string
  o_finished_at :: string
  o_updated_at :: string

record material_session =
  m_id :: string
  m_material_id :: string
  m_source :: string
  m_status :: string
  m_control_mode :: string
  m_trigger_mode :: string
  m_steel_type :: string
  m_width_mm :: "64 word"
  m_length_mm :: "64 word"
  m_thickness_mm :: "64 word"
  m_client :: string
  m_hard :: string
  m_storage_root :: string
  m_started_at :: string
  m_finished_at :: string
  m_updated_at :: string
  m_raw_payload :: string

record audit_log =
  a_id :: string
  a_actor :: string
  a_action :: string
  a_target :: string
  a_detail :: string
  a_level :: string
  a_created_at :: string

record admin_user =
  u_id :: string
  u_display_name :: string
  u_role :: string
  u_status :: string
  u_password_hash :: string
  u_must_change_password :: bool
  u_last_login_at :: string
  u_created_at :: string

record admin_role =
  r_id :: string
  r_label :: string
  r_description :: string
  r_permissions :: string
  r_status :: string
  r_updated_at :: string

record app_config =
  c_key :: string
  c_value :: string
  c_updated_at :: string

record database =
  db_tasks :: "production_task list"
  db_operations :: "calibration_operation list"
  db_sessions :: "material_session list"
  db_audit :: "audit_log list"
  db_users :: "admin_user list"
  db_roles :: "admin_role list"
  db_configs :: "app_config list"
  db_tick :: nat

definition empty_database :: database where
  "empty_database =
     \<lparr> db_tasks = [], db_operations = [], db_sessions = [], db_audit = [], db_users = [],
       db_roles = [], db_configs = [], db_tick = 0 \<rparr>"

section \<open>Statements\<close>

record db_env =
  dbe_millis :: "nat \<Rightarrow> nat"
  dbe_nanos :: "nat \<Rightarrow> nat"
  dbe_fault :: "nat \<Rightarrow> string option"
  dbe_conflict :: string

type_synonym 'a dbm = "database \<Rightarrow> (string + 'a) \<times> database"

definition db_return :: "'a \<Rightarrow> 'a dbm" where
  "db_return x = (\<lambda>db. (Inr x, db))"

definition db_bind :: "'a dbm \<Rightarrow> ('a \<Rightarrow> 'b dbm) \<Rightarrow> 'b dbm" where
  "db_bind m f =
     (\<lambda>db. case m db of (Inl e, db') \<Rightarrow> (Inl e, db') | (Inr x, db') \<Rightarrow> f x db')"

definition stmt :: "db_env \<Rightarrow> 'a dbm \<Rightarrow> 'a dbm" where
  "stmt env f =
     (\<lambda>db. let db' = db\<lparr>db_tick := db_tick db + 1\<rparr>
           in case dbe_fault env (db_tick db) of Some e \<Rightarrow> (Inl e, db') | None \<Rightarrow> f db')"

definition now_millis_string :: "db_env \<Rightarrow> string dbm" where
  "now_millis_string env = (\<lambda>db. (Inr (show_nat (dbe_millis env (db_tick db))), db))"

definition now_nanos_string :: "db_env \<Rightarrow> string dbm" where
  "now_nanos_string env = (\<lambda>db. (Inr (show_nat (dbe_nanos env (db_tick db))), db))"

definition query :: "db_env \<Rightarrow> (database \<Rightarrow> 'a) \<Rightarrow> 'a dbm" where
  "query env q = stmt env (\<lambda>db. (Inr (q db), db))"

definition update_rows :: "('r \<Rightarrow> bool) \<Rightarrow> ('r \<Rightarrow> 'r) \<Rightarrow> 'r list \<Rightarrow> 'r list" where
  "update_rows P f rows = map (\<lambda>r. if P r then f r else r) rows"

definition rows_affected :: "('r \<Rightarrow> bool) \<Rightarrow> 'r list \<Rightarrow> nat" where
  "rows_affected P rows = length (filter P rows)"

definition update_tasks ::
  "db_env \<Rightarrow> (production_task \<Rightarrow> bool) \<Rightarrow> (production_task \<Rightarrow> production_task) \<Rightarrow> nat dbm" where
  "update_tasks env P f =
     stmt env (\<lambda>db. (Inr (rows_affected P (db_tasks db)), db\<lparr>db_tasks := update_rows P f (db_tasks db)\<rparr>))"

text \<open>\<open>ActiveModel::update\<close>: the columns of the row with this key; a missing row is an error.\<close>

definition update_task ::
  "db_env \<Rightarrow> string \<Rightarrow> (production_task \<Rightarrow> production_task) \<Rightarrow> production_task dbm" where
  "update_task env tid f =
     stmt env (\<lambda>db.
       case find (\<lambda>t. t_id t = tid) (db_tasks db) of
         None \<Rightarrow> (Inl ''None of the records are updated'', db)
       | Some t \<Rightarrow> (Inr (f t), db\<lparr>db_tasks := update_rows (\<lambda>t. t_id t = tid) f (db_tasks db)\<rparr>))"

definition update_operations ::
  "db_env \<Rightarrow> (calibration_operation \<Rightarrow> bool) \<Rightarrow> (calibration_operation \<Rightarrow> calibration_operation)
     \<Rightarrow> nat dbm" where
  "update_operations env P f =
     stmt env (\<lambda>db. (Inr (rows_affected P (db_operations db)),
       db\<lparr>db_operations := update_rows P f (db_operations db)\<rparr>))"

text \<open>The same update for the accounts.\<close>

definition update_user :: "db_env \<Rightarrow> string \<Rightarrow> (admin_user \<Rightarrow> admin_user) \<Rightarrow> admin_user dbm" where
  "update_user env uid f =
     stmt env (\<lambda>db.
       case find (\<lambda>u. u_id u = uid) (db_users db) of
         None \<Rightarrow> (Inl ''None of the records are updated'', db)
       | Some u \<Rightarrow> (Inr (f u), db\<lparr>db_users := update_rows (\<lambda>u. u_id u = uid) f (db_users db)\<rparr>))"

definition append_audit_log ::
  "db_env \<Rightarrow> string \<Rightarrow> string \<Rightarrow> string \<Rightarrow> string \<Rightarrow> string \<Rightarrow> unit dbm" where
  "append_audit_log env actor action target detail level =
     db_bind (now_nanos_string env) (\<lambda>nanos.
     db_bind (now_millis_string env) (\<lambda>now.
     stmt env (\<lambda>db.
       let row = \<lparr> a_id = ''AUD-'' @ nanos, a_actor = actor, a_action = action, a_target = target,
                   a_detail = detail, a_level = level, a_created_at = now \<rparr>
       in if a_id row \<in> set (map a_id (db_audit db)) then (Inl (dbe_conflict env), db)
          else (Inr (), db\<lparr>db_audit := db_audit db @ [row]\<rparr>))))"

text \<open>\<open>ORDER BY\<close> with two text columns, ascending and descending.\<close>

definition order_asc :: "('r \<Rightarrow> string \<times> string) \<Rightarrow> 'r list \<Rightarrow> 'r list" where
  "order_asc k rows = sort_key k rows"

definition order_desc :: "('r \<Rightarrow> string \<times> string) \<Rightarrow> 'r list \<Rightarrow> 'r list" where
  "order_desc k rows = rev (sort_key k rows)"

definition first_row :: "'r list \<Rightarrow> 'r option" where
  "first_row rows = (case rows of [] \<Rightarrow> None | r # _ \<Rightarrow> Some r)"

section \<open>Lemmas\<close>

lemma set_order [simp]: "set (order_asc k rows) = set rows" "set (order_desc k rows) = set rows"
  by (simp_all add: order_asc_def order_desc_def)

lemma length_order [simp]: "length (order_asc k rows) = length rows"
  by (simp add: order_asc_def)

lemma order_asc_Nil [simp]: "order_asc k rows = [] \<longleftrightarrow> rows = []"
  by (metis length_0_conv length_order)

lemma first_row_in: "first_row rows = Some r \<Longrightarrow> r \<in> set rows"
  by (cases rows) (auto simp: first_row_def)

lemma first_row_None [simp]: "first_row rows = None \<longleftrightarrow> rows = []"
  by (cases rows) (auto simp: first_row_def)

text \<open>Inversion of the statements: a result, and what changed.\<close>

lemma db_bind_Inr:
  "db_bind m f db = (Inr y, db') \<longleftrightarrow> (\<exists>x db1. m db = (Inr x, db1) \<and> f x db1 = (Inr y, db'))"
  by (auto simp: db_bind_def split: prod.splits sum.splits)

lemma db_bind_any:
  "db_bind m f db = (r, db') \<longleftrightarrow>
     (\<exists>e. m db = (Inl e, db') \<and> r = Inl e) \<or> (\<exists>x db1. m db = (Inr x, db1) \<and> f x db1 = (r, db'))"
  by (auto simp: db_bind_def split: prod.splits sum.splits)

lemma db_return_iff [simp]: "db_return x db = (r, db') \<longleftrightarrow> r = Inr x \<and> db' = db"
  by (auto simp: db_return_def)

lemma now_millis_iff:
  "now_millis_string env db = (r, db') \<longleftrightarrow>
     r = Inr (show_nat (dbe_millis env (db_tick db))) \<and> db' = db"
  by (auto simp: now_millis_string_def)

lemma query_iff:
  "query env q db = (r, db') \<longleftrightarrow>
     db' = db\<lparr>db_tick := db_tick db + 1\<rparr>
     \<and> (case dbe_fault env (db_tick db) of Some e \<Rightarrow> r = Inl e
        | None \<Rightarrow> r = Inr (q (db\<lparr>db_tick := db_tick db + 1\<rparr>)))"
  by (auto simp: query_def stmt_def Let_def split: option.splits)

lemma query_Inr:
  "query env q db = (Inr x, db') \<longleftrightarrow>
     dbe_fault env (db_tick db) = None \<and> db' = db\<lparr>db_tick := db_tick db + 1\<rparr>
     \<and> x = q (db\<lparr>db_tick := db_tick db + 1\<rparr>)"
  by (auto simp: query_iff split: option.splits)

lemma query_tasks: "query env q db = (r, db') \<Longrightarrow> db_tasks db' = db_tasks db"
  by (simp add: query_iff)

lemma update_tasks_cases:
  assumes "update_tasks env P f db = (r, db')"
  shows "(\<exists>e. r = Inl e \<and> db_tasks db' = db_tasks db)
    \<or> r = Inr (rows_affected P (db_tasks db)) \<and> db_tasks db' = update_rows P f (db_tasks db)"
  using assms by (auto simp: update_tasks_def stmt_def Let_def split: option.splits)

lemma update_task_cases:
  assumes "update_task env tid f db = (r, db')"
  shows "(\<exists>e. r = Inl e \<and> db_tasks db' = db_tasks db)
    \<or> (\<exists>t. find (\<lambda>t. t_id t = tid) (db_tasks db) = Some t \<and> r = Inr (f t)
         \<and> db_tasks db' = update_rows (\<lambda>t. t_id t = tid) f (db_tasks db))"
  using assms by (auto simp: update_task_def stmt_def Let_def split: option.splits)

lemma append_audit_log_tasks:
  "db_tasks (snd (append_audit_log env actor action target detail level db)) = db_tasks db"
  by (auto simp: append_audit_log_def db_bind_def now_nanos_string_def now_millis_string_def stmt_def
      Let_def split: option.splits)

lemma rows_affected_0: "rows_affected P rows = 0 \<longleftrightarrow> (\<forall>r\<in>set rows. \<not> P r)"
  by (auto simp: rows_affected_def filter_empty_conv)

text \<open>A database on which no statement fails.\<close>

definition no_faults :: "db_env \<Rightarrow> bool" where
  "no_faults env \<longleftrightarrow> (\<forall>n. dbe_fault env n = None)"

lemma query_no_faults:
  "no_faults env \<Longrightarrow> query env q db = (Inr (q (db\<lparr>db_tick := db_tick db + 1\<rparr>)), db\<lparr>db_tick := db_tick db + 1\<rparr>)"
  by (simp add: query_def stmt_def no_faults_def Let_def)

lemma update_operations_no_faults:
  "no_faults env \<Longrightarrow> update_operations env P f db
     = (Inr (rows_affected P (db_operations db)),
        db\<lparr>db_tick := db_tick db + 1, db_operations := update_rows P f (db_operations db)\<rparr>)"
  by (simp add: update_operations_def stmt_def no_faults_def Let_def)

section \<open>Keyed rows\<close>

text \<open>
  Updates that keep the columns \<open>key\<close> gives: the table keeps its keys, and a lookup by key finds
  the updated row.
\<close>

locale row_update =
  fixes key :: "'r \<Rightarrow> 'k"
    and f :: "'r \<Rightarrow> 'r"
  assumes key_kept: "key (f r) = key r"
begin

lemma map_key: "map key (update_rows P f rows) = map key rows"
  by (induction rows) (auto simp: update_rows_def key_kept)

lemma find_key:
  "find (\<lambda>r. key r = k) (update_rows P f rows) =
     map_option (\<lambda>r. if P r then f r else r) (find (\<lambda>r. key r = k) rows)"
  by (induction rows) (auto simp: update_rows_def key_kept)

end

section \<open>What an operation does to the task table\<close>

text \<open>
  \<open>keeps R m\<close>: whatever its outcome, the operation relates the task table before and after by \<open>R\<close>.
  For a reflexive and transitive relation this is compositional.
\<close>

definition keeps ::
  "(production_task list \<Rightarrow> production_task list \<Rightarrow> bool) \<Rightarrow> 'a dbm \<Rightarrow> bool" where
  "keeps R m \<longleftrightarrow> (\<forall>db. R (db_tasks db) (db_tasks (snd (m db))))"

lemma keepsD: "keeps R m \<Longrightarrow> m db = (r, db') \<Longrightarrow> R (db_tasks db) (db_tasks db')"
  unfolding keeps_def by (metis snd_conv)

locale table_relation =
  fixes R :: "production_task list \<Rightarrow> production_task list \<Rightarrow> bool"
  assumes rel_refl: "R ts ts"
    and rel_trans: "R ts us \<Longrightarrow> R us vs \<Longrightarrow> R ts vs"
begin

lemma keeps_return: "keeps R (db_return x)"
  by (simp add: keeps_def db_return_def rel_refl)

lemma keeps_bind:
  assumes "keeps R m" and "\<And>x. keeps R (f x)"
  shows "keeps R (db_bind m f)"
proof (unfold keeps_def, intro allI)
  fix db
  obtain r db1 where m: "m db = (r, db1)" by fastforce
  from keepsD [OF assms(1) m] have 1: "R (db_tasks db) (db_tasks db1)" .
  show "R (db_tasks db) (db_tasks (snd (db_bind m f db)))"
  proof (cases r)
    case (Inl e)
    with 1 m show ?thesis by (simp add: db_bind_def)
  next
    case (Inr x)
    have "R (db_tasks db1) (db_tasks (snd (f x db1)))" using assms(2) by (simp add: keeps_def)
    with 1 m Inr show ?thesis by (simp add: db_bind_def) (rule rel_trans)
  qed
qed

lemma keeps_query: "keeps R (query env q)"
  by (simp add: keeps_def query_def stmt_def Let_def rel_refl split: option.splits)

lemma keeps_now: "keeps R (now_millis_string env)"
  by (simp add: keeps_def now_millis_string_def rel_refl)

lemma keeps_now_bind:
  assumes "\<And>n. keeps R (f (show_nat n))"
  shows "keeps R (db_bind (now_millis_string env) f)"
  using assms by (simp add: keeps_def db_bind_def now_millis_string_def)

lemma keeps_update_tasks:
  "(\<And>ts. R ts (update_rows P f ts)) \<Longrightarrow> keeps R (update_tasks env P f)"
  by (simp add: keeps_def update_tasks_def stmt_def Let_def rel_refl split: option.splits)

lemma keeps_update_task:
  "(\<And>ts. R ts (update_rows (\<lambda>t. t_id t = tid) f ts)) \<Longrightarrow> keeps R (update_task env tid f)"
  by (simp add: keeps_def update_task_def stmt_def Let_def rel_refl split: option.splits)

lemma keeps_audit: "keeps R (append_audit_log env actor action target detail level)"
  by (simp add: keeps_def append_audit_log_tasks rel_refl)

end

text \<open>A database without faults, used by the concrete instances.\<close>

definition demo_db_env :: db_env where
  "demo_db_env =
     \<lparr> dbe_millis = (\<lambda>n. 100 + n), dbe_nanos = (\<lambda>n. n), dbe_fault = (\<lambda>_. None),
       dbe_conflict = ''UNIQUE constraint failed'' \<rparr>"

end
