(* ===== verification/Task_Store.thy ===== *)
theory Task_Store
  imports Database Transition_System
begin

text \<open>
  The persistent production task queue, the production task operations of
  \<open>app/service/src/db/mod.rs\<close>: insertion, lookup, dependency states, claiming, progress, completion,
  cancellation, retry and restart recovery.  Statuses are the strings the code stores.
\<close>

section \<open>Insertion and lookup\<close>

record production_task_input =
  ti_id :: string
  ti_idempotency_key :: string
  ti_kind :: string
  ti_material_id :: string
  ti_session_id :: string
  ti_chain_id :: string
  ti_depends_on_task_id :: string
  ti_dependency_policy :: string
  ti_payload :: string
  ti_actor :: string
  ti_max_attempts :: int

definition new_task_row :: "production_task_input \<Rightarrow> string \<Rightarrow> production_task" where
  "new_task_row input now =
     \<lparr> t_id = ti_id input, t_idempotency_key = ti_idempotency_key input, t_kind = ti_kind input,
       t_material_id = ti_material_id input, t_session_id = ti_session_id input,
       t_chain_id = ti_chain_id input, t_depends_on_task_id = ti_depends_on_task_id input,
       t_dependency_policy = ti_dependency_policy input, t_blocked_reason = [],
       t_status = ''queued'', t_phase = ''queued'', t_payload = ti_payload input, t_result = [],
       t_error = [], t_actor = ti_actor input, t_progress = 0, t_attempts = 0,
       t_max_attempts = clamp 1 10 (ti_max_attempts input), t_cancel_requested = False,
       t_created_at = now, t_started_at = [], t_finished_at = [], t_updated_at = now \<rparr>"

text \<open>The primary key and the unique index on the idempotency key refuse a duplicate.\<close>

definition insert_production_task :: "db_env \<Rightarrow> production_task_input \<Rightarrow> production_task dbm" where
  "insert_production_task env input =
     db_bind (now_millis_string env) (\<lambda>now.
     stmt env (\<lambda>db.
       let row = new_task_row input now
       in if t_id row \<in> set (map t_id (db_tasks db))
             \<or> t_idempotency_key row \<in> set (map t_idempotency_key (db_tasks db))
          then (Inl (dbe_conflict env), db)
          else (Inr row, db\<lparr>db_tasks := db_tasks db @ [row]\<rparr>)))"

definition find_production_task :: "db_env \<Rightarrow> string \<Rightarrow> production_task option dbm" where
  "find_production_task env tid = query env (\<lambda>db. find (\<lambda>t. t_id t = tid) (db_tasks db))"

definition created_key :: "production_task \<Rightarrow> string \<times> string" where
  "created_key t = (t_created_at t, t_id t)"

definition find_production_task_by_idempotency_key ::
  "db_env \<Rightarrow> string \<Rightarrow> production_task option dbm" where
  "find_production_task_by_idempotency_key env key =
     (if trim key = [] then db_return None
      else query env (\<lambda>db. first_row
             (order_desc (\<lambda>t. (t_created_at t, [])) (filter (\<lambda>t. t_idempotency_key t = key) (db_tasks db)))))"

definition latest_production_task_in_chain :: "db_env \<Rightarrow> string \<Rightarrow> production_task option dbm" where
  "latest_production_task_in_chain env chain_id =
     (if trim chain_id = [] then db_return None
      else query env (\<lambda>db. first_row
             (order_desc created_key (filter (\<lambda>t. t_chain_id t = chain_id) (db_tasks db)))))"

section \<open>Dependencies\<close>

datatype dependency_state = Ready | Waiting | Blocked string

definition production_task_status_is_terminal :: "string \<Rightarrow> bool" where
  "production_task_status_is_terminal status \<longleftrightarrow>
     status \<in> {''succeeded'', ''failed'', ''cancelled'', ''interrupted'', ''blocked''}"

definition failure_status :: "string \<Rightarrow> bool" where
  "failure_status status \<longleftrightarrow> status \<in> {''failed'', ''cancelled'', ''interrupted'', ''blocked''}"

text \<open>The state of a task given the lookup of the task it depends on.\<close>

definition dependency_state_of :: "production_task \<Rightarrow> production_task option \<Rightarrow> dependency_state" where
  "dependency_state_of task dependency =
     (case dependency of
        None \<Rightarrow> Blocked (''dependency_not_found:'' @ t_depends_on_task_id task)
      | Some d \<Rightarrow>
          if t_chain_id d \<noteq> t_chain_id task \<or> t_session_id d \<noteq> t_session_id task
             \<or> t_material_id d \<noteq> t_material_id task
          then Blocked (''dependency_chain_mismatch:'' @ t_id d)
          else if t_dependency_policy task = ''always-run''
          then (if production_task_status_is_terminal (t_status d) then Ready else Waiting)
          else if t_status d = ''succeeded'' then Ready
          else if failure_status (t_status d)
          then Blocked (''dependency_'' @ t_status d @ '':'' @ t_id d)
          else Waiting)"

definition production_task_dependency_state :: "db_env \<Rightarrow> production_task \<Rightarrow> dependency_state dbm" where
  "production_task_dependency_state env task =
     (if trim (t_depends_on_task_id task) = [] then db_return Ready
      else if t_depends_on_task_id task = t_id task
      then db_return (Blocked (''dependency_cycle:'' @ t_id task))
      else db_bind (find_production_task env (t_depends_on_task_id task)) (\<lambda>d.
           db_return (dependency_state_of task d)))"

definition blocked_row :: "string \<Rightarrow> string \<Rightarrow> production_task \<Rightarrow> production_task" where
  "blocked_row reason now t =
     t\<lparr>t_status := ''blocked'', t_phase := ''blocked'', t_progress := 0, t_blocked_reason := reason,
       t_error := reason, t_finished_at := now, t_updated_at := now\<rparr>"

definition mark_production_task_blocked :: "db_env \<Rightarrow> string \<Rightarrow> string \<Rightarrow> bool dbm" where
  "mark_production_task_blocked env tid reason =
     db_bind (now_millis_string env) (\<lambda>now.
     db_bind (update_tasks env (\<lambda>t. t_id t = tid \<and> t_status t = ''queued'') (blocked_row reason now)) (\<lambda>n.
     db_return (n = 1)))"

section \<open>Propagation of failures\<close>

text \<open>The inner loop: the dependents that were blocked, in order.\<close>

fun block_dependents :: "db_env \<Rightarrow> string \<Rightarrow> production_task list \<Rightarrow> string list dbm" where
  "block_dependents env reason [] = db_return []"
| "block_dependents env reason (d # ds) =
     db_bind (mark_production_task_blocked env (t_id d) reason) (\<lambda>marked.
     db_bind (block_dependents env reason ds) (\<lambda>rest.
     db_return (if marked then t_id d # rest else rest)))"

definition propagate_parent :: "db_env \<Rightarrow> string \<Rightarrow> string list dbm" where
  "propagate_parent env parent =
     db_bind (query env (\<lambda>db. filter (\<lambda>t. t_depends_on_task_id t = parent
         \<and> t_dependency_policy t = ''require-success'' \<and> t_status t = ''queued'') (db_tasks db))) (\<lambda>dependents.
     db_bind (find_production_task env parent) (\<lambda>p.
     block_dependents env
       (''dependency_'' @ (case p of Some t \<Rightarrow> t_status t | None \<Rightarrow> ''not_found'') @ '':'' @ parent)
       dependents))"

text \<open>
  What the termination of the loops rests on: each of their rounds lowers the number of rows with
  the status they look for.
\<close>

definition status_count :: "string \<Rightarrow> production_task list \<Rightarrow> nat" where
  "status_count st ts = length (filter (\<lambda>t. t_status t = st) ts)"

lemma status_count_update:
  assumes "\<And>t. t_status (f t) \<noteq> st"
  shows "status_count st (update_rows (\<lambda>t. Q t \<and> t_status t = st) f ts)
    + rows_affected (\<lambda>t. Q t \<and> t_status t = st) ts = status_count st ts"
  by (induction ts) (auto simp: update_rows_def rows_affected_def status_count_def assms)

lemma stack_step_empty: "a + length b \<le> c \<Longrightarrow> \<not> a < c \<Longrightarrow> b = []"
  by (cases b) auto

lemma blocked_row_status [simp]: "t_status (blocked_row reason now t) = ''blocked''"
  by (simp add: blocked_row_def)

lemma mark_blocked_count:
  assumes "mark_production_task_blocked env tid reason db = (Inr b, db')"
  shows "status_count ''queued'' (db_tasks db') + rows_affected (\<lambda>t. t_id t = tid \<and> t_status t = ''queued'') (db_tasks db)
       = status_count ''queued'' (db_tasks db)
    \<and> (b \<longleftrightarrow> rows_affected (\<lambda>t. t_id t = tid \<and> t_status t = ''queued'') (db_tasks db) = 1)"
proof -
  from assms obtain n where n: "update_tasks env (\<lambda>t. t_id t = tid \<and> t_status t = ''queued'')
      (blocked_row reason (show_nat (dbe_millis env (db_tick db)))) db = (Inr n, db')" "b \<longleftrightarrow> n = 1"
    by (auto simp: mark_production_task_blocked_def db_bind_Inr now_millis_iff)
  have "status_count ''queued'' (db_tasks db') + rows_affected (\<lambda>t. t_id t = tid \<and> t_status t = ''queued'') (db_tasks db)
       = status_count ''queued'' (db_tasks db)"
    if "db_tasks db' = update_rows (\<lambda>t. t_id t = tid \<and> t_status t = ''queued'')
      (blocked_row reason (show_nat (dbe_millis env (db_tick db)))) (db_tasks db)"
    unfolding that by (rule status_count_update) simp
  with update_tasks_cases [OF n(1)] n(2) show ?thesis by auto
qed

lemma block_dependents_count:
  "block_dependents env reason ds db = (Inr marked, db') \<Longrightarrow>
     status_count ''queued'' (db_tasks db') + length marked \<le> status_count ''queued'' (db_tasks db)"
proof (induction ds arbitrary: db db' marked)
  case (Cons d ds)
  then obtain b db1 rest where
    1: "mark_production_task_blocked env (t_id d) reason db = (Inr b, db1)"
      "block_dependents env reason ds db1 = (Inr rest, db')"
      "marked = (if b then t_id d # rest else rest)"
    by (auto simp: db_bind_Inr)
  from mark_blocked_count [OF 1(1)] Cons.IH [OF 1(2)] 1(3) show ?case by (cases b) auto
qed auto

lemma propagate_parent_count:
  assumes "propagate_parent env parent db = (Inr marked, db')"
  shows "status_count ''queued'' (db_tasks db') + length marked \<le> status_count ''queued'' (db_tasks db)"
proof -
  from assms obtain reason ds db1 where 1:
    "block_dependents env reason ds db1 = (Inr marked, db')" "db_tasks db1 = db_tasks db"
    by (auto simp: propagate_parent_def db_bind_Inr find_production_task_def query_Inr)
  from block_dependents_count [OF 1(1)] 1(2) show ?thesis by simp
qed

text \<open>The outer loop; the top of the stack of parents is the head of the list.\<close>

function propagate_loop :: "db_env \<Rightarrow> string list \<Rightarrow> nat \<Rightarrow> nat dbm" where
  "propagate_loop env [] blocked db = (Inr blocked, db)"
| "propagate_loop env (parent # rest) blocked db =
     (case propagate_parent env parent db of
        (Inl e, db') \<Rightarrow> (Inl e, db')
      | (Inr marked, db') \<Rightarrow>
          propagate_loop env (rev marked @ rest)
            (foldl (\<lambda>n _. saturating_add64 n 1) blocked marked) db')"
  by pat_completeness auto
termination
  by (relation "measures [\<lambda>(env, frontier, blocked, db). status_count ''queued'' (db_tasks db),
    \<lambda>(env, frontier, blocked, db). length frontier]") (simp, auto dest!: propagate_parent_count [OF sym] dest: stack_step_empty)

declare propagate_loop.simps [simp del]

definition propagate_production_task_dependency_failure :: "db_env \<Rightarrow> string \<Rightarrow> nat dbm" where
  "propagate_production_task_dependency_failure env parent = propagate_loop env [parent] 0"

section \<open>Requeueing of blocked descendants\<close>

definition requeued_row :: "string \<Rightarrow> production_task \<Rightarrow> production_task" where
  "requeued_row now t =
     t\<lparr>t_status := ''queued'', t_phase := ''waiting-dependency'', t_blocked_reason := [], t_error := [],
       t_finished_at := [], t_updated_at := now\<rparr>"

fun requeue_dependents :: "db_env \<Rightarrow> production_task list \<Rightarrow> string list dbm" where
  "requeue_dependents env [] = db_return []"
| "requeue_dependents env (d # ds) =
     db_bind (now_millis_string env) (\<lambda>now.
     db_bind (update_tasks env (\<lambda>t. t_id t = t_id d \<and> t_status t = ''blocked'') (requeued_row now)) (\<lambda>n.
     db_bind (requeue_dependents env ds) (\<lambda>rest.
     db_return (if n = 1 then t_id d # rest else rest))))"

definition requeue_parent :: "db_env \<Rightarrow> string \<Rightarrow> string list dbm" where
  "requeue_parent env parent =
     db_bind (query env (\<lambda>db. filter (\<lambda>t. t_depends_on_task_id t = parent \<and> t_status t = ''blocked'')
         (db_tasks db))) (\<lambda>dependents.
     requeue_dependents env dependents)"

lemma requeued_row_status [simp]: "t_status (requeued_row now t) = ''queued''"
  by (simp add: requeued_row_def)

lemma requeue_dependents_count:
  "requeue_dependents env ds db = (Inr marked, db') \<Longrightarrow>
     status_count ''blocked'' (db_tasks db') + length marked \<le> status_count ''blocked'' (db_tasks db)"
proof (induction ds arbitrary: db db' marked)
  case (Cons d ds)
  then obtain n db1 rest now where
    1: "update_tasks env (\<lambda>t. t_id t = t_id d \<and> t_status t = ''blocked'') (requeued_row now) db = (Inr n, db1)"
      "requeue_dependents env ds db1 = (Inr rest, db')"
      "marked = (if n = 1 then t_id d # rest else rest)"
    by (auto simp: db_bind_Inr now_millis_iff)
  have "status_count ''blocked'' (db_tasks db1) + n = status_count ''blocked'' (db_tasks db)"
    using update_tasks_cases [OF 1(1)] by (auto intro: status_count_update)
  with Cons.IH [OF 1(2)] 1(3) show ?case by (auto split: if_splits)
qed auto

lemma requeue_parent_count:
  assumes "requeue_parent env parent db = (Inr marked, db')"
  shows "status_count ''blocked'' (db_tasks db') + length marked \<le> status_count ''blocked'' (db_tasks db)"
proof -
  from assms obtain ds db1 where 1:
    "requeue_dependents env ds db1 = (Inr marked, db')" "db_tasks db1 = db_tasks db"
    by (auto simp: requeue_parent_def db_bind_Inr query_Inr)
  from requeue_dependents_count [OF 1(1)] 1(2) show ?thesis by simp
qed

function requeue_loop :: "db_env \<Rightarrow> string list \<Rightarrow> nat \<Rightarrow> nat dbm" where
  "requeue_loop env [] requeued db = (Inr requeued, db)"
| "requeue_loop env (parent # rest) requeued db =
     (case requeue_parent env parent db of
        (Inl e, db') \<Rightarrow> (Inl e, db')
      | (Inr marked, db') \<Rightarrow>
          requeue_loop env (rev marked @ rest)
            (foldl (\<lambda>n _. saturating_add64 n 1) requeued marked) db')"
  by pat_completeness auto
termination
  by (relation "measures [\<lambda>(env, frontier, requeued, db). status_count ''blocked'' (db_tasks db),
    \<lambda>(env, frontier, requeued, db). length frontier]")
    (simp, auto dest!: requeue_parent_count [OF sym] dest: stack_step_empty)

declare requeue_loop.simps [simp del]

definition requeue_blocked_production_task_descendants :: "db_env \<Rightarrow> string \<Rightarrow> nat dbm" where
  "requeue_blocked_production_task_descendants env parent = requeue_loop env [parent] 0"

section \<open>Counts and latest tasks\<close>

definition count_open_production_tasks :: "db_env \<Rightarrow> nat dbm" where
  "count_open_production_tasks env =
     query env (\<lambda>db. length (filter (\<lambda>t. t_status t \<in> {''queued'', ''running''}) (db_tasks db)))"

definition count_unresolved_production_tasks_for_session :: "db_env \<Rightarrow> string \<Rightarrow> nat dbm" where
  "count_unresolved_production_tasks_for_session env session_id =
     query env (\<lambda>db. length (filter (\<lambda>t. t_session_id t = session_id
       \<and> t_status t \<in> {''queued'', ''running'', ''failed'', ''interrupted'', ''blocked''}) (db_tasks db)))"

definition latest_unresolved_production_task ::
  "db_env \<Rightarrow> string option \<Rightarrow> production_task option dbm" where
  "latest_unresolved_production_task env material_id =
     query env (\<lambda>db. first_row (order_desc created_key
       (filter (\<lambda>t. t_status t \<in> {''queued'', ''running'', ''failed'', ''cancelled'', ''interrupted'', ''blocked''}
           \<and> (case material_id of
                Some m \<Rightarrow> trim m = [] \<or> t_material_id t = m
              | None \<Rightarrow> True)) (db_tasks db))))"

definition latest_production_task_for_session :: "db_env \<Rightarrow> string \<Rightarrow> production_task option dbm" where
  "latest_production_task_for_session env session_id =
     (if trim session_id = [] then db_return None
      else query env (\<lambda>db. first_row
             (order_desc created_key (filter (\<lambda>t. t_session_id t = session_id) (db_tasks db)))))"

definition latest_open_material_session :: "db_env \<Rightarrow> material_session option dbm" where
  "latest_open_material_session env =
     query env (\<lambda>db. first_row (order_desc (\<lambda>m. (m_updated_at m, m_id m))
       (filter (\<lambda>m. m_status m \<noteq> ''finished'') (db_sessions db))))"

record production_task_filter =
  tf_status :: "string option"
  tf_kind :: "string option"
  tf_limit :: "nat option"
  tf_offset :: "nat option"

record production_task_page =
  tp_tasks :: "production_task list"
  tp_total :: nat
  tp_limit :: nat
  tp_offset :: nat

definition list_filter :: "production_task_filter \<Rightarrow> production_task list \<Rightarrow> production_task list" where
  "list_filter flt ts =
     order_desc created_key
       (filter (\<lambda>t. (case tf_status flt of Some st \<Rightarrow> st = [] \<or> t_status t = st | None \<Rightarrow> True)
            \<and> (case tf_kind flt of Some k \<Rightarrow> k = [] \<or> t_kind t = k | None \<Rightarrow> True)) ts)"

definition list_production_tasks :: "db_env \<Rightarrow> production_task_filter \<Rightarrow> production_task_page dbm" where
  "list_production_tasks env flt =
     (let limit = clamp 1 200 (case tf_limit flt of Some n \<Rightarrow> n | None \<Rightarrow> 50);
          offset = (case tf_offset flt of Some n \<Rightarrow> n | None \<Rightarrow> 0)
      in db_bind (query env (\<lambda>db. length (list_filter flt (db_tasks db)))) (\<lambda>total.
         db_bind (query env (\<lambda>db. take limit (drop offset (list_filter flt (db_tasks db))))) (\<lambda>tasks.
         db_return \<lparr> tp_tasks = tasks, tp_total = total, tp_limit = limit, tp_offset = offset \<rparr>)))"

section \<open>Claiming\<close>

definition claimable :: "production_task \<Rightarrow> bool" where
  "claimable t \<longleftrightarrow> t_status t = ''queued'' \<and> \<not> t_cancel_requested t"

definition running_row :: "production_task \<Rightarrow> string \<Rightarrow> production_task \<Rightarrow> production_task" where
  "running_row model now t =
     t\<lparr>t_status := ''running'', t_phase := ''executing'', t_progress := 5,
       t_attempts := wrapping_i32 (t_attempts model + 1), t_blocked_reason := [],
       t_started_at := now, t_finished_at := [], t_updated_at := now\<rparr>"

text \<open>
  One pass over the queued tasks: \<open>Inl\<close> ends the claim with its result, \<open>Inr\<close> tells whether the pass
  changed something.
\<close>

fun claim_pass :: "db_env \<Rightarrow> production_task list \<Rightarrow> bool \<Rightarrow> (production_task option + bool) dbm" where
  "claim_pass env [] changed = db_return (Inr changed)"
| "claim_pass env (model # rest) changed =
     db_bind (production_task_dependency_state env model) (\<lambda>d.
     case d of
       Waiting \<Rightarrow> claim_pass env rest changed
     | Blocked reason \<Rightarrow>
         db_bind (mark_production_task_blocked env (t_id model) reason) (\<lambda>marked.
         claim_pass env rest (changed \<or> marked))
     | Ready \<Rightarrow>
         db_bind (now_millis_string env) (\<lambda>now.
         db_bind (update_tasks env (\<lambda>t. t_id t = t_id model \<and> claimable t) (running_row model now)) (\<lambda>n.
         if n = 1 then db_bind (find_production_task env (t_id model)) (\<lambda>t. db_return (Inl t))
         else claim_pass env rest True)))"

definition queued_tasks :: "production_task list \<Rightarrow> production_task list" where
  "queued_tasks ts = order_asc created_key (filter claimable ts)"

definition claimable_count :: "production_task list \<Rightarrow> nat" where
  "claimable_count ts = length (filter claimable ts)"

lemma claimable_count_le:
  assumes "\<And>t. P t \<Longrightarrow> \<not> claimable (f t)"
  shows "claimable_count (update_rows P f ts) \<le> claimable_count ts"
  by (induction ts) (simp_all add: claimable_count_def update_rows_def assms)

lemma claimable_count_less:
  assumes "\<And>t. P t \<Longrightarrow> \<not> claimable (f t)" and "t \<in> set ts" and "P t" and "claimable t"
  shows "claimable_count (update_rows P f ts) < claimable_count ts"
proof -
  obtain as bs where ts: "ts = as @ t # bs" using assms(2) by (auto dest: split_list)
  have split: "claimable_count (xs @ ys) = claimable_count xs + claimable_count ys" for xs ys
    by (simp add: claimable_count_def)
  have "claimable_count (update_rows P f (t # bs)) < claimable_count (t # bs)"
    using claimable_count_le [of P f bs, OF assms(1)] assms(1) [OF assms(3)] assms(3,4)
    by (simp add: claimable_count_def update_rows_def)
  moreover have "update_rows P f ts = update_rows P f as @ update_rows P f (t # bs)"
    by (simp add: ts update_rows_def)
  ultimately show ?thesis
    using claimable_count_le [of P f as, OF assms(1)] by (simp add: ts split)
qed

text \<open>
  A pass that reports a change lowers the number of claimable rows, provided the rows it visits are
  claimable rows of the table it starts from.
\<close>

definition pass_progress :: "production_task list \<Rightarrow> production_task list \<Rightarrow> production_task list \<Rightarrow> bool" where
  "pass_progress rows ts us \<longleftrightarrow>
     claimable_count us < claimable_count ts
     \<or> (\<exists>r\<in>set rows. \<forall>t\<in>set ts. t_id t = t_id r \<longrightarrow> \<not> claimable t)"

lemma pass_progress_step:
  assumes "\<And>t. P t \<Longrightarrow> \<not> claimable (f t)"
    and "pass_progress rest (update_rows P f ts) vs"
    and "claimable_count vs \<le> claimable_count (update_rows P f ts)"
  shows "pass_progress (m # rest) ts vs"
proof -
  have le: "claimable_count (update_rows P f ts) \<le> claimable_count ts"
    by (rule claimable_count_le) (rule assms(1))
  have gone: "claimable_count (update_rows P f ts) < claimable_count ts"
    if t: "t \<in> set ts" "claimable t" and n: "t \<notin> set (update_rows P f ts)" for t
  proof (rule claimable_count_less [OF _ t(1) _ t(2)])
    show "P t" using t(1) n by (force simp: update_rows_def)
  qed (rule assms(1))
  from assms(2) consider "claimable_count vs < claimable_count (update_rows P f ts)"
    | r where "r \<in> set rest"
        "\<forall>t\<in>set (update_rows P f ts). t_id t = t_id r \<longrightarrow> \<not> claimable t"
    by (auto simp: pass_progress_def)
  then show ?thesis
  proof cases
    case 1
    with le show ?thesis by (simp add: pass_progress_def)
  next
    case 2
    show ?thesis
    proof (cases "\<forall>t\<in>set ts. t_id t = t_id r \<longrightarrow> \<not> claimable t")
      case True
      with 2 show ?thesis by (auto simp: pass_progress_def)
    next
      case False
      then obtain t where t: "t \<in> set ts" "t_id t = t_id r" "claimable t" by auto
      with 2 have "t \<notin> set (update_rows P f ts)" by auto
      from gone [OF t(1,3) this] assms(3) show ?thesis by (simp add: pass_progress_def)
    qed
  qed
qed

lemma update_rows_none [simp]: "update_rows (\<lambda>_. False) f ts = ts"
  by (simp add: update_rows_def)

lemma dependency_state_tasks:
  "production_task_dependency_state env task db = (r, db') \<Longrightarrow> db_tasks db' = db_tasks db"
  unfolding production_task_dependency_state_def find_production_task_def
  by (auto simp: db_bind_any dest: query_tasks split: if_splits)

lemma mark_blocked_tasks:
  assumes "mark_production_task_blocked env tid reason db = (Inr b, db')"
  shows "\<exists>now. db_tasks db' = update_rows (\<lambda>t. t_id t = tid \<and> t_status t = ''queued'')
      (blocked_row reason now) (db_tasks db)
    \<and> (b \<longleftrightarrow> rows_affected (\<lambda>t. t_id t = tid \<and> t_status t = ''queued'') (db_tasks db) = 1)"
  using assms unfolding mark_production_task_blocked_def
  by (auto simp: db_bind_Inr now_millis_iff dest!: update_tasks_cases)

lemma not_claimable_blocked [simp]: "\<not> claimable (blocked_row reason now t)"
  by (simp add: claimable_def)

lemma not_claimable_running [simp]: "\<not> claimable (running_row model now t)"
  by (simp add: claimable_def running_row_def)

lemma rows_affected_pos: "rows_affected P ts \<noteq> 0 \<Longrightarrow> \<exists>t\<in>set ts. P t"
  by (auto simp: rows_affected_0)

lemma claim_pass_count:
  "claim_pass env rows changed db = (Inr (Inr changed'), db') \<Longrightarrow>
     claimable_count (db_tasks db') \<le> claimable_count (db_tasks db)
     \<and> (changed' \<longrightarrow> changed \<or> pass_progress rows (db_tasks db) (db_tasks db'))"
proof (induction rows arbitrary: changed db)
  case Nil
  then show ?case by simp
next
  case (Cons model rest)
  from Cons.prems obtain d db1 where
    d: "production_task_dependency_state env model db = (Inr d, db1)"
    and next': "(case d of
       Waiting \<Rightarrow> claim_pass env rest changed
     | Blocked reason \<Rightarrow>
         db_bind (mark_production_task_blocked env (t_id model) reason) (\<lambda>marked.
         claim_pass env rest (changed \<or> marked))
     | Ready \<Rightarrow>
         db_bind (now_millis_string env) (\<lambda>now.
         db_bind (update_tasks env (\<lambda>t. t_id t = t_id model \<and> claimable t) (running_row model now)) (\<lambda>n.
         if n = 1 then db_bind (find_production_task env (t_id model)) (\<lambda>t. db_return (Inl t))
         else claim_pass env rest True))) db1 = (Inr (Inr changed'), db')"
    unfolding claim_pass.simps db_bind_Inr [of "production_task_dependency_state env model"] by blast
  have t1: "db_tasks db1 = db_tasks db" by (rule dependency_state_tasks [OF d])
  show ?case
  proof (cases d)
    case Waiting
    with next' Cons.IH [of changed db1] t1 show ?thesis by (auto simp: pass_progress_def)
  next
    case (Blocked reason)
    let ?P = "\<lambda>t. t_id t = t_id model \<and> t_status t = ''queued''"
    from Blocked next' obtain b db2 where
      m: "mark_production_task_blocked env (t_id model) reason db1 = (Inr b, db2)"
      "claim_pass env rest (changed \<or> b) db2 = (Inr (Inr changed'), db')"
      by (auto simp: db_bind_Inr)
    from mark_blocked_tasks [OF m(1)] t1 obtain now where
      t2: "db_tasks db2 = update_rows ?P (blocked_row reason now) (db_tasks db)"
        "b \<longleftrightarrow> rows_affected ?P (db_tasks db) = 1" by auto
    have le: "claimable_count (db_tasks db2) \<le> claimable_count (db_tasks db)"
      unfolding t2(1) by (rule claimable_count_le) simp
    note IH = Cons.IH [OF m(2)]
    have b: "pass_progress (model # rest) (db_tasks db) (db_tasks db')" if b
    proof (cases "\<exists>t\<in>set (db_tasks db). t_id t = t_id model \<and> claimable t")
      case True
      then obtain t where "t \<in> set (db_tasks db)" "?P t" "claimable t" by (auto simp: claimable_def)
      then have "claimable_count (db_tasks db2) < claimable_count (db_tasks db)"
        unfolding t2(1) by (intro claimable_count_less) auto
      with IH show ?thesis by (simp add: pass_progress_def)
    qed (auto simp: pass_progress_def)
    have r: "pass_progress (model # rest) (db_tasks db) (db_tasks db')"
      if "pass_progress rest (db_tasks db2) (db_tasks db')"
      using that IH unfolding t2(1) by (intro pass_progress_step) auto
    from IH le b r show ?thesis by auto
  next
    case Ready
    let ?P = "\<lambda>t. t_id t = t_id model \<and> claimable t"
    from Ready next' obtain n now db2 where
      u: "update_tasks env ?P (running_row model now) db1 = (Inr n, db2)" "n \<noteq> 1"
      "claim_pass env rest True db2 = (Inr (Inr changed'), db')"
      by (auto simp: db_bind_Inr now_millis_iff split: if_splits)
    from update_tasks_cases [OF u(1)] t1 have
      t2: "db_tasks db2 = update_rows ?P (running_row model now) (db_tasks db)"
        "n = rows_affected ?P (db_tasks db)" by auto
    have le: "claimable_count (db_tasks db2) \<le> claimable_count (db_tasks db)"
      unfolding t2(1) by (rule claimable_count_le) simp
    have "pass_progress (model # rest) (db_tasks db) (db_tasks db2)"
    proof (cases "n = 0")
      case True
      with t2(2) show ?thesis by (auto simp: pass_progress_def rows_affected_0)
    next
      case False
      with t2(2) have "rows_affected ?P (db_tasks db) \<noteq> 0" by simp
      from rows_affected_pos [OF this] obtain t where "t \<in> set (db_tasks db)" "?P t" by blast
      then have "claimable_count (db_tasks db2) < claimable_count (db_tasks db)"
        unfolding t2(1) by (intro claimable_count_less) auto
      then show ?thesis by (simp add: pass_progress_def)
    qed
    with Cons.IH [OF u(3)] le show ?thesis by (auto simp: pass_progress_def)
  qed
qed

lemma claim_round_decreases:
  assumes "claim_pass env (queued_tasks (db_tasks db)) False (db\<lparr>db_tick := n\<rparr>) = (Inr (Inr True), db')"
  shows "claimable_count (db_tasks db') < claimable_count (db_tasks db)"
  using claim_pass_count [OF assms]
  by (auto simp: pass_progress_def queued_tasks_def)

function claim_next_production_task :: "db_env \<Rightarrow> production_task option dbm" where
  "claim_next_production_task env db =
     (case query env (\<lambda>db. queued_tasks (db_tasks db)) db of
        (Inl e, db1) \<Rightarrow> (Inl e, db1)
      | (Inr queued, db1) \<Rightarrow>
          if queued = [] then (Inr None, db1)
          else
            (case claim_pass env queued False db1 of
               (Inl e, db2) \<Rightarrow> (Inl e, db2)
             | (Inr (Inl t), db2) \<Rightarrow> (Inr t, db2)
             | (Inr (Inr changed), db2) \<Rightarrow>
                 if changed then claim_next_production_task env db2 else (Inr None, db2)))"
  by pat_completeness auto
termination
  by (relation "measure (\<lambda>(env, db). claimable_count (db_tasks db))")
    (auto simp: query_Inr dest!: sym [of _ "query _ _ _"] sym [of _ "claim_pass _ _ _ _"]
      dest: claim_round_decreases)

declare claim_next_production_task.simps [simp del]

section \<open>Progress, completion, cancellation, retry and recovery\<close>

definition progress_row :: "string \<Rightarrow> int \<Rightarrow> string \<Rightarrow> production_task \<Rightarrow> production_task" where
  "progress_row phase progress now t =
     t\<lparr>t_phase := trim phase, t_progress := clamp 0 99 progress, t_updated_at := now\<rparr>"

definition update_production_task_progress ::
  "db_env \<Rightarrow> string \<Rightarrow> string \<Rightarrow> int \<Rightarrow> production_task option dbm" where
  "update_production_task_progress env tid phase progress =
     db_bind (now_millis_string env) (\<lambda>now.
     db_bind (update_tasks env (\<lambda>t. t_id t = tid \<and> t_status t = ''running'')
         (progress_row phase progress now)) (\<lambda>n.
     if n = 0 then db_return None else find_production_task env tid))"

definition finished_row ::
  "string \<Rightarrow> int \<Rightarrow> string \<Rightarrow> string \<Rightarrow> string \<Rightarrow> production_task \<Rightarrow> production_task" where
  "finished_row status progress result error now t =
     t\<lparr>t_status := status, t_phase := status, t_progress := clamp 0 100 progress, t_result := result,
       t_error := error,
       t_finished_at := (if production_task_status_is_terminal status then now else []),
       t_updated_at := now\<rparr>"

definition finish_production_task ::
  "db_env \<Rightarrow> string \<Rightarrow> string \<Rightarrow> int \<Rightarrow> string \<Rightarrow> string \<Rightarrow> production_task option dbm" where
  "finish_production_task env tid status progress result error =
     db_bind (find_production_task env tid) (\<lambda>m.
     case m of
       None \<Rightarrow> db_return None
     | Some model \<Rightarrow>
         db_bind (now_millis_string env) (\<lambda>now.
         db_bind (update_task env tid (finished_row status progress result error now)) (\<lambda>updated.
         if failure_status status
         then db_bind (propagate_production_task_dependency_failure env tid) (\<lambda>_.
              db_return (Some updated))
         else db_return (Some updated))))"

definition cancelled_row :: "bool \<Rightarrow> string \<Rightarrow> production_task \<Rightarrow> production_task" where
  "cancelled_row queued now t =
     (let t1 = t\<lparr>t_cancel_requested := True, t_updated_at := now\<rparr>
      in if queued
         then t1\<lparr>t_status := ''cancelled'', t_phase := ''cancelled'',
                 t_error := ''cancelled before execution'', t_finished_at := now\<rparr>
         else t1)"

text \<open>The two halves of a cancellation: what the lookup saw decides what is written.\<close>

definition cancel_write :: "db_env \<Rightarrow> string \<Rightarrow> production_task \<Rightarrow> production_task option dbm" where
  "cancel_write env tid model =
     (if production_task_status_is_terminal (t_status model) then db_return (Some model)
      else
        db_bind (now_millis_string env) (\<lambda>now.
        db_bind (update_task env tid (cancelled_row (t_status model = ''queued'') now)) (\<lambda>updated.
        if t_status model = ''queued''
        then db_bind (propagate_production_task_dependency_failure env tid) (\<lambda>_.
             db_return (Some updated))
        else db_return (Some updated))))"

definition request_cancel_production_task :: "db_env \<Rightarrow> string \<Rightarrow> production_task option dbm" where
  "request_cancel_production_task env tid =
     db_bind (find_production_task env tid) (\<lambda>m.
     case m of None \<Rightarrow> db_return None | Some model \<Rightarrow> cancel_write env tid model)"

definition retried_row :: "int \<Rightarrow> string \<Rightarrow> production_task \<Rightarrow> production_task" where
  "retried_row max_attempts now t =
     t\<lparr>t_status := ''queued'', t_phase := ''queued'', t_progress := 0, t_max_attempts := max_attempts,
       t_cancel_requested := False, t_blocked_reason := [], t_result := [], t_error := [],
       t_started_at := [], t_finished_at := [], t_updated_at := now\<rparr>"

definition next_max_attempts :: "production_task \<Rightarrow> int" where
  "next_max_attempts model = min (max (t_max_attempts model) (wrapping_i32 (t_attempts model + 1))) 10"

definition retry_write :: "db_env \<Rightarrow> string \<Rightarrow> production_task \<Rightarrow> production_task option dbm" where
  "retry_write env tid model =
     db_bind (now_millis_string env) (\<lambda>now.
     db_bind (update_task env tid (retried_row (next_max_attempts model) now)) (\<lambda>updated.
     db_bind (requeue_blocked_production_task_descendants env tid) (\<lambda>_.
     db_return (Some updated))))"

definition retry_production_task :: "db_env \<Rightarrow> string \<Rightarrow> production_task option dbm" where
  "retry_production_task env tid =
     db_bind (find_production_task env tid) (\<lambda>m.
     case m of
       None \<Rightarrow> db_return None
     | Some model \<Rightarrow>
         if \<not> failure_status (t_status model) then db_return (Some model)
         else if t_status model = ''blocked''
         then db_bind (production_task_dependency_state env model) (\<lambda>d.
              if d \<noteq> Ready then db_return (Some model) else retry_write env tid model)
         else retry_write env tid model)"

definition recovered_row :: "bool \<Rightarrow> string \<Rightarrow> production_task \<Rightarrow> production_task" where
  "recovered_row cancelled now t =
     t\<lparr>t_status := (if cancelled then ''cancelled'' else ''interrupted''),
       t_phase := (if cancelled then ''cancelled'' else ''interrupted''), t_progress := 0,
       t_error := (if cancelled then ''cancelled during service restart''
                   else ''execution interrupted by service restart; explicit retry required''),
       t_started_at := [], t_finished_at := now, t_updated_at := now\<rparr>"

fun recover_tasks :: "db_env \<Rightarrow> production_task list \<Rightarrow> nat dbm" where
  "recover_tasks env [] = db_return 0"
| "recover_tasks env (model # rest) =
     db_bind (now_millis_string env) (\<lambda>now.
     db_bind (update_task env (t_id model) (recovered_row (t_cancel_requested model) now)) (\<lambda>_.
     db_bind (propagate_production_task_dependency_failure env (t_id model)) (\<lambda>_.
     db_bind (recover_tasks env rest) (\<lambda>n.
     db_return (n + 1)))))"

definition recover_incomplete_production_tasks :: "db_env \<Rightarrow> nat dbm" where
  "recover_incomplete_production_tasks env =
     db_bind (query env (\<lambda>db. filter (\<lambda>t. t_status t = ''running'') (db_tasks db))) (\<lambda>tasks.
     recover_tasks env tasks)"

section \<open>Well-formed task tables\<close>

definition task_statuses :: "string list" where
  "task_statuses =
     [''queued'', ''running'', ''succeeded'', ''failed'', ''cancelled'', ''interrupted'', ''blocked'']"

definition task_row_ok :: "production_task \<Rightarrow> bool" where
  "task_row_ok t \<longleftrightarrow>
     t_status t \<in> set task_statuses
     \<and> 0 \<le> t_progress t \<and> t_progress t \<le> 100
     \<and> 1 \<le> t_max_attempts t \<and> t_max_attempts t \<le> 10
     \<and> (t_status t \<in> {''queued'', ''blocked''} \<longrightarrow> \<not> t_cancel_requested t)
     \<and> (t_finished_at t = [] \<longleftrightarrow> t_status t \<in> {''queued'', ''running''})
     \<and> (t_blocked_reason t = [] \<longleftrightarrow> t_status t \<noteq> ''blocked'')
     \<and> (t_status t = ''running'' \<longrightarrow> t_started_at t \<noteq> [])"

definition task_table_ok :: "production_task list \<Rightarrow> bool" where
  "task_table_ok ts \<longleftrightarrow>
     distinct (map t_id ts) \<and> distinct (map t_idempotency_key ts) \<and> list_all task_row_ok ts"

text \<open>The columns no operation but the insertion writes.\<close>

definition task_static :: "production_task \<Rightarrow>
  string \<times> string \<times> string \<times> string \<times> string \<times> string \<times> string \<times> string \<times> string \<times> string \<times> string" where
  "task_static t =
     (t_id t, t_idempotency_key t, t_kind t, t_material_id t, t_session_id t, t_chain_id t,
      t_depends_on_task_id t, t_dependency_policy t, t_payload t, t_actor t, t_created_at t)"

end
