(* ===== verification/Task_Invariant.thy ===== *)
theory Task_Invariant
  imports Task_Store
begin

text \<open>
  The invariant of the task table under every operation of the store and every schedule of
  database faults, and what propagation and requeueing do to it.
\<close>

section \<open>Operations lifted to table relations\<close>

context table_relation
begin

lemma keeps_find: "keeps R (find_production_task env tid)"
  by (simp add: find_production_task_def keeps_query)

lemma keeps_dependency_state: "keeps R (production_task_dependency_state env task)"
  by (simp add: production_task_dependency_state_def keeps_return keeps_bind keeps_find)

lemma keeps_mark:
  assumes "\<And>n ts. R ts (update_rows (\<lambda>t. t_id t = tid \<and> t_status t = ''queued'')
      (blocked_row reason (show_nat n)) ts)"
  shows "keeps R (mark_production_task_blocked env tid reason)"
  unfolding mark_production_task_blocked_def
  by (intro keeps_now_bind keeps_bind keeps_return keeps_update_tasks assms)

lemma keeps_block_dependents:
  assumes "\<And>tid. keeps R (mark_production_task_blocked env tid reason)"
  shows "keeps R (block_dependents env reason ds)"
  by (induction ds) (auto intro!: keeps_bind keeps_return assms)

lemma keeps_propagate_loop:
  assumes "\<And>env tid reason. reason \<noteq> [] \<Longrightarrow> keeps R (mark_production_task_blocked env tid reason)"
  shows "R (db_tasks db) (db_tasks (snd (propagate_loop env frontier blocked db)))"
proof -
  have parent: "keeps R (propagate_parent env p)" for env p
    unfolding propagate_parent_def
    by (intro keeps_bind keeps_query keeps_find keeps_block_dependents assms) simp
  show ?thesis
  proof (induction env frontier blocked db rule: propagate_loop.induct)
    case (1 env blocked db)
    show ?case by (simp add: propagate_loop.simps rel_refl)
  next
    case (2 env p rest blocked db)
    obtain r db' where p: "propagate_parent env p db = (r, db')" by fastforce
    have r1: "R (db_tasks db) (db_tasks db')" by (rule keepsD [OF parent p])
    show ?case
    proof (cases r)
      case (Inl e)
      with p r1 show ?thesis by (simp add: propagate_loop.simps)
    next
      case (Inr marked)
      from 2 [OF p [symmetric] Inr] r1 p Inr show ?thesis
        by (simp add: propagate_loop.simps) (rule rel_trans)
    qed
  qed
qed

lemma keeps_propagate:
  assumes "\<And>env tid reason. reason \<noteq> [] \<Longrightarrow> keeps R (mark_production_task_blocked env tid reason)"
  shows "keeps R (propagate_production_task_dependency_failure env tid)"
  unfolding keeps_def propagate_production_task_dependency_failure_def
  by (intro allI keeps_propagate_loop assms)

lemma keeps_requeue_dependents:
  assumes "\<And>tid n ts. R ts (update_rows (\<lambda>t. t_id t = tid \<and> t_status t = ''blocked'') (requeued_row (show_nat n)) ts)"
  shows "keeps R (requeue_dependents env ds)"
  by (induction ds) (auto intro!: keeps_now_bind keeps_bind keeps_return keeps_update_tasks assms)

lemma keeps_requeue_loop:
  assumes "\<And>tid n ts. R ts (update_rows (\<lambda>t. t_id t = tid \<and> t_status t = ''blocked'') (requeued_row (show_nat n)) ts)"
  shows "R (db_tasks db) (db_tasks (snd (requeue_loop env frontier requeued db)))"
proof -
  have parent: "keeps R (requeue_parent env p)" for env p
    unfolding requeue_parent_def
    by (intro keeps_bind keeps_query keeps_requeue_dependents assms)
  show ?thesis
  proof (induction env frontier requeued db rule: requeue_loop.induct)
    case (1 env requeued db)
    show ?case by (simp add: requeue_loop.simps rel_refl)
  next
    case (2 env p rest requeued db)
    obtain r db' where p: "requeue_parent env p db = (r, db')" by fastforce
    have r1: "R (db_tasks db) (db_tasks db')" by (rule keepsD [OF parent p])
    show ?case
    proof (cases r)
      case (Inl e)
      with p r1 show ?thesis by (simp add: requeue_loop.simps)
    next
      case (Inr marked)
      from 2 [OF p [symmetric] Inr] r1 p Inr show ?thesis
        by (simp add: requeue_loop.simps) (rule rel_trans)
    qed
  qed
qed

lemma keeps_requeue:
  assumes "\<And>tid n ts. R ts (update_rows (\<lambda>t. t_id t = tid \<and> t_status t = ''blocked'') (requeued_row (show_nat n)) ts)"
  shows "keeps R (requeue_blocked_production_task_descendants env tid)"
  unfolding keeps_def requeue_blocked_production_task_descendants_def
  by (intro allI keeps_requeue_loop assms)

lemma keeps_claim_pass:
  assumes "\<And>env tid reason. reason \<noteq> [] \<Longrightarrow> keeps R (mark_production_task_blocked env tid reason)"
    and "\<And>tid model n ts. R ts (update_rows (\<lambda>t. t_id t = tid \<and> claimable t) (running_row model (show_nat n)) ts)"
  shows "keeps R (claim_pass env rows changed)"
proof (induction rows arbitrary: changed)
  case Nil
  show ?case by (simp add: keeps_return)
next
  case (Cons model rest)
  have reason: "production_task_dependency_state env model db = (Inr (Blocked reason), db1) \<Longrightarrow> reason \<noteq> []"
    for reason db db1
    by (auto simp: production_task_dependency_state_def dependency_state_of_def db_bind_Inr
        split: if_splits option.splits)
  show ?case
    unfolding keeps_def
  proof
    fix db
    obtain r db1 where d: "production_task_dependency_state env model db = (r, db1)" by fastforce
    have t1: "db_tasks db1 = db_tasks db" by (rule dependency_state_tasks [OF d])
    have blocked: "keeps R (db_bind (mark_production_task_blocked env (t_id model) reason) (\<lambda>marked.
         claim_pass env rest (changed \<or> marked)))" if "reason \<noteq> []" for reason
      by (intro keeps_bind assms(1) that Cons.IH)
    have ready: "keeps R (db_bind (now_millis_string env) (\<lambda>now.
         db_bind (update_tasks env (\<lambda>t. t_id t = t_id model \<and> claimable t) (running_row model now)) (\<lambda>n.
         if n = 1 then db_bind (find_production_task env (t_id model)) (\<lambda>t. db_return (Inl t))
         else claim_pass env rest True)))"
      by (intro keeps_now_bind keeps_bind keeps_update_tasks assms(2))
        (simp add: Cons.IH keeps_bind keeps_find keeps_return)
    show "R (db_tasks db) (db_tasks (snd (claim_pass env (model # rest) changed db)))"
    proof (cases r)
      case (Inl e)
      with d t1 show ?thesis by (simp add: db_bind_def rel_refl)
    next
      case (Inr st)
      then show ?thesis
        using d t1 blocked reason ready Cons.IH [of changed]
        by (cases st) (auto simp: db_bind_def [of "production_task_dependency_state env model"]
            keeps_def simp flip: t1)
    qed
  qed
qed

lemma keeps_claim_next:
  assumes "\<And>env tid reason. reason \<noteq> [] \<Longrightarrow> keeps R (mark_production_task_blocked env tid reason)"
    and "\<And>tid model n ts. R ts (update_rows (\<lambda>t. t_id t = tid \<and> claimable t) (running_row model (show_nat n)) ts)"
  shows "R (db_tasks db) (db_tasks (snd (claim_next_production_task env db)))"
proof (induction env db rule: claim_next_production_task.induct)
  case (1 env db)
  obtain r db1 where q: "query env (\<lambda>db. queued_tasks (db_tasks db)) db = (r, db1)" by fastforce
  have t1: "db_tasks db1 = db_tasks db" by (rule query_tasks [OF q])
  show ?case
  proof (cases "\<exists>queued. r = Inr queued \<and> queued \<noteq> []")
    case False
    with q t1 show ?thesis
      by (subst claim_next_production_task.simps) (auto simp: rel_refl split: sum.splits)
  next
    case True
    then obtain queued where Q: "r = Inr queued" "queued \<noteq> []" by blast
    obtain r2 db2 where c: "claim_pass env queued False db1 = (r2, db2)" by fastforce
    have r12: "R (db_tasks db) (db_tasks db2)"
      using keepsD [OF keeps_claim_pass [OF assms] c] t1 by simp
    show ?thesis
      using 1 [OF q [symmetric] Q(1) Q(2) c [symmetric]] q Q c r12
      by (subst claim_next_production_task.simps)
        (auto split: sum.splits intro: rel_trans)
  qed
qed

end

section \<open>Row updates keep the static columns\<close>

interpretation blocked_upd: row_update task_static "blocked_row reason now" for reason now
  by unfold_locales (simp add: task_static_def blocked_row_def)

interpretation requeued_upd: row_update task_static "requeued_row now" for now
  by unfold_locales (simp add: task_static_def requeued_row_def)

interpretation running_upd: row_update task_static "running_row model now" for model now
  by unfold_locales (simp add: task_static_def running_row_def)

interpretation progress_upd: row_update task_static "progress_row phase progress now"
  for phase progress now
  by unfold_locales (simp add: task_static_def progress_row_def)

interpretation finished_upd: row_update task_static "finished_row status progress result error now"
  for status progress result error now
  by unfold_locales (simp add: task_static_def finished_row_def)

interpretation cancelled_upd: row_update task_static "cancelled_row queued now" for queued now
  by unfold_locales (simp add: task_static_def cancelled_row_def Let_def)

interpretation retried_upd: row_update task_static "retried_row ma now" for ma now
  by unfold_locales (simp add: task_static_def retried_row_def)

interpretation recovered_upd: row_update task_static "recovered_row cancelled now" for cancelled now
  by unfold_locales (simp add: task_static_def recovered_row_def)

lemmas static_kept = blocked_upd.map_key requeued_upd.map_key running_upd.map_key
  progress_upd.map_key finished_upd.map_key cancelled_upd.map_key retried_upd.map_key
  recovered_upd.map_key

lemma static_keys:
  assumes "map task_static us = map task_static ts"
  shows "map t_id us = map t_id ts" "map t_idempotency_key us = map t_idempotency_key ts"
  using arg_cong [OF assms, of "map fst"] arg_cong [OF assms, of "map (\<lambda>x. fst (snd x))"]
  by (simp_all add: task_static_def comp_def)

section \<open>The invariant\<close>

definition table_step :: "production_task list \<Rightarrow> production_task list \<Rightarrow> bool" where
  "table_step ts us \<longleftrightarrow>
     map task_static us = map task_static ts \<and> (list_all task_row_ok ts \<longrightarrow> list_all task_row_ok us)"

interpretation tst: table_relation table_step
  by unfold_locales (auto simp: table_step_def)

lemma table_step_ok: "table_step ts us \<Longrightarrow> task_table_ok ts \<Longrightarrow> task_table_ok us"
  using static_keys [of us ts] by (auto simp: table_step_def task_table_ok_def)

lemma list_all_update_rows:
  assumes "list_all Q ts" and "\<And>t. t \<in> set ts \<Longrightarrow> P t \<Longrightarrow> Q t \<Longrightarrow> Q (f t)"
  shows "list_all Q (update_rows P f ts)"
  using assms by (auto simp: update_rows_def list_all_iff)

lemma table_step_update:
  assumes "map task_static (update_rows P f ts) = map task_static ts"
    and "\<And>t. t \<in> set ts \<Longrightarrow> P t \<Longrightarrow> task_row_ok t \<Longrightarrow> task_row_ok (f t)"
  shows "table_step ts (update_rows P f ts)"
  using assms list_all_update_rows [of task_row_ok ts P f] by (simp add: table_step_def)

lemmas row_ok_defs = task_row_ok_def task_statuses_def

lemma blocked_row_ok: "reason \<noteq> [] \<Longrightarrow> t_status t = ''queued'' \<Longrightarrow> task_row_ok t \<Longrightarrow>
  task_row_ok (blocked_row reason (show_nat n) t)"
  by (simp add: row_ok_defs blocked_row_def)

lemma tst_mark: "reason \<noteq> [] \<Longrightarrow> keeps table_step (mark_production_task_blocked env tid reason)"
  by (intro tst.keeps_mark table_step_update) (simp_all add: static_kept blocked_row_ok)

lemma tst_requeued:
  "table_step ts (update_rows (\<lambda>t. t_id t = tid \<and> t_status t = ''blocked'') (requeued_row (show_nat n)) ts)"
  by (rule table_step_update) (simp_all add: static_kept row_ok_defs requeued_row_def)

lemma tst_running:
  "table_step ts (update_rows (\<lambda>t. t_id t = tid \<and> claimable t) (running_row model (show_nat n)) ts)"
  by (rule table_step_update) (simp_all add: static_kept row_ok_defs running_row_def claimable_def)

lemma tst_progress: "keeps table_step (update_production_task_progress env tid phase progress)"
proof -
  have u: "table_step ts (update_rows (\<lambda>t. t_id t = tid \<and> t_status t = ''running'')
      (progress_row phase progress (show_nat n)) ts)" for n ts
    by (rule table_step_update) (auto simp: static_kept row_ok_defs progress_row_def clamp_def)
  have "keeps table_step (if n = 0 then db_return None else find_production_task env tid)" for n :: nat
    by (simp add: tst.keeps_return tst.keeps_find)
  then show ?thesis
    unfolding update_production_task_progress_def
    by (intro tst.keeps_now_bind tst.keeps_bind tst.keeps_update_tasks u)
qed

lemmas tst_propagate = tst.keeps_propagate [OF tst_mark]
lemmas tst_requeue = tst.keeps_requeue [OF tst_requeued]
lemmas tst_claim = tst.keeps_claim_next [OF tst_mark tst_running]

lemma propagate_ok:
  "propagate_production_task_dependency_failure env tid db = (r, db') \<Longrightarrow>
     task_table_ok (db_tasks db) \<Longrightarrow> task_table_ok (db_tasks db')"
  using keepsD [OF tst_propagate] table_step_ok by blast

lemma requeue_ok:
  "requeue_blocked_production_task_descendants env tid db = (r, db') \<Longrightarrow>
     task_table_ok (db_tasks db) \<Longrightarrow> task_table_ok (db_tasks db')"
  using keepsD [OF tst_requeue] table_step_ok by blast

lemma claim_ok:
  assumes "claim_next_production_task env db = (r, db')" and "task_table_ok (db_tasks db)"
  shows "task_table_ok (db_tasks db')"
  using table_step_ok [OF tst_claim assms(2), of env] assms(1) by simp

lemma progress_ok:
  "update_production_task_progress env tid phase progress db = (r, db') \<Longrightarrow>
     task_table_ok (db_tasks db) \<Longrightarrow> task_table_ok (db_tasks db')"
  using keepsD [OF tst_progress] table_step_ok by blast

text \<open>An update by primary key touches only the row that the lookup found.\<close>

lemma find_Some_unique:
  assumes "distinct (map t_id ts)" and "find (\<lambda>t. t_id t = tid) ts = Some m"
  shows "m \<in> set ts \<and> t_id m = tid \<and> (\<forall>t\<in>set ts. t_id t = tid \<longrightarrow> t = m)"
proof -
  from assms(2) have m: "m \<in> set ts" "t_id m = tid"
    by (auto simp: find_Some_iff)
  with assms(1) show ?thesis by (auto simp: distinct_map inj_on_def)
qed

lemma update_found_ok:
  assumes "task_table_ok ts" and "find (\<lambda>t. t_id t = tid) ts = Some m" and "task_row_ok (f m)"
    and "map task_static (update_rows (\<lambda>t. t_id t = tid) f ts) = map task_static ts"
  shows "task_table_ok (update_rows (\<lambda>t. t_id t = tid) f ts)"
proof (rule table_step_ok [OF _ assms(1)], rule table_step_update [OF assms(4)])
  fix t assume "t \<in> set ts" "t_id t = tid"
  with find_Some_unique [OF _ assms(2)] assms(1) have "t = m" by (auto simp: task_table_ok_def)
  with assms(3) show "task_row_ok (f t)" by simp
qed

lemma found_row_ok:
  assumes "task_table_ok ts" and "find (\<lambda>t. t_id t = tid) ts = Some m"
  shows "task_row_ok m"
  using assms find_Some_unique [of ts tid m] by (auto simp: task_table_ok_def list_all_iff)

lemma update_task_ok:
  assumes "update_task env tid f db = (r, db')" and "task_table_ok (db_tasks db)"
    and "find (\<lambda>t. t_id t = tid) (db_tasks db) = Some m" and "task_row_ok (f m)"
    and "map task_static (update_rows (\<lambda>t. t_id t = tid) f (db_tasks db)) = map task_static (db_tasks db)"
  shows "task_table_ok (db_tasks db')"
  using update_task_cases [OF assms(1)] update_found_ok [OF assms(2-5)] assms(2) by auto

lemma find_result:
  "find_production_task env tid db = (Inr m, db') \<Longrightarrow>
     m = find (\<lambda>t. t_id t = tid) (db_tasks db) \<and> db_tasks db' = db_tasks db"
  by (auto simp: find_production_task_def query_Inr)

lemma find_tasks: "find_production_task env tid db = (r, db') \<Longrightarrow> db_tasks db' = db_tasks db"
  by (auto simp: find_production_task_def dest: query_tasks)

lemma insert_cases:
  assumes "insert_production_task env input db = (r, db')"
  shows "(\<exists>e. r = Inl e \<and> db_tasks db' = db_tasks db)
    \<or> (\<exists>n. r = Inr (new_task_row input (show_nat n))
        \<and> db_tasks db' = db_tasks db @ [new_task_row input (show_nat n)]
        \<and> ti_id input \<notin> set (map t_id (db_tasks db))
        \<and> ti_idempotency_key input \<notin> set (map t_idempotency_key (db_tasks db)))"
  using assms unfolding insert_production_task_def
  by (auto simp: db_bind_def now_millis_string_def stmt_def Let_def new_task_row_def
      split: option.splits if_splits)

lemma new_task_row_ok: "task_row_ok (new_task_row input (show_nat n))"
  by (simp add: new_task_row_def row_ok_defs clamp_def)

lemma insert_ok:
  assumes "insert_production_task env input db = (r, db')" and "task_table_ok (db_tasks db)"
  shows "task_table_ok (db_tasks db')"
  using insert_cases [OF assms(1)] assms(2) new_task_row_ok [of input]
  by (auto simp: task_table_ok_def) (auto simp: new_task_row_def)

definition worker_outcome :: "string \<Rightarrow> bool" where
  "worker_outcome status \<longleftrightarrow> status \<in> {''succeeded'', ''failed'', ''cancelled'', ''interrupted''}"

lemma finished_row_ok:
  "worker_outcome status \<Longrightarrow> t_status m = ''running'' \<Longrightarrow> task_row_ok m \<Longrightarrow>
     task_row_ok (finished_row status progress result error (show_nat n) m)"
  by (auto simp: worker_outcome_def finished_row_def row_ok_defs production_task_status_is_terminal_def
      clamp_def)

lemma finish_ok:
  assumes "finish_production_task env tid status progress result error db = (r, db')"
    and "task_table_ok (db_tasks db)" and "worker_outcome status"
    and "\<And>t. t \<in> set (db_tasks db) \<Longrightarrow> t_id t = tid \<Longrightarrow> t_status t = ''running''"
  shows "task_table_ok (db_tasks db')"
proof -
  obtain q db1 where f: "find_production_task env tid db = (q, db1)" by fastforce
  note t1 = find_tasks [OF f]
  show ?thesis
  proof (cases "\<exists>m. q = Inr (Some m)")
    case False
    with f t1 assms(1,2) show ?thesis
      by (auto simp: finish_production_task_def db_bind_any split: option.splits)
  next
    case True
    then obtain m where m: "q = Inr (Some m)" by blast
    let ?f = "finished_row status progress result error (show_nat (dbe_millis env (db_tick db1)))"
    obtain u db2 where u: "update_task env tid ?f db1 = (u, db2)" by fastforce
    have fm: "find (\<lambda>t. t_id t = tid) (db_tasks db) = Some m" using find_result [OF f [unfolded m]] by simp
    then have "t_status m = ''running''" using assms(4) by (auto simp: find_Some_iff)
    with found_row_ok [OF assms(2) fm] have "task_row_ok (?f m)" by (intro finished_row_ok assms(3))
    with update_task_ok [OF u] fm t1 assms(2) have ok2: "task_table_ok (db_tasks db2)"
      by (simp add: static_kept)
    from assms(1) f m u have "db' = db2
        \<or> (\<exists>p. propagate_production_task_dependency_failure env tid db2 = (p, db'))"
      by (auto simp: finish_production_task_def db_bind_any now_millis_iff split: if_splits)
    with ok2 propagate_ok show ?thesis by blast
  qed
qed

lemma cancelled_row_ok:
  "\<not> production_task_status_is_terminal (t_status m) \<Longrightarrow> task_row_ok m \<Longrightarrow>
     task_row_ok (cancelled_row (t_status m = ''queued'') (show_nat n) m)"
  by (auto simp: cancelled_row_def row_ok_defs production_task_status_is_terminal_def Let_def)

lemma cancel_write_ok:
  assumes "cancel_write env tid m db = (r, db')" and "task_table_ok (db_tasks db)"
    and "find (\<lambda>t. t_id t = tid) (db_tasks db) = Some m"
  shows "task_table_ok (db_tasks db')"
proof (cases "production_task_status_is_terminal (t_status m)")
  case True
  with assms(1,2) show ?thesis by (simp add: cancel_write_def)
next
  case False
  let ?f = "cancelled_row (t_status m = ''queued'') (show_nat (dbe_millis env (db_tick db)))"
  obtain u db2 where u: "update_task env tid ?f db = (u, db2)" by fastforce
  have "task_row_ok (?f m)" by (rule cancelled_row_ok [OF False found_row_ok [OF assms(2,3)]])
  from update_task_ok [OF u assms(2,3) this] have ok2: "task_table_ok (db_tasks db2)"
    by (simp add: static_kept)
  from assms(1) False u have "db' = db2
      \<or> (\<exists>p. propagate_production_task_dependency_failure env tid db2 = (p, db'))"
    by (auto simp: cancel_write_def db_bind_any now_millis_iff split: if_splits)
  with ok2 propagate_ok show ?thesis by blast
qed

lemma cancel_ok:
  assumes "request_cancel_production_task env tid db = (r, db')" and "task_table_ok (db_tasks db)"
  shows "task_table_ok (db_tasks db')"
proof -
  obtain q db1 where f: "find_production_task env tid db = (q, db1)" by fastforce
  note t1 = find_tasks [OF f]
  from assms(1) f have "db' = db1 \<or> (\<exists>m. q = Inr (Some m) \<and> cancel_write env tid m db1 = (r, db'))"
    by (auto simp: request_cancel_production_task_def db_bind_any split: option.splits)
  with t1 assms(2) cancel_write_ok [of env tid _ db1 r db'] find_result [of env tid db _ db1] f
  show ?thesis by auto
qed

lemma retried_row_ok:
  "1 \<le> ma \<Longrightarrow> ma \<le> 10 \<Longrightarrow> task_row_ok (retried_row ma now m)"
  by (simp add: retried_row_def row_ok_defs)

lemma next_max_attempts_bounds:
  "task_row_ok m \<Longrightarrow> 1 \<le> next_max_attempts m \<and> next_max_attempts m \<le> 10"
  by (auto simp: next_max_attempts_def task_row_ok_def)

lemma retry_write_ok:
  assumes "retry_write env tid m db = (r, db')" and "task_table_ok (db_tasks db)"
    and "find (\<lambda>t. t_id t = tid) (db_tasks db) = Some m"
  shows "task_table_ok (db_tasks db')"
proof -
  let ?f = "retried_row (next_max_attempts m) (show_nat (dbe_millis env (db_tick db)))"
  obtain u db2 where u: "update_task env tid ?f db = (u, db2)" by fastforce
  have "task_row_ok (?f m)"
    using next_max_attempts_bounds [OF found_row_ok [OF assms(2,3)]] by (simp add: retried_row_ok)
  from update_task_ok [OF u assms(2,3) this] have ok2: "task_table_ok (db_tasks db2)"
    by (simp add: static_kept)
  from assms(1) u have "db' = db2
      \<or> (\<exists>p. requeue_blocked_production_task_descendants env tid db2 = (p, db'))"
    by (auto simp: retry_write_def db_bind_any now_millis_iff)
  with ok2 requeue_ok show ?thesis by blast
qed

lemma retry_cases:
  assumes "retry_production_task env tid db = (r, db')"
  shows "db_tasks db' = db_tasks db
    \<or> (\<exists>m db1. find (\<lambda>t. t_id t = tid) (db_tasks db) = Some m \<and> failure_status (t_status m)
         \<and> db_tasks db1 = db_tasks db \<and> retry_write env tid m db1 = (r, db'))"
proof -
  obtain q db1 where f: "find_production_task env tid db = (q, db1)" by fastforce
  note t1 = find_tasks [OF f]
  consider "\<nexists>m. q = Inr (Some m)" | m where "q = Inr (Some m)" by blast
  then show ?thesis
  proof cases
    case 1
    with assms f t1 show ?thesis
      by (auto simp: retry_production_task_def db_bind_any split: option.splits)
  next
    case (2 m)
    with find_result [of env tid db "Some m" db1] f
    have fm: "find (\<lambda>t. t_id t = tid) (db_tasks db) = Some m" by simp
    from assms f 2 have "db' = db1 \<and> \<not> failure_status (t_status m)
        \<or> failure_status (t_status m)
          \<and> (if t_status m = ''blocked''
             then db_bind (production_task_dependency_state env m) (\<lambda>d.
                  if d \<noteq> Ready then db_return (Some m) else retry_write env tid m)
             else retry_write env tid m) db1 = (r, db')"
      by (auto simp: retry_production_task_def db_bind_any [of "find_production_task env tid"]
          split: if_splits)
    with t1 fm show ?thesis
      by (auto simp: db_bind_any dest: dependency_state_tasks split: if_splits)
  qed
qed

lemma retry_ok:
  assumes "retry_production_task env tid db = (r, db')" and "task_table_ok (db_tasks db)"
  shows "task_table_ok (db_tasks db')"
  using retry_cases [OF assms(1)] retry_write_ok assms(2) by metis

text \<open>Propagation touches queued rows only.\<close>

definition settled_kept :: "production_task list \<Rightarrow> production_task list \<Rightarrow> bool" where
  "settled_kept ts us \<longleftrightarrow> (\<forall>t\<in>set ts. t_status t \<noteq> ''queued'' \<longrightarrow> t \<in> set us)"

interpretation stl: table_relation settled_kept
  by unfold_locales (auto simp: settled_kept_def)

lemma stl_mark: "keeps settled_kept (mark_production_task_blocked env tid reason)"
  by (rule stl.keeps_mark) (force simp: settled_kept_def update_rows_def)

lemmas stl_propagate = stl.keeps_propagate [OF stl_mark]

lemma recovered_row_ok:
  "t_status m = ''running'' \<Longrightarrow> task_row_ok m \<Longrightarrow> task_row_ok (recovered_row c (show_nat n) m)"
  by (auto simp: recovered_row_def row_ok_defs)

lemma find_unique:
  "distinct (map t_id ts) \<Longrightarrow> m \<in> set ts \<Longrightarrow> find (\<lambda>t. t_id t = t_id m) ts = Some m"
  by (induction ts) (auto simp: image_iff)

lemma recover_step:
  assumes "task_table_ok (db_tasks db)"
    and "set (m # ms) \<subseteq> {t \<in> set (db_tasks db). t_status t = ''running''}"
    and "distinct (map t_id (m # ms))"
    and u: "update_task env (t_id m) (recovered_row c (show_nat n)) db = (u, db1)"
    and p: "propagate_production_task_dependency_failure env (t_id m) db1 = (p, db2)"
  shows "task_table_ok (db_tasks db1)" "task_table_ok (db_tasks db2)"
    "set ms \<subseteq> {t \<in> set (db_tasks db2). t_status t = ''running''}"
proof -
  have m: "m \<in> set (db_tasks db)" "t_status m = ''running''" using assms(2) by auto
  have fm: "find (\<lambda>t. t_id t = t_id m) (db_tasks db) = Some m"
    using find_unique m(1) assms(1) by (auto simp: task_table_ok_def)
  show ok1: "task_table_ok (db_tasks db1)"
    by (rule update_task_ok [OF u assms(1) fm])
      (simp_all add: static_kept recovered_row_ok [OF m(2) found_row_ok [OF assms(1) fm]])
  show "task_table_ok (db_tasks db2)" by (rule propagate_ok [OF p ok1])
  have "set ms \<subseteq> {t \<in> set (db_tasks db1). t_status t = ''running''}"
    using update_task_cases [OF u] assms(2,3) by (auto simp: update_rows_def image_iff) force+
  with keepsD [OF stl_propagate p]
  show "set ms \<subseteq> {t \<in> set (db_tasks db2). t_status t = ''running''}"
    by (auto simp: settled_kept_def)
qed

lemma recover_tasks_ok:
  assumes "recover_tasks env ms db = (r, db')" and "task_table_ok (db_tasks db)"
    and "set ms \<subseteq> {t \<in> set (db_tasks db). t_status t = ''running''}" and "distinct (map t_id ms)"
  shows "task_table_ok (db_tasks db')"
  using assms
proof (induction ms arbitrary: db r)
  case Nil
  then show ?case by simp
next
  case (Cons m ms)
  let ?f = "recovered_row (t_cancel_requested m) (show_nat (dbe_millis env (db_tick db)))"
  obtain u db1 where u: "update_task env (t_id m) ?f db = (u, db1)" by fastforce
  obtain p db2 where p: "propagate_production_task_dependency_failure env (t_id m) db1 = (p, db2)"
    by fastforce
  note step = recover_step [OF Cons.prems(2-4) u p]
  from Cons.prems(1) u p have "db' = db1 \<or> db' = db2 \<or> (\<exists>q. recover_tasks env ms db2 = (q, db'))"
    by (auto simp: db_bind_any now_millis_iff)
  with step(1,2) Cons.IH [OF _ step(2,3)] Cons.prems(4) show ?case by auto
qed

lemma recover_ok:
  assumes "recover_incomplete_production_tasks env db = (r, db')" and "task_table_ok (db_tasks db)"
  shows "task_table_ok (db_tasks db')"
proof -
  obtain q db1 where q: "query env (\<lambda>db. filter (\<lambda>t. t_status t = ''running'') (db_tasks db)) db = (q, db1)"
    by fastforce
  note t1 = query_tasks [OF q]
  show ?thesis
  proof (cases q)
    case (Inl e)
    with assms q t1 show ?thesis by (auto simp: recover_incomplete_production_tasks_def db_bind_any)
  next
    case (Inr ms)
    with q have ms: "ms = filter (\<lambda>t. t_status t = ''running'') (db_tasks db)" by (simp add: query_Inr)
    from assms(1) q Inr have "recover_tasks env ms db1 = (r, db')"
      by (auto simp: recover_incomplete_production_tasks_def db_bind_any)
    moreover have "distinct (map t_id ms)"
      using assms(2) by (simp add: ms task_table_ok_def distinct_map_filter)
    ultimately show ?thesis using recover_tasks_ok assms(2) t1 ms by auto
  qed
qed

section \<open>The transition system of the task table\<close>

text \<open>
  Every operation of the store, under an arbitrary fault schedule and clock each time.  A completion
  is issued for a running task with one of the outcomes of the worker.
\<close>

inductive task_step :: "database \<Rightarrow> database \<Rightarrow> bool" where
  ts_insert: "insert_production_task env input db = (r, db') \<Longrightarrow> task_step db db'"
| ts_claim: "claim_next_production_task env db = (r, db') \<Longrightarrow> task_step db db'"
| ts_progress: "update_production_task_progress env tid phase progress db = (r, db') \<Longrightarrow> task_step db db'"
| ts_finish: "finish_production_task env tid status progress result error db = (r, db')
    \<Longrightarrow> worker_outcome status
    \<Longrightarrow> (\<And>t. t \<in> set (db_tasks db) \<Longrightarrow> t_id t = tid \<Longrightarrow> t_status t = ''running'') \<Longrightarrow> task_step db db'"
| ts_cancel: "request_cancel_production_task env tid db = (r, db') \<Longrightarrow> task_step db db'"
| ts_retry: "retry_production_task env tid db = (r, db') \<Longrightarrow> task_step db db'"
| ts_recover: "recover_incomplete_production_tasks env db = (r, db') \<Longrightarrow> task_step db db'"
| ts_other: "db_tasks db' = db_tasks db \<Longrightarrow> task_step db db'"

definition task_init :: "database \<Rightarrow> bool" where
  "task_init db \<longleftrightarrow> db_tasks db = []"

lemma task_step_ok: "task_step db db' \<Longrightarrow> task_table_ok (db_tasks db) \<Longrightarrow> task_table_ok (db_tasks db')"
  by (induction rule: task_step.induct)
    (auto intro: insert_ok claim_ok progress_ok finish_ok cancel_ok retry_ok recover_ok)

interpretation tsk: inductive_invariant task_init task_step "\<lambda>db. task_table_ok (db_tasks db)"
  by unfold_locales (simp add: task_init_def task_table_ok_def, rule task_step_ok)

section \<open>A succeeded task is final\<close>

definition final_kept :: "production_task list \<Rightarrow> production_task list \<Rightarrow> bool" where
  "final_kept ts us \<longleftrightarrow> (\<forall>t\<in>set ts. t_status t = ''succeeded'' \<longrightarrow> t \<in> set us)"

interpretation fin: table_relation final_kept
  by unfold_locales (auto simp: final_kept_def)

lemma final_kept_update: "(\<And>t. P t \<Longrightarrow> t_status t \<noteq> ''succeeded'') \<Longrightarrow> final_kept ts (update_rows P f ts)"
  by (force simp: final_kept_def update_rows_def)

lemma fin_mark: "keeps final_kept (mark_production_task_blocked env tid reason)"
  by (rule fin.keeps_mark, rule final_kept_update) simp

lemmas fin_propagate = fin.keeps_propagate [OF fin_mark]

lemma fin_requeue: "keeps final_kept (requeue_blocked_production_task_descendants env tid)"
  by (rule fin.keeps_requeue, rule final_kept_update) simp

lemma fin_claim: "final_kept (db_tasks db) (db_tasks (snd (claim_next_production_task env db)))"
  by (rule fin.keeps_claim_next [OF fin_mark], rule final_kept_update) (simp add: claimable_def)

lemma fin_progress: "keeps final_kept (update_production_task_progress env tid phase progress)"
proof -
  have u: "final_kept ts (update_rows (\<lambda>t. t_id t = tid \<and> t_status t = ''running'') f ts)" for f ts
    by (rule final_kept_update) simp
  have "keeps final_kept (if n = 0 then db_return None else find_production_task env tid)" for n :: nat
    by (simp add: fin.keeps_return fin.keeps_find)
  then show ?thesis
    unfolding update_production_task_progress_def
    by (intro fin.keeps_now_bind fin.keeps_bind fin.keeps_update_tasks u)
qed

lemma fin_update_task:
  assumes "update_task env tid f db = (r, db')"
    and "\<And>t. t \<in> set (db_tasks db) \<Longrightarrow> t_id t = tid \<Longrightarrow> t_status t \<noteq> ''succeeded''"
  shows "final_kept (db_tasks db) (db_tasks db')"
proof -
  have "final_kept (db_tasks db) (update_rows (\<lambda>t. t_id t = tid) f (db_tasks db))"
    using assms(2) by (force simp: final_kept_def update_rows_def)
  with update_task_cases [OF assms(1)] show ?thesis by (auto simp: fin.rel_refl)
qed

lemma fin_found:
  assumes "task_table_ok (db_tasks db)" and "find (\<lambda>t. t_id t = tid) (db_tasks db) = Some m"
    and "t_status m \<noteq> ''succeeded''" and "t \<in> set (db_tasks db)" and "t_id t = tid"
  shows "t_status t \<noteq> ''succeeded''"
  using assms find_Some_unique [of "db_tasks db" tid m] by (auto simp: task_table_ok_def)

lemma fin_insert: "insert_production_task env input db = (r, db') \<Longrightarrow> final_kept (db_tasks db) (db_tasks db')"
  by (drule insert_cases) (auto simp: final_kept_def)

lemma fin_finish:
  assumes "finish_production_task env tid status progress result error db = (r, db')"
    and "\<And>t. t \<in> set (db_tasks db) \<Longrightarrow> t_id t = tid \<Longrightarrow> t_status t = ''running''"
  shows "final_kept (db_tasks db) (db_tasks db')"
proof -
  from assms(1) obtain db1 f u db2 where
    "db_tasks db1 = db_tasks db" "db' = db1 \<or> update_task env tid f db1 = (u, db2)
       \<and> (db' = db2 \<or> (\<exists>p. propagate_production_task_dependency_failure env tid db2 = (p, db')))"
    unfolding finish_production_task_def
    by (auto simp: db_bind_any now_millis_iff dest!: find_tasks split: option.splits if_splits) blast+
  moreover have "final_kept (db_tasks db1) (db_tasks db2)" if "update_task env tid f db1 = (u, db2)"
      "db_tasks db1 = db_tasks db"
    by (rule fin_update_task [OF that(1)]) (use assms(2) that(2) in force)
  ultimately show ?thesis using fin.rel_refl fin.rel_trans keepsD [OF fin_propagate] by metis
qed

lemma fin_cancel:
  assumes "request_cancel_production_task env tid db = (r, db')" and "task_table_ok (db_tasks db)"
  shows "final_kept (db_tasks db) (db_tasks db')"
proof -
  obtain q db1 where f: "find_production_task env tid db = (q, db1)" by fastforce
  note t1 = find_tasks [OF f]
  from assms(1) f t1 consider "db_tasks db' = db_tasks db"
    | m g u db2 where "q = Inr (Some m)" "\<not> production_task_status_is_terminal (t_status m)"
      "update_task env tid g db1 = (u, db2)"
      "db' = db2 \<or> (\<exists>p. propagate_production_task_dependency_failure env tid db2 = (p, db'))"
    unfolding request_cancel_production_task_def cancel_write_def
    by (auto simp: db_bind_any now_millis_iff split: option.splits if_splits)
  then show ?thesis
  proof cases
    case 1
    then show ?thesis by (simp add: fin.rel_refl)
  next
    case 2
    have fm: "find (\<lambda>t. t_id t = tid) (db_tasks db1) = Some m"
      using find_result [of env tid db "Some m" db1] f 2(1) t1 by simp
    have ns: "t_status m \<noteq> ''succeeded''" using 2(2) by (auto simp: production_task_status_is_terminal_def)
    have "final_kept (db_tasks db1) (db_tasks db2)"
      by (rule fin_update_task [OF 2(3)]) (use fin_found [OF _ fm ns] assms(2) t1 in simp)
    with 2(4) t1 keepsD [OF fin_propagate] fin.rel_trans show ?thesis by metis
  qed
qed

lemma fin_retry:
  assumes "retry_production_task env tid db = (r, db')" and "task_table_ok (db_tasks db)"
  shows "final_kept (db_tasks db) (db_tasks db')"
  using retry_cases [OF assms(1)]
proof (elim disjE exE conjE)
  assume "db_tasks db' = db_tasks db"
  then show ?thesis by (simp add: fin.rel_refl)
next
  fix m db1
  assume m: "find (\<lambda>t. t_id t = tid) (db_tasks db) = Some m" "failure_status (t_status m)"
    and db1: "db_tasks db1 = db_tasks db" and w: "retry_write env tid m db1 = (r, db')"
  from w obtain g u db2 where u: "update_task env tid g db1 = (u, db2)"
    "db' = db2 \<or> (\<exists>p. requeue_blocked_production_task_descendants env tid db2 = (p, db'))"
    unfolding retry_write_def by (auto simp: db_bind_any now_millis_iff)
  have ns: "t_status m \<noteq> ''succeeded''" using m(2) by (auto simp: failure_status_def)
  have "final_kept (db_tasks db1) (db_tasks db2)"
    by (rule fin_update_task [OF u(1)]) (use fin_found [OF assms(2) m(1) ns] db1 in simp)
  with u(2) db1 keepsD [OF fin_requeue] fin.rel_trans show ?thesis by metis
qed

lemma fin_recover_tasks:
  assumes "recover_tasks env ms db = (r, db')" and "task_table_ok (db_tasks db)"
    and "set ms \<subseteq> {t \<in> set (db_tasks db). t_status t = ''running''}" and "distinct (map t_id ms)"
  shows "final_kept (db_tasks db) (db_tasks db')"
  using assms
proof (induction ms arbitrary: db r)
  case Nil
  then show ?case by (simp add: fin.rel_refl)
next
  case (Cons m ms)
  let ?f = "recovered_row (t_cancel_requested m) (show_nat (dbe_millis env (db_tick db)))"
  obtain u db1 where u: "update_task env (t_id m) ?f db = (u, db1)" by fastforce
  obtain p db2 where p: "propagate_production_task_dependency_failure env (t_id m) db1 = (p, db2)"
    by fastforce
  note step = recover_step [OF Cons.prems(2-4) u p]
  have 1: "final_kept (db_tasks db) (db_tasks db1)"
    by (rule fin_update_task [OF u])
      (use fin_found [OF Cons.prems(2) find_unique] Cons.prems(2,3) in \<open>auto simp: task_table_ok_def\<close>)
  have 2: "final_kept (db_tasks db) (db_tasks db2)"
    by (rule fin.rel_trans [OF 1 keepsD [OF fin_propagate p]])
  from Cons.prems(1) u p have "db' = db1 \<or> db' = db2 \<or> (\<exists>q. recover_tasks env ms db2 = (q, db'))"
    by (auto simp: db_bind_any now_millis_iff)
  with 1 2 Cons.IH [OF _ step(2,3)] Cons.prems(4) fin.rel_trans [OF 2] show ?case by auto
qed

lemma fin_recover:
  assumes "recover_incomplete_production_tasks env db = (r, db')" and "task_table_ok (db_tasks db)"
  shows "final_kept (db_tasks db) (db_tasks db')"
proof -
  obtain q db1 where q: "query env (\<lambda>db. filter (\<lambda>t. t_status t = ''running'') (db_tasks db)) db = (q, db1)"
    by fastforce
  note t1 = query_tasks [OF q]
  show ?thesis
  proof (cases q)
    case (Inl e)
    with assms q t1 show ?thesis
      by (auto simp: recover_incomplete_production_tasks_def db_bind_any fin.rel_refl)
  next
    case (Inr ms)
    with q have ms: "ms = filter (\<lambda>t. t_status t = ''running'') (db_tasks db)" by (simp add: query_Inr)
    from assms(1) q Inr have "recover_tasks env ms db1 = (r, db')"
      by (auto simp: recover_incomplete_production_tasks_def db_bind_any)
    moreover have "distinct (map t_id ms)"
      using assms(2) by (simp add: ms task_table_ok_def distinct_map_filter)
    ultimately show ?thesis using fin_recover_tasks [of env ms db1 r db'] assms(2) t1 ms by auto
  qed
qed

lemma task_step_final:
  assumes "task_step db db'" and "task_table_ok (db_tasks db)"
  shows "final_kept (db_tasks db) (db_tasks db')"
  using assms
proof (induction rule: task_step.induct)
  case (ts_claim env db r db')
  with fin_claim [of db env] show ?case by simp
next
  case (ts_progress env tid phase progress db r db')
  with keepsD [OF fin_progress] show ?case by blast
next
  case (ts_other db' db)
  then show ?case by (simp add: fin.rel_refl)
qed (auto intro: fin_insert fin_finish fin_cancel fin_retry fin_recover)

lemma task_steps_final:
  assumes "task_step\<^sup>*\<^sup>* db db'" and "task_table_ok (db_tasks db)"
  shows "final_kept (db_tasks db) (db_tasks db')"
  using assms
proof (induction rule: rtranclp_induct)
  case base
  show ?case by (rule fin.rel_refl)
next
  case (step db1 db2)
  then have "task_table_ok (db_tasks db1)" using tsk.steps_inv by blast
  with step task_step_final fin.rel_trans show ?case by blast
qed

section \<open>Properties\<close>



section \<open>Concrete instances\<close>

definition demo_input :: "string \<Rightarrow> string \<Rightarrow> production_task_input" where
  "demo_input tid dep =
     \<lparr> ti_id = tid, ti_idempotency_key = ''K-'' @ tid, ti_kind = ''steel-in'', ti_material_id = ''M1'',
       ti_session_id = ''S1'', ti_chain_id = ''S1'', ti_depends_on_task_id = dep,
       ti_dependency_policy = ''require-success'', ti_payload = ''{}'', ti_actor = ''operator'',
       ti_max_attempts = 1 \<rparr>"

definition demo_db1 :: database where
  "demo_db1 = snd (insert_production_task demo_db_env (demo_input ''T1'' []) empty_database)"

definition demo_db2 :: database where
  "demo_db2 = snd (claim_next_production_task demo_db_env demo_db1)"

definition demo_db3 :: database where
  "demo_db3 = snd (finish_production_task demo_db_env ''T1'' ''succeeded'' 100 ''ok'' [] demo_db2)"

lemma demo_db2_rows: "map (\<lambda>t. (t_id t, t_status t, t_attempts t)) (db_tasks demo_db2) = [(''T1'', ''running'', 1)]"
  by code_simp

lemma demo_db3_rows: "map (\<lambda>t. (t_id t, t_status t)) (db_tasks demo_db3) = [(''T1'', ''succeeded'')]"
  by code_simp

lemma demo_reachable:
  "reachable task_init task_step demo_db1" "reachable task_init task_step demo_db2"
  "reachable task_init task_step demo_db3"
proof -
  have 0: "reachable task_init task_step empty_database"
    by (rule reachable_init) (simp add: task_init_def empty_database_def)
  show 1: "reachable task_init task_step demo_db1"
    by (rule reachable_step [OF 0]) (unfold demo_db1_def, rule ts_insert [OF surjective_pairing])
  show 2: "reachable task_init task_step demo_db2"
    by (rule reachable_step [OF 1]) (unfold demo_db2_def, rule ts_claim [OF surjective_pairing])
  have "t_status t = ''running''" if "t \<in> set (db_tasks demo_db2)" for t
    using demo_db2_rows that by (cases "db_tasks demo_db2") auto
  then show "reachable task_init task_step demo_db3"
    by (intro reachable_step [OF 2])
      (unfold demo_db3_def, rule ts_finish [OF surjective_pairing], auto simp: worker_outcome_def)
qed



end
