(* ===== verification/Task_Claim.thy ===== *)
theory Task_Claim
  imports Task_Invariant
begin

text \<open>
  What claiming, cancelling and propagating promise: claims take the first ready task of the queue,
  a queue without running tasks cannot get stuck, a failure reaches exactly the tasks that require
  the failed one; and the two ways in which a fault or an interleaving defeats this.
\<close>

section \<open>Specification\<close>

text \<open>The dependency state of a task, read off the table.\<close>

definition task_dependency :: "production_task list \<Rightarrow> production_task \<Rightarrow> dependency_state" where
  "task_dependency ts t =
     (if trim (t_depends_on_task_id t) = [] then Ready
      else if t_depends_on_task_id t = t_id t then Blocked (''dependency_cycle:'' @ t_id t)
      else dependency_state_of t (find (\<lambda>d. t_id d = t_depends_on_task_id t) ts))"

text \<open>Every task was created after the task it depends on.\<close>

definition deps_ordered :: "production_task list \<Rightarrow> bool" where
  "deps_ordered ts \<longleftrightarrow>
     (\<forall>u\<in>set ts. \<forall>v\<in>set ts. t_depends_on_task_id u = t_id v \<longrightarrow> created_key v < created_key u)"

text \<open>
  The state of a pass: the rows still to visit are claimable rows of the table in queue order, and
  every claimable row already visited waits and precedes them.
\<close>

definition pass_inv :: "production_task list \<Rightarrow> production_task list \<Rightarrow> bool" where
  "pass_inv rows ts \<longleftrightarrow>
     sorted_wrt (\<lambda>a b. created_key a < created_key b) rows
     \<and> set rows \<subseteq> {t \<in> set ts. claimable t}
     \<and> (\<forall>u\<in>set ts. claimable u \<longrightarrow>
          u \<in> set rows
          \<or> task_dependency ts u = Waiting \<and> (\<forall>r\<in>set rows. created_key u < created_key r))"

section \<open>Lemmas\<close>

lemma dependency_state_result:
  "production_task_dependency_state env t db = (Inr d, db') \<Longrightarrow>
     d = task_dependency (db_tasks db) t \<and> db_tasks db' = db_tasks db"
  unfolding production_task_dependency_state_def task_dependency_def
  by (auto simp: db_bind_Inr dest!: find_result split: if_splits)

lemma static_forall2:
  "map task_static us = map task_static ts \<Longrightarrow> u \<in> set us \<Longrightarrow>
     \<exists>t\<in>set ts. task_static u = task_static t"
  by (metis (mono_tags, lifting) image_iff image_set)

lemma deps_ordered_static:
  assumes "map task_static us = map task_static ts" and "deps_ordered ts"
  shows "deps_ordered us"
  unfolding deps_ordered_def
proof (intro ballI impI)
  fix u v assume uv: "u \<in> set us" "v \<in> set us" "t_depends_on_task_id u = t_id v"
  from static_forall2 [OF assms(1) uv(1)] static_forall2 [OF assms(1) uv(2)]
  obtain u' v' where "u' \<in> set ts" "v' \<in> set ts" "task_static u = task_static u'"
    "task_static v = task_static v'" by blast
  with assms(2) uv(3) show "created_key v < created_key u"
    by (auto simp: deps_ordered_def task_static_def created_key_def)
qed

lemma table_step_ordered: "table_step ts us \<Longrightarrow> deps_ordered ts \<Longrightarrow> deps_ordered us"
  using deps_ordered_static by (auto simp: table_step_def)

lemma created_key_static: "task_static u = task_static t \<Longrightarrow> created_key u = created_key t"
  by (simp add: task_static_def created_key_def)

text \<open>
  A row that waits for a task other than the one updated waits after the update.
\<close>

lemma find_update_other:
  assumes "\<And>t. t_id (f t) = t_id t" and "\<And>t. P t \<Longrightarrow> t_id t \<noteq> k"
  shows "find (\<lambda>t. t_id t = k) (update_rows P f ts) = find (\<lambda>t. t_id t = k) ts"
  using assms by (induction ts) (auto simp: update_rows_def)

lemma task_dependency_update_other:
  assumes "\<And>t. t_id (f t) = t_id t" and "\<And>t. P t \<Longrightarrow> t_id t = k"
    and "t_depends_on_task_id u \<noteq> k"
  shows "task_dependency (update_rows P f ts) u = task_dependency ts u"
  using find_update_other [of f P "t_depends_on_task_id u" ts] assms
  by (auto simp: task_dependency_def)

lemma waiting_found:
  assumes "task_dependency ts u = Waiting"
  shows "\<exists>d\<in>set ts. t_id d = t_depends_on_task_id u
    \<and> \<not> production_task_status_is_terminal (t_status d)"
proof -
  obtain d where "find (\<lambda>d. t_id d = t_depends_on_task_id u) ts = Some d"
    "\<not> production_task_status_is_terminal (t_status d)"
    using assms
    by (auto simp: task_dependency_def dependency_state_of_def production_task_status_is_terminal_def
        failure_status_def split: if_splits option.splits)
  then show ?thesis by (auto simp: find_Some_iff)
qed

text \<open>One row leaves the queue; the rows already visited go on waiting.\<close>

lemma pass_inv_step:
  assumes inv: "pass_inv (m # rest) ts" and ord: "deps_ordered ts" and ids: "distinct (map t_id ts)"
    and f: "\<And>t. task_static (f t) = task_static t" "\<And>t. \<not> claimable (f t)"
    and P: "\<And>t. P t \<Longrightarrow> t_id t = t_id m" "P m"
  shows "pass_inv rest (update_rows P f ts)"
proof -
  have m: "m \<in> set ts" "claimable m" and rest: "set rest \<subseteq> {t \<in> set ts. claimable t}"
    and srt: "\<And>r. r \<in> set rest \<Longrightarrow> created_key m < created_key r"
      "sorted_wrt (\<lambda>a b. created_key a < created_key b) rest"
    using inv by (auto simp: pass_inv_def)
  have "t = m" if "t \<in> set ts" "t_id t = t_id m" for t
    using that m(1) ids by (auto simp: distinct_map inj_on_def)
  then have only: "P t \<longleftrightarrow> t = m" if "t \<in> set ts" for t
    using that P(1) [of t] P(2) by blast
  have fid: "t_id (f t) = t_id t" for t using f(1) [of t] by (simp add: task_static_def)
  have mem: "u \<in> set (update_rows P f ts) \<longleftrightarrow> u = f m \<or> u \<in> set ts \<and> u \<noteq> m" for u
  proof -
    have "set (update_rows P f ts) = (\<lambda>t. if t = m then f m else t) ` set ts"
      unfolding update_rows_def set_map by (rule image_cong) (simp_all add: only)
    with m(1) show ?thesis by auto
  qed
  have "r \<noteq> m" if "r \<in> set rest" for r using srt(1) [OF that] by auto
  then have r: "set rest \<subseteq> {t \<in> set (update_rows P f ts). claimable t}"
    using rest by (auto simp: mem)
  have "u \<in> set rest \<or> task_dependency (update_rows P f ts) u = Waiting
      \<and> (\<forall>r\<in>set rest. created_key u < created_key r)"
    if u: "u \<in> set (update_rows P f ts)" "claimable u" for u
  proof -
    have u': "u \<in> set ts" "u \<noteq> m" using u f(2) [of m] by (auto simp: mem)
    show ?thesis
    proof (cases "u \<in> set rest")
      case False
      with inv u'(1,2) u(2) have w: "task_dependency ts u = Waiting"
        "\<forall>r\<in>set (m # rest). created_key u < created_key r" by (auto simp: pass_inv_def)
      have "t_depends_on_task_id u \<noteq> t_id m"
        using ord u'(1) m(1) w(2) by (auto simp: deps_ordered_def dest: less_trans)
      then have "task_dependency (update_rows P f ts) u = task_dependency ts u"
        by (intro task_dependency_update_other [where k = "t_id m"] fid P(1))
      with w show ?thesis by simp
    qed simp
  qed
  with r srt(2) show ?thesis by (auto simp: pass_inv_def)
qed

lemma pass_inv_waiting:
  assumes "pass_inv (m # rest) ts" and "task_dependency ts m = Waiting"
  shows "pass_inv rest ts"
  using assms by (auto simp: pass_inv_def)

text \<open>What a claim hands out.\<close>

definition claimed ::
  "production_task list \<Rightarrow> production_task list \<Rightarrow> production_task \<Rightarrow> bool" where
  "claimed ts us t \<longleftrightarrow>
     (\<exists>q n. q \<in> set ts \<and> claimable q \<and> t = running_row q (show_nat n) q)
     \<and> t \<in> set us \<and> task_dependency us t = Ready
     \<and> (\<forall>u\<in>set us. claimable u \<and> created_key u < created_key t \<longrightarrow> task_dependency us u = Waiting)
     \<and> (\<forall>u\<in>set us. t_status u = ''running'' \<longrightarrow> u = t \<or> u \<in> set ts)"

lemma rows_affected_unique:
  assumes "distinct (map t_id ts)" and "m \<in> set ts" and "claimable m"
  shows "rows_affected (\<lambda>t. t_id t = t_id m \<and> claimable t) ts = 1"
proof -
  have "filter (\<lambda>t. t_id t = t_id m \<and> claimable t) ts = [m]"
    using assms
  proof (induction ts)
    case (Cons x xs)
    show ?case
    proof (cases "x = m")
      case True
      with Cons.prems(1) have "filter (\<lambda>t. t_id t = t_id m \<and> claimable t) xs = []"
        by (auto simp: filter_empty_conv image_iff)
      with True Cons.prems(3) show ?thesis by simp
    next
      case False
      with Cons have "m \<in> set xs" "t_id x \<noteq> t_id m" by auto
      with Cons show ?thesis by simp
    qed
  qed simp
  then show ?thesis by (simp add: rows_affected_def)
qed

lemma running_row_key [simp]:
  "t_id (running_row q now t) = t_id t" "created_key (running_row q now t) = created_key t"
  "t_status (running_row q now t) = ''running''"
  "t_depends_on_task_id (running_row q now t) = t_depends_on_task_id t"
  by (simp_all add: running_row_def created_key_def)

lemma task_dependency_running_row:
  "task_dependency ts (running_row q now t) = task_dependency ts t"
  by (simp add: task_dependency_def dependency_state_of_def running_row_def split: option.split)

lemma claim_ready:
  assumes inv: "pass_inv (m # rest) ts" and ord: "deps_ordered ts" and ids: "distinct (map t_id ts)"
    and ready: "task_dependency ts m = Ready"
    and us: "us = update_rows (\<lambda>t. t_id t = t_id m \<and> claimable t) (running_row m (show_nat n)) ts"
  shows "find (\<lambda>t. t_id t = t_id m) us = Some (running_row m (show_nat n) m)
    \<and> claimed ts us (running_row m (show_nat n) m)"
proof -
  let ?P = "\<lambda>t. t_id t = t_id m \<and> claimable t" and ?f = "running_row m (show_nat n)"
  have m: "m \<in> set ts" "claimable m" using inv by (auto simp: pass_inv_def)
  have next': "pass_inv rest us"
    unfolding us using m by (intro pass_inv_step [OF inv ord ids] running_upd.key_kept) auto
  have fid: "find (\<lambda>t. t_id t = k) us = map_option (\<lambda>t. if ?P t then ?f t else t) (find (\<lambda>t. t_id t = k) ts)" for k
    unfolding us by (induction ts) (auto simp: update_rows_def)
  have fm: "find (\<lambda>t. t_id t = t_id m) us = Some (?f m)"
    using fid [of "t_id m"] find_unique [OF ids m(1)] m(2) by simp
  have dm: "t_depends_on_task_id m \<noteq> t_id m"
    using ord m(1) by (auto simp: deps_ordered_def)
  have "task_dependency us (?f m) = task_dependency ts m"
    unfolding us task_dependency_running_row
    by (rule task_dependency_update_other [where k = "t_id m"]) (simp_all add: dm)
  moreover have "task_dependency us u = Waiting" if "u \<in> set us" "claimable u" "created_key u < created_key m" for u
  proof -
    have "u \<notin> set rest" using that(3) inv by (auto simp: pass_inv_def dest: less_trans)
    with next' that(1,2) show ?thesis by (auto simp: pass_inv_def)
  qed
  moreover have "u = ?f m \<or> u \<in> set ts" if "u \<in> set us" for u
  proof -
    from that obtain t where t: "t \<in> set ts" "u = (if ?P t then ?f t else t)"
      unfolding us update_rows_def by auto
    have "t = m" if "?P t" using t(1) m(1) ids that by (auto simp: distinct_map inj_on_def)
    with t show ?thesis by auto
  qed
  moreover have "?f m \<in> set us" using fm by (auto simp: find_Some_iff)
  ultimately show ?thesis using fm m ready by (auto simp: claimed_def)
qed

text \<open>A pass that ends without a claim only blocks tasks, and leaves waiting tasks.\<close>

definition older :: "production_task list \<Rightarrow> production_task list \<Rightarrow> bool" where
  "older ts us \<longleftrightarrow> (\<forall>u\<in>set us. claimable u \<or> t_status u = ''running'' \<longrightarrow> u \<in> set ts)"

definition pass_result ::
  "production_task list \<Rightarrow> production_task list \<Rightarrow> production_task option + bool \<Rightarrow> bool" where
  "pass_result ts us res \<longleftrightarrow>
     (case res of
        Inl t \<Rightarrow> \<exists>x. t = Some x \<and> claimed ts us x
      | Inr _ \<Rightarrow> pass_inv [] us \<and> older ts us)"

lemma claimed_older: "older ts vs \<Longrightarrow> claimed vs us t \<Longrightarrow> claimed ts us t"
  unfolding older_def claimed_def by blast

lemma older_trans: "older ts vs \<Longrightarrow> older vs us \<Longrightarrow> older ts us"
  unfolding older_def by blast

lemma pass_result_older: "older ts vs \<Longrightarrow> pass_result vs us res \<Longrightarrow> pass_result ts us res"
  by (auto simp: pass_result_def split: sum.splits intro: claimed_older older_trans)

lemma older_blocked: "older ts (update_rows P (blocked_row reason now) ts)"
  by (auto simp: older_def update_rows_def claimable_def split: if_splits)

lemma claim_pass_spec:
  assumes "claim_pass env rows changed db = (Inr res, db')"
    and "pass_inv rows (db_tasks db)" and "task_table_ok (db_tasks db)" and "deps_ordered (db_tasks db)"
  shows "pass_result (db_tasks db) (db_tasks db') res"
  using assms
proof (induction rows arbitrary: changed db)
  case Nil
  then show ?case by (auto simp: pass_result_def older_def)
next
  case (Cons m rest)
  have ids: "distinct (map t_id (db_tasks db))" using Cons.prems(3) by (simp add: task_table_ok_def)
  from Cons.prems(1) obtain d db1 where
    d: "production_task_dependency_state env m db = (Inr d, db1)"
    and next': "(case d of
       Waiting \<Rightarrow> claim_pass env rest changed
     | Blocked reason \<Rightarrow>
         db_bind (mark_production_task_blocked env (t_id m) reason) (\<lambda>marked.
         claim_pass env rest (changed \<or> marked))
     | Ready \<Rightarrow>
         db_bind (now_millis_string env) (\<lambda>now.
         db_bind (update_tasks env (\<lambda>t. t_id t = t_id m \<and> claimable t) (running_row m now)) (\<lambda>n.
         if n = 1 then db_bind (find_production_task env (t_id m)) (\<lambda>t. db_return (Inl t))
         else claim_pass env rest True))) db1 = (Inr res, db')"
    unfolding claim_pass.simps db_bind_Inr [of "production_task_dependency_state env m"] by blast
  from dependency_state_result [OF d] have d': "d = task_dependency (db_tasks db) m"
    and t1: "db_tasks db1 = db_tasks db" by auto
  show ?case
  proof (cases d)
    case Waiting
    with next' have n: "claim_pass env rest changed db1 = (Inr res, db')" by simp
    have "pass_inv rest (db_tasks db)" using pass_inv_waiting Cons.prems(2) Waiting d' by auto
    with Cons.IH [OF n] Cons.prems(3,4) t1 show ?thesis by simp
  next
    case (Blocked reason)
    with next' obtain b db2 where
      b: "mark_production_task_blocked env (t_id m) reason db1 = (Inr b, db2)"
      "claim_pass env rest (changed \<or> b) db2 = (Inr res, db')"
      by (auto simp: db_bind_Inr)
    have m: "m \<in> set (db_tasks db)" "claimable m" using Cons.prems(2) by (auto simp: pass_inv_def)
    from mark_blocked_tasks [OF b(1)] t1 obtain now where
      t2: "db_tasks db2 = update_rows (\<lambda>t. t_id t = t_id m \<and> t_status t = ''queued'')
        (blocked_row reason now) (db_tasks db)" by auto
    have "reason \<noteq> []"
      using Blocked d' by (auto simp: task_dependency_def dependency_state_of_def
          split: if_splits option.splits)
    with keepsD [OF tst_mark b(1)] t1 have ts: "table_step (db_tasks db) (db_tasks db2)" by simp
    have "pass_inv rest (db_tasks db2)"
      unfolding t2 using m
      by (intro pass_inv_step [OF Cons.prems(2,4) ids] blocked_upd.key_kept) (auto simp: claimable_def)
    from Cons.IH [OF b(2) this table_step_ok [OF ts Cons.prems(3)] table_step_ordered [OF ts Cons.prems(4)]]
    show ?thesis unfolding t2 by (rule pass_result_older [OF older_blocked])
  next
    case Ready
    let ?now = "show_nat (dbe_millis env (db_tick db1))"
    let ?P = "\<lambda>t. t_id t = t_id m \<and> claimable t"
    have m: "m \<in> set (db_tasks db)" "claimable m" using Cons.prems(2) by (auto simp: pass_inv_def)
    from Ready next' obtain n db2 where
      u: "update_tasks env ?P (running_row m ?now) db1 = (Inr n, db2)"
      "(if n = 1 then db_bind (find_production_task env (t_id m)) (\<lambda>t. db_return (Inl t))
        else claim_pass env rest True) db2 = (Inr res, db')"
      by (auto simp: db_bind_Inr now_millis_iff)
    from update_tasks_cases [OF u(1)] t1 have
      t2: "db_tasks db2 = update_rows ?P (running_row m ?now) (db_tasks db)"
        "n = rows_affected ?P (db_tasks db)" by auto
    with rows_affected_unique [OF ids m] have "n = 1" by simp
    with u(2) obtain t where "find_production_task env (t_id m) db2 = (Inr t, db')" "res = Inl t"
      by (auto simp: db_bind_Inr)
    with find_result claim_ready [OF Cons.prems(2,4) ids _ t2(1)] Ready d' show ?thesis
      by (fastforce simp: pass_result_def)
  qed
qed

lemma queued_tasks_pass_inv:
  assumes "distinct (map t_id ts)"
  shows "pass_inv (queued_tasks ts) ts"
proof -
  have "sorted (map created_key (queued_tasks ts))"
    by (simp add: queued_tasks_def order_asc_def)
  moreover have "distinct (map created_key (queued_tasks ts))"
  proof -
    have "distinct (map t_id (queued_tasks ts))"
      using assms by (simp add: queued_tasks_def order_asc_def distinct_map distinct_filter
          inj_on_def)
    then show ?thesis by (auto simp: distinct_map inj_on_def created_key_def)
  qed
  ultimately have "sorted_wrt (<) (map created_key (queued_tasks ts))"
    by (simp add: strict_sorted_iff)
  then show ?thesis by (auto simp: pass_inv_def queued_tasks_def sorted_wrt_map)
qed

lemma claim_next_spec:
  assumes "claim_next_production_task env db = (Inr res, db')"
    and "task_table_ok (db_tasks db)" and "deps_ordered (db_tasks db)"
  shows "case res of
      Some t \<Rightarrow> claimed (db_tasks db) (db_tasks db') t
    | None \<Rightarrow> \<forall>u\<in>set (db_tasks db'). claimable u \<longrightarrow> task_dependency (db_tasks db') u = Waiting"
  using assms
proof (induction env db rule: claim_next_production_task.induct)
  case (1 env db)
  obtain r db1 where q: "query env (\<lambda>db. queued_tasks (db_tasks db)) db = (r, db1)" by fastforce
  note t1 = query_tasks [OF q]
  from "1.prems"(1) q obtain queued where Q: "r = Inr queued"
    by (cases r) (auto simp: claim_next_production_task.simps [of env db])
  with q have qd: "queued = queued_tasks (db_tasks db)" by (simp add: query_Inr)
  have ids: "distinct (map t_id (db_tasks db))" using "1.prems"(2) by (simp add: task_table_ok_def)
  show ?case
  proof (cases "queued = []")
    case True
    with "1.prems"(1) q Q have "res = None" "db' = db1"
      by (auto simp: claim_next_production_task.simps [of env db])
    with True t1 qd show ?thesis by (auto simp: queued_tasks_def filter_empty_conv)
  next
    case False
    obtain r2 db2 where c: "claim_pass env queued False db1 = (r2, db2)" by fastforce
    from "1.prems"(1) q Q c False obtain x where x: "r2 = Inr x"
      by (cases r2) (auto simp: claim_next_production_task.simps [of env db])
    from claim_pass_spec [OF c [unfolded x]] queued_tasks_pass_inv [OF ids] "1.prems"(2,3) t1 qd
    have spec: "pass_result (db_tasks db) (db_tasks db2) x" by simp
    have step: "table_step (db_tasks db) (db_tasks db2)"
      using keepsD [OF tst.keeps_claim_pass [OF tst_mark tst_running] c] t1 by simp
    show ?thesis
    proof (cases x)
      case (Inl t)
      with spec "1.prems"(1) q Q c x False show ?thesis
        by (auto simp: pass_result_def claim_next_production_task.simps [of env db])
    next
      case (Inr changed)
      show ?thesis
      proof (cases changed)
        case True
        from "1.prems"(1) q Q c x Inr True False
        have rec: "claim_next_production_task env db2 = (Inr res, db')"
          by (simp add: claim_next_production_task.simps [of env db])
        from "1.IH" [OF q [symmetric] Q False c [symmetric] x Inr True rec
            table_step_ok [OF step "1.prems"(2)] table_step_ordered [OF step "1.prems"(3)]]
          spec Inr
        show ?thesis by (auto simp: pass_result_def split: option.splits intro: claimed_older)
      next
        case False'': False
        from "1.prems"(1) q Q c x Inr False'' False have "res = None" "db' = db2"
          by (auto simp: claim_next_production_task.simps [of env db])
        with spec Inr show ?thesis by (auto simp: pass_result_def pass_inv_def)
      qed
    qed
  qed
qed

lemma ok_queued_claimable:
  "task_table_ok ts \<Longrightarrow> t \<in> set ts \<Longrightarrow> claimable t \<longleftrightarrow> t_status t = ''queued''"
  by (auto simp: task_table_ok_def list_all_iff task_row_ok_def claimable_def)

lemma waiting_open:
  assumes "task_table_ok ts" and "task_dependency ts u = Waiting"
  shows "\<exists>d\<in>set ts. t_id d = t_depends_on_task_id u \<and> t_status d \<in> {''queued'', ''running''}"
proof -
  from waiting_found [OF assms(2)] obtain d where d: "d \<in> set ts" "t_id d = t_depends_on_task_id u"
    "\<not> production_task_status_is_terminal (t_status d)" by blast
  moreover have "t_status d \<in> set task_statuses"
    using assms(1) d(1) by (auto simp: task_table_ok_def list_all_iff task_row_ok_def)
  ultimately show ?thesis
    by (auto simp: task_statuses_def production_task_status_is_terminal_def)
qed

lemma claim_table_step:
  "claim_next_production_task env db = (r, db') \<Longrightarrow> table_step (db_tasks db) (db_tasks db')"
  using tst_claim [of db env] by simp

section \<open>Running tasks\<close>

definition running_kept :: "production_task list \<Rightarrow> production_task list \<Rightarrow> bool" where
  "running_kept ts us \<longleftrightarrow>
     (\<forall>t\<in>set ts. t_status t = ''running'' \<longrightarrow> (\<exists>u\<in>set us. t_id u = t_id t \<and> t_status u = ''running''))"

interpretation rnk: table_relation running_kept
proof unfold_locales
  fix ts us vs assume "running_kept ts us" "running_kept us vs"
  then show "running_kept ts vs" unfolding running_kept_def by metis
qed (auto simp: running_kept_def)

lemma running_kept_update:
  assumes "\<And>t. t \<in> set ts \<Longrightarrow> P t \<Longrightarrow> t_status t = ''running'' \<Longrightarrow> t_id (f t) = t_id t \<and> t_status (f t) = ''running''"
  shows "running_kept ts (update_rows P f ts)"
  unfolding running_kept_def update_rows_def
proof (intro ballI impI)
  fix t assume t: "t \<in> set ts" "t_status t = ''running''"
  show "\<exists>u\<in>set (map (\<lambda>r. if P r then f r else r) ts). t_id u = t_id t \<and> t_status u = ''running''"
    by (rule bexI [of _ "if P t then f t else t"]) (use assms [OF t(1) _ t(2)] t in auto)
qed

lemma rnk_mark: "keeps running_kept (mark_production_task_blocked env tid reason)"
  by (rule rnk.keeps_mark, rule running_kept_update) simp

lemma rnk_running:
  "running_kept ts (update_rows (\<lambda>t. t_id t = tid \<and> claimable t) (running_row m (show_nat n)) ts)"
  by (rule running_kept_update) (simp add: claimable_def)

lemma rnk_claim: "claim_next_production_task env db = (r, db') \<Longrightarrow> running_kept (db_tasks db) (db_tasks db')"
  using rnk.keeps_claim_next [OF rnk_mark rnk_running, of db env] by simp

lemma rnk_cancel:
  assumes "request_cancel_production_task env tid db = (r, db')" and "task_table_ok (db_tasks db)"
  shows "running_kept (db_tasks db) (db_tasks db')"
proof -
  obtain q db1 where f: "find_production_task env tid db = (q, db1)" by fastforce
  note t1 = find_tasks [OF f]
  from assms(1) f t1 consider "db_tasks db' = db_tasks db"
    | m now u db2 where "q = Inr (Some m)"
      "update_task env tid (cancelled_row (t_status m = ''queued'') now) db1 = (u, db2)"
      "db' = db2 \<or> (\<exists>p. propagate_production_task_dependency_failure env tid db2 = (p, db'))"
    unfolding request_cancel_production_task_def cancel_write_def
    by (auto simp: db_bind_any now_millis_iff split: option.splits if_splits)
  then show ?thesis
  proof cases
    case 1
    then show ?thesis by (simp add: rnk.rel_refl)
  next
    case 2
    have fm: "find (\<lambda>t. t_id t = tid) (db_tasks db1) = Some m"
      using find_result [of env tid db "Some m" db1] f 2(1) t1 by simp
    have only: "\<forall>t\<in>set (db_tasks db1). t_id t = tid \<longrightarrow> t = m"
      using find_Some_unique [OF _ fm] assms(2) t1 by (simp add: task_table_ok_def)
    have "running_kept (db_tasks db1) (update_rows (\<lambda>t. t_id t = tid)
        (cancelled_row (t_status m = ''queued'') now) (db_tasks db1))"
      by (rule running_kept_update) (use only in \<open>auto simp: cancelled_row_def Let_def\<close>)
    with update_task_cases [OF 2(2)] have "running_kept (db_tasks db1) (db_tasks db2)"
      by (auto simp: rnk.rel_refl)
    with 2(3) t1 keepsD [OF rnk.keeps_propagate [OF rnk_mark]] rnk.rel_trans show ?thesis by metis
  qed
qed

lemma rnk_requeue: "keeps running_kept (requeue_blocked_production_task_descendants env tid)"
  by (rule rnk.keeps_requeue, rule running_kept_update) simp

lemma rnk_retry:
  assumes "retry_production_task env tid db = (r, db')" and "task_table_ok (db_tasks db)"
  shows "running_kept (db_tasks db) (db_tasks db')"
  using retry_cases [OF assms(1)]
proof (elim disjE exE conjE)
  assume "db_tasks db' = db_tasks db"
  then show ?thesis by (simp add: rnk.rel_refl)
next
  fix m db1
  assume m: "find (\<lambda>t. t_id t = tid) (db_tasks db) = Some m" "failure_status (t_status m)"
    and db1: "db_tasks db1 = db_tasks db" and w: "retry_write env tid m db1 = (r, db')"
  from w obtain g u db2 where u: "update_task env tid g db1 = (u, db2)"
    "db' = db2 \<or> (\<exists>p. requeue_blocked_production_task_descendants env tid db2 = (p, db'))"
    unfolding retry_write_def by (auto simp: db_bind_any now_millis_iff)
  have only: "\<forall>t\<in>set (db_tasks db). t_id t = tid \<longrightarrow> t = m"
    using find_Some_unique [OF _ m(1)] assms(2) by (simp add: task_table_ok_def)
  have "running_kept (db_tasks db1) (update_rows (\<lambda>t. t_id t = tid) g (db_tasks db1))"
    by (rule running_kept_update) (use only m(2) db1 in \<open>auto simp: failure_status_def\<close>)
  with update_task_cases [OF u(1)] have "running_kept (db_tasks db1) (db_tasks db2)"
    by (auto simp: rnk.rel_refl)
  with u(2) db1 keepsD [OF rnk_requeue] rnk.rel_trans show ?thesis by metis
qed

section \<open>Properties\<close>

text \<open>
  C11: Claiming is first in, first out among ready tasks.  A claimed task was a queued task without
  a pending cancellation; its row is now running with one more attempt and its dependency is
  satisfied; every queued task created before it still waits for a task that has not ended; and no
  other task started running.
\<close>
theorem claim_next_fifo:
  assumes "claim_next_production_task env db = (Inr (Some t), db')"
    and "task_table_ok (db_tasks db)" and "deps_ordered (db_tasks db)"
  shows "(\<exists>q n. q \<in> set (db_tasks db) \<and> t_status q = ''queued'' \<and> \<not> t_cancel_requested q
            \<and> t = running_row q (show_nat n) q)
    \<and> t \<in> set (db_tasks db') \<and> task_dependency (db_tasks db') t = Ready
    \<and> (\<forall>u\<in>set (db_tasks db'). t_status u = ''queued'' \<and> created_key u < created_key t \<longrightarrow>
          task_dependency (db_tasks db') u = Waiting)
    \<and> (\<forall>u\<in>set (db_tasks db'). t_status u = ''running'' \<longrightarrow> u = t \<or> u \<in> set (db_tasks db))"
  using claim_next_spec [OF assms] ok_queued_claimable [OF claim_ok [OF assms(1,2)]]
  by (auto simp: claimed_def claimable_def)

text \<open>
  C12: The queue does not get stuck.  If a claim finds nothing and no task is running, no task is
  queued any more: a task whose dependency failed was blocked on the way, so dependencies cannot
  keep tasks waiting for each other.
\<close>
theorem claim_none_not_stuck:
  assumes "claim_next_production_task env db = (Inr None, db')"
    and "task_table_ok (db_tasks db)" and "deps_ordered (db_tasks db)"
    and "\<forall>t\<in>set (db_tasks db'). t_status t \<noteq> ''running''"
  shows "\<forall>t\<in>set (db_tasks db'). t_status t \<noteq> ''queued''"
proof (rule ccontr)
  assume "\<not> (\<forall>t\<in>set (db_tasks db'). t_status t \<noteq> ''queued'')"
  then have ne: "filter (\<lambda>t. t_status t = ''queued'') (db_tasks db') \<noteq> []"
    by (auto simp: filter_empty_conv)
  let ?Q = "created_key ` {t \<in> set (db_tasks db'). t_status t = ''queued''}"
  have fin: "finite ?Q" "?Q \<noteq> {}" using ne by (auto simp: filter_empty_conv)
  from Min_in [OF fin] obtain u where u: "u \<in> set (db_tasks db')" "t_status u = ''queued''"
    "created_key u = Min ?Q" by auto
  have ok: "task_table_ok (db_tasks db')" by (rule claim_ok [OF assms(1,2)])
  have "task_dependency (db_tasks db') u = Waiting"
    using claim_next_spec [OF assms(1-3)] ok_queued_claimable [OF ok u(1)] u(1,2) by simp
  from waiting_open [OF ok this] assms(4) obtain d where
    d: "d \<in> set (db_tasks db')" "t_id d = t_depends_on_task_id u" "t_status d = ''queued''" by auto
  have "deps_ordered (db_tasks db')"
    by (rule table_step_ordered [OF claim_table_step [OF assms(1)] assms(3)])
  with u(1) d(1,2) have "created_key d < created_key u" by (auto simp: deps_ordered_def)
  moreover have "Min ?Q \<le> created_key d" using d(1,3) fin(1) by (intro Min_le) auto
  ultimately show False using u(3) by simp
qed


text \<open>
  C38: A cancellation can be overtaken.  The lookup and the write of a cancellation are separate
  statements and the worker does not take the lock of the cancellation: when the lookup saw a queued
  task and a claim hands that task to the worker before the write, the caller is told that the task
  was cancelled before execution, while the worker holds it as running; and the completion of the
  worker then turns the cancelled row into a succeeded one.
\<close>
theorem cancellation_overtaken_by_claim:
  assumes "task_table_ok (db_tasks db)" and "deps_ordered (db_tasks db)"
    and "find (\<lambda>t. t_id t = tid) (db_tasks db) = Some m" and "t_status m = ''queued''"
    and "claim_next_production_task env1 db = (Inr (Some t), db1)" and "t_id t = tid"
    and "cancel_write env2 tid m db1 = (Inr (Some u), db2)"
    and "finish_production_task env3 tid ''succeeded'' 100 body [] db2 = (Inr (Some v), db3)"
  shows "t_status t = ''running'' \<and> t_id u = tid \<and> t_status u = ''cancelled''
    \<and> t_error u = ''cancelled before execution''
    \<and> v \<in> set (db_tasks db3) \<and> t_id v = tid \<and> t_status v = ''succeeded'' \<and> t_cancel_requested v"
proof -
  have run: "t_status t = ''running''"
    using claim_next_spec [OF assms(5,1,2)] by (auto simp: claimed_def)
  have nt: "\<not> production_task_status_is_terminal ''queued''"
    by (simp add: production_task_status_is_terminal_def)
  from assms(7) assms(4) nt obtain now w db1' where
    w: "update_task env2 tid (cancelled_row True now) db1 = (Inr u, db1')"
      "propagate_production_task_dependency_failure env2 tid db1' = (Inr w, db2)"
    by (auto simp: cancel_write_def db_bind_Inr now_millis_iff)
  from update_task_cases [OF w(1)] obtain t1 where
    t1: "find (\<lambda>t. t_id t = tid) (db_tasks db1) = Some t1" "u = cancelled_row True now t1"
      "db_tasks db1' = update_rows (\<lambda>t. t_id t = tid) (cancelled_row True now) (db_tasks db1)" by auto
  have u: "t_id u = tid" "t_status u = ''cancelled''" "t_error u = ''cancelled before execution''"
    "t_cancel_requested u" "u \<in> set (db_tasks db1')"
    using t1 by (auto simp: cancelled_row_def Let_def find_Some_iff update_rows_def)
  have "task_table_ok (db_tasks db1)" by (rule claim_ok [OF assms(5,1)])
  then have ids1: "distinct (map t_id (db_tasks db1'))"
    unfolding t1(3) static_keys(1) [OF cancelled_upd.map_key] by (simp add: task_table_ok_def)
  have keep: "u \<in> set (db_tasks db2)"
    using keepsD [OF stl_propagate w(2)] u(2,5) by (auto simp: settled_kept_def)
  have "map task_static (db_tasks db2) = map task_static (db_tasks db1')"
    using keepsD [OF tst_propagate w(2)] by (simp add: table_step_def)
  from static_keys(1) [OF this] ids1 have ids2: "distinct (map t_id (db_tasks db2))" by simp
  from assms(8) obtain f x y now3 db2' where
    f: "find_production_task env3 tid db2 = (Inr (Some y), db2')"
      "update_task env3 tid (finished_row ''succeeded'' 100 body [] now3) db2' = (Inr v, db3)"
    by (auto simp: finish_production_task_def db_bind_Inr now_millis_iff failure_status_def
        split: option.splits)
  have "find (\<lambda>t. t_id t = tid) (db_tasks db2') = Some u"
    using find_unique [OF ids2 keep] u(1) find_tasks [OF f(1)] by simp
  with update_task_cases [OF f(2)] have
    v: "v = finished_row ''succeeded'' 100 body [] now3 u"
      "db_tasks db3 = update_rows (\<lambda>t. t_id t = tid) (finished_row ''succeeded'' 100 body [] now3) (db_tasks db2')"
    by auto
  have "v \<in> set (db_tasks db3)"
    using v keep u(1) find_tasks [OF f(1)] by (force simp: update_rows_def)
  with v u run show ?thesis by (simp add: finished_row_def)
qed

section \<open>Concrete instances\<close>

definition demo_pair :: database where
  "demo_pair = snd (insert_production_task demo_db_env (demo_input ''T2'' ''T1'') demo_db1)"

definition demo_fault_env :: "nat \<Rightarrow> db_env" where
  "demo_fault_env k = demo_db_env\<lparr>dbe_fault := (\<lambda>n. if n = k then Some ''disk I/O error'' else None)\<rparr>"

lemma demo_pair_reachable: "reachable task_init task_step demo_pair"
  by (rule reachable_step [OF demo_reachable(1)]) (unfold demo_pair_def, rule ts_insert [OF surjective_pairing])

lemma demo_ok: "task_table_ok (db_tasks demo_db1)" "task_table_ok (db_tasks demo_pair)"
  "task_table_ok (db_tasks demo_db3)"
  using tsk.reachable_inv demo_reachable demo_pair_reachable by blast+

lemma demo_ordered: "deps_ordered (db_tasks demo_db1)" "deps_ordered (db_tasks demo_pair)"
  "deps_ordered (db_tasks demo_db3)"
  by code_simp+

lemma fst_eq: "fst p = a \<Longrightarrow> p = (a, snd p)"
  by (simp add: prod_eq_iff)

lemma demo_claim_pair:
  "\<exists>t. claim_next_production_task demo_db_env demo_pair
       = (Inr (Some t), snd (claim_next_production_task demo_db_env demo_pair)) \<and> t_id t = ''T1''"
proof -
  have "(case fst (claim_next_production_task demo_db_env demo_pair) of
      Inr (Some t) \<Rightarrow> t_id t = ''T1'' | _ \<Rightarrow> False)" by code_simp
  then show ?thesis
    by (cases "claim_next_production_task demo_db_env demo_pair") (auto split: sum.splits option.splits)
qed

theorem claim_next_fifo_witness:
  "\<exists>t. fst (claim_next_production_task demo_db_env demo_pair) = Inr (Some t) \<and> t_id t = ''T1''
     \<and> t \<in> set (db_tasks (snd (claim_next_production_task demo_db_env demo_pair)))
     \<and> task_dependency (db_tasks (snd (claim_next_production_task demo_db_env demo_pair))) t = Ready"
proof -
  obtain t where t: "claim_next_production_task demo_db_env demo_pair
       = (Inr (Some t), snd (claim_next_production_task demo_db_env demo_pair))" "t_id t = ''T1''"
    using demo_claim_pair by blast
  from claim_next_fifo [OF t(1) demo_ok(2) demo_ordered(2)] t show ?thesis
    by (metis fst_conv)
qed

theorem claim_none_not_stuck_witness:
  "list_all (\<lambda>t. t_status t \<noteq> ''queued'') (db_tasks (snd (claim_next_production_task demo_db_env demo_db3)))"
proof -
  have c: "fst (claim_next_production_task demo_db_env demo_db3) = Inr None" by code_simp
  have "list_all (\<lambda>t. t_status t \<noteq> ''running'')
      (db_tasks (snd (claim_next_production_task demo_db_env demo_db3)))" by code_simp
  then have r: "\<forall>t\<in>set (db_tasks (snd (claim_next_production_task demo_db_env demo_db3))).
      t_status t \<noteq> ''running''" by (simp add: list_all_iff)
  from claim_none_not_stuck [OF fst_eq [OF c] demo_ok(3) demo_ordered(3) r] show ?thesis
    by (simp add: list_all_iff)
qed


text \<open>The row the cancellation read, and the database after its write.\<close>

definition demo_seen :: production_task where
  "demo_seen = hd (db_tasks demo_db1)"

definition demo_cancelled :: "(string + production_task option) \<times> database" where
  "demo_cancelled = cancel_write demo_db_env ''T1'' demo_seen demo_db2"

lemma demo_seen_found:
  "find (\<lambda>t. t_id t = ''T1'') (db_tasks demo_db1) = Some demo_seen" "t_status demo_seen = ''queued''"
  by code_simp+

definition returned_id :: "(string + production_task option) \<times> database \<Rightarrow> string" where
  "returned_id r = (case fst r of Inr (Some t) \<Rightarrow> t_id t | _ \<Rightarrow> [])"

lemma returned_idD: "returned_id r = k \<Longrightarrow> k \<noteq> [] \<Longrightarrow> \<exists>t. r = (Inr (Some t), snd r) \<and> t_id t = k"
  by (cases r) (auto simp: returned_id_def split: sum.splits option.splits)

lemma demo_race_claim: "returned_id (claim_next_production_task demo_db_env demo_db1) = ''T1''"
  by code_simp

lemma demo_race_cancel: "returned_id demo_cancelled = ''T1''"
  by code_simp

lemma demo_race_finish:
  "returned_id (finish_production_task demo_db_env ''T1'' ''succeeded'' 100 ''ok'' [] (snd demo_cancelled)) = ''T1''"
  by code_simp

theorem cancellation_overtaken_by_claim_witness:
  "\<exists>u v. fst demo_cancelled = Inr (Some u)
     \<and> fst (finish_production_task demo_db_env ''T1'' ''succeeded'' 100 ''ok'' [] (snd demo_cancelled))
         = Inr (Some v)
     \<and> t_status u = ''cancelled'' \<and> t_error u = ''cancelled before execution''
     \<and> t_status v = ''succeeded''"
proof -
  from returned_idD [OF demo_race_claim] obtain t where
    t: "claim_next_production_task demo_db_env demo_db1 = (Inr (Some t), demo_db2)" "t_id t = ''T1''"
    by (auto simp: demo_db2_def)
  from returned_idD [OF demo_race_cancel] obtain u where
    u: "cancel_write demo_db_env ''T1'' demo_seen demo_db2 = (Inr (Some u), snd demo_cancelled)"
    by (auto simp: demo_cancelled_def)
  from returned_idD [OF demo_race_finish] obtain v db3 where
    v: "finish_production_task demo_db_env ''T1'' ''succeeded'' 100 ''ok'' [] (snd demo_cancelled)
        = (Inr (Some v), db3)"
    by auto
  have "fst demo_cancelled = Inr (Some u)" using arg_cong [OF u, of fst] unfolding demo_cancelled_def by simp
  with cancellation_overtaken_by_claim [OF demo_ok(1) demo_ordered(1) demo_seen_found t u v] v
  show ?thesis by auto
qed

end
