(* ===== verification/Task_Propagation.thy ===== *)
theory Task_Propagation
  imports Task_Claim
begin

text \<open>
  Propagation of a failure blocks exactly the queued tasks that require the failed task, directly
  or through other blocked tasks, and counts them.
\<close>

section \<open>Specification\<close>

definition requires_success :: "production_task \<Rightarrow> bool" where
  "requires_success t \<longleftrightarrow> t_status t = ''queued'' \<and> t_dependency_policy t = ''require-success''"

inductive requires :: "production_task list \<Rightarrow> string \<Rightarrow> production_task \<Rightarrow> bool"
  for ts parent
where
  req_direct: "t \<in> set ts \<Longrightarrow> requires_success t \<Longrightarrow> t_depends_on_task_id t = parent \<Longrightarrow> requires ts parent t"
| req_step: "requires ts parent s \<Longrightarrow> t \<in> set ts \<Longrightarrow> requires_success t
    \<Longrightarrow> t_depends_on_task_id t = t_id s \<Longrightarrow> requires ts parent t"

inductive_cases requiresE: "requires ts parent t"

text \<open>A row and its successor: blocked with some reason and time, or the same row.\<close>

definition blocked_version :: "production_task \<Rightarrow> production_task \<Rightarrow> bool" where
  "blocked_version t u \<longleftrightarrow> (\<exists>reason n. reason \<noteq> [] \<and> u = blocked_row reason (show_nat n) t)"

section \<open>One parent\<close>


lemma mark_one:
  assumes "mark_production_task_blocked env (t_id d) reason db = (Inr b, db')"
    and "distinct (map t_id (db_tasks db))" and "d \<in> set (db_tasks db)" and "t_status d = ''queued''"
  shows "b \<and> (\<exists>n. db_tasks db' = update_rows (\<lambda>t. t = d) (blocked_row reason (show_nat n)) (db_tasks db))"
proof -
  let ?P = "\<lambda>t. t_id t = t_id d \<and> t_status t = ''queued''"
  from assms(1) obtain n where
    u: "update_tasks env ?P (blocked_row reason (show_nat (dbe_millis env (db_tick db)))) db = (Inr n, db')"
      "b \<longleftrightarrow> n = 1"
    by (auto simp: mark_production_task_blocked_def db_bind_Inr now_millis_iff)
  have only: "?P t \<longleftrightarrow> t = d" if "t \<in> set (db_tasks db)" for t
    using that assms(2-4) by (auto simp: distinct_map inj_on_def)
  have "update_rows ?P f (db_tasks db) = update_rows (\<lambda>t. t = d) f (db_tasks db)" for f
    unfolding update_rows_def using only by simp
  moreover have "rows_affected ?P (db_tasks db) = 1"
  proof -
    have "filter ?P (db_tasks db) = filter (\<lambda>t. t = d) (db_tasks db)"
      by (rule filter_cong) (simp_all add: only)
    moreover have "distinct (db_tasks db)" "{t. t = d} \<inter> set (db_tasks db) = {d}"
      using assms(2,3) by (auto simp: distinct_map)
    then have "length (filter (\<lambda>t. t = d) (db_tasks db)) = 1"
      by (simp add: distinct_length_filter)
    ultimately show ?thesis by (simp add: rows_affected_def)
  qed
  ultimately show ?thesis using update_tasks_cases [OF u(1)] u(2) by auto
qed

lemma block_dependents_spec:
  assumes "block_dependents env reason ds db = (Inr marked, db')"
    and "distinct (map t_id (db_tasks db))" and "reason \<noteq> []"
    and "set ds \<subseteq> {t \<in> set (db_tasks db). t_status t = ''queued''}" and "distinct (map t_id ds)"
  shows "marked = map t_id ds
    \<and> list_all2 (\<lambda>t u. if t \<in> set ds then blocked_version t u else u = t) (db_tasks db) (db_tasks db')"
  using assms
proof (induction ds arbitrary: db marked)
  case Nil
  then show ?case by (simp add: list.rel_refl)
next
  case (Cons d ds)
  from Cons.prems(1) obtain b db1 rest where
    m: "mark_production_task_blocked env (t_id d) reason db = (Inr b, db1)"
      "block_dependents env reason ds db1 = (Inr rest, db')"
      "marked = (if b then t_id d # rest else rest)"
    by (auto simp: db_bind_Inr)
  from mark_one [OF m(1) Cons.prems(2)] Cons.prems(4) obtain n where
    b: "b" and t1: "db_tasks db1 = update_rows (\<lambda>t. t = d) (blocked_row reason (show_nat n)) (db_tasks db)"
    by auto
  have ids: "distinct (map t_id (db_tasks db1))"
    using Cons.prems(2) static_keys(1) [OF blocked_upd.map_key] by (simp add: t1)
  have nd: "d \<notin> set ds" using Cons.prems(5) by auto
  have sub: "set ds \<subseteq> {t \<in> set (db_tasks db1). t_status t = ''queued''}"
    using Cons.prems(4) nd by (force simp: t1 update_rows_def)
  note IH = Cons.IH [OF m(2) ids Cons.prems(3) sub]
  let ?f = "\<lambda>t. if t = d then blocked_row reason (show_nat n) t else t"
  have "list_all2 (\<lambda>t u. if t \<in> set (d # ds) then blocked_version t u else u = t)
      (db_tasks db) (db_tasks db')"
  proof -
    have "list_all2 (\<lambda>t u. if ?f t \<in> set ds then blocked_version (?f t) u else u = ?f t)
        (db_tasks db) (db_tasks db')"
      using IH Cons.prems(5) by (simp add: t1 update_rows_def list_all2_map1)
    then show ?thesis
    proof (rule list_all2_mono)
      fix t u assume tu: "if ?f t \<in> set ds then blocked_version (?f t) u else u = ?f t"
      show "if t \<in> set (d # ds) then blocked_version t u else u = t"
      proof (cases "t = d")
        case True
        have "?f t \<notin> set ds" using sub True by auto
        with tu True Cons.prems(3) show ?thesis by (auto simp: blocked_version_def)
      next
        case False
        with tu show ?thesis by (auto split: if_splits)
      qed
    qed
  qed
  with IH m(3) b Cons.prems(5) show ?case by simp
qed

lemma list_all2_conj_mem: "list_all2 P xs ys \<Longrightarrow> list_all2 (\<lambda>x y. x \<in> set xs \<and> P x y) xs ys"
  by (simp add: list_all2_conv_all_nth)

lemma list_all2_right: "list_all2 P xs ys \<Longrightarrow> y \<in> set ys \<Longrightarrow> \<exists>x\<in>set xs. P x y"
  by (induction rule: list_all2_induct) auto

lemma list_all2_left: "list_all2 P xs ys \<Longrightarrow> x \<in> set xs \<Longrightarrow> \<exists>y\<in>set ys. P x y"
  by (induction rule: list_all2_induct) auto

lemma propagate_parent_spec:
  assumes "propagate_parent env p db = (Inr marked, db')" and "distinct (map t_id (db_tasks db))"
  shows "marked = map t_id (filter (\<lambda>t. t_depends_on_task_id t = p \<and> requires_success t) (db_tasks db))
    \<and> list_all2 (\<lambda>t u. if t_depends_on_task_id t = p \<and> requires_success t then blocked_version t u else u = t)
        (db_tasks db) (db_tasks db')"
proof -
  let ?C = "filter (\<lambda>t. t_depends_on_task_id t = p \<and> requires_success t) (db_tasks db)"
  have C: "filter (\<lambda>t. t_depends_on_task_id t = p \<and> t_dependency_policy t = ''require-success''
      \<and> t_status t = ''queued'') (db_tasks db) = ?C"
    by (rule filter_cong) (auto simp: requires_success_def)
  from assms(1) obtain reason db1 where
    b: "block_dependents env reason ?C db1 = (Inr marked, db')" "db_tasks db1 = db_tasks db" "reason \<noteq> []"
    unfolding propagate_parent_def
    by (auto simp: db_bind_Inr query_Inr C [simplified] dest!: find_result)
  have "set ?C \<subseteq> {t \<in> set (db_tasks db1). t_status t = ''queued''}" "distinct (map t_id ?C)"
    using b(2) assms(2) by (auto simp: requires_success_def distinct_map_filter)
  from block_dependents_spec [OF b(1) _ b(3) this] assms(2) b(2)
  have l: "marked = map t_id ?C"
    "list_all2 (\<lambda>t u. if t \<in> set ?C then blocked_version t u else u = t) (db_tasks db) (db_tasks db')"
    by auto
  have "list_all2 (\<lambda>t u. if t_depends_on_task_id t = p \<and> requires_success t then blocked_version t u else u = t)
        (db_tasks db) (db_tasks db')"
    using l(2) by (simp add: list_all2_conv_all_nth)
  with l(1) show ?thesis by simp
qed

lemma blocked_version_status: "blocked_version t u \<Longrightarrow> t_status u = ''blocked''"
  by (auto simp: blocked_version_def)

lemma blocked_count:
  assumes "list_all2 (\<lambda>t u. if Q t then blocked_version t u else u = t) ts us"
    and "\<And>t. Q t \<Longrightarrow> t_status t = ''queued''"
  shows "status_count ''queued'' us + length (filter Q ts) = status_count ''queued'' ts"
  using assms(1)
proof (induction rule: list_all2_induct)
  case (Cons t ts u us)
  show ?case
  proof (cases "Q t")
    case True
    with Cons assms(2) [OF True] blocked_version_status [of t u] show ?thesis
      by (simp add: status_count_def)
  next
    case False
    with Cons show ?thesis by (simp add: status_count_def)
  qed
qed (simp add: status_count_def)

section \<open>The loop\<close>

definition loop_inv :: "production_task list \<Rightarrow> string \<Rightarrow> string list \<Rightarrow> production_task list \<Rightarrow> bool" where
  "loop_inv ts parent frontier cur \<longleftrightarrow>
     list_all2 (\<lambda>t u. u = t \<or> requires ts parent t \<and> blocked_version t u) ts cur
     \<and> (\<forall>p\<in>set frontier. p = parent \<or> (\<exists>s. requires ts parent s \<and> t_id s = p))
     \<and> (\<forall>u\<in>set cur. requires_success u
          \<and> (t_depends_on_task_id u = parent
             \<or> (\<exists>s. requires ts parent s \<and> s \<notin> set cur \<and> t_depends_on_task_id u = t_id s))
          \<longrightarrow> t_depends_on_task_id u \<in> set frontier)"

lemma loop_inv_original:
  assumes "loop_inv ts parent frontier cur" and "u \<in> set cur" and "requires_success u"
  shows "u \<in> set ts"
proof -
  from assms(1) have "list_all2 (\<lambda>t u. u = t \<or> requires ts parent t \<and> blocked_version t u) ts cur"
    by (simp add: loop_inv_def)
  from list_all2_right [OF this assms(2)] obtain t where "t \<in> set ts" "u = t \<or> blocked_version t u"
    by blast
  with assms(3) show ?thesis by (auto simp: requires_success_def dest: blocked_version_status)
qed

lemma loop_inv_step:
  assumes inv: "loop_inv ts parent (p # rest) cur"
    and step: "list_all2 (\<lambda>t u. if t_depends_on_task_id t = p \<and> requires_success t
        then blocked_version t u else u = t) cur us"
    and marked: "marked = map t_id (filter (\<lambda>t. t_depends_on_task_id t = p \<and> requires_success t) cur)"
  shows "loop_inv ts parent (rev marked @ rest) us"
proof -
  let ?C = "\<lambda>t. t_depends_on_task_id t = p \<and> requires_success t"
  have child: "requires ts parent t" if "t \<in> set cur" "?C t" for t
  proof -
    have t: "t \<in> set ts" using loop_inv_original [OF inv that(1)] that(2) by simp
    from inv have "p = parent \<or> (\<exists>s. requires ts parent s \<and> t_id s = p)" by (simp add: loop_inv_def)
    with that(2) t show ?thesis by (auto intro: requires.intros)
  qed
  have kept: "u \<in> set cur \<and> \<not> ?C u" if "u \<in> set us" "requires_success u" for u
  proof -
    from list_all2_right [OF step that(1)]
    obtain t where t: "t \<in> set cur" "if ?C t then blocked_version t u else u = t" by blast
    with that(2) show ?thesis
      by (cases "?C t") (auto simp: requires_success_def dest: blocked_version_status)
  qed
  have stay: "s \<in> set us" if "s \<in> set cur" "\<not> ?C s" for s
    using list_all2_left [OF step that(1)] that(2) by (auto split: if_splits)
  have "list_all2 (\<lambda>t u. u = t \<or> requires ts parent t \<and> blocked_version t u) ts us"
  proof (rule list_all2_trans [OF _ inv [unfolded loop_inv_def, THEN conjunct1]
        list_all2_conj_mem [OF step]])
    fix t u v
    assume tu: "u = t \<or> requires ts parent t \<and> blocked_version t u"
      and uv: "u \<in> set cur \<and> (if ?C u then blocked_version u v else v = u)"
    show "v = t \<or> requires ts parent t \<and> blocked_version t v"
    proof (cases "?C u")
      case True
      with tu have "u = t" by (auto simp: requires_success_def dest: blocked_version_status)
      with True uv child [of u] show ?thesis by auto
    next
      case False
      with tu uv show ?thesis by auto
    qed
  qed
  moreover have "\<forall>q\<in>set (rev marked @ rest). q = parent \<or> (\<exists>s. requires ts parent s \<and> t_id s = q)"
  proof
    fix q
    assume "q \<in> set (rev marked @ rest)"
    then consider "q \<in> set rest" | t where "t \<in> set cur" "?C t" "q = t_id t" by (auto simp: marked)
    then show "q = parent \<or> (\<exists>s. requires ts parent s \<and> t_id s = q)"
      using inv child by cases (simp add: loop_inv_def, blast)
  qed
  moreover have "t_depends_on_task_id u \<in> set (rev marked @ rest)"
    if u: "u \<in> set us" "requires_success u" and dep: "t_depends_on_task_id u = parent
        \<or> (\<exists>s. requires ts parent s \<and> s \<notin> set us \<and> t_depends_on_task_id u = t_id s)" for u
  proof -
    from kept [OF u] u(2) have u': "u \<in> set cur" "t_depends_on_task_id u \<noteq> p" by auto
    from dep consider "t_depends_on_task_id u \<in> set (p # rest)"
      | s where "s \<in> set cur" "s \<notin> set us" "t_depends_on_task_id u = t_id s"
      using inv u'(1) u(2) unfolding loop_inv_def by metis
    then show ?thesis
    proof cases
      case 1
      with u'(2) show ?thesis by simp
    next
      case 2
      with stay have "?C s" by blast
      with 2 show ?thesis by (auto simp: marked)
    qed
  qed
  ultimately show ?thesis unfolding loop_inv_def by blast
qed

lemma loop_inv_start: "loop_inv ts parent [parent] ts"
proof -
  have "s \<in> set ts" if "requires ts parent s" for s using that by cases auto
  then show ?thesis by (auto simp: loop_inv_def list_all2_same)
qed

lemma loop_inv_end:
  assumes inv: "loop_inv ts parent [] cur"
  shows "list_all2 (\<lambda>t u. if requires ts parent t then blocked_version t u else u = t) ts cur"
proof -
  have gone: "t \<notin> set cur" if "requires ts parent t" for t
    using that inv by induction (auto simp: loop_inv_def)
  from inv have "list_all2 (\<lambda>t u. u = t \<or> requires ts parent t \<and> blocked_version t u) ts cur"
    by (simp add: loop_inv_def)
  with gone show ?thesis by (auto simp: list_all2_conv_all_nth) (metis nth_mem)
qed

lemma requires_queued: "requires ts parent t \<Longrightarrow> t_status t = ''queued''"
  by (auto simp: requires_success_def elim: requiresE)

lemma count_marked:
  "n + length marked \<le> u64_max \<Longrightarrow> foldl (\<lambda>n _. saturating_add64 n 1) n marked = n + length marked"
  by (induction marked arbitrary: n) (auto simp: saturating_add64_def)

lemma loop_distinct:
  assumes "list_all2 (\<lambda>t u. if Q t then blocked_version t u else u = t) ts us"
  shows "map t_id us = map t_id ts"
  using assms
proof (induction rule: list_all2_induct)
  case (Cons t ts u us)
  then have "t_id u = t_id t" by (auto simp: blocked_version_def blocked_row_def split: if_splits)
  with Cons show ?case by simp
qed simp

lemma propagate_loop_spec:
  assumes "propagate_loop env frontier n db = (Inr m, db')"
    and "loop_inv ts parent frontier (db_tasks db)" and "distinct (map t_id (db_tasks db))"
    and "n + status_count ''queued'' (db_tasks db) \<le> u64_max"
  shows "loop_inv ts parent [] (db_tasks db')
    \<and> m + status_count ''queued'' (db_tasks db') = n + status_count ''queued'' (db_tasks db)"
  using assms
proof (induction env frontier n db rule: propagate_loop.induct)
  case (1 env n db)
  then show ?case by (simp add: propagate_loop.simps)
next
  case (2 env p rest n db)
  from "2.prems"(1) obtain marked db1 where p: "propagate_parent env p db = (Inr marked, db1)"
    and l: "propagate_loop env (rev marked @ rest) (foldl (\<lambda>n _. saturating_add64 n 1) n marked) db1 = (Inr m, db')"
    by (auto simp: propagate_loop.simps split: prod.splits sum.splits)
  let ?C = "\<lambda>t. t_depends_on_task_id t = p \<and> requires_success t"
  from propagate_parent_spec [OF p "2.prems"(3)]
  have mk: "marked = map t_id (filter ?C (db_tasks db))"
    and st: "list_all2 (\<lambda>t u. if ?C t then blocked_version t u else u = t) (db_tasks db) (db_tasks db1)"
    by auto
  have c: "status_count ''queued'' (db_tasks db1) + length marked = status_count ''queued'' (db_tasks db)"
    using blocked_count [OF st] by (simp add: mk requires_success_def)
  from "2.prems"(4) c have n: "foldl (\<lambda>n _. saturating_add64 n 1) n marked = n + length marked"
    by (intro count_marked) simp
  have d: "distinct (map t_id (db_tasks db1))" using "2.prems"(3) loop_distinct [OF st] by simp
  from "2.IH" [OF p [symmetric] refl l loop_inv_step [OF "2.prems"(2) st mk] d] n c "2.prems"(4)
  show ?case by simp
qed

text \<open>
  C13: A successful propagation of the failure of a task blocks exactly the queued tasks that require
  the success of that task or, transitively, of one of the tasks blocked with it, gives each of
  them a non-empty reason, leaves every other row of the table as it is, and returns the number of
  blocked tasks, for every table of fewer than 2^64 rows with distinct ids. A cycle of dependencies
  does not prevent the loop from ending.
\<close>
theorem propagation_blocks_exactly_dependents:
  assumes "propagate_production_task_dependency_failure env parent db = (Inr n, db')"
    and "distinct (map t_id (db_tasks db))" and "length (db_tasks db) \<le> u64_max"
  shows "list_all2 (\<lambda>t u. if requires (db_tasks db) parent t then blocked_version t u else u = t)
      (db_tasks db) (db_tasks db')
    \<and> n = length (filter (requires (db_tasks db) parent) (db_tasks db))"
proof -
  have "status_count ''queued'' (db_tasks db) \<le> u64_max"
    using assms(3) length_filter_le [of _ "db_tasks db"] unfolding status_count_def by (rule order_trans [rotated])
  with propagate_loop_spec [OF assms(1) [unfolded propagate_production_task_dependency_failure_def]
      loop_inv_start assms(2)]
  have l: "loop_inv (db_tasks db) parent [] (db_tasks db')"
    and c: "n + status_count ''queued'' (db_tasks db') = status_count ''queued'' (db_tasks db)"
    by simp_all
  have b: "list_all2 (\<lambda>t u. if requires (db_tasks db) parent t then blocked_version t u else u = t)
      (db_tasks db) (db_tasks db')"
    by (rule loop_inv_end [OF l])
  have "n = length (filter (requires (db_tasks db) parent) (db_tasks db))"
    using c blocked_count [OF b] requires_queued by simp
  with b show ?thesis by simp
qed

section \<open>A chain of three tasks\<close>

definition demo_triple :: database where
  "demo_triple = snd (insert_production_task demo_db_env (demo_input ''T3'' ''T2'') demo_pair)"

theorem propagation_blocks_exactly_dependents_witness:
  "length (filter (requires (db_tasks demo_triple) ''T1'') (db_tasks demo_triple)) = 2
   \<and> map (\<lambda>t. (t_id t, t_status t))
       (db_tasks (snd (propagate_production_task_dependency_failure demo_db_env ''T1'' demo_triple)))
     = [(''T1'', ''queued''), (''T2'', ''blocked''), (''T3'', ''blocked'')]"
proof -
  let ?r = "propagate_production_task_dependency_failure demo_db_env ''T1'' demo_triple"
  have r: "fst ?r = Inr 2" by code_simp
  have d: "distinct (map t_id (db_tasks demo_triple))" by code_simp
  have "length (db_tasks demo_triple) = 3" by code_simp
  then have s: "length (db_tasks demo_triple) \<le> u64_max" by (simp add: u64_max_def)
  have "map (\<lambda>t. (t_id t, t_status t)) (db_tasks (snd ?r))
     = [(''T1'', ''queued''), (''T2'', ''blocked''), (''T3'', ''blocked'')]" by code_simp
  with propagation_blocks_exactly_dependents [OF fst_eq [OF r] d s] show ?thesis by simp
qed

end
