(* ===== verification/Service_State.thy ===== *)
theory Service_State
  imports Trigger_Security Database
begin

text \<open>
  The state the threads of the inspection service share, the part of \<open>ServiceState\<close> of
  \<open>app/service/src/main.rs\<close> that the modelled handlers use, with the constants of a run
  (environment variables, active runtime profile, third-party functions) and the helpers every
  handler calls: responses, payload fields, query strings and request bytes.

  A handler maps the state to its response and the new state.  The clock is read through the
  database environment, at the number of statements executed so far.
\<close>

section \<open>Capabilities of the runtime profile\<close>

datatype acquisition_mode = Online | Offline | Simulation

datatype runtime_capability = DirectCamera | CaptureManagement | Reconstruction | OfflineReplay

fun capability_str :: "runtime_capability \<Rightarrow> string" where
  "capability_str DirectCamera = ''directCamera''"
| "capability_str CaptureManagement = ''captureManagement''"
| "capability_str Reconstruction = ''reconstruction''"
| "capability_str OfflineReplay = ''offlineReplay''"

record runtime_capabilities =
  cap_direct_camera :: bool
  cap_capture_management :: bool
  cap_reconstruction :: bool
  cap_offline_replay :: bool

fun effective_for_mode :: "runtime_capabilities \<Rightarrow> acquisition_mode \<Rightarrow> runtime_capabilities" where
  "effective_for_mode c Online = c"
| "effective_for_mode c Offline =
     \<lparr> cap_direct_camera = False, cap_capture_management = False, cap_reconstruction = False,
       cap_offline_replay = cap_offline_replay c \<rparr>"
| "effective_for_mode c Simulation =
     \<lparr> cap_direct_camera = False, cap_capture_management = cap_capture_management c,
       cap_reconstruction = cap_reconstruction c, cap_offline_replay = True \<rparr>"

text \<open>The fields of the active \<open>RuntimeProfile\<close> that the handlers read.\<close>

record runtime_config =
  rc_id :: string
  rc_acquisition_mode :: acquisition_mode
  rc_capabilities :: runtime_capabilities

definition allows :: "runtime_config \<Rightarrow> runtime_capability \<Rightarrow> bool" where
  "allows config capability =
     (let c = effective_for_mode (rc_capabilities config) (rc_acquisition_mode config)
      in case capability of
           DirectCamera \<Rightarrow> cap_direct_camera c
         | CaptureManagement \<Rightarrow> cap_capture_management c
         | Reconstruction \<Rightarrow> cap_reconstruction c
         | OfflineReplay \<Rightarrow> cap_offline_replay c)"

section \<open>Shared state\<close>

record runtime_admission_state =
  ra_accepting :: bool
  ra_completion_accepting :: bool
  ra_in_flight :: nat

definition runtime_admission_default :: runtime_admission_state where
  "runtime_admission_default =
     \<lparr> ra_accepting = True, ra_completion_accepting = True, ra_in_flight = 0 \<rparr>"

record worker_status =
  ws_running :: bool
  ws_current_task_id :: string
  ws_last_heartbeat_at :: nat
  ws_last_error :: string
  ws_recovered_tasks :: nat

definition worker_status_default :: worker_status where
  "worker_status_default =
     \<lparr> ws_running = False, ws_current_task_id = [], ws_last_heartbeat_at = 0, ws_last_error = [],
       ws_recovered_tasks = 0 \<rparr>"

record admin_session =
  as_session_id :: string
  as_token :: string
  as_user_id :: string
  as_display_name :: string
  as_role :: string
  as_permissions :: "string list"
  as_must_change_password :: bool
  as_user_agent :: string
  as_created_at :: nat
  as_expires_at :: nat

record login_failure_state =
  lf_count :: nat
  lf_first_failed_at :: nat
  lf_locked_until :: nat

record service_state =
  ss_database :: database
  ss_command_lock :: "unit mutex"
  ss_calibration_lock :: "unit mutex"
  ss_task_admin_lock :: "unit mutex"
  ss_wakeup_generation :: "nat mutex"
  ss_worker_status :: "worker_status mutex"
  ss_task_sequence :: nat
  ss_runtime_admission :: "runtime_admission_state mutex"
  ss_sessions :: "(string \<Rightarrow> admin_session option) mutex"
  ss_login_failures :: "(string \<Rightarrow> login_failure_state option) mutex"

record service_env =
  sv_serde :: serde
  sv_db :: db_env
  sv_vars :: env_vars
  sv_sha256 :: sha256_fn
  sv_drain_token :: string
  sv_config :: runtime_config

definition current_time_millis :: "service_env \<Rightarrow> service_state \<Rightarrow> nat" where
  "current_time_millis env st = dbe_millis (sv_db env) (db_tick (ss_database st))"

text \<open>\<open>state.runtime.block_on(...)\<close>: run a database operation to its end.\<close>

definition block_on :: "'a dbm \<Rightarrow> service_state \<Rightarrow> (string + 'a) \<times> service_state" where
  "block_on m st = (let (r, db) = m (ss_database st) in (r, st\<lparr>ss_database := db\<rparr>))"

text \<open>\<open>let _ = ...\<close>: the result is dropped.\<close>

definition block_on_ignored :: "'a dbm \<Rightarrow> service_state \<Rightarrow> service_state" where
  "block_on_ignored m st = snd (block_on m st)"

section \<open>Responses\<close>

definition http_response_with_headers ::
  "string \<Rightarrow> string \<Rightarrow> string \<Rightarrow> (string \<times> string) list \<Rightarrow> string" where
  "http_response_with_headers status content_type body extra_headers =
     ''HTTP/1.1 '' @ status @ crlf
     @ ''Content-Type: '' @ content_type @ crlf
     @ ''Content-Length: '' @ show_nat (length body) @ crlf
     @ ''Access-Control-Allow-Origin: *'' @ crlf
     @ ''Access-Control-Allow-Methods: GET, POST, PATCH, PUT, DELETE, OPTIONS'' @ crlf
     @ ''Access-Control-Allow-Headers: Content-Type, Accept, Authorization, Idempotency-Key'' @ crlf
     @ concat (map (\<lambda>(name, v). name @ '': '' @ v @ crlf) extra_headers)
     @ ''Connection: close'' @ crlf @ crlf @ body"

definition http_response :: "string \<Rightarrow> string \<Rightarrow> string \<Rightarrow> string" where
  "http_response status content_type body = http_response_with_headers status content_type body []"

text \<open>The form nearly every handler uses: a JSON object as the body.\<close>

definition json_reply :: "service_env \<Rightarrow> string \<Rightarrow> (string \<times> json) list \<Rightarrow> string" where
  "json_reply env status kvs = http_response status json_ct (to_string (sv_serde env) (mk_obj kvs))"

definition internal_error :: "service_env \<Rightarrow> string \<Rightarrow> string" where
  "internal_error env e =
     json_reply env ''500 Internal Server Error'' [(''code'', jint 500), (''error'', JString e)]"

section \<open>Payload fields\<close>

definition value_text :: "json \<Rightarrow> string option" where
  "value_text v =
     (case as_str v of
        Some s \<Rightarrow> Some s
      | None \<Rightarrow> (case as_i64 v of
                  Some i \<Rightarrow> Some (show_int i)
                | None \<Rightarrow> map_option show_nat (as_u64 v)))"

definition value_string :: "json \<Rightarrow> string list \<Rightarrow> string" where
  "value_string payload keys =
     (case Option.bind (find_map (\<lambda>key. value_get key payload) keys) value_text of
        None \<Rightarrow> []
      | Some v \<Rightarrow> trim v)"

definition material_keys :: "string list" where
  "material_keys =
     [''materialId'', ''material_id'', ''steelId'', ''steel_id'', ''steelNo'', ''steel_no'', ''id'']"

definition material_id_from_payload :: "json \<Rightarrow> string \<Rightarrow> string" where
  "material_id_from_payload payload fallback =
     (let i = value_string payload material_keys in if i = [] then fallback else i)"

definition session_keys :: "string list" where
  "session_keys = [''sessionId'', ''session_id'']"

definition session_id_from_payload :: "service_env \<Rightarrow> service_state \<Rightarrow> json \<Rightarrow> string \<Rightarrow> string" where
  "session_id_from_payload env st payload material_id =
     (let explicit = value_string payload session_keys
      in if explicit = [] then material_id @ ''-'' @ show_nat (current_time_millis env st) else explicit)"

section \<open>Query strings\<close>

text \<open>
  \<open>u8::from_str_radix(hex, 16)\<close>, and whether a string slice may start here: Rust panics when a slice
  cuts a character.
\<close>

definition from_str_radix_u8 :: "string \<Rightarrow> nat option" where
  "from_str_radix_u8 s =
     (let ds = (if s \<noteq> [] \<and> hd s = CHR ''+'' then tl s else s)
      in if ds = [] then None
         else foldl (\<lambda>acc c. case (acc, to_digit 16 c) of
                (Some n, Some d) \<Rightarrow> if n * 16 + d \<le> 255 then Some (n * 16 + d) else None
              | _ \<Rightarrow> None) (Some 0) ds)"

definition char_boundary :: "string \<Rightarrow> bool" where
  "char_boundary s \<longleftrightarrow> s = [] \<or> \<not> utf8_cont (byte (hd s))"

text \<open>The bytes that are left to decode; \<open>None\<close> is the panic of \<open>&value[index + 1..index + 3]\<close>.\<close>

fun decode_query_bytes :: "string \<Rightarrow> string option" where
  "decode_query_bytes [] = Some []"
| "decode_query_bytes (c # s) =
     (if c = CHR ''+'' then map_option ((#) (CHR '' '')) (decode_query_bytes s)
      else if c = CHR ''%'' \<and> 2 \<le> length s then
        (if \<not> char_boundary s \<or> \<not> char_boundary (drop 2 s) then None
         else case from_str_radix_u8 (take 2 s) of
                Some b \<Rightarrow> map_option ((#) (char_of b)) (decode_query_bytes (drop 2 s))
              | None \<Rightarrow> map_option ((#) (CHR ''%'')) (decode_query_bytes s))
      else map_option ((#) c) (decode_query_bytes s))"

definition decode_query_value :: "string \<Rightarrow> string option" where
  "decode_query_value v = map_option from_utf8_lossy (decode_query_bytes v)"

text \<open>The value of the first pair with this key: \<open>None\<close> on a panic, \<open>Some None\<close> without such a pair.\<close>

fun query_pairs :: "string list \<Rightarrow> string \<Rightarrow> string option option" where
  "query_pairs [] key = Some None"
| "query_pairs (pair # pairs) key =
     (case split_once_char (CHR ''='') pair of
        None \<Rightarrow> query_pairs pairs key
      | Some (item_key, item_value) \<Rightarrow>
          if item_key = key then map_option Some (decode_query_value item_value)
          else query_pairs pairs key)"

definition query_value :: "string \<Rightarrow> string \<Rightarrow> string option option" where
  "query_value qs key = query_pairs (split_on (\<lambda>c. c = CHR ''&'') qs) key"

section \<open>Handlers\<close>

text \<open>
  A handler with early returns: \<open>Inl\<close> is the response of a \<open>return\<close> before the end, \<open>Inr\<close> the value
  the next statement uses.
\<close>

type_synonym 'a handler = "service_state \<Rightarrow> (string + 'a) \<times> service_state"

definition h_return :: "'a \<Rightarrow> 'a handler" where
  "h_return x = (\<lambda>st. (Inr x, st))"

definition h_reply :: "string \<Rightarrow> 'a handler" where
  "h_reply response = (\<lambda>st. (Inl response, st))"

definition h_bind :: "'a handler \<Rightarrow> ('a \<Rightarrow> 'b handler) \<Rightarrow> 'b handler" where
  "h_bind m f = (\<lambda>st. case m st of (Inl r, st') \<Rightarrow> (Inl r, st') | (Inr x, st') \<Rightarrow> f x st')"

text \<open>A database operation whose error is answered with status 500.\<close>

definition h_db :: "service_env \<Rightarrow> 'a dbm \<Rightarrow> 'a handler" where
  "h_db env m = (\<lambda>st. case block_on m st of
     (Inl e, st') \<Rightarrow> (Inl (internal_error env e), st') | (Inr x, st') \<Rightarrow> (Inr x, st'))"

text \<open>A database query whose error counts as no result: \<open>.ok().flatten()\<close>.\<close>

definition h_db_opt :: "'a option dbm \<Rightarrow> 'a option handler" where
  "h_db_opt m = (\<lambda>st. case block_on m st of (Inl e, st') \<Rightarrow> (Inr None, st') | (Inr x, st') \<Rightarrow> (Inr x, st'))"

definition h_effect :: "(service_state \<Rightarrow> service_state) \<Rightarrow> unit handler" where
  "h_effect f = (\<lambda>st. (Inr (), f st))"

definition h_get :: "(service_state \<Rightarrow> 'a) \<Rightarrow> 'a handler" where
  "h_get f = (\<lambda>st. (Inr (f st), st))"

definition respond :: "string handler \<Rightarrow> service_state \<Rightarrow> string \<times> service_state" where
  "respond m st = (case m st of (Inl r, st') \<Rightarrow> (r, st') | (Inr r, st') \<Rightarrow> (r, st'))"

section \<open>A concrete service\<close>

definition demo_service_env :: "serde \<Rightarrow> service_env" where
  "demo_service_env sd =
     \<lparr> sv_serde = sd, sv_db = demo_db_env, sv_vars = (\<lambda>_. None), sv_sha256 = demo_sha256,
       sv_drain_token = replicate 32 (CHR ''k''),
       sv_config = \<lparr> rc_id = ''P1'', rc_acquisition_mode = Online,
         rc_capabilities = \<lparr> cap_direct_camera = True, cap_capture_management = True,
           cap_reconstruction = True, cap_offline_replay = False \<rparr> \<rparr> \<rparr>"

definition demo_service :: service_state where
  "demo_service =
     \<lparr> ss_database = empty_database, ss_command_lock = Mutex False (), ss_calibration_lock = Mutex False (),
       ss_task_admin_lock = Mutex False (), ss_wakeup_generation = Mutex False 0,
       ss_worker_status = Mutex False worker_status_default, ss_task_sequence = 0,
       ss_runtime_admission = Mutex False runtime_admission_default,
       ss_sessions = Mutex False (\<lambda>_. None), ss_login_failures = Mutex False (\<lambda>_. None) \<rparr>"

section \<open>Lemmas\<close>

lemma block_on_simp: "block_on m st = (fst (m (ss_database st)), st\<lparr>ss_database := snd (m (ss_database st))\<rparr>)"
  by (simp add: block_on_def split: prod.splits)

lemma block_on_iff:
  "block_on m st = (r, st') \<longleftrightarrow> (\<exists>db. m (ss_database st) = (r, db) \<and> st' = st\<lparr>ss_database := db\<rparr>)"
  by (auto simp: block_on_def split: prod.splits)

lemma block_on_ignored_simp: "block_on_ignored m st = st\<lparr>ss_database := snd (m (ss_database st))\<rparr>"
  by (simp add: block_on_ignored_def block_on_simp)

lemma h_bind_Inr:
  "h_bind m f st = (Inr y, st') \<longleftrightarrow> (\<exists>x st1. m st = (Inr x, st1) \<and> f x st1 = (Inr y, st'))"
  by (auto simp: h_bind_def split: prod.splits sum.splits)

lemma h_bind_any:
  "h_bind m f st = (r, st') \<longleftrightarrow>
     (\<exists>e. m st = (Inl e, st') \<and> r = Inl e) \<or> (\<exists>x st1. m st = (Inr x, st1) \<and> f x st1 = (r, st'))"
  by (auto simp: h_bind_def split: prod.splits sum.splits)

lemma h_simps [simp]:
  "h_return x st = (r, st') \<longleftrightarrow> r = Inr x \<and> st' = st"
  "h_reply e st = (q, st') \<longleftrightarrow> q = Inl e \<and> st' = st"
  "h_get f st = (u, st') \<longleftrightarrow> u = Inr (f st) \<and> st' = st"
  "h_effect g st = (v, st') \<longleftrightarrow> v = Inr () \<and> st' = g st"
  by (auto simp: h_return_def h_reply_def h_get_def h_effect_def)

lemma h_db_Inr:
  "h_db env m st = (Inr x, st') \<longleftrightarrow>
     (\<exists>db. m (ss_database st) = (Inr x, db) \<and> st' = st\<lparr>ss_database := db\<rparr>)"
  by (auto simp: h_db_def block_on_simp split: sum.splits prod.splits) (metis prod.collapse)+

lemma h_db_any:
  "h_db env m st = (r, st') \<longleftrightarrow>
     (\<exists>db q. m (ss_database st) = (q, db) \<and> st' = st\<lparr>ss_database := db\<rparr>
        \<and> r = (case q of Inl e \<Rightarrow> Inl (internal_error env e) | Inr x \<Rightarrow> Inr x))"
  by (cases "m (ss_database st)") (auto simp: h_db_def block_on_simp split: sum.splits)

lemma h_db_opt_any:
  "h_db_opt m st = (r, st') \<longleftrightarrow>
     (\<exists>db q. m (ss_database st) = (q, db) \<and> st' = st\<lparr>ss_database := db\<rparr>
        \<and> r = Inr (case q of Inl e \<Rightarrow> None | Inr x \<Rightarrow> x))"
  by (cases "m (ss_database st)") (auto simp: h_db_opt_def block_on_simp split: sum.splits)

lemma trim_value_string: "value_string payload keys = [] \<or> (\<exists>v. value_string payload keys = trim v)"
  by (auto simp: value_string_def split: option.splits)

lemma map_option_Cons_eq: "map_option ((#) c) x = Some s \<longleftrightarrow> (\<exists>t. x = Some t \<and> s = c # t)"
  by (cases x) auto

subsection \<open>Percent encoding\<close>

text \<open>The encoding clients use: every byte that is not alphanumeric as \<open>%XX\<close>.\<close>

definition hex_digit :: "nat \<Rightarrow> char" where
  "hex_digit d = (if d < 10 then char_of (48 + d) else char_of (55 + d))"

fun percent_encode :: "string \<Rightarrow> string" where
  "percent_encode [] = []"
| "percent_encode (c # s) =
     (if is_ascii_alphanumeric c then c # percent_encode s
      else CHR ''%'' # hex_digit (byte c div 16) # hex_digit (byte c mod 16) # percent_encode s)"

lemma byte_hex_digit: "d < 16 \<Longrightarrow> byte (hex_digit d) = (if d < 10 then 48 + d else 55 + d)"
  by (simp add: hex_digit_def)

lemma to_digit_hex_digit: "d < 16 \<Longrightarrow> to_digit 16 (hex_digit d) = Some d"
  by (simp add: to_digit_def byte_hex_digit Let_def)

lemma from_str_radix_hex:
  assumes "a < 16" and "b < 16"
  shows "from_str_radix_u8 [hex_digit a, hex_digit b] = Some (a * 16 + b)"
proof -
  have "byte (hex_digit a) \<noteq> byte (CHR ''+'')" by (simp add: byte_hex_digit [OF assms(1)])
  then have "hex_digit a \<noteq> CHR ''+''" by metis
  with assms show ?thesis by (simp add: from_str_radix_u8_def to_digit_hex_digit)
qed

lemma ascii_boundary: "byte c < 0x80 \<Longrightarrow> char_boundary (c # s)"
  by (simp add: char_boundary_def utf8_cont_def)

lemma percent_encode_boundary: "char_boundary (percent_encode s)"
proof (cases s)
  case (Cons c t)
  then show ?thesis
    by (auto simp: char_boundary_def utf8_cont_def is_ascii_alphanumeric_def is_ascii_digit_def
        is_ascii_upper_def)
qed (simp add: char_boundary_def)

lemma decode_percent_encode: "decode_query_bytes (percent_encode s) = Some s"
proof (induction s)
  case (Cons c s)
  show ?case
  proof (cases "is_ascii_alphanumeric c")
    case True
    then have "c \<noteq> CHR ''+''" "c \<noteq> CHR ''%''"
      by (auto simp: is_ascii_alphanumeric_def is_ascii_digit_def is_ascii_upper_def)
    with True Cons.IH show ?thesis by simp
  next
    case False
    have c: "byte c div 16 < 16" "byte c mod 16 < 16" using nat_of_char_less_256 [of c] by linarith+
    then have "char_boundary (hex_digit (byte c div 16) # hex_digit (byte c mod 16) # percent_encode s)"
      by (intro ascii_boundary) (simp add: byte_hex_digit)
    moreover have "byte c div 16 * 16 + byte c mod 16 = byte c" by simp
    ultimately show ?thesis
      using False Cons.IH c percent_encode_boundary [of s]
      by (simp add: from_str_radix_hex numeral_2_eq_2)
  qed
qed simp

text \<open>
  A query value that a client percent-encoded is decoded to the text it encoded, for every
  well-formed UTF-8 text, white space, plus and percent signs included.
\<close>
theorem query_value_roundtrip:
  assumes "is_utf8 s"
  shows "decode_query_value (percent_encode s) = Some s"
  by (simp add: decode_query_value_def decode_percent_encode from_utf8_lossy_valid [OF assms])

theorem query_value_roundtrip_witness:
  "decode_query_value (percent_encode [CHR ''a'', CHR '' '', CHR ''%'', CHR ''+'', CHR 0xC3, CHR 0xA9])
     = Some [CHR ''a'', CHR '' '', CHR ''%'', CHR ''+'', CHR 0xC3, CHR 0xA9]"
  by (rule query_value_roundtrip) code_simp

text \<open>
  A percent sign that is followed by one ASCII character and a non-ASCII character makes the
  decoder panic, whatever follows: the two bytes it slices end inside a character.
\<close>
theorem query_value_panics:
  assumes "byte a < 0x80" and "utf8_cont (byte c)"
  shows "decode_query_value (CHR ''%'' # a # b # c # s) = None"
  using assms by (simp add: decode_query_value_def char_boundary_def utf8_cont_def)

theorem query_value_panics_witness:
  "decode_query_value [CHR ''%'', CHR ''a'', CHR 0xC3, CHR 0xA9] = None
   \<and> is_utf8 [CHR ''%'', CHR ''a'', CHR 0xC3, CHR 0xA9]"
proof
  show "decode_query_value [CHR ''%'', CHR ''a'', CHR 0xC3, CHR 0xA9] = None"
    by (rule query_value_panics) (simp_all add: utf8_cont_def)
  show "is_utf8 [CHR ''%'', CHR ''a'', CHR 0xC3, CHR 0xA9]" by code_simp
qed

end
