(* ===== verification/Service_Admission.thy ===== *)
theory Service_Admission
  imports Service_State Admission Transition_System
begin

text \<open>
  Admission of requests by the inspection service, \<open>app/service/src/main.rs\<close>: the trust in the
  trigger gateway, the counter of requests in flight, the completion routes that stay open while the
  service drains, and the drain request with its barrier at the production command lock.
\<close>

section \<open>Headers and tokens\<close>

definition service_request_header :: "string \<Rightarrow> string \<Rightarrow> string option" where
  "service_request_header request name =
     find_map (\<lambda>line. case split_once_char (CHR '':'') line of
         None \<Rightarrow> None
       | Some (key, v) \<Rightarrow> if eq_ignore_ascii_case (trim key) name then Some (trim v) else None)
       (takeWhile (\<lambda>line. trim line \<noteq> []) (drop 1 (str_lines request)))"

definition constant_time_runtime_token_matches :: "sha256_fn \<Rightarrow> string \<Rightarrow> string \<Rightarrow> bool" where
  "constant_time_runtime_token_matches sha256 expected supplied \<longleftrightarrow>
     (let difference = (word_of_nat (length expected) XOR word_of_nat (length supplied) :: 64 word)
      in foldl (\<lambda>d (left, right).
                  d OR ucast ((word_of_nat (byte left) :: 8 word) XOR word_of_nat (byte right)))
           difference (zip (sha256 expected) (sha256 supplied)) = 0)"

definition is_trigger_service_mutation_route :: "string \<Rightarrow> string \<Rightarrow> bool" where
  "is_trigger_service_mutation_route method path \<longleftrightarrow>
     method = ''POST'' \<and>
     path \<in> set [''/api/production/tasks/steel-info'', ''/api/production/tasks/steel-in'',
       ''/api/production/tasks/steel-out'', ''/api/production/tasks/trigger-event'',
       ''/api/production/steel-info'', ''/api/production/steel-in'', ''/api/production/steel-out'',
       ''/api/production/trigger-event'', ''/api/production/secondary-data'',
       ''/api/production/capture-summary'', ''/api/production/capture-once'', ''/api/production/defect'']"

definition loopback_peer :: "ip_addr option \<Rightarrow> bool" where
  "loopback_peer peer = (case peer of None \<Rightarrow> False | Some a \<Rightarrow> is_loopback a)"

definition trusted_trigger_service_request ::
  "service_env \<Rightarrow> string \<Rightarrow> string \<Rightarrow> string \<Rightarrow> ip_addr option \<Rightarrow> bool" where
  "trusted_trigger_service_request env request method path peer =
     (if \<not> is_trigger_service_mutation_route method path \<or> \<not> loopback_peer peer
         \<or> length (sv_drain_token env) < 32
      then False
      else
        let supplied = unwrap_or [] (service_request_header request ''X-Trigger-Operator-Token'')
        in supplied \<noteq> []
           \<and> constant_time_runtime_token_matches (sv_sha256 env) (sv_drain_token env) supplied)"

definition internal_callback_from_loopback :: "ip_addr option \<Rightarrow> bool" where
  "internal_callback_from_loopback peer = (case peer of None \<Rightarrow> False | Some a \<Rightarrow> is_loopback a)"

section \<open>The admission gate\<close>

definition runtime_drain_status_json :: "service_state \<Rightarrow> json" where
  "runtime_drain_status_json st =
     (case lock (ss_runtime_admission st) of
        Some a \<Rightarrow> mk_obj
          [(''draining'', JBool (\<not> ra_accepting a)), (''accepting'', JBool (ra_accepting a)),
           (''acceptingNewProduction'', JBool (ra_accepting a)),
           (''acceptingCompletion'', JBool (ra_completion_accepting a)),
           (''inFlight'', jint (ra_in_flight a))]
      | None \<Rightarrow> mk_obj
          [(''draining'', JBool True), (''accepting'', JBool False),
           (''acceptingNewProduction'', JBool False), (''acceptingCompletion'', JBool False),
           (''inFlight'', jint 1), (''error'', JString ''runtime_admission_state_unavailable'')])"

definition runtime_is_draining :: "service_state \<Rightarrow> bool" where
  "runtime_is_draining st =
     (case lock (ss_runtime_admission st) of Some a \<Rightarrow> \<not> ra_accepting a | None \<Rightarrow> True)"

definition runtime_draining_http_response :: "service_env \<Rightarrow> service_state \<Rightarrow> string \<Rightarrow> string" where
  "runtime_draining_http_response env st path =
     json_reply env ''503 Service Unavailable''
       [(''code'', jint 503), (''error'', JString ''runtime_draining''), (''path'', JString path),
        (''admission'', runtime_drain_status_json st)]"

definition admission_unavailable :: "service_env \<Rightarrow> string" where
  "admission_unavailable env =
     json_reply env ''503 Service Unavailable''
       [(''code'', jint 503), (''error'', JString ''runtime_admission_state_unavailable'')]"

definition runtime_completion_route :: "string \<Rightarrow> string \<Rightarrow> bool" where
  "runtime_completion_route method path \<longleftrightarrow>
     method = ''POST'' \<and>
     path \<in> set [''/api/production/steel-out'', ''/api/production/tasks/steel-out'',
       ''/api/production/tasks/cancel'', ''/internal/v1/steel-out'', ''/internal/v1/capture-commit'',
       ''/internal/v1/capture-regions'', ''/internal/v1/defect-batch'']"

text \<open>\<open>Inl\<close> is the refusal, \<open>Inr\<close> tells whether the request holds a guard.\<close>

definition enter_runtime_admission ::
  "service_env \<Rightarrow> string \<Rightarrow> string \<Rightarrow> service_state \<Rightarrow> (string + bool) \<times> service_state" where
  "enter_runtime_admission env method path st =
     (if method \<notin> set [''POST'', ''PUT'', ''PATCH'', ''DELETE''] \<or> path = ''/api/runtime/drain''
      then (Inr False, st)
      else case lock (ss_runtime_admission st) of
             None \<Rightarrow> (Inl (admission_unavailable env), st)
           | Some a \<Rightarrow>
               if \<not> ra_accepting a \<and> \<not> (ra_completion_accepting a \<and> runtime_completion_route method path)
               then (Inl (runtime_draining_http_response env st path), st)
               else (Inr True, st\<lparr>ss_runtime_admission := unlock (ss_runtime_admission st)
                       (a\<lparr>ra_in_flight := saturating_add64 (ra_in_flight a) 1\<rparr>)\<rparr>))"

definition drop_runtime_admission_guard :: "service_state \<Rightarrow> service_state" where
  "drop_runtime_admission_guard st =
     (case lock (ss_runtime_admission st) of
        None \<Rightarrow> st
      | Some a \<Rightarrow> st\<lparr>ss_runtime_admission := unlock (ss_runtime_admission st)
                    (a\<lparr>ra_in_flight := ra_in_flight a - 1\<rparr>)\<rparr>)"

definition close_runtime_admission :: "service_state \<Rightarrow> service_state" where
  "close_runtime_admission st =
     (case lock (ss_runtime_admission st) of
        None \<Rightarrow> st
      | Some a \<Rightarrow> st\<lparr>ss_runtime_admission := unlock (ss_runtime_admission st) (a\<lparr>ra_accepting := False\<rparr>)\<rparr>)"

definition runtime_drain_response ::
  "service_env \<Rightarrow> string \<Rightarrow> ip_addr option \<Rightarrow> service_state \<Rightarrow> string \<times> service_state" where
  "runtime_drain_response env request peer st =
     (if \<not> loopback_peer peer
      then (json_reply env ''403 Forbidden''
              [(''code'', jint 403), (''error'', JString ''runtime_drain_loopback_only'')], st)
      else
        let supplied = unwrap_or [] (service_request_header request ''X-Trigger-Operator-Token'')
        in if length (sv_drain_token env) < 32 \<or> supplied = []
              \<or> \<not> constant_time_runtime_token_matches (sv_sha256 env) (sv_drain_token env) supplied
           then (json_reply env ''401 Unauthorized''
                   [(''code'', jint 401), (''error'', JString ''runtime_drain_auth_required'')], st)
           else case lock (ss_runtime_admission st) of
                  None \<Rightarrow> (admission_unavailable env, st)
                | Some _ \<Rightarrow>
                    let st' = close_runtime_admission st
                    in case lock (ss_command_lock st') of
                         None \<Rightarrow> (json_reply env ''503 Service Unavailable''
                           [(''code'', jint 503), (''error'', JString ''production_command_lock_poisoned'')], st')
                       | Some _ \<Rightarrow> (json_reply env ''200 OK''
                           [(''code'', jint 0), (''admission'', runtime_drain_status_json st')], st'))"

section \<open>The contract of the gate\<close>

definition admit_request ::
  "service_env \<Rightarrow> service_state \<Rightarrow> string \<times> string \<Rightarrow> service_state option" where
  "admit_request env st r =
     (case enter_runtime_admission env (fst r) (snd r) st of (Inr True, st') \<Rightarrow> Some st' | _ \<Rightarrow> None)"

lemmas gate_defs = admit_request_def enter_runtime_admission_def drop_runtime_admission_guard_def
  close_runtime_admission_def lock_def unlock_def

interpretation sg: admission_gate
  "\<lambda>st. \<not> mx_poisoned (ss_runtime_admission st)"
  "\<lambda>st. ra_accepting (mx_value (ss_runtime_admission st))"
  "\<lambda>st. ra_in_flight (mx_value (ss_runtime_admission st))"
  "\<lambda>(method, path). runtime_completion_route method path"
  "admit_request env" drop_runtime_admission_guard close_runtime_admission
  for env
  by unfold_locales
    (auto simp: gate_defs saturating_add64_def split: if_splits)

lemma close_runtime_admission_idem:
  "close_runtime_admission (close_runtime_admission st) = close_runtime_admission st"
  by (cases "ss_runtime_admission st") (simp add: gate_defs)

lemma service_request_header_eq: "service_request_header = request_header"
  by (simp add: fun_eq_iff service_request_header_def request_header_def header_of_line_def [abs_def])

lemma runtime_token_eq: "constant_time_runtime_token_matches = constant_time_token_matches"
  by (simp add: fun_eq_iff constant_time_runtime_token_matches_def constant_time_token_matches_def)

lemma drain_response_cases:
  assumes "runtime_drain_response env request peer st = (response, st')"
  shows "st' = st
    \<or> st' = close_runtime_admission st \<and> loopback_peer peer \<and> 32 \<le> length (sv_drain_token env)
       \<and> (\<exists>token. service_request_header request ''X-Trigger-Operator-Token'' = Some token
            \<and> constant_time_runtime_token_matches (sv_sha256 env) (sv_drain_token env) token)"
  using assms
  by (cases "service_request_header request ''X-Trigger-Operator-Token''")
    (auto simp: runtime_drain_response_def Let_def split: if_splits option.splits)

section \<open>Properties\<close>


text \<open>
  Only a loopback peer that presents the drain token changes the state of the service by a
  drain request: the token is at least 32 bytes long and the header holds one of the same length and
  digest.  All such a request does is to close the gate for new work.
\<close>
theorem drain_requires_token:
  assumes "runtime_drain_response env request peer st = (response, st')" and "st' \<noteq> st"
    and "\<And>x. length (sv_sha256 env x) = 32"
    and "length (sv_drain_token env) < 2 ^ 64" and "length request < 2 ^ 64"
  shows "st' = close_runtime_admission st \<and> loopback_peer peer \<and> 32 \<le> length (sv_drain_token env)
    \<and> (\<exists>token. service_request_header request ''X-Trigger-Operator-Token'' = Some token
         \<and> length token = length (sv_drain_token env)
         \<and> sv_sha256 env token = sv_sha256 env (sv_drain_token env))"
proof -
  from drain_response_cases [OF assms(1)] assms(2) obtain token where
    t: "service_request_header request ''X-Trigger-Operator-Token'' = Some token"
      "constant_time_runtime_token_matches (sv_sha256 env) (sv_drain_token env) token"
    and s: "st' = close_runtime_admission st" "loopback_peer peer" "32 \<le> length (sv_drain_token env)"
    by blast
  from t(1) have "length token \<le> length request"
    by (simp add: service_request_header_eq request_header_length)
  then have "length token < 2 ^ 64" using assms(5) by (rule le_less_trans)
  with t(2) constant_time_matches [of "sv_sha256 env" "sv_drain_token env" token, OF assms(3,4)]
  show ?thesis using t(1) s by (auto simp: runtime_token_eq)
qed

section \<open>Concrete instances\<close>

lemma demo_service_lock: "ss_runtime_admission demo_service = Mutex False runtime_admission_default"
  by (simp add: demo_service_def)


definition demo_drain_request :: string where
  "demo_drain_request =
     ''POST /api/runtime/drain HTTP/1.1'' @ crlf
     @ ''X-Trigger-Operator-Token: kkkkkkkkkkkkkkkkkkkkkkkkkkkkkkkk'' @ crlf @ crlf"

lemma demo_drain_header:
  "service_request_header demo_drain_request ''X-Trigger-Operator-Token'' = Some (replicate 32 (CHR ''k''))"
  by code_simp

theorem drain_requires_token_witness:
  "\<exists>st'. snd (runtime_drain_response (demo_service_env demo_serde) demo_drain_request
        (Some (V4 0x7F000001)) demo_service) = st' \<and> st' = close_runtime_admission demo_service
     \<and> runtime_is_draining st'"
proof -
  let ?env = "demo_service_env demo_serde"
  let ?r = "runtime_drain_response ?env demo_drain_request (Some (V4 0x7F000001)) demo_service"
  have m: "constant_time_runtime_token_matches demo_sha256 t t" for t
    by (auto simp: runtime_token_eq constant_time_token_matches_def foldl_or_zero set_zip split_def)
  have ne: "snd ?r \<noteq> demo_service"
    using m by (simp add: runtime_drain_response_def loopback_peer_def demo_drain_header demo_service_env_def
        Let_def demo_service_def gate_defs runtime_admission_default_def)
  have "length demo_drain_request < 2 ^ 64" by (simp add: demo_drain_request_def)
  from drain_requires_token [OF surjective_pairing ne _ _ this]
  have "snd ?r = close_runtime_admission demo_service"
    by (simp add: demo_service_env_def demo_sha256_def)
  moreover have "runtime_is_draining (close_runtime_admission demo_service)"
    by (simp add: runtime_is_draining_def gate_defs demo_service_def)
  ultimately show ?thesis by simp
qed

end
