(* ===== verification/Task_Identity.thy ===== *)
theory Task_Identity
  imports Task_Propagation
begin

text \<open>
  No operation deletes a task or changes its identity: its key, kind, payload, chain, dependency,
  author and creation time.  The lemmas of \<open>table_relation\<close> are extended to the operations that
  update a row by primary key.
\<close>

section \<open>Operations that update a row by primary key\<close>

context table_relation
begin

lemma keeps_finish:
  assumes "\<And>env tid reason. reason \<noteq> [] \<Longrightarrow> keeps R (mark_production_task_blocked env tid reason)"
    and "\<And>n ts. R ts (update_rows (\<lambda>t. t_id t = tid) (finished_row status progress result error (show_nat n)) ts)"
  shows "keeps R (finish_production_task env tid status progress result error)"
proof -
  have "keeps R (case m of None \<Rightarrow> db_return None | Some model \<Rightarrow>
         db_bind (now_millis_string env) (\<lambda>now.
         db_bind (update_task env tid (finished_row status progress result error now)) (\<lambda>updated.
         if failure_status status
         then db_bind (propagate_production_task_dependency_failure env tid) (\<lambda>_. db_return (Some updated))
         else db_return (Some updated))))" for m
    by (cases m; cases "failure_status status")
      (simp_all add: keeps_return keeps_now_bind keeps_bind keeps_update_task assms(2) keeps_propagate [OF assms(1)])
  then show ?thesis unfolding finish_production_task_def by (intro keeps_bind keeps_find)
qed

lemma keeps_cancel_write:
  assumes "\<And>env tid reason. reason \<noteq> [] \<Longrightarrow> keeps R (mark_production_task_blocked env tid reason)"
    and "\<And>q n ts. R ts (update_rows (\<lambda>t. t_id t = tid) (cancelled_row q (show_nat n)) ts)"
  shows "keeps R (cancel_write env tid model)"
  unfolding cancel_write_def
  by (cases "t_status model = ''queued''"; cases "production_task_status_is_terminal (t_status model)")
    (simp_all add: keeps_return keeps_now_bind keeps_bind keeps_update_task assms(2) keeps_propagate [OF assms(1)])

lemma keeps_cancel:
  assumes "\<And>env tid reason. reason \<noteq> [] \<Longrightarrow> keeps R (mark_production_task_blocked env tid reason)"
    and "\<And>q n ts. R ts (update_rows (\<lambda>t. t_id t = tid) (cancelled_row q (show_nat n)) ts)"
  shows "keeps R (request_cancel_production_task env tid)"
proof -
  have "keeps R (case m of None \<Rightarrow> db_return None | Some model \<Rightarrow> cancel_write env tid model)" for m
    by (cases m) (simp_all add: keeps_return keeps_cancel_write [OF assms])
  then show ?thesis unfolding request_cancel_production_task_def by (intro keeps_bind keeps_find)
qed

lemma keeps_retry:
  assumes "\<And>tid n ts. R ts (update_rows (\<lambda>t. t_id t = tid \<and> t_status t = ''blocked'')
      (requeued_row (show_nat n)) ts)"
    and "\<And>ma n ts. R ts (update_rows (\<lambda>t. t_id t = tid) (retried_row ma (show_nat n)) ts)"
  shows "keeps R (retry_production_task env tid)"
proof -
  have w: "keeps R (retry_write env tid model)" for model
    unfolding retry_write_def
    by (intro keeps_now_bind keeps_bind keeps_update_task assms(2) keeps_requeue [OF assms(1)] keeps_return)
  have "keeps R (case m of None \<Rightarrow> db_return None | Some model \<Rightarrow>
         if \<not> failure_status (t_status model) then db_return (Some model)
         else if t_status model = ''blocked''
         then db_bind (production_task_dependency_state env model) (\<lambda>d.
              if d \<noteq> Ready then db_return (Some model) else retry_write env tid model)
         else retry_write env tid model)" for m
    by (cases m) (simp_all add: keeps_return w keeps_bind keeps_dependency_state)
  then show ?thesis unfolding retry_production_task_def by (intro keeps_bind keeps_find)
qed

lemma keeps_recover:
  assumes "\<And>env tid reason. reason \<noteq> [] \<Longrightarrow> keeps R (mark_production_task_blocked env tid reason)"
    and "\<And>tid c n ts. R ts (update_rows (\<lambda>t. t_id t = tid) (recovered_row c (show_nat n)) ts)"
  shows "keeps R (recover_incomplete_production_tasks env)"
proof -
  have "keeps R (recover_tasks env ms)" for ms
    by (induction ms)
      (simp_all add: keeps_return keeps_now_bind keeps_bind keeps_update_task assms(2) keeps_propagate [OF assms(1)])
  then show ?thesis unfolding recover_incomplete_production_tasks_def by (intro keeps_bind keeps_query)
qed

end

section \<open>Identities are permanent\<close>

definition same_identities :: "production_task list \<Rightarrow> production_task list \<Rightarrow> bool" where
  "same_identities ts us \<longleftrightarrow> map task_static us = map task_static ts"

interpretation sid: table_relation same_identities
  by unfold_locales (auto simp: same_identities_def)

lemma sid_update [intro]:
  "same_identities ts (update_rows P (blocked_row reason now) ts)"
  "same_identities ts (update_rows P (requeued_row now) ts)"
  "same_identities ts (update_rows P (running_row model now) ts)"
  "same_identities ts (update_rows P (progress_row phase progress now) ts)"
  "same_identities ts (update_rows P (finished_row status progress result error now) ts)"
  "same_identities ts (update_rows P (cancelled_row queued now) ts)"
  "same_identities ts (update_rows P (retried_row ma now) ts)"
  "same_identities ts (update_rows P (recovered_row cancelled now) ts)"
  by (simp_all add: same_identities_def static_kept)

lemma sid_mark: "keeps same_identities (mark_production_task_blocked env tid reason)"
  by (intro sid.keeps_mark sid_update)

lemma sid_progress: "keeps same_identities (update_production_task_progress env tid phase progress)"
proof -
  have "keeps same_identities (if n = 0 then db_return None else find_production_task env tid)" for n :: nat
    by (simp add: sid.keeps_return sid.keeps_find)
  then show ?thesis
    unfolding update_production_task_progress_def
    by (intro sid.keeps_now_bind sid.keeps_bind sid.keeps_update_tasks sid_update)
qed

lemmas sid_propagate = sid.keeps_propagate [OF sid_mark]
lemmas sid_finish = sid.keeps_finish [OF sid_mark sid_update(5)]
lemmas sid_cancel = sid.keeps_cancel [OF sid_mark sid_update(6)]
lemmas sid_retry = sid.keeps_retry [OF sid_update(2) sid_update(7)]
lemmas sid_recover = sid.keeps_recover [OF sid_mark sid_update(8)]
lemmas sid_claim_pass = sid.keeps_claim_pass [OF sid_mark sid_update(3)]
lemmas sid_claim = sid.keeps_claim_next [OF sid_mark sid_update(3)]

lemma same_identities_ids: "same_identities ts us \<Longrightarrow> map t_id us = map t_id ts"
  by (auto simp: same_identities_def dest: static_keys)

text \<open>Rows are only ever added.\<close>

definition identities_kept :: "production_task list \<Rightarrow> production_task list \<Rightarrow> bool" where
  "identities_kept ts us \<longleftrightarrow> (\<exists>new. map task_static us = map task_static ts @ new)"

interpretation idk: table_relation identities_kept
  by unfold_locales (auto simp: identities_kept_def)

lemma same_identities_kept: "same_identities ts us \<Longrightarrow> identities_kept ts us"
  by (simp add: same_identities_def identities_kept_def)

lemma idk_insert:
  assumes "insert_production_task env input db = (r, db')"
  shows "identities_kept (db_tasks db) (db_tasks db')"
  using insert_cases [OF assms] by (auto simp: identities_kept_def)

lemma task_step_identities: "task_step db db' \<Longrightarrow> identities_kept (db_tasks db) (db_tasks db')"
proof (induction rule: task_step.induct)
  case (ts_claim env db r db')
  with sid_claim [of db env] show ?case by (simp add: same_identities_kept)
next
  case (ts_other db' db)
  then show ?case by (simp add: idk.rel_refl)
qed (auto intro: idk_insert same_identities_kept keepsD [OF sid_progress] keepsD [OF sid_finish]
    keepsD [OF sid_cancel] keepsD [OF sid_retry] keepsD [OF sid_recover])

lemma task_steps_identities: "task_step\<^sup>*\<^sup>* db db' \<Longrightarrow> identities_kept (db_tasks db) (db_tasks db')"
  by (induction rule: rtranclp_induct) (auto intro: idk.rel_refl idk.rel_trans task_step_identities)

lemma identities_kept_row:
  assumes "identities_kept ts us" and "t \<in> set ts"
  shows "\<exists>u\<in>set us. task_static u = task_static t"
proof -
  from assms(1) obtain new where n: "map task_static us = map task_static ts @ new"
    by (auto simp: identities_kept_def)
  have "task_static t \<in> set (map task_static us)" unfolding n using assms(2) by simp
  then show ?thesis by auto
qed

end
