(* ===== verification/Task_Queue.thy ===== *)
theory Task_Queue
  imports Service_Admission Task_Identity
begin

text \<open>
  The HTTP interface of the production task queue, \<open>app/service/src/production_tasks.rs\<close>: parsing and
  normalisation of requests, idempotent enqueueing with its admission, capacity, chain and dependency
  checks, listing, cancellation and retry.
\<close>

section \<open>Normalisation\<close>

definition default_queue_capacity :: nat where "default_queue_capacity = 128"

definition max_queue_capacity :: nat where "max_queue_capacity = 4096"

definition queue_capacity :: "service_env \<Rightarrow> nat" where
  "queue_capacity env =
     clamp 1 max_queue_capacity
       (unwrap_or default_queue_capacity
         (Option.bind (sv_vars env ''STEEL_PRODUCTION_TASK_QUEUE_CAPACITY'') parse_u64))"

definition normalize_kind :: "string \<Rightarrow> string option" where
  "normalize_kind v =
     (let k = to_ascii_lowercase (trim v)
      in if k \<in> set [''capture'', ''capture-once'', ''capture_once''] then Some ''capture-once''
         else if k \<in> set [''algorithm'', ''algorithm-run'', ''algorithm_run''] then Some ''algorithm-run''
         else if k \<in> set [''steel-info'', ''steel_info'', ''steelinfo'', ''info''] then Some ''steel-info''
         else if k \<in> set [''steel-in'', ''steel_in'', ''steelin'', ''in''] then Some ''steel-in''
         else if k \<in> set [''steel-out'', ''steel_out'', ''steelout'', ''out''] then Some ''steel-out''
         else if k \<in> set [''trigger-event'', ''trigger_event'', ''triggerevent'', ''event'']
         then Some ''trigger-event''
         else None)"

definition valid_task_chain_id :: "string \<Rightarrow> bool" where
  "valid_task_chain_id v \<longleftrightarrow>
     v \<noteq> [] \<and> length v \<le> 128
     \<and> list_all (\<lambda>ch. is_ascii_alphanumeric ch \<or> ch \<in> set [CHR ''-'', CHR ''_'', CHR ''.'', CHR '':'']) v"

definition normalize_dependency_policy :: "string \<Rightarrow> string option" where
  "normalize_dependency_policy v =
     (let p = to_ascii_lowercase (trim v)
      in if p \<in> set [[], ''require-success'', ''require_success''] then Some ''require-success''
         else if p \<in> set [''always-run'', ''always_run''] then Some ''always-run''
         else None)"

definition queued_kind_for_route :: "string \<Rightarrow> string \<Rightarrow> string option" where
  "queued_kind_for_route method path =
     (if method \<noteq> ''POST'' then None
      else if path = ''/api/production/tasks/steel-info'' then Some ''steel-info''
      else if path = ''/api/production/tasks/steel-in'' then Some ''steel-in''
      else if path = ''/api/production/tasks/steel-out'' then Some ''steel-out''
      else if path = ''/api/production/tasks/trigger-event'' then Some ''trigger-event''
      else None)"

definition runtime_capability_for_production_task_kind :: "string \<Rightarrow> runtime_capability option" where
  "runtime_capability_for_production_task_kind kind =
     (case normalize_kind kind of
        None \<Rightarrow> None
      | Some k \<Rightarrow>
          if k = ''algorithm-run'' then Some Reconstruction
          else if k \<in> set [''capture-once'', ''steel-info'', ''steel-in'', ''steel-out'', ''trigger-event'']
          then Some CaptureManagement else None)"

section \<open>Views\<close>

definition task_json :: "service_env \<Rightarrow> production_task \<Rightarrow> json" where
  "task_json env t =
     (let result = (if trim (t_result t) = [] then JNull
                    else case from_str (sv_serde env) (t_result t) of
                           Inr v \<Rightarrow> v | Inl _ \<Rightarrow> JString (t_result t))
      in mk_obj
       [(''id'', JString (t_id t)), (''taskId'', JString (t_id t)),
        (''idempotencyKey'', JString (t_idempotency_key t)), (''kind'', JString (t_kind t)),
        (''materialId'', JString (t_material_id t)), (''sessionId'', JString (t_session_id t)),
        (''chainId'', JString (t_chain_id t)),
        (''dependsOnTaskId'',
          if t_depends_on_task_id t = [] then JNull else JString (t_depends_on_task_id t)),
        (''dependencyPolicy'', JString (t_dependency_policy t)),
        (''blockedReason'', JString (t_blocked_reason t)), (''status'', JString (t_status t)),
        (''phase'', JString (t_phase t)), (''progress'', jnum (t_progress t)),
        (''attempts'', jnum (t_attempts t)), (''maxAttempts'', jnum (t_max_attempts t)),
        (''cancelRequested'', JBool (t_cancel_requested t)), (''result'', result),
        (''error'', JString (t_error t)), (''actor'', JString (t_actor t)),
        (''createdAt'', JString (t_created_at t)), (''startedAt'', JString (t_started_at t)),
        (''finishedAt'', JString (t_finished_at t)), (''updatedAt'', JString (t_updated_at t))])"

definition worker_json :: "service_env \<Rightarrow> service_state \<Rightarrow> json" where
  "worker_json env st =
     (case lock (ss_worker_status st) of
        None \<Rightarrow> mk_obj
          [(''running'', JBool False), (''activeTaskId'', JString ''worker_status_unavailable''),
           (''lastHeartbeatAt'', JNull), (''heartbeatAgeMs'', JNull),
           (''lastError'', JString ''worker_status_unavailable''), (''recoveredTasks'', JNull),
           (''capacity'', jint (queue_capacity env))]
      | Some status \<Rightarrow> mk_obj
          [(''running'', JBool (ws_running status)),
           (''activeTaskId'', if ws_current_task_id status = [] then JNull
              else JString (ws_current_task_id status)),
           (''lastHeartbeatAt'', JString (show_nat (ws_last_heartbeat_at status))),
           (''heartbeatAgeMs'', if ws_last_heartbeat_at status = 0 then jint 0
              else jint (current_time_millis env st - ws_last_heartbeat_at status)),
           (''lastError'', JString (ws_last_error status)),
           (''recoveredTasks'', jint (ws_recovered_tasks status)),
           (''capacity'', jint (queue_capacity env))])"

definition status_json :: "service_env \<Rightarrow> service_state \<Rightarrow> json \<times> service_state" where
  "status_json env st =
     (let (r, st') = block_on (count_open_production_tasks (sv_db env)) st;
          depth = (case r of Inl _ \<Rightarrow> None | Inr n \<Rightarrow> Some n)
      in (mk_obj
           [(''worker'', worker_json env st'),
            (''queueDepth'', case depth of None \<Rightarrow> JNull | Some n \<Rightarrow> jint n),
            (''queueDepthAvailable'', JBool (depth \<noteq> None)),
            (''capacity'', jint (queue_capacity env))], st'))"

definition notify_worker :: "service_state \<Rightarrow> service_state" where
  "notify_worker st =
     (case lock (ss_wakeup_generation st) of
        None \<Rightarrow> st
      | Some g \<Rightarrow> st\<lparr>ss_wakeup_generation := unlock (ss_wakeup_generation st) (wrapping_add64 g 1)\<rparr>)"

section \<open>Enqueueing\<close>

text \<open>The material and session a new task belongs to.\<close>

definition task_target :: "service_env \<Rightarrow> json \<Rightarrow> (string \<times> string) handler" where
  "task_target env payload =
     h_bind (h_db_opt (latest_open_material_session (sv_db env))) (\<lambda>latest_open.
     let requested = material_id_from_payload payload []
     in h_bind (h_db_opt (latest_unresolved_production_task (sv_db env)
          (if requested \<noteq> [] then Some requested else None))) (\<lambda>latest_task.
        h_get (\<lambda>st.
          let material_id =
                (if requested = [] then
                   (case latest_open of
                      Some s \<Rightarrow> m_material_id s
                    | None \<Rightarrow> (case latest_task of Some t \<Rightarrow> t_material_id t | None \<Rightarrow> ''unknown-material''))
                 else requested);
              explicit = value_string payload session_keys;
              session_id =
                (if explicit = [] then
                   (case latest_open of
                      Some s \<Rightarrow>
                        if m_material_id s = material_id then m_id s
                        else (case latest_task of
                                Some t \<Rightarrow> if t_material_id t = material_id then t_session_id t
                                          else session_id_from_payload env st payload material_id
                              | None \<Rightarrow> session_id_from_payload env st payload material_id)
                    | None \<Rightarrow>
                        (case latest_task of
                           Some t \<Rightarrow> if t_material_id t = material_id then t_session_id t
                                     else session_id_from_payload env st payload material_id
                         | None \<Rightarrow> session_id_from_payload env st payload material_id))
                 else explicit)
          in (material_id, session_id))))"

definition task_admin_guard :: "service_env \<Rightarrow> unit handler" where
  "task_admin_guard env =
     (\<lambda>st. case lock (ss_task_admin_lock st) of
        Some _ \<Rightarrow> (Inr (), st)
      | None \<Rightarrow> (Inl (json_reply env ''503 Service Unavailable''
          [(''code'', jint 503), (''error'', JString ''production_task_admin_lock_poisoned'')]), st))"

record enqueue_request =
  er_request :: json
  er_kind :: string
  er_payload :: json
  er_chain_id :: string
  er_dependency_id :: string
  er_policy_value :: string
  er_policy :: string
  er_raw_key :: string
  er_payload_text :: string

definition bad_request :: "service_env \<Rightarrow> string \<Rightarrow> string" where
  "bad_request env e = json_reply env ''400 Bad Request'' [(''code'', jint 400), (''error'', JString e)]"

definition supported_kinds :: "string list" where
  "supported_kinds =
     [''capture-once'', ''algorithm-run'', ''steel-info'', ''steel-in'', ''steel-out'', ''trigger-event'']"

definition key_fields :: "string list" where
  "key_fields = [''idempotencyKey'', ''idempotency_key'', ''requestId'', ''request_id'']"

definition dependency_fields :: "string list" where
  "dependency_fields = [''dependsOnTaskId'', ''depends_on_task_id'', ''dependsOn'']"

text \<open>Validation of the request, before the administrative lock is taken.\<close>

definition enqueue_parse :: "service_env \<Rightarrow> string \<Rightarrow> string + enqueue_request" where
  "enqueue_parse env body =
     (case from_str (sv_serde env) (trim body) of
        Inl _ \<Rightarrow> Inl (bad_request env ''invalid_production_task_json'')
      | Inr request \<Rightarrow>
        if \<not> is_object request then Inl (bad_request env ''invalid_production_task_json'')
        else case normalize_kind (value_string request [''kind'', ''type'', ''command'']) of
          None \<Rightarrow> Inl (json_reply env ''400 Bad Request''
            [(''code'', jint 400), (''error'', JString ''unsupported_production_task_kind''),
             (''supportedKinds'', JArray (map JString supported_kinds))])
        | Some kind \<Rightarrow>
          let payload = unwrap_or (JObject []) (value_get ''payload'' request);
              chain_id = value_string request [''chainId'', ''chain_id''];
              dependency_id = value_string request dependency_fields;
              policy_value = value_string request [''dependencyPolicy'', ''dependency_policy''];
              raw_key = value_string request key_fields
          in if \<not> is_object payload then Inl (bad_request env ''production_task_payload_must_be_object'')
             else if 128 < length dependency_id then Inl (bad_request env ''dependency_task_id_too_long'')
             else case normalize_dependency_policy policy_value of
               None \<Rightarrow> Inl (json_reply env ''400 Bad Request''
                 [(''code'', jint 400), (''error'', JString ''invalid_dependency_policy''),
                  (''supportedPolicies'', JArray [JString ''require-success'', JString ''always-run''])])
             | Some policy \<Rightarrow>
               if policy = ''always-run'' \<and> kind \<noteq> ''trigger-event''
               then Inl (json_reply env ''400 Bad Request''
                 [(''code'', jint 400),
                  (''error'', JString ''always_run_not_allowed_for_safety_critical_task''),
                  (''kind'', JString kind)])
               else if 160 < length raw_key then Inl (bad_request env ''idempotency_key_too_long'')
               else Inr \<lparr> er_request = request, er_kind = kind, er_payload = payload,
                 er_chain_id = chain_id, er_dependency_id = dependency_id,
                 er_policy_value = policy_value, er_policy = policy, er_raw_key = raw_key,
                 er_payload_text = to_string (sv_serde env) payload \<rparr>)"

definition compound_key :: "enqueue_request \<Rightarrow> string" where
  "compound_key rq = (if trim (er_raw_key rq) = [] then [] else er_kind rq @ '':'' @ trim (er_raw_key rq))"

definition idempotency_conflict :: "enqueue_request \<Rightarrow> production_task \<Rightarrow> bool" where
  "idempotency_conflict rq existing \<longleftrightarrow>
     t_kind existing \<noteq> er_kind rq
     \<or> t_payload existing \<noteq> er_payload_text rq
     \<or> (er_chain_id rq \<noteq> [] \<and> t_chain_id existing \<noteq> er_chain_id rq)
     \<or> (er_dependency_id rq \<noteq> [] \<and> t_depends_on_task_id existing \<noteq> er_dependency_id rq)
     \<or> (er_policy_value rq \<noteq> [] \<and> t_dependency_policy existing \<noteq> er_policy rq)"

text \<open>Replay of a request whose key is known.\<close>

definition enqueue_replay :: "service_env \<Rightarrow> enqueue_request \<Rightarrow> unit handler" where
  "enqueue_replay env rq =
     (if compound_key rq = [] then h_return ()
      else h_bind (h_db env (find_production_task_by_idempotency_key (sv_db env) (compound_key rq))) (\<lambda>found.
           case found of
             None \<Rightarrow> h_return ()
           | Some existing \<Rightarrow>
               if idempotency_conflict rq existing
               then h_reply (json_reply env ''409 Conflict''
                 [(''code'', jint 409), (''error'', JString ''idempotency_conflict''),
                  (''task'', task_json env existing)])
               else h_reply (json_reply env ''200 OK''
                 [(''code'', jint 0), (''duplicate'', JBool True), (''task'', task_json env existing)])))"

text \<open>Admission: draining and capacity.\<close>

definition enqueue_admit :: "service_env \<Rightarrow> enqueue_request \<Rightarrow> unit handler" where
  "enqueue_admit env rq =
     h_bind (h_get (\<lambda>st. (runtime_is_draining st, runtime_drain_status_json st))) (\<lambda>(draining, admission).
     if draining \<and> er_kind rq \<noteq> ''steel-out''
     then h_reply (json_reply env ''503 Service Unavailable''
       [(''code'', jint 503), (''error'', JString ''runtime_draining''), (''kind'', JString (er_kind rq)),
        (''admission'', admission)])
     else h_bind (h_db env (count_open_production_tasks (sv_db env))) (\<lambda>open_tasks.
       if queue_capacity env \<le> open_tasks
       then h_reply (json_reply env ''429 Too Many Requests''
         [(''code'', jint 429), (''error'', JString ''production_task_queue_full''),
          (''queueDepth'', jint open_tasks), (''capacity'', jint (queue_capacity env))])
       else h_return ()))"

definition next_task_id :: "service_env \<Rightarrow> string handler" where
  "next_task_id env =
     (\<lambda>st. (Inr (''TASK-'' @ show_nat (current_time_millis env st) @ ''-''
                 @ pad_zeros 20 (show_nat (ss_task_sequence st))),
            st\<lparr>ss_task_sequence := wrapping_add64 (ss_task_sequence st) 1\<rparr>))"

text \<open>The chain a task joins, given the latest task of its session.\<close>

definition enqueue_chain :: "service_env \<Rightarrow> enqueue_request \<Rightarrow> string \<Rightarrow> string handler" where
  "enqueue_chain env rq session_id =
     (if er_chain_id rq \<noteq> [] \<and> \<not> valid_task_chain_id (er_chain_id rq)
      then h_reply (bad_request env ''invalid_production_chain_id'')
      else h_bind (h_db env (latest_production_task_for_session (sv_db env) session_id)) (\<lambda>latest.
        let chain_id =
              (if er_chain_id rq = [] then
                 (case latest of
                    Some t \<Rightarrow> if t_chain_id t \<noteq> [] then t_chain_id t else session_id
                  | None \<Rightarrow> session_id)
               else er_chain_id rq)
        in case latest of
             Some t \<Rightarrow>
               if t_chain_id t \<noteq> [] \<and> t_chain_id t \<noteq> chain_id
               then h_reply (json_reply env ''409 Conflict''
                 [(''code'', jint 409), (''error'', JString ''production_session_chain_mismatch''),
                  (''existingChainId'', JString (t_chain_id t)), (''requestedChainId'', JString chain_id)])
               else h_return chain_id
           | None \<Rightarrow> h_return chain_id))"

text \<open>The task a new task waits for, checked against its chain, session and material.\<close>

definition requested_dependency :: "service_env \<Rightarrow> enqueue_request \<Rightarrow> string \<Rightarrow> string handler" where
  "requested_dependency env rq chain_id =
     (if er_dependency_id rq \<noteq> [] then h_return (er_dependency_id rq)
      else if er_kind rq = ''trigger-event'' then h_return []
      else h_bind (h_db env (latest_production_task_in_chain (sv_db env) chain_id)) (\<lambda>latest.
           h_return (case latest of Some t \<Rightarrow> t_id t | None \<Rightarrow> [])))"

definition check_dependency ::
  "service_env \<Rightarrow> string \<Rightarrow> string \<Rightarrow> string \<Rightarrow> string \<Rightarrow> string handler" where
  "check_dependency env chain_id material_id session_id dep =
     (if dep = [] then h_return dep
      else h_bind (h_db env (find_production_task (sv_db env) dep)) (\<lambda>found.
        case found of
          None \<Rightarrow> h_reply (json_reply env ''409 Conflict''
            [(''code'', jint 409), (''error'', JString ''production_task_dependency_not_found''),
             (''dependsOnTaskId'', JString dep)])
        | Some d \<Rightarrow>
            if t_chain_id d \<noteq> chain_id \<or> t_session_id d \<noteq> session_id \<or> t_material_id d \<noteq> material_id
            then h_reply (json_reply env ''409 Conflict''
              [(''code'', jint 409), (''error'', JString ''production_task_dependency_chain_mismatch''),
               (''dependsOnTaskId'', JString (t_id d))])
            else h_return dep))"

definition enqueue_dependency ::
  "service_env \<Rightarrow> enqueue_request \<Rightarrow> string \<Rightarrow> string \<Rightarrow> string \<Rightarrow> string handler" where
  "enqueue_dependency env rq chain_id material_id session_id =
     h_bind (requested_dependency env rq chain_id) (check_dependency env chain_id material_id session_id)"

definition requested_max_attempts :: "json \<Rightarrow> int" where
  "requested_max_attempts request =
     clamp 1 10 (unwrap_or 1 (Option.bind
       (case value_get ''maxAttempts'' request of
          Some v \<Rightarrow> Some v | None \<Rightarrow> value_get ''max_attempts'' request) as_i64))"

text \<open>Everything up to the insertion of the row.\<close>

definition enqueue_task :: "service_env \<Rightarrow> string \<Rightarrow> string \<Rightarrow> production_task handler" where
  "enqueue_task env body actor =
     (case enqueue_parse env body of
        Inl response \<Rightarrow> h_reply response
      | Inr rq \<Rightarrow>
          h_bind (task_admin_guard env) (\<lambda>_.
          h_bind (enqueue_replay env rq) (\<lambda>_.
          h_bind (enqueue_admit env rq) (\<lambda>_.
          h_bind (next_task_id env) (\<lambda>task_id.
          h_bind (task_target env (er_payload rq)) (\<lambda>(material_id, session_id).
          h_bind (enqueue_chain env rq session_id) (\<lambda>chain_id.
          h_bind (enqueue_dependency env rq chain_id material_id session_id) (\<lambda>dep.
          h_db env (insert_production_task (sv_db env)
            \<lparr> ti_id = task_id,
              ti_idempotency_key =
                (if compound_key rq = [] then er_kind rq @ '':'' @ task_id else compound_key rq),
              ti_kind = er_kind rq, ti_material_id = material_id, ti_session_id = session_id,
              ti_chain_id = chain_id, ti_depends_on_task_id = dep, ti_dependency_policy = er_policy rq,
              ti_payload = er_payload_text rq, ti_actor = actor,
              ti_max_attempts = requested_max_attempts (er_request rq) \<rparr>)))))))))"

definition enqueue_response ::
  "service_env \<Rightarrow> string \<Rightarrow> string \<Rightarrow> service_state \<Rightarrow> string \<times> service_state" where
  "enqueue_response env body actor =
     respond (h_bind (enqueue_task env body actor) (\<lambda>t.
       h_bind (h_effect (block_on_ignored (append_audit_log (sv_db env) actor ''production.task.enqueue''
         (t_id t) (''queued '' @ t_kind t @ '' for '' @ t_material_id t) ''info''))) (\<lambda>_.
       h_bind (h_effect notify_worker) (\<lambda>_.
       h_return (json_reply env ''202 Accepted''
         [(''code'', jint 0), (''duplicate'', JBool False), (''task'', task_json env t)])))))"

definition enqueue_kind_response ::
  "service_env \<Rightarrow> string \<Rightarrow> string \<Rightarrow> string \<Rightarrow> service_state \<Rightarrow> string \<times> service_state" where
  "enqueue_kind_response env kind body actor st =
     (case from_str (sv_serde env) (trim body) of
        Inl _ \<Rightarrow> (bad_request env ''invalid_production_task_payload'', st)
      | Inr payload \<Rightarrow>
          if \<not> is_object payload then (bad_request env ''invalid_production_task_payload'', st)
          else enqueue_response env
            (to_string (sv_serde env) (mk_obj
              [(''kind'', JString kind), (''idempotencyKey'', JString (value_string payload key_fields)),
               (''maxAttempts'', jnum (requested_max_attempts payload)),
               (''chainId'', JString (value_string payload [''chainId'', ''chain_id''])),
               (''dependsOnTaskId'', JString (value_string payload dependency_fields)),
               (''dependencyPolicy'',
                 JString (value_string payload [''dependencyPolicy'', ''dependency_policy''])),
               (''payload'', payload)])) actor st)"

section \<open>Listing\<close>

text \<open>\<open>None\<close>: decoding the query panics and the connection ends without a response.\<close>

definition list_response ::
  "service_env \<Rightarrow> string \<Rightarrow> service_state \<Rightarrow> (string \<times> service_state) option" where
  "list_response env qs st =
     Option.bind (query_value qs ''limit'') (\<lambda>limit_text.
     Option.bind (query_value qs ''offset'') (\<lambda>offset_text.
     Option.bind (query_value qs ''status'') (\<lambda>status.
     Option.bind (query_value qs ''kind'') (\<lambda>kind.
     Some (respond
       (h_bind (h_db env (list_production_tasks (sv_db env)
          \<lparr> tf_status = status, tf_kind = kind, tf_limit = Option.bind limit_text parse_u64,
            tf_offset = Some (unwrap_or 0 (Option.bind offset_text parse_u64)) \<rparr>)) (\<lambda>page.
        h_get (\<lambda>st'. json_reply env ''200 OK''
          [(''code'', jint 0), (''total'', jint (tp_total page)), (''limit'', jint (tp_limit page)),
           (''offset'', jint (tp_offset page)), (''tasks'', JArray (map (task_json env) (tp_tasks page))),
           (''taskWorker'', worker_json env st')]))) st)))))"

definition task_not_found :: "service_env \<Rightarrow> string" where
  "task_not_found env =
     json_reply env ''404 Not Found'' [(''code'', jint 404), (''error'', JString ''production_task_not_found'')]"

definition detail_response ::
  "service_env \<Rightarrow> string \<Rightarrow> service_state \<Rightarrow> (string \<times> service_state) option" where
  "detail_response env qs st =
     Option.bind (query_value qs ''id'') (\<lambda>id_text.
     let tid = unwrap_or [] id_text
     in Some (respond
          (if trim tid = [] then h_reply (bad_request env ''production_task_id_required'')
           else h_bind (h_db env (find_production_task (sv_db env) (trim tid))) (\<lambda>found.
             case found of
               Some t \<Rightarrow> h_return (json_reply env ''200 OK'' [(''code'', jint 0), (''task'', task_json env t)])
             | None \<Rightarrow> h_return (task_not_found env))) st))"

section \<open>Cancellation and retry\<close>

definition task_id_from_body :: "service_env \<Rightarrow> string \<Rightarrow> string + string" where
  "task_id_from_body env body =
     (case from_str (sv_serde env) (trim body) of
        Inl _ \<Rightarrow> Inl (bad_request env ''invalid_production_task_action_json'')
      | Inr payload \<Rightarrow>
          let tid = value_string payload [''taskId'', ''task_id'', ''id'']
          in if trim tid = [] then Inl (bad_request env ''production_task_id_required'') else Inr tid)"

text \<open>The prefix cancellation and retry share: the id, the lock and the existing row.\<close>

definition admin_task :: "service_env \<Rightarrow> string \<Rightarrow> (string \<times> production_task) handler" where
  "admin_task env body =
     (case task_id_from_body env body of
        Inl response \<Rightarrow> h_reply response
      | Inr tid \<Rightarrow>
          h_bind (task_admin_guard env) (\<lambda>_.
          h_bind (h_db env (find_production_task (sv_db env) tid)) (\<lambda>found.
          case found of
            Some t \<Rightarrow> h_return (tid, t)
          | None \<Rightarrow> h_reply (task_not_found env))))"

definition cancel_task :: "service_env \<Rightarrow> string \<Rightarrow> string \<Rightarrow> string handler" where
  "cancel_task env body actor =
     h_bind (admin_task env body) (\<lambda>(tid, existing).
       if t_status existing \<in> set [''succeeded'', ''failed'', ''cancelled'', ''interrupted'', ''blocked'']
       then h_reply (json_reply env ''409 Conflict''
         [(''code'', jint 409), (''error'', JString ''production_task_is_terminal''),
          (''task'', task_json env existing)])
       else h_bind (h_db env (request_cancel_production_task (sv_db env) tid)) (\<lambda>r.
         case r of
           None \<Rightarrow> h_return (task_not_found env)
         | Some t \<Rightarrow>
             h_bind (h_effect (block_on_ignored (append_audit_log (sv_db env) actor
               ''production.task.cancel'' (t_id t) ''cancellation requested'' ''warning''))) (\<lambda>_.
             h_bind (h_effect notify_worker) (\<lambda>_.
             h_return (json_reply env (if t_status t = ''running'' then ''202 Accepted'' else ''200 OK'')
               [(''code'', jint 0), (''task'', task_json env t)])))))"

definition cancel_response ::
  "service_env \<Rightarrow> string \<Rightarrow> string \<Rightarrow> service_state \<Rightarrow> string \<times> service_state" where
  "cancel_response env body actor = respond (cancel_task env body actor)"

definition retry_task :: "service_env \<Rightarrow> string \<Rightarrow> string \<Rightarrow> string handler" where
  "retry_task env body actor =
     h_bind (admin_task env body) (\<lambda>(tid, existing).
       if t_status existing \<notin> set [''failed'', ''cancelled'', ''interrupted'', ''blocked'']
       then h_reply (json_reply env ''409 Conflict''
         [(''code'', jint 409), (''error'', JString ''production_task_not_retryable''),
          (''task'', task_json env existing)])
       else h_bind (h_db env (retry_production_task (sv_db env) tid)) (\<lambda>r.
         case r of
           None \<Rightarrow> h_return (task_not_found env)
         | Some t \<Rightarrow>
             if t_status t = ''blocked''
             then h_reply (json_reply env ''409 Conflict''
               [(''code'', jint 409), (''error'', JString ''production_task_dependency_unresolved''),
                (''task'', task_json env t)])
             else
               h_bind (h_effect (block_on_ignored (append_audit_log (sv_db env) actor
                 ''production.task.retry'' (t_id t)
                 (''explicit retry after '' @ show_int (t_attempts t) @ '' attempt(s)'') ''warning''))) (\<lambda>_.
               h_bind (h_effect notify_worker) (\<lambda>_.
               h_return (json_reply env ''202 Accepted''
                 [(''code'', jint 0), (''task'', task_json env t)])))))"

definition retry_response ::
  "service_env \<Rightarrow> string \<Rightarrow> string \<Rightarrow> service_state \<Rightarrow> string \<times> service_state" where
  "retry_response env body actor = respond (retry_task env body actor)"

end
