(* ===== verification/Enqueue_Props.thy ===== *)
theory Enqueue_Props
  imports Task_Queue
begin

text \<open>
  What enqueueing does: a refused request leaves the task table as it is, an accepted one appends
  exactly one row that satisfies the admission, capacity, chain and dependency rules, and a repeated
  request returns the stored task whatever has happened since.
\<close>

section \<open>What a handler does to the task table\<close>

abbreviation tasks_of :: "service_state \<Rightarrow> production_task list" where
  "tasks_of st \<equiv> db_tasks (ss_database st)"

text \<open>The handler changes neither the task table nor the admission state.\<close>

definition leaves_tasks :: "'a handler \<Rightarrow> bool" where
  "leaves_tasks h \<longleftrightarrow>
     (\<forall>st. tasks_of (snd (h st)) = tasks_of st
        \<and> ss_runtime_admission (snd (h st)) = ss_runtime_admission st)"

lemma leaves_tasksD:
  "leaves_tasks h \<Longrightarrow> h st = (r, st') \<Longrightarrow>
     tasks_of st' = tasks_of st \<and> ss_runtime_admission st' = ss_runtime_admission st"
  unfolding leaves_tasks_def by (metis snd_conv)

lemma leaves_simps [simp, intro]:
  "leaves_tasks (h_return x)" "leaves_tasks (h_reply r)" "leaves_tasks (h_get f)"
  by (simp_all add: leaves_tasks_def h_return_def h_reply_def h_get_def)

lemma leaves_bind [intro]:
  assumes "leaves_tasks m" and "\<And>x. leaves_tasks (f x)"
  shows "leaves_tasks (h_bind m f)"
proof (unfold leaves_tasks_def, intro allI)
  fix st
  obtain r st' where r: "h_bind m f st = (r, st')" by fastforce
  then have "tasks_of st' = tasks_of st \<and> ss_runtime_admission st' = ss_runtime_admission st"
    by (auto simp: h_bind_any dest!: leaves_tasksD [OF assms(1)] leaves_tasksD [OF assms(2)])
  with r show "tasks_of (snd (h_bind m f st)) = tasks_of st
      \<and> ss_runtime_admission (snd (h_bind m f st)) = ss_runtime_admission st" by simp
qed

lemma leaves_effect:
  "(\<And>st. tasks_of (f st) = tasks_of st \<and> ss_runtime_admission (f st) = ss_runtime_admission st)
     \<Longrightarrow> leaves_tasks (h_effect f)"
  by (simp add: leaves_tasks_def h_effect_def)

lemma leaves_cases:
  "leaves_tasks a \<Longrightarrow> leaves_tasks b \<Longrightarrow> leaves_tasks (if c then a else b)"
  "leaves_tasks n \<Longrightarrow> (\<And>x. leaves_tasks (s x)) \<Longrightarrow> leaves_tasks (case m of None \<Rightarrow> n | Some x \<Rightarrow> s x)"
  "(\<And>x y. leaves_tasks (p x y)) \<Longrightarrow> leaves_tasks (case q of (x, y) \<Rightarrow> p x y)"
  by (simp_all split: option.splits prod.splits)

lemma leaves_db: "keeps (\<lambda>ts us. us = ts) m \<Longrightarrow> leaves_tasks (h_db env m)"
  unfolding leaves_tasks_def
proof
  fix st :: service_state
  assume k: "keeps (\<lambda>ts us. us = ts) m"
  obtain q db where m: "m (ss_database st) = (q, db)" by fastforce
  from keepsD [OF k m] m show "tasks_of (snd (h_db env m st)) = tasks_of st
      \<and> ss_runtime_admission (snd (h_db env m st)) = ss_runtime_admission st"
    by (simp add: h_db_def block_on_simp split: sum.splits)
qed

lemma leaves_db_opt: "keeps (\<lambda>ts us. us = ts) m \<Longrightarrow> leaves_tasks (h_db_opt m)"
  unfolding leaves_tasks_def
proof
  fix st :: service_state
  assume k: "keeps (\<lambda>ts us. us = ts) m"
  obtain q db where m: "m (ss_database st) = (q, db)" by fastforce
  from keepsD [OF k m] m show "tasks_of (snd (h_db_opt m st)) = tasks_of st
      \<and> ss_runtime_admission (snd (h_db_opt m st)) = ss_runtime_admission st"
    by (simp add: h_db_opt_def block_on_simp split: sum.splits)
qed

interpretation same: table_relation "\<lambda>ts us. us = ts"
  by unfold_locales simp_all

lemma same_find: "keeps (\<lambda>ts us. us = ts) (find_production_task env tid)"
  by (rule same.keeps_find)

lemma same_queries:
  "keeps (\<lambda>ts us. us = ts) (find_production_task_by_idempotency_key env key)"
  "keeps (\<lambda>ts us. us = ts) (latest_production_task_in_chain env chain)"
  "keeps (\<lambda>ts us. us = ts) (count_open_production_tasks env)"
  "keeps (\<lambda>ts us. us = ts) (latest_unresolved_production_task env material)"
  "keeps (\<lambda>ts us. us = ts) (latest_production_task_for_session env session)"
  "keeps (\<lambda>ts us. us = ts) (latest_open_material_session env)"
  by (simp_all add: find_production_task_by_idempotency_key_def latest_production_task_in_chain_def
      count_open_production_tasks_def latest_unresolved_production_task_def
      latest_production_task_for_session_def latest_open_material_session_def same.keeps_query
      same.keeps_return)

lemmas leaves_queries [intro] = same_find [THEN leaves_db] same_queries [THEN leaves_db]
  same_queries(4) [THEN leaves_db_opt] same_queries(6) [THEN leaves_db_opt]

lemma leaves_guard [intro]: "leaves_tasks (task_admin_guard env)"
  by (simp add: leaves_tasks_def task_admin_guard_def split: option.splits)

lemma leaves_next_id [intro]: "leaves_tasks (next_task_id env)"
  by (simp add: leaves_tasks_def next_task_id_def)

lemmas leaves_rules = leaves_simps leaves_bind leaves_cases leaves_queries leaves_guard leaves_next_id
  leaves_effect

lemma leaves_target: "leaves_tasks (task_target env payload)"
  unfolding task_target_def Let_def by (intro leaves_rules)

lemma leaves_replay: "leaves_tasks (enqueue_replay env rq)"
  unfolding enqueue_replay_def by (intro leaves_rules)

lemma leaves_admit: "leaves_tasks (enqueue_admit env rq)"
  unfolding enqueue_admit_def by (intro leaves_rules)

lemma leaves_chain: "leaves_tasks (enqueue_chain env rq session_id)"
  unfolding enqueue_chain_def Let_def by (intro leaves_rules)

lemma leaves_requested: "leaves_tasks (requested_dependency env rq chain_id)"
  unfolding requested_dependency_def by (intro leaves_rules)

lemma leaves_check: "leaves_tasks (check_dependency env chain_id material_id session_id dep)"
  unfolding check_dependency_def by (intro leaves_rules)

lemma leaves_dependency: "leaves_tasks (enqueue_dependency env rq chain_id material_id session_id)"
  unfolding enqueue_dependency_def by (intro leaves_bind leaves_requested leaves_check)

lemmas leaves_parts = leaves_rules leaves_target leaves_replay leaves_admit leaves_chain leaves_dependency

section \<open>What the checks establish\<close>

definition open_count :: "production_task list \<Rightarrow> nat" where
  "open_count ts = length (filter (\<lambda>t. t_status t \<in> {''queued'', ''running''}) ts)"

lemma enqueue_admit_ok:
  assumes "enqueue_admit env rq st = (Inr u, st')"
  shows "open_count (tasks_of st) < queue_capacity env
    \<and> (runtime_is_draining st \<longrightarrow> er_kind rq = ''steel-out'')"
  using assms
  by (auto simp: enqueue_admit_def h_bind_Inr h_db_Inr count_open_production_tasks_def query_Inr
      open_count_def split: if_splits)

definition dependency_ok ::
  "production_task list \<Rightarrow> string \<Rightarrow> string \<Rightarrow> string \<Rightarrow> string \<Rightarrow> bool" where
  "dependency_ok ts dep chain_id material_id session_id \<longleftrightarrow>
     dep = [] \<or> (\<exists>d\<in>set ts. t_id d = dep \<and> t_chain_id d = chain_id \<and> t_session_id d = session_id
                   \<and> t_material_id d = material_id)"

lemma find_SomeD: "find P xs = Some x \<Longrightarrow> x \<in> set xs \<and> P x"
  by (auto simp: find_Some_iff)

lemma check_dependency_ok:
  assumes "check_dependency env chain_id material_id session_id dep st = (Inr dep', st')"
  shows "dep' = dep \<and> dependency_ok (tasks_of st) dep chain_id material_id session_id"
proof (cases "dep = []")
  case True
  with assms show ?thesis by (simp add: check_dependency_def dependency_ok_def)
next
  case False
  with assms obtain d db where
    "find_production_task (sv_db env) dep (ss_database st) = (Inr (Some d), db)"
    "t_chain_id d = chain_id" "t_session_id d = session_id" "t_material_id d = material_id" "dep' = dep"
    by (auto simp: check_dependency_def h_bind_Inr h_db_Inr split: if_splits option.splits)
  then show ?thesis
    using find_SomeD [of "\<lambda>t. t_id t = dep" "tasks_of st" d] by (auto simp: dependency_ok_def dest!: find_result)
qed

lemma enqueue_dependency_ok:
  assumes "enqueue_dependency env rq chain_id material_id session_id st = (Inr dep, st')"
  shows "dependency_ok (tasks_of st) dep chain_id material_id session_id
    \<and> (er_dependency_id rq \<noteq> [] \<longrightarrow> dep = er_dependency_id rq)"
proof -
  from assms obtain x st1 where a: "requested_dependency env rq chain_id st = (Inr x, st1)"
    and b: "check_dependency env chain_id material_id session_id x st1 = (Inr dep, st')"
    by (auto simp: enqueue_dependency_def h_bind_Inr)
  from a have "er_dependency_id rq \<noteq> [] \<longrightarrow> x = er_dependency_id rq"
    by (auto simp: requested_dependency_def)
  with leaves_tasksD [OF leaves_requested a] check_dependency_ok [OF b] show ?thesis by simp
qed

lemma enqueue_chain_ok:
  "enqueue_chain env rq session_id st = (Inr chain_id, st') \<Longrightarrow>
     er_chain_id rq \<noteq> [] \<longrightarrow> chain_id = er_chain_id rq"
  by (auto simp: enqueue_chain_def h_bind_Inr Let_def split: if_splits option.splits)

lemma enqueue_parse_ok:
  assumes "enqueue_parse env body = Inr rq"
  shows "er_kind rq \<in> set supported_kinds \<and> er_policy rq \<in> {''require-success'', ''always-run''}
    \<and> (er_policy rq = ''always-run'' \<longrightarrow> er_kind rq = ''trigger-event'')
    \<and> length (er_dependency_id rq) \<le> 128 \<and> length (er_raw_key rq) \<le> 160"
proof -
  have k: "normalize_kind v = Some k \<Longrightarrow> k \<in> set supported_kinds" for v k
    by (auto simp: normalize_kind_def Let_def supported_kinds_def split: if_splits)
  have p: "normalize_dependency_policy v = Some q \<Longrightarrow> q \<in> {''require-success'', ''always-run''}" for v q
    by (auto simp: normalize_dependency_policy_def Let_def split: if_splits)
  from assms show ?thesis
    by (auto simp: enqueue_parse_def Let_def k dest: p split: sum.splits if_splits option.splits)
qed

text \<open>A refusal leaves the task table as it is.\<close>

definition refusal_leaves :: "'a handler \<Rightarrow> bool" where
  "refusal_leaves h \<longleftrightarrow> (\<forall>st e st'. h st = (Inl e, st') \<longrightarrow> tasks_of st' = tasks_of st)"

lemma refusal_bind:
  assumes "leaves_tasks m" and "\<And>x. refusal_leaves (f x)"
  shows "refusal_leaves (h_bind m f)"
proof (unfold refusal_leaves_def, intro allI impI)
  fix st e st'
  assume "h_bind m f st = (Inl e, st')"
  then consider "m st = (Inl e, st')" | x st1 where "m st = (Inr x, st1)" "f x st1 = (Inl e, st')"
    by (auto simp: h_bind_any)
  then show "tasks_of st' = tasks_of st"
    using leaves_tasksD [OF assms(1)] assms(2) by cases (auto simp: refusal_leaves_def)
qed

lemma refusal_case_prod: "(\<And>x y. refusal_leaves (p x y)) \<Longrightarrow> refusal_leaves (case q of (x, y) \<Rightarrow> p x y)"
  by (simp split: prod.splits)

lemma refusal_insert: "refusal_leaves (h_db env (insert_production_task (sv_db env) input))"
proof (unfold refusal_leaves_def, intro allI impI)
  fix st :: service_state and e st'
  assume "h_db env (insert_production_task (sv_db env) input) st = (Inl e, st')"
  then obtain x db where "insert_production_task (sv_db env) input (ss_database st) = (Inl x, db)"
    "st' = st\<lparr>ss_database := db\<rparr>"
    by (auto simp: h_db_def block_on_iff split: sum.splits prod.splits)
  with insert_cases [OF this(1)] show "tasks_of st' = tasks_of st" by auto
qed

lemma enqueue_task_refused:
  assumes "enqueue_task env body actor st = (Inl response, st')"
  shows "tasks_of st' = tasks_of st"
proof -
  have "refusal_leaves (enqueue_task env body actor)"
  proof (cases "enqueue_parse env body")
    case (Inl r)
    then show ?thesis by (simp add: enqueue_task_def refusal_leaves_def)
  next
    case (Inr rq)
    show ?thesis
      unfolding enqueue_task_def Inr sum.case
      by (intro refusal_bind refusal_case_prod refusal_insert leaves_parts)
  qed
  with assms show ?thesis by (simp add: refusal_leaves_def)
qed

definition enqueued_input ::
  "enqueue_request \<Rightarrow> string \<Rightarrow> string \<Rightarrow> string \<Rightarrow> string \<Rightarrow> string \<Rightarrow> string \<Rightarrow> production_task_input" where
  "enqueued_input rq actor task_id material_id session_id chain_id dep =
     \<lparr> ti_id = task_id,
       ti_idempotency_key =
         (if compound_key rq = [] then er_kind rq @ '':'' @ task_id else compound_key rq),
       ti_kind = er_kind rq, ti_material_id = material_id, ti_session_id = session_id,
       ti_chain_id = chain_id, ti_depends_on_task_id = dep, ti_dependency_policy = er_policy rq,
       ti_payload = er_payload_text rq, ti_actor = actor,
       ti_max_attempts = requested_max_attempts (er_request rq) \<rparr>"

lemma runtime_is_draining_cong:
  "ss_runtime_admission st1 = ss_runtime_admission st \<Longrightarrow> runtime_is_draining st1 = runtime_is_draining st"
  by (simp add: runtime_is_draining_def)

lemma enqueue_task_accepted:
  assumes "enqueue_task env body actor st = (Inr t, st')"
  obtains rq task_id material_id session_id chain_id dep n where
    "enqueue_parse env body = Inr rq"
    "t = new_task_row (enqueued_input rq actor task_id material_id session_id chain_id dep) (show_nat n)"
    "tasks_of st' = tasks_of st @ [t]"
    "t_id t \<notin> set (map t_id (tasks_of st))"
    "t_idempotency_key t \<notin> set (map t_idempotency_key (tasks_of st))"
    "open_count (tasks_of st) < queue_capacity env"
    "runtime_is_draining st \<Longrightarrow> er_kind rq = ''steel-out''"
    "dependency_ok (tasks_of st) dep chain_id material_id session_id"
    "er_chain_id rq \<noteq> [] \<Longrightarrow> chain_id = er_chain_id rq"
    "er_dependency_id rq \<noteq> [] \<Longrightarrow> dep = er_dependency_id rq"
proof -
  from assms obtain rq where rq: "enqueue_parse env body = Inr rq"
    by (auto simp: enqueue_task_def split: sum.splits)
  from assms rq obtain u1 s1 u2 s2 u3 s3 task_id s4 material_id session_id s5 chain_id s6 dep s7 where
    1: "task_admin_guard env st = (Inr u1, s1)" and 2: "enqueue_replay env rq s1 = (Inr u2, s2)"
    and 3: "enqueue_admit env rq s2 = (Inr u3, s3)" and 4: "next_task_id env s3 = (Inr task_id, s4)"
    and 5: "task_target env (er_payload rq) s4 = (Inr (material_id, session_id), s5)"
    and 6: "enqueue_chain env rq session_id s5 = (Inr chain_id, s6)"
    and 7: "enqueue_dependency env rq chain_id material_id session_id s6 = (Inr dep, s7)"
    and 8: "h_db env (insert_production_task (sv_db env)
        (enqueued_input rq actor task_id material_id session_id chain_id dep)) s7 = (Inr t, st')"
    unfolding enqueue_task_def enqueued_input_def by (auto simp: h_bind_Inr)
  note k = leaves_tasksD [OF leaves_guard 1] leaves_tasksD [OF leaves_replay 2]
    leaves_tasksD [OF leaves_admit 3] leaves_tasksD [OF leaves_next_id 4] leaves_tasksD [OF leaves_target 5]
    leaves_tasksD [OF leaves_chain 6] leaves_tasksD [OF leaves_dependency 7]
  from 8 obtain db where
    i: "insert_production_task (sv_db env) (enqueued_input rq actor task_id material_id session_id chain_id dep)
      (ss_database s7) = (Inr t, db)" "st' = s7\<lparr>ss_database := db\<rparr>"
    by (auto simp: h_db_Inr)
  from insert_cases [OF i(1)] obtain n where
    "t = new_task_row (enqueued_input rq actor task_id material_id session_id chain_id dep) (show_nat n)"
    "db_tasks db = tasks_of st @ [t]" "t_id t \<notin> set (map t_id (tasks_of st))"
    "t_idempotency_key t \<notin> set (map t_idempotency_key (tasks_of st))"
    using k by (auto simp: new_task_row_def)
  then show ?thesis
    using that rq i(2) enqueue_admit_ok [OF 3] enqueue_chain_ok [OF 6] enqueue_dependency_ok [OF 7] k
      runtime_is_draining_cong [of s2 st] by simp
qed

lemma enqueue_task_id:
  assumes "enqueue_task env body actor st = (Inr t, st')"
  shows "\<exists>rest. t_id t = ''TASK-'' @ rest"
proof -
  from assms obtain rq where rq: "enqueue_parse env body = Inr rq"
    by (auto simp: enqueue_task_def split: sum.splits)
  with assms obtain s3 task_id s4 material_id session_id chain_id dep s7 where
    4: "next_task_id env s3 = (Inr task_id, s4)"
    and 8: "h_db env (insert_production_task (sv_db env)
        (enqueued_input rq actor task_id material_id session_id chain_id dep)) s7 = (Inr t, st')"
    unfolding enqueue_task_def enqueued_input_def by (auto simp: h_bind_Inr)
  from 8 have "t_id t = task_id"
    by (auto simp: h_db_Inr enqueued_input_def new_task_row_def dest!: insert_cases)
  moreover from 4 have "task_id = ''TASK-'' @ show_nat (current_time_millis env s3) @ ''-''
      @ pad_zeros 20 (show_nat (ss_task_sequence s3))"
    by (simp add: next_task_id_def)
  ultimately show ?thesis by blast
qed

section \<open>Replays\<close>

lemma compound_key_trim:
  assumes "enqueue_parse env body = Inr rq" and "compound_key rq \<noteq> []"
  shows "trim (compound_key rq) \<noteq> []"
proof -
  from assms(2) have "CHR '':'' \<in> set (compound_key rq)"
    by (auto simp: compound_key_def split: if_splits)
  from graphic_in_trim [OF _ this] show ?thesis by (auto simp: graphic_def)
qed

lemma filter_unique_key:
  assumes "distinct (map f xs)" and "x \<in> set xs"
  shows "filter (\<lambda>y. f y = f x) xs = [x]"
  using assms
proof (induction xs)
  case (Cons a xs)
  have none: "filter (\<lambda>y. f y = f a) xs = []"
    using Cons.prems(1) by (auto simp: filter_empty_conv image_iff)
  show ?case
  proof (cases "x = a")
    case True
    with none show ?thesis by simp
  next
    case False
    with Cons.prems have "x \<in> set xs" "f a \<noteq> f x" by force+
    with Cons show ?thesis by simp
  qed
qed simp

lemma find_by_key_unique:
  assumes "distinct (map t_idempotency_key (db_tasks db))" and "u \<in> set (db_tasks db)"
    and "t_idempotency_key u = key" and "trim key \<noteq> []" and "dbe_fault env (db_tick db) = None"
  shows "find_production_task_by_idempotency_key env key db = (Inr (Some u), db\<lparr>db_tick := db_tick db + 1\<rparr>)"
  using filter_unique_key [OF assms(1,2)] assms(3-5)
  by (simp add: find_production_task_by_idempotency_key_def query_def stmt_def Let_def order_desc_def
      first_row_def)

lemma replay_response:
  assumes rq: "enqueue_parse env body = Inr rq" and key: "compound_key rq \<noteq> []"
    and l: "lock (ss_task_admin_lock st) = Some ()"
    and d: "distinct (map t_idempotency_key (tasks_of st))" and u: "u \<in> set (tasks_of st)"
    and k: "t_idempotency_key u = compound_key rq" and c: "\<not> idempotency_conflict rq u"
    and f: "dbe_fault (sv_db env) (db_tick (ss_database st)) = None"
  shows "enqueue_response env body actor st
    = (json_reply env ''200 OK''
         [(''code'', jint 0), (''duplicate'', JBool True), (''task'', task_json env u)],
       st\<lparr>ss_database := (ss_database st)\<lparr>db_tick := db_tick (ss_database st) + 1\<rparr>\<rparr>)"
proof -
  note found = find_by_key_unique [OF d u k compound_key_trim [OF rq key] f]
  have "enqueue_replay env rq st = (Inl (json_reply env ''200 OK''
         [(''code'', jint 0), (''duplicate'', JBool True), (''task'', task_json env u)]),
       st\<lparr>ss_database := (ss_database st)\<lparr>db_tick := db_tick (ss_database st) + 1\<rparr>\<rparr>)"
    using key c by (auto simp: enqueue_replay_def h_bind_any h_db_any found)
  with rq l show ?thesis
    by (simp add: enqueue_response_def respond_def enqueue_task_def h_bind_def task_admin_guard_def)
qed

lemma enqueue_effect:
  "tasks_of (snd (enqueue_response env body actor st)) = tasks_of st
   \<or> (\<exists>t. tasks_of (snd (enqueue_response env body actor st)) = tasks_of st @ [t]
       \<and> t_status t = ''queued'' \<and> t_id t \<notin> set (map t_id (tasks_of st))
       \<and> t_idempotency_key t \<notin> set (map t_idempotency_key (tasks_of st))
       \<and> open_count (tasks_of st) < queue_capacity env
       \<and> (runtime_is_draining st \<longrightarrow> t_kind t = ''steel-out'')
       \<and> t_kind t \<in> set supported_kinds
       \<and> (t_dependency_policy t = ''always-run'' \<longrightarrow> t_kind t = ''trigger-event'')
       \<and> dependency_ok (tasks_of st) (t_depends_on_task_id t) (t_chain_id t) (t_material_id t) (t_session_id t)
       \<and> fst (enqueue_response env body actor st) = json_reply env ''202 Accepted''
           [(''code'', jint 0), (''duplicate'', JBool False), (''task'', task_json env t)])"
proof (cases "enqueue_task env body actor st")
  case (Pair r st1)
  show ?thesis
  proof (cases r)
    case (Inl response)
    with Pair enqueue_task_refused [of env body actor st response st1] show ?thesis
      by (simp add: enqueue_response_def respond_def h_bind_def)
  next
    case (Inr t)
    have audit: "tasks_of (notify_worker (block_on_ignored
        (append_audit_log (sv_db env) actor action target detail level) st1)) = tasks_of st1"
      for action target detail level
      by (simp add: notify_worker_def block_on_ignored_simp append_audit_log_tasks split: option.splits)
    from Pair Inr have "enqueue_task env body actor st = (Inr t, st1)" by simp
    then show ?thesis
    proof (rule enqueue_task_accepted)
      fix rq task_id material_id session_id chain_id dep n
      assume rq: "enqueue_parse env body = Inr rq"
        and t: "t = new_task_row (enqueued_input rq actor task_id material_id session_id chain_id dep) (show_nat n)"
        and *: "tasks_of st1 = tasks_of st @ [t]" "t_id t \<notin> set (map t_id (tasks_of st))"
          "t_idempotency_key t \<notin> set (map t_idempotency_key (tasks_of st))"
          "open_count (tasks_of st) < queue_capacity env"
          "runtime_is_draining st \<Longrightarrow> er_kind rq = ''steel-out''"
          "dependency_ok (tasks_of st) dep chain_id material_id session_id"
      have "t_status t = ''queued'' \<and> t_kind t = er_kind rq \<and> t_dependency_policy t = er_policy rq
          \<and> t_depends_on_task_id t = dep \<and> t_chain_id t = chain_id \<and> t_material_id t = material_id
          \<and> t_session_id t = session_id"
        by (simp add: t new_task_row_def enqueued_input_def)
      with * enqueue_parse_ok [OF rq] Pair Inr audit show ?thesis
        by (auto simp: enqueue_response_def respond_def h_bind_def h_effect_def h_return_def)
    qed
  qed
qed

section \<open>Properties\<close>

text \<open>
  C20: Enqueueing answers every request in one of two ways.  Either the task table is unchanged, or
  exactly one row is appended, with status queued, a fresh identifier and a fresh idempotency key.  In
  the second case fewer tasks than the capacity of the queue were open, the service was not draining
  unless the task is a steel-out, the kind is one of the six supported ones, only trigger events run
  regardless of their predecessor, and the task it depends on, if any, is a row of the same chain,
  session and material; the response is the 202 that carries the row.
\<close>
theorem enqueue_appends_at_most_one:
  "tasks_of (snd (enqueue_response env body actor st)) = tasks_of st
   \<or> (\<exists>t. tasks_of (snd (enqueue_response env body actor st)) = tasks_of st @ [t]
       \<and> t_status t = ''queued'' \<and> t_id t \<notin> set (map t_id (tasks_of st))
       \<and> t_idempotency_key t \<notin> set (map t_idempotency_key (tasks_of st))
       \<and> open_count (tasks_of st) < queue_capacity env
       \<and> (runtime_is_draining st \<longrightarrow> t_kind t = ''steel-out'')
       \<and> t_kind t \<in> set supported_kinds
       \<and> (t_dependency_policy t = ''always-run'' \<longrightarrow> t_kind t = ''trigger-event'')
       \<and> dependency_ok (tasks_of st) (t_depends_on_task_id t) (t_chain_id t) (t_material_id t) (t_session_id t)
       \<and> fst (enqueue_response env body actor st) = json_reply env ''202 Accepted''
           [(''code'', jint 0), (''duplicate'', JBool False), (''task'', task_json env t)])"
  by (rule enqueue_effect)

text \<open>
  C21: Enqueueing with an idempotency key is idempotent.  Once a request was accepted, the same
  request is answered with the stored task, marked as a duplicate, and inserts nothing, no matter how
  far the task has progressed, whether the service drains or the queue is full, and which operations
  on the table happened in between, as long as the lookup itself does not fail.
\<close>
theorem enqueue_idempotent:
  assumes "enqueue_task env body actor st = (Inr t, st1)"
    and "enqueue_parse env body = Inr rq" and "compound_key rq \<noteq> []"
    and "task_table_ok (tasks_of st)"
    and "task_step\<^sup>*\<^sup>* (ss_database st1) (ss_database st2)"
    and "lock (ss_task_admin_lock st2) = Some ()"
    and "dbe_fault (sv_db env) (db_tick (ss_database st2)) = None"
  shows "\<exists>u\<in>set (tasks_of st2). task_static u = task_static t
    \<and> enqueue_response env body actor' st2
       = (json_reply env ''200 OK''
            [(''code'', jint 0), (''duplicate'', JBool True), (''task'', task_json env u)],
          st2\<lparr>ss_database := (ss_database st2)\<lparr>db_tick := db_tick (ss_database st2) + 1\<rparr>\<rparr>)"
  using assms(1)
proof (rule enqueue_task_accepted)
  fix rq' task_id material_id session_id chain_id dep n
  assume rq': "enqueue_parse env body = Inr rq'"
    and t: "t = new_task_row (enqueued_input rq' actor task_id material_id session_id chain_id dep) (show_nat n)"
    and ts: "tasks_of st1 = tasks_of st @ [t]" "t_id t \<notin> set (map t_id (tasks_of st))"
      "t_idempotency_key t \<notin> set (map t_idempotency_key (tasks_of st))"
    and ch: "er_chain_id rq' \<noteq> [] \<Longrightarrow> chain_id = er_chain_id rq'"
      "er_dependency_id rq' \<noteq> [] \<Longrightarrow> dep = er_dependency_id rq'"
  from rq' assms(2) have [simp]: "rq' = rq" by simp
  have "task_row_ok t" by (simp add: t new_task_row_ok)
  with ts assms(4) have "task_table_ok (tasks_of st1)" by (auto simp: task_table_ok_def)
  with tsk.steps_inv [OF assms(5)] have ok: "task_table_ok (tasks_of st2)" by simp
  from task_steps_identities [OF assms(5)] obtain u where u: "u \<in> set (tasks_of st2)"
    "task_static u = task_static t"
    using identities_kept_row [of "tasks_of st1" "tasks_of st2" t] ts(1) by auto
  have k: "t_idempotency_key u = compound_key rq"
    using u(2) assms(3) by (simp add: t task_static_def new_task_row_def enqueued_input_def)
  have c: "\<not> idempotency_conflict rq u"
    using u(2) ch
    by (auto simp: idempotency_conflict_def t task_static_def new_task_row_def enqueued_input_def)
  from replay_response [OF assms(2,3,6) _ u(1) k c assms(7)] ok u show ?thesis
    by (auto simp: task_table_ok_def)
qed


section \<open>Concrete instances\<close>

definition queue_serde :: serde where
  "queue_serde =
     \<lparr> from_str = (\<lambda>s. if s = ''E'' then Inr (mk_obj [(''kind'', JString ''In''), (''requestId'', jint 7)])
                       else Inl ''bad''),
       to_string = (\<lambda>v. ''{}'') \<rparr>"

abbreviation queue_env :: service_env where
  "queue_env \<equiv> demo_service_env queue_serde"

definition demo_queue :: service_state where
  "demo_queue = snd (enqueue_task queue_env ''E'' ''operator'' demo_service)"

lemma demo_enqueue:
  obtains t where "enqueue_task queue_env ''E'' ''operator'' demo_service = (Inr t, demo_queue)"
    "t_kind t = ''steel-in''" "t_idempotency_key t = ''steel-in:7''"
proof -
  have "(case fst (enqueue_task queue_env ''E'' ''operator'' demo_service) of
      Inr t \<Rightarrow> t_kind t = ''steel-in'' \<and> t_idempotency_key t = ''steel-in:7'' | Inl _ \<Rightarrow> False)" by code_simp
  then show ?thesis
    using that unfolding demo_queue_def
    by (cases "enqueue_task queue_env ''E'' ''operator'' demo_service") (auto split: sum.splits)
qed

lemma demo_parse_request:
  obtains rq where "enqueue_parse queue_env ''E'' = Inr rq" "compound_key rq \<noteq> []"
proof -
  have "(case enqueue_parse queue_env ''E'' of Inr rq \<Rightarrow> compound_key rq \<noteq> [] | Inl _ \<Rightarrow> False)" by code_simp
  then show ?thesis using that by (auto split: sum.splits)
qed

theorem enqueue_appends_at_most_one_witness:
  "\<exists>t. tasks_of (snd (enqueue_response queue_env ''E'' ''operator'' demo_service)) = [t]
     \<and> t_status t = ''queued'' \<and> t_kind t \<in> set supported_kinds"
proof -
  have "length (tasks_of (snd (enqueue_response queue_env ''E'' ''operator'' demo_service))) = 1" by code_simp
  moreover have "tasks_of demo_service = []" by (simp add: demo_service_def empty_database_def)
  ultimately show ?thesis
    using enqueue_appends_at_most_one [of queue_env "''E''" "''operator''" demo_service] by auto
qed

theorem enqueue_idempotent_witness:
  "fst (enqueue_response queue_env ''E'' ''anyone'' demo_queue)
     = json_reply queue_env ''200 OK''
         [(''code'', jint 0), (''duplicate'', JBool True),
          (''task'', task_json queue_env (hd (tasks_of demo_queue)))]"
proof -
  obtain t where t: "enqueue_task queue_env ''E'' ''operator'' demo_service = (Inr t, demo_queue)"
    by (rule demo_enqueue)
  obtain rq where rq: "enqueue_parse queue_env ''E'' = Inr rq" "compound_key rq \<noteq> []"
    by (rule demo_parse_request)
  have ok: "task_table_ok (tasks_of demo_service)"
    by (simp add: demo_service_def empty_database_def task_table_ok_def)
  have l: "lock (ss_task_admin_lock demo_queue) = Some ()" by code_simp
  have f: "dbe_fault (sv_db queue_env) (db_tick (ss_database demo_queue)) = None"
    by (simp add: demo_service_env_def demo_db_env_def)
  have n: "length (tasks_of demo_queue) = 1" by code_simp
  from enqueue_idempotent [OF t rq ok rtranclp.rtrancl_refl l f, of "''anyone''"] n show ?thesis
    by (cases "tasks_of demo_queue") auto
qed


end
