(* ===== verification/Task_Worker.thy ===== *)
theory Task_Worker
  imports Enqueue_Props
begin

text \<open>
  The worker that executes production tasks, \<open>worker_loop\<close> of
  \<open>app/service/src/production_tasks.rs\<close>, one step per database operation so that administrative
  requests can happen between any two of them, and the interpretation of provider responses.

  The handlers that drive cameras, algorithm and plant (\<open>write_production_*_response\<close>) are parameters.
\<close>

section \<open>Provider responses\<close>

definition response_body :: "string \<Rightarrow> string" where
  "response_body response =
     (case find_sub (crlf @ crlf) response of
        Some i \<Rightarrow> from_utf8_lossy (drop (i + 4) response)
      | None \<Rightarrow> from_utf8_lossy response)"

definition first_line :: "string \<Rightarrow> string option" where
  "first_line s = (case str_lines s of [] \<Rightarrow> None | l # _ \<Rightarrow> Some l)"

definition second_word :: "string \<Rightarrow> string option" where
  "second_word line = (case split_whitespace line of _ # w # _ \<Rightarrow> Some w | _ \<Rightarrow> None)"

definition response_status_ok :: "string \<Rightarrow> bool" where
  "response_status_ok response =
     (case Option.bind (Option.bind (first_line (from_utf8_lossy response)) second_word) parse_u16 of
        Some status \<Rightarrow> 200 \<le> status \<and> status < 300
      | None \<Rightarrow> False)"

definition response_succeeded :: "serde \<Rightarrow> string \<Rightarrow> string \<Rightarrow> bool" where
  "response_succeeded sd response body =
     (response_status_ok response
      \<and> (case Option.bind (from_str_ok sd body) (get_i64 ''code'') of
           Some code \<Rightarrow> code = 0
         | None \<Rightarrow> True))"

definition response_error :: "serde \<Rightarrow> string \<Rightarrow> string \<Rightarrow> string" where
  "response_error sd response body =
     (case Option.bind (from_str_ok sd body) (\<lambda>v.
             Option.bind (case value_get ''error'' v of Some e \<Rightarrow> Some e | None \<Rightarrow> value_get ''message'' v) as_str) of
        Some e \<Rightarrow> e
      | None \<Rightarrow> unwrap_or ''production task failed'' (first_line (from_utf8_lossy response)))"

definition response_cooperatively_cancelled :: "serde \<Rightarrow> string \<Rightarrow> bool" where
  "response_cooperatively_cancelled sd body =
     (case from_str_ok sd body of
        None \<Rightarrow> False
      | Some v \<Rightarrow>
          unwrap_or False (get_bool ''cooperativeCancellation'' v)
          \<or> unwrap_or False (Option.bind (value_get ''algorithm'' v) (get_bool ''cooperativeCancellation'')))"

definition provider_terminal_outcome :: "serde \<Rightarrow> string \<Rightarrow> string \<Rightarrow> string \<times> int \<times> string" where
  "provider_terminal_outcome sd response body =
     (if response_succeeded sd response body then (''succeeded'', 100, [])
      else (''failed'', 100, response_error sd response body))"

definition dispatch_phase :: "string \<Rightarrow> string" where
  "dispatch_phase kind =
     (if kind = ''capture-once'' then ''dispatching-capture-provider''
      else if kind = ''algorithm-run'' then ''dispatching-algorithm''
      else if kind = ''steel-info'' then ''dispatching-steel-info''
      else if kind = ''steel-in'' then ''dispatching-steel-in''
      else if kind = ''steel-out'' then ''dispatching-steel-out''
      else if kind = ''trigger-event'' then ''dispatching-trigger-event''
      else ''dispatching-production-operation'')"

section \<open>Execution of a task\<close>

text \<open>The payload of an event, completed with the target of its task.\<close>

definition production_event_payload :: "service_env \<Rightarrow> production_task \<Rightarrow> string" where
  "production_event_payload env task =
     (let payload = from_str_or_empty (sv_serde env) (t_payload task);
          missing_material_id = (material_id_from_payload payload [] = []);
          missing_session_id = (value_string payload session_keys = [])
      in case as_object payload of
           None \<Rightarrow> t_payload task
         | Some m \<Rightarrow>
             let m1 = (if missing_material_id then obj_insert ''materialId'' (JString (t_material_id task)) m else m);
                 m2 = (if missing_session_id then obj_insert ''sessionId'' (JString (t_session_id task)) m1 else m1)
             in to_string (sv_serde env) (JObject m2))"

text \<open>
  The depth of the thread-local execution scope, which tells the handlers that the worker calls them.
\<close>

definition scope_enter :: "nat \<Rightarrow> nat" where
  "scope_enter depth = min (depth + 1) (2 ^ 32 - 1)"

definition scope_drop :: "nat \<Rightarrow> nat" where
  "scope_drop depth = depth - 1"

definition worker_execution_scope_active :: "nat \<Rightarrow> bool" where
  "worker_execution_scope_active depth \<longleftrightarrow> 0 < depth"

text \<open>
  The handlers, with the flag of the execution scope; the two that can be interrupted get the test for
  a requested cancellation.
\<close>

type_synonym cancellation_test = "service_state \<Rightarrow> bool \<times> service_state"

record task_providers =
  pv_capture_once :: "bool \<Rightarrow> string \<Rightarrow> string \<Rightarrow> service_state \<Rightarrow> string \<times> service_state"
  pv_calibration_fit ::
    "bool \<Rightarrow> cancellation_test \<Rightarrow> string \<Rightarrow> string \<Rightarrow> service_state \<Rightarrow> string \<times> service_state"
  pv_algorithm_run ::
    "bool \<Rightarrow> cancellation_test \<Rightarrow> string \<Rightarrow> string \<Rightarrow> service_state \<Rightarrow> string \<times> service_state"
  pv_event :: "bool \<Rightarrow> string \<Rightarrow> string \<Rightarrow> string \<Rightarrow> service_state \<Rightarrow> string \<times> service_state"

text \<open>\<open>find_production_task(...).ok().flatten().map(|item| item.cancel_requested).unwrap_or(false)\<close>\<close>

definition cancel_flag :: "service_env \<Rightarrow> string \<Rightarrow> service_state \<Rightarrow> bool \<times> service_state" where
  "cancel_flag env tid st =
     (case block_on (find_production_task (sv_db env) tid) st of
        (Inr (Some item), st') \<Rightarrow> (t_cancel_requested item, st')
      | (_, st') \<Rightarrow> (False, st'))"

definition cancellation_requested :: "service_env \<Rightarrow> production_task \<Rightarrow> cancellation_test" where
  "cancellation_requested env task st =
     (if runtime_is_draining st then (True, st) else cancel_flag env (t_id task) st)"

definition execute_task ::
  "service_env \<Rightarrow> task_providers \<Rightarrow> nat \<Rightarrow> production_task \<Rightarrow> service_state \<Rightarrow> string \<times> service_state" where
  "execute_task env pv depth task st =
     (let scope = worker_execution_scope_active (scope_enter depth)
      in case runtime_capability_for_production_task_kind (t_kind task) of
           Some capability \<Rightarrow>
             if \<not> allows (sv_config env) capability
             then (json_reply env ''409 Conflict''
               [(''code'', jint 409), (''error'', JString ''runtime_capability_unavailable''),
                (''capability'', JString (capability_str capability)),
                (''profileId'', JString (rc_id (sv_config env))),
                (''message'', JString ''The active runtime profile does not provide this task capability'')], st)
             else if t_kind task = ''capture-once''
             then pv_capture_once pv scope (t_payload task) (t_actor task) st
             else if t_kind task = ''algorithm-run''
             then (if value_string (from_str_or_empty (sv_serde env) (t_payload task))
                        [''operation'', ''operationType''] = ''calibration-capture-fit''
                   then pv_calibration_fit pv scope (cancellation_requested env task) (t_payload task)
                          (t_actor task) st
                   else pv_algorithm_run pv scope (cancellation_requested env task) (t_payload task)
                          (t_actor task) st)
             else if t_kind task \<in> set [''steel-info'', ''steel-in'', ''steel-out'', ''trigger-event'']
             then pv_event pv scope (production_event_payload env task) (t_kind task) (t_actor task) st
             else (bad_request env ''unsupported_production_task_kind'', st)
         | None \<Rightarrow> (bad_request env ''unsupported_production_task_kind'', st))"

section \<open>The worker loop\<close>

definition set_worker_status ::
  "service_env \<Rightarrow> bool \<Rightarrow> string option \<Rightarrow> string option \<Rightarrow> service_state \<Rightarrow> service_state" where
  "set_worker_status env running current_task_id last_error st =
     (case lock (ss_worker_status st) of
        None \<Rightarrow> st
      | Some s \<Rightarrow>
          let s1 = s\<lparr>ws_running := running, ws_last_heartbeat_at := current_time_millis env st,
                     ws_current_task_id := unwrap_or [] current_task_id\<rparr>;
              s2 = (case last_error of Some e \<Rightarrow> s1\<lparr>ws_last_error := e\<rparr> | None \<Rightarrow> s1)
          in st\<lparr>ss_worker_status := unlock (ss_worker_status st) s2\<rparr>)"

definition persist_task_checkpoint ::
  "service_env \<Rightarrow> production_task \<Rightarrow> string \<Rightarrow> int \<Rightarrow> service_state \<Rightarrow> service_state" where
  "persist_task_checkpoint env task phase progress st =
     (case block_on (update_production_task_progress (sv_db env) (t_id task) phase progress) st of
        (Inl e, st') \<Rightarrow> set_worker_status env True (Some (t_id task)) (Some e) st'
      | (Inr _, st') \<Rightarrow> st')"

text \<open>The place of the worker in its loop, with what it holds there.\<close>

datatype worker_pc =
    Loop_Head
  | Claimed production_task
  | Before_Lane production_task
  | At_Lane production_task
  | Cancel_Early production_task
  | Dispatch production_task
  | Execute production_task
  | Got_Response production_task string
  | Decide production_task string
  | Late_Audit production_task string int string string
  | Finish production_task string int string string

definition worker_claim :: "service_env \<Rightarrow> service_state \<Rightarrow> worker_pc \<times> service_state" where
  "worker_claim env st =
     (if rc_acquisition_mode (sv_config env) = Offline
      then (Loop_Head, set_worker_status env False None None st)
      else case block_on (claim_next_production_task (sv_db env)) (set_worker_status env True None None st) of
             (Inr (Some task), st') \<Rightarrow> (Claimed task, st')
           | (Inr None, st') \<Rightarrow> (Loop_Head, st')
           | (Inl e, st') \<Rightarrow> (Loop_Head, set_worker_status env True None (Some e) st'))"

definition worker_lane :: "service_env \<Rightarrow> production_task \<Rightarrow> service_state \<Rightarrow> worker_pc \<times> service_state" where
  "worker_lane env task st =
     (case lock (ss_command_lock st) of
        None \<Rightarrow> (Got_Response task (json_reply env ''503 Service Unavailable''
          [(''code'', jint 503), (''error'', JString ''production_command_lock_poisoned'')]), st)
      | Some _ \<Rightarrow>
          let (cancelled, st') = cancel_flag env (t_id task) st
          in (if cancelled then Cancel_Early task else Dispatch task, st'))"

definition worker_decide ::
  "service_env \<Rightarrow> production_task \<Rightarrow> string \<Rightarrow> service_state \<Rightarrow> worker_pc \<times> service_state" where
  "worker_decide env task response st =
     (let body = response_body response;
          (requested, st') = cancel_flag env (t_id task) st;
          cooperative = response_cooperatively_cancelled (sv_serde env) body;
          (status, progress, error) =
            (if cooperative
             then (''cancelled'', 100,
                   if runtime_is_draining st' \<and> \<not> requested
                   then ''cancelled during runtime drain at interruptible algorithm computation''
                   else ''cancelled during interruptible algorithm computation'')
             else provider_terminal_outcome (sv_serde env) response body)
      in (if requested \<and> \<not> cooperative then Late_Audit task status progress body error
          else Finish task status progress body error, st'))"

fun worker_step ::
  "service_env \<Rightarrow> task_providers \<Rightarrow> worker_pc \<Rightarrow> service_state \<Rightarrow> worker_pc \<times> service_state" where
  "worker_step env pv Loop_Head st = worker_claim env st"
| "worker_step env pv (Claimed task) st =
     (Before_Lane task, persist_task_checkpoint env task ''waiting-command-lane'' 10
        (set_worker_status env True (Some (t_id task)) None st))"
| "worker_step env pv (Before_Lane task) st =
     (let (cancelled, st') = cancel_flag env (t_id task) st
      in (if cancelled then Cancel_Early task else At_Lane task, st'))"
| "worker_step env pv (At_Lane task) st = worker_lane env task st"
| "worker_step env pv (Cancel_Early task) st =
     (Loop_Head, block_on_ignored (finish_production_task (sv_db env) (t_id task) ''cancelled'' 0 []
        ''cancelled before dispatch'') st)"
| "worker_step env pv (Dispatch task) st =
     (Execute task, persist_task_checkpoint env task (dispatch_phase (t_kind task)) 25 st)"
| "worker_step env pv (Execute task) st =
     (let (response, st') = execute_task env pv 0 task st in (Got_Response task response, st'))"
| "worker_step env pv (Got_Response task response) st =
     (Decide task response, persist_task_checkpoint env task ''finalizing-result'' 90 st)"
| "worker_step env pv (Decide task response) st = worker_decide env task response st"
| "worker_step env pv (Late_Audit task status progress body error) st =
     (Finish task status progress body error,
      block_on_ignored (append_audit_log (sv_db env) (t_actor task) ''production.task.cancel_too_late''
        (t_id task) (''provider completed with terminal status '' @ status) ''warning'') st)"
| "worker_step env pv (Finish task status progress body error) st =
     (case block_on (finish_production_task (sv_db env) (t_id task) status progress body error) st of
        (Inl e, st') \<Rightarrow> (Loop_Head, set_worker_status env True (Some (t_id task)) (Some e) st')
      | (Inr _, st') \<Rightarrow> (Loop_Head, st'))"

text \<open>What \<open>start_worker\<close> does before the loop begins.\<close>

definition start_worker :: "service_env \<Rightarrow> service_state \<Rightarrow> worker_pc \<times> service_state" where
  "start_worker env st =
     (let (r, st1) = block_on (recover_incomplete_production_tasks (sv_db env)) st;
          recovered = (case r of Inr n \<Rightarrow> n | Inl _ \<Rightarrow> 0);
          st2 = (case lock (ss_worker_status st1) of
                   None \<Rightarrow> st1
                 | Some s \<Rightarrow> st1\<lparr>ss_worker_status := unlock (ss_worker_status st1)
                     (s\<lparr>ws_recovered_tasks := recovered,
                        ws_last_heartbeat_at := current_time_millis env st1\<rparr>)\<rparr>)
      in (Loop_Head, set_worker_status env True None None st2))"

fun worker_run ::
  "service_env \<Rightarrow> task_providers \<Rightarrow> nat \<Rightarrow> worker_pc \<times> service_state \<Rightarrow> worker_pc \<times> service_state" where
  "worker_run env pv 0 c = c"
| "worker_run env pv (Suc n) c = worker_run env pv n (worker_step env pv (fst c) (snd c))"

end
