(* ===== verification/Worker_Props.thy ===== *)
theory Worker_Props
  imports Task_Worker
begin

text \<open>
  The worker together with the administrative requests that happen between its steps: at most one
  task runs, the loop always comes back to its head, a cancellation that arrives before dispatch
  prevents execution, and a completed iteration stores the outcome of the provider.
\<close>

section \<open>Which operations start tasks\<close>

definition no_new_running :: "production_task list \<Rightarrow> production_task list \<Rightarrow> bool" where
  "no_new_running ts us \<longleftrightarrow>
     (\<forall>u\<in>set us. t_status u = ''running'' \<longrightarrow> (\<exists>t\<in>set ts. t_status t = ''running'' \<and> t_id t = t_id u))"

interpretation nnr: table_relation no_new_running
  by unfold_locales (auto simp: no_new_running_def, metis)

lemma nnr_update:
  assumes "\<And>t. P t \<Longrightarrow> t_status (f t) = ''running'' \<Longrightarrow> t_status t = ''running'' \<and> t_id (f t) = t_id t"
  shows "no_new_running ts (update_rows P f ts)"
  using assms by (auto simp: no_new_running_def update_rows_def) metis+

lemma nnr_mark: "keeps no_new_running (mark_production_task_blocked env tid reason)"
  by (intro nnr.keeps_mark nnr_update) simp

lemmas nnr_propagate = nnr.keeps_propagate [OF nnr_mark]

lemma nnr_requeued:
  "no_new_running ts (update_rows (\<lambda>t. t_id t = tid \<and> t_status t = ''blocked'') (requeued_row (show_nat n)) ts)"
  by (rule nnr_update) simp

lemma nnr_progress: "keeps no_new_running (update_production_task_progress env tid phase progress)"
proof -
  have "keeps no_new_running (if n = 0 then db_return None else find_production_task env tid)" for n :: nat
    by (simp add: nnr.keeps_return nnr.keeps_find)
  then show ?thesis
    unfolding update_production_task_progress_def
    by (intro nnr.keeps_now_bind nnr.keeps_bind nnr.keeps_update_tasks nnr_update)
      (simp add: progress_row_def)
qed

lemma nnr_cancel: "keeps no_new_running (request_cancel_production_task env tid)"
  by (intro nnr.keeps_cancel nnr_mark nnr_update)
    (simp add: cancelled_row_def Let_def split: if_splits)

lemma nnr_retry: "keeps no_new_running (retry_production_task env tid)"
  by (intro nnr.keeps_retry nnr_requeued nnr_update) (simp add: retried_row_def)

lemma nnr_finish:
  "status \<noteq> ''running'' \<Longrightarrow> keeps no_new_running (finish_production_task env tid status progress result error)"
  by (intro nnr.keeps_finish nnr_mark nnr_update) (simp add: finished_row_def)

lemma nnr_recover: "keeps no_new_running (recover_incomplete_production_tasks env)"
  by (intro nnr.keeps_recover nnr_mark nnr_update) (simp add: recovered_row_def split: if_splits)

lemma nnr_insert: "insert_production_task env input db = (r, db') \<Longrightarrow> no_new_running (db_tasks db) (db_tasks db')"
  by (drule insert_cases) (auto simp: no_new_running_def new_task_row_def)

section \<open>Without faults\<close>

lemma find_no_faults:
  "no_faults env \<Longrightarrow> find_production_task env tid db
     = (Inr (find (\<lambda>t. t_id t = tid) (db_tasks db)), db\<lparr>db_tick := db_tick db + 1\<rparr>)"
  by (simp add: find_production_task_def query_no_faults)

lemma update_tasks_no_faults:
  "no_faults env \<Longrightarrow> update_tasks env P f db
     = (Inr (rows_affected P (db_tasks db)),
        db\<lparr>db_tick := db_tick db + 1, db_tasks := update_rows P f (db_tasks db)\<rparr>)"
  by (simp add: update_tasks_def stmt_def no_faults_def Let_def)

lemma dependency_state_no_faults:
  assumes "no_faults env"
  obtains d db' where "production_task_dependency_state env t db = (Inr d, db')" "db_tasks db' = db_tasks db"
  using that
  by (cases "trim (t_depends_on_task_id t) = []"; cases "t_depends_on_task_id t = t_id t")
    (simp_all add: production_task_dependency_state_def db_bind_def find_no_faults [OF assms] db_return_def)

text \<open>What a claim starts: nothing, or the task it returns.\<close>

definition starts :: "production_task list \<Rightarrow> production_task list \<Rightarrow> production_task option \<Rightarrow> bool" where
  "starts ts us co \<longleftrightarrow>
     (\<forall>u\<in>set us. t_status u = ''running'' \<longrightarrow>
        (\<exists>t\<in>set ts. t_status t = ''running'' \<and> t_id t = t_id u)
        \<or> (\<exists>c. co = Some c \<and> t_id c = t_id u))"

lemma starts_None: "starts ts us None \<longleftrightarrow> no_new_running ts us"
  by (simp add: starts_def no_new_running_def)

lemma starts_trans: "no_new_running ts vs \<Longrightarrow> starts vs us c \<Longrightarrow> starts ts us c"
  by (fastforce simp: starts_def no_new_running_def)

lemma rows_affected_at_most_one:
  "distinct (map t_id ts) \<Longrightarrow> rows_affected (\<lambda>t. t_id t = tid \<and> Q t) ts \<le> 1"
proof (induction ts)
  case (Cons t ts)
  have "rows_affected (\<lambda>t. t_id t = tid \<and> Q t) ts = 0" if "t_id t = tid"
    using Cons.prems that by (auto simp: rows_affected_0) (metis imageI)
  with Cons show ?case by (auto simp: rows_affected_def)
qed (simp add: rows_affected_def)

lemma rows_affected_none: "rows_affected P ts = 0 \<Longrightarrow> update_rows P f ts = ts"
  by (auto simp: rows_affected_0 update_rows_def intro: map_idI)

lemma claim_pass_starts:
  assumes "no_faults env" and "distinct (map t_id (db_tasks db))"
  shows "\<exists>res db'. claim_pass env rows changed db = (Inr res, db')
    \<and> starts (db_tasks db) (db_tasks db') (case res of Inl c \<Rightarrow> c | Inr _ \<Rightarrow> None)"
  using assms(2)
proof (induction rows arbitrary: changed db)
  case Nil
  show ?case by (simp add: db_return_def starts_None nnr.rel_refl)
next
  case (Cons model rest)
  note assms = assms(1)
  obtain d db1 where d: "production_task_dependency_state env model db = (Inr d, db1)"
    "db_tasks db1 = db_tasks db" by (rule dependency_state_no_faults [OF assms])
  show ?case
  proof (cases d)
    case Waiting
    with d Cons.prems Cons.IH [of db1 changed] show ?thesis by (simp add: db_bind_def)
  next
    case (Blocked reason)
    obtain b db2 where m: "mark_production_task_blocked env (t_id model) reason db1 = (Inr b, db2)"
      by (simp add: mark_production_task_blocked_def db_bind_def now_millis_string_def
          update_tasks_no_faults [OF assms] db_return_def)
    have "distinct (map t_id (db_tasks db2))"
      using mark_blocked_tasks [OF m] Cons.prems d(2) static_keys(1) [OF blocked_upd.map_key] by auto
    from keepsD [OF nnr_mark m] d Blocked m Cons.IH [OF this, of "changed \<or> b"] show ?thesis
      by (auto simp: db_bind_def intro: starts_trans)
  next
    case Ready
    let ?P = "\<lambda>t. t_id t = t_id model \<and> claimable t"
    let ?f = "running_row model (show_nat (dbe_millis env (db_tick db1)))"
    let ?us = "update_rows ?P ?f (db_tasks db)"
    let ?db2 = "db1\<lparr>db_tick := db_tick db1 + 1, db_tasks := ?us\<rparr>"
    have u: "update_tasks env ?P ?f db1 = (Inr (rows_affected ?P (db_tasks db)), ?db2)"
      by (simp add: update_tasks_no_faults [OF assms] d(2))
    have run: "starts (db_tasks db) ?us (Some c)" if "t_id c = t_id model" for c
      using that by (auto simp: starts_def update_rows_def running_row_def)
    show ?thesis
    proof (cases "rows_affected ?P (db_tasks db) = 1")
      case True
      then obtain t where t: "t \<in> set (db_tasks db)" "?P t" using rows_affected_pos [of ?P "db_tasks db"] by auto
      then have "?f t \<in> set ?us" "t_id (?f t) = t_id model" by (auto simp: update_rows_def running_row_def)
      then obtain c where c: "find (\<lambda>t. t_id t = t_id model) ?us = Some c" "t_id c = t_id model"
        by (cases "find (\<lambda>t. t_id t = t_id model) ?us") (auto simp: find_None_iff find_Some_iff)
      with True Ready d u run [OF c(2)] show ?thesis
        by (simp add: db_bind_def now_millis_string_def find_no_faults [OF assms] db_return_def)
    next
      case False
      with rows_affected_at_most_one [OF Cons.prems, of "t_id model" claimable]
      have 0: "rows_affected ?P (db_tasks db) = 0" by simp
      then have us: "?us = db_tasks db" by (rule rows_affected_none)
      then have "distinct (map t_id (db_tasks ?db2))" using Cons.prems by simp
      from Cons.IH [OF this, of True] 0 us Ready d u show ?thesis
        by (simp add: db_bind_def now_millis_string_def)
    qed
  qed
qed

lemma claim_next_starts:
  assumes "no_faults env"
  shows "distinct (map t_id (db_tasks db)) \<Longrightarrow>
    \<exists>c db'. claim_next_production_task env db = (Inr c, db') \<and> starts (db_tasks db) (db_tasks db') c"
  using assms
proof (induction env db rule: claim_next_production_task.induct)
  case (1 env db)
  let ?q = "queued_tasks (db_tasks db)"
  let ?db1 = "db\<lparr>db_tick := db_tick db + 1\<rparr>"
  have q: "query env (\<lambda>db. queued_tasks (db_tasks db)) db = (Inr ?q, ?db1)"
    by (simp add: query_no_faults [OF "1.prems"(2)])
  show ?case
  proof (cases "?q = []")
    case True
    with q show ?thesis by (simp add: claim_next_production_task.simps starts_None nnr.rel_refl)
  next
    case False
    obtain res db2 where p: "claim_pass env ?q False ?db1 = (Inr res, db2)"
      and st: "starts (db_tasks db) (db_tasks db2) (case res of Inl c \<Rightarrow> c | Inr _ \<Rightarrow> None)"
      using claim_pass_starts [OF "1.prems"(2), of ?db1 ?q False] "1.prems"(1) by auto
    have d: "distinct (map t_id (db_tasks db2))"
      using keepsD [OF sid_claim_pass p] "1.prems"(1) by (auto dest: same_identities_ids)
    show ?thesis
    proof (cases "res = Inr True")
      case True
      from "1.IH" [OF q [symmetric] refl False p [symmetric] refl True _ d "1.prems"(2)]
      obtain c db' where c: "claim_next_production_task env db2 = (Inr c, db')"
        "starts (db_tasks db2) (db_tasks db') c" by blast
      with st True have "starts (db_tasks db) (db_tasks db') c" by (auto simp: starts_None intro: starts_trans)
      with True q p \<open>?q \<noteq> []\<close> c(1) show ?thesis
        by (subst claim_next_production_task.simps) simp
    next
      case False
      with q p st \<open>?q \<noteq> []\<close> show ?thesis
        by (subst claim_next_production_task.simps) (auto split: sum.splits)
    qed
  qed
qed

lemma block_dependents_no_faults:
  assumes "no_faults env"
  shows "\<exists>marked db'. block_dependents env reason ds db = (Inr marked, db')"
proof (induction ds arbitrary: db)
  case (Cons d ds)
  obtain b db1 where "mark_production_task_blocked env (t_id d) reason db = (Inr b, db1)"
    by (simp add: mark_production_task_blocked_def db_bind_def now_millis_string_def
        update_tasks_no_faults [OF assms] db_return_def)
  with Cons.IH [of db1] show ?case by (auto simp: db_bind_def db_return_def)
qed (simp add: db_return_def)

lemma propagate_loop_no_faults:
  "no_faults env \<Longrightarrow> \<exists>m db'. propagate_loop env frontier n db = (Inr m, db')"
proof (induction env frontier n db rule: propagate_loop.induct)
  case (2 env parent rest n db)
  obtain marked db1 where p: "propagate_parent env parent db = (Inr marked, db1)"
    using block_dependents_no_faults [OF "2.prems"]
    by (fastforce simp: propagate_parent_def db_bind_def query_no_faults [OF "2.prems"]
        find_no_faults [OF "2.prems"])
  from "2.IH" [OF p [symmetric] refl "2.prems"] p show ?case by (simp add: propagate_loop.simps)
qed (simp add: propagate_loop.simps)

lemma propagate_no_faults:
  "no_faults env \<Longrightarrow> \<exists>n db'. propagate_production_task_dependency_failure env tid db = (Inr n, db')"
  by (simp add: propagate_production_task_dependency_failure_def propagate_loop_no_faults)

lemma update_task_no_faults:
  "no_faults env \<Longrightarrow> find (\<lambda>t. t_id t = tid) (db_tasks db) = Some m \<Longrightarrow>
     update_task env tid f db = (Inr (f m), db\<lparr>db_tick := db_tick db + 1,
       db_tasks := update_rows (\<lambda>t. t_id t = tid) f (db_tasks db)\<rparr>)"
  by (simp add: update_task_def stmt_def no_faults_def Let_def)

lemma update_rows_mem: "u \<in> set (update_rows P f rows) \<Longrightarrow> \<exists>r\<in>set rows. u = (if P r then f r else r)"
  unfolding update_rows_def set_map by blast

lemma finished_rows_status:
  assumes "t \<in> set (update_rows (\<lambda>t. t_id t = tid) (finished_row status progress result error now) ts)"
    and "t_id t = tid"
  shows "t_status t = status"
proof -
  from update_rows_mem [OF assms(1)] obtain r where
    "t = (if t_id r = tid then finished_row status progress result error now r else r)" by blast
  with assms(2) show ?thesis by (cases "t_id r = tid") (simp_all add: finished_row_def)
qed

text \<open>What a completion stores.\<close>

lemma finish_spec:
  assumes "no_faults env" and "distinct (map t_id (db_tasks db))"
    and "find (\<lambda>t. t_id t = tid) (db_tasks db) = Some m"
    and "finish_production_task env tid status progress result error db = (r, db')"
    and "status \<noteq> ''queued''" and "v \<in> set (db_tasks db')" and "t_id v = tid"
  shows "\<exists>n. v = finished_row status progress result error (show_nat n) m"
proof -
  let ?db1 = "db\<lparr>db_tick := db_tick db + 1\<rparr>"
  let ?f = "finished_row status progress result error (show_nat (dbe_millis env (db_tick ?db1)))"
  let ?us = "update_rows (\<lambda>t. t_id t = tid) ?f (db_tasks db)"
  let ?db2 = "?db1\<lparr>db_tick := db_tick ?db1 + 1, db_tasks := ?us\<rparr>"
  have m: "m \<in> set (db_tasks db)" "t_id m = tid" using find_SomeD [OF assms(3)] by auto
  have u: "update_task env tid ?f ?db1 = (Inr (?f m), ?db2)"
    using update_task_no_faults [OF assms(1), of tid ?db1 m] assms(3) by simp
  obtain q dbp where p: "propagate_production_task_dependency_failure env tid ?db2 = (q, dbp)"
    by (metis prod.exhaust)
  have "db' = (if failure_status status then dbp else ?db2)"
    using assms(4) u p
    by (cases "failure_status status"; cases q)
      (auto simp: finish_production_task_def db_bind_def find_no_faults [OF assms(1)] assms(3)
        now_millis_string_def db_return_def)
  then have k: "settled_kept ?us (db_tasks db')" "same_identities ?us (db_tasks db')"
    using keepsD [OF stl_propagate p] keepsD [OF sid_propagate p] stl.rel_refl sid.rel_refl
    by (cases "failure_status status"; simp)+
  have d: "distinct (map t_id (db_tasks db'))"
    using same_identities_ids [OF k(2)] same_identities_ids [OF sid_update(5), of "\<lambda>t. t_id t = tid"] assms(2)
    by metis
  have "?f m \<in> set ?us" using m by (auto simp: update_rows_def)
  with k(1) assms(5) have "?f m \<in> set (db_tasks db')" by (auto simp: settled_kept_def finished_row_def)
  moreover have "t_id (?f m) = t_id v" using m(2) assms(7) by (simp add: finished_row_def)
  ultimately have "v = ?f m" using d assms(6) by (auto simp: distinct_map inj_on_def)
  then show ?thesis by blast
qed

text \<open>A task that is finished no longer runs.\<close>

lemma finish_stops:
  assumes "no_faults env" and "finish_production_task env tid status progress result error db = (r, db')"
    and "status \<noteq> ''running''" and "u \<in> set (db_tasks db')" and "t_id u = tid"
  shows "t_status u \<noteq> ''running''"
proof (cases "find (\<lambda>t. t_id t = tid) (db_tasks db)")
  case None
  have "db_tasks db' = db_tasks db"
    using assms(2) None
    by (auto simp: finish_production_task_def db_bind_def find_no_faults [OF assms(1)] db_return_def)
  with None assms(4,5) show ?thesis by (auto simp: find_None_iff)
next
  case (Some m)
  let ?db1 = "db\<lparr>db_tick := db_tick db + 1\<rparr>"
  let ?f = "finished_row status progress result error (show_nat (dbe_millis env (db_tick ?db1)))"
  let ?db2 = "?db1\<lparr>db_tick := db_tick ?db1 + 1, db_tasks := update_rows (\<lambda>t. t_id t = tid) ?f (db_tasks db)\<rparr>"
  have u: "update_task env tid ?f ?db1 = (Inr (?f m), ?db2)"
    using update_task_no_faults [OF assms(1), of tid ?db1 m] Some by simp
  obtain q dbp where p: "propagate_production_task_dependency_failure env tid ?db2 = (q, dbp)"
    by (metis prod.exhaust)
  have "db' = (if failure_status status then dbp else ?db2)"
    using assms(2) u p
    by (cases "failure_status status"; cases q)
      (auto simp: finish_production_task_def db_bind_def find_no_faults [OF assms(1)] Some
        now_millis_string_def db_return_def)
  then have nn: "no_new_running (db_tasks ?db2) (db_tasks db')"
    using keepsD [OF nnr_propagate p] nnr.rel_refl [of "db_tasks ?db2"]
    by (cases "failure_status status") simp_all
  have "t_status t \<noteq> ''running''" if "t \<in> set (db_tasks ?db2)" "t_id t = tid" for t
    using finished_rows_status [of t tid status progress result error] that assms(3) by simp
  with nn assms(4,5) show ?thesis by (auto simp: no_new_running_def)
qed

text \<open>Recovery leaves no task running.\<close>

lemma recover_tasks_stops:
  assumes "no_faults env"
  shows "recover_tasks env ms db = (r, db') \<Longrightarrow> set (map t_id ms) \<subseteq> set (map t_id (db_tasks db)) \<Longrightarrow>
    (\<forall>u\<in>set (db_tasks db). t_status u = ''running'' \<longrightarrow> t_id u \<in> set (map t_id ms)) \<Longrightarrow>
    \<forall>u\<in>set (db_tasks db'). t_status u \<noteq> ''running''"
proof (induction ms arbitrary: db r)
  case (Cons m ms)
  let ?f = "recovered_row (t_cancel_requested m) (show_nat (dbe_millis env (db_tick db)))"
  let ?us = "update_rows (\<lambda>t. t_id t = t_id m) ?f (db_tasks db)"
  let ?db1 = "db\<lparr>db_tick := db_tick db + 1, db_tasks := ?us\<rparr>"
  obtain x where x: "find (\<lambda>t. t_id t = t_id m) (db_tasks db) = Some x"
    using Cons.prems(2) by (cases "find (\<lambda>t. t_id t = t_id m) (db_tasks db)") (auto simp: find_None_iff)
  obtain n db2 where p: "propagate_production_task_dependency_failure env (t_id m) ?db1 = (Inr n, db2)"
    using propagate_no_faults [OF assms] by blast
  from Cons.prems(1) update_task_no_faults [OF assms x, of ?f] p
  obtain q where rest: "recover_tasks env ms db2 = (q, db')"
    by (auto simp: db_bind_def now_millis_string_def db_return_def split: sum.splits prod.splits)
  have s: "same_identities (db_tasks db) (db_tasks db2)"
    using sid.rel_trans [OF sid_update(8) keepsD [OF sid_propagate p, simplified]] by simp
  have nn: "no_new_running ?us (db_tasks db2)"
    using keepsD [OF nnr_propagate p] by simp
  have "t_id u \<in> set (map t_id ms)" if u: "u \<in> set (db_tasks db2)" "t_status u = ''running''" for u
  proof -
    from nn u obtain t where t: "t \<in> set ?us" "t_status t = ''running''" "t_id t = t_id u"
      by (auto simp: no_new_running_def)
    from update_rows_mem [OF t(1)] obtain r where
      r: "r \<in> set (db_tasks db)" "t = (if t_id r = t_id m then ?f r else r)" by blast
    with t(2) have "t \<in> set (db_tasks db)" "t_id t \<noteq> t_id m"
      by (cases "t_id r = t_id m"; simp add: recovered_row_def split: if_splits)+
    with bspec [OF Cons.prems(3), of t] t show ?thesis by auto
  qed
  with Cons.IH [OF rest] Cons.prems(2) same_identities_ids [OF s] show ?case by auto
qed (simp add: db_return_def)

lemma recover_stops:
  assumes "no_faults env" and "recover_incomplete_production_tasks env db = (r, db')"
  shows "\<forall>u\<in>set (db_tasks db'). t_status u \<noteq> ''running''"
  by (rule recover_tasks_stops [OF assms(1) assms(2) [unfolded recover_incomplete_production_tasks_def
        db_bind_def query_no_faults [OF assms(1)], simplified]]) auto

section \<open>What a handler does to the task table\<close>

definition h_keeps :: "(production_task list \<Rightarrow> production_task list \<Rightarrow> bool) \<Rightarrow> 'a handler \<Rightarrow> bool" where
  "h_keeps R h \<longleftrightarrow> (\<forall>st. R (tasks_of st) (tasks_of (snd (h st))))"

lemma respond_tasks: "tasks_of (snd (respond h st)) = tasks_of (snd (h st))"
  by (simp add: respond_def split: prod.splits sum.splits)

lemma leaves_notify: "leaves_tasks (h_effect notify_worker)"
  by (rule leaves_effect) (simp add: notify_worker_def split: option.splits)

lemma leaves_audit:
  "leaves_tasks (h_effect (block_on_ignored (append_audit_log env actor action target detail level)))"
  by (rule leaves_effect) (simp add: block_on_ignored_simp append_audit_log_tasks)

lemma leaves_admin_task: "leaves_tasks (admin_task env body)"
proof (cases "task_id_from_body env body")
  case (Inr tid)
  show ?thesis unfolding admin_task_def Inr sum.case by (intro leaves_rules)
qed (simp add: admin_task_def)

context table_relation
begin

lemma h_keeps_leaves: "leaves_tasks h \<Longrightarrow> h_keeps R h"
  by (simp add: h_keeps_def leaves_tasks_def rel_refl)

lemma h_keeps_bind:
  assumes "h_keeps R m" and "\<And>x. h_keeps R (f x)"
  shows "h_keeps R (h_bind m f)"
proof (unfold h_keeps_def, intro allI)
  fix st
  obtain r st1 where m: "m st = (r, st1)" by fastforce
  with assms(1) have 1: "R (tasks_of st) (tasks_of st1)" unfolding h_keeps_def by (metis snd_conv)
  show "R (tasks_of st) (tasks_of (snd (h_bind m f st)))"
  proof (cases r)
    case (Inl e)
    with 1 m show ?thesis by (simp add: h_bind_def)
  next
    case (Inr x)
    have "R (tasks_of st1) (tasks_of (snd (f x st1)))" using assms(2) by (simp add: h_keeps_def)
    with 1 m Inr show ?thesis by (simp add: h_bind_def) (rule rel_trans)
  qed
qed

lemma h_keeps_db: "keeps R m \<Longrightarrow> h_keeps R (h_db env m)"
  unfolding h_keeps_def
proof
  fix st :: service_state
  assume k: "keeps R m"
  obtain q db where m: "m (ss_database st) = (q, db)" by fastforce
  from keepsD [OF k m] m show "R (tasks_of st) (tasks_of (snd (h_db env m st)))"
    by (simp add: h_db_def block_on_simp split: sum.splits)
qed

lemma h_keeps_cases:
  "h_keeps R a \<Longrightarrow> h_keeps R b \<Longrightarrow> h_keeps R (if c then a else b)"
  "h_keeps R n \<Longrightarrow> (\<And>x. h_keeps R (s x)) \<Longrightarrow> h_keeps R (case m of None \<Rightarrow> n | Some x \<Rightarrow> s x)"
  "(\<And>x y. h_keeps R (p x y)) \<Longrightarrow> h_keeps R (case q of (x, y) \<Rightarrow> p x y)"
  by (simp_all split: option.splits prod.splits)

lemmas h_keeps_rules = h_keeps_bind h_keeps_cases h_keeps_db leaves_admin_task [THEN h_keeps_leaves]
  leaves_notify [THEN h_keeps_leaves] leaves_audit [THEN h_keeps_leaves] leaves_simps [THEN h_keeps_leaves]

lemma keeps_cancel_response:
  assumes "\<And>tid. keeps R (request_cancel_production_task (sv_db env) tid)"
  shows "R (tasks_of st) (tasks_of (snd (cancel_response env body actor st)))"
proof -
  have "h_keeps R (cancel_task env body actor)"
    unfolding cancel_task_def by (intro h_keeps_rules assms)
  then show ?thesis by (simp add: cancel_response_def respond_tasks h_keeps_def)
qed

lemma keeps_retry_response:
  assumes "\<And>tid. keeps R (retry_production_task (sv_db env) tid)"
  shows "R (tasks_of st) (tasks_of (snd (retry_response env body actor st)))"
proof -
  have "h_keeps R (retry_task env body actor)"
    unfolding retry_task_def by (intro h_keeps_rules assms)
  then show ?thesis by (simp add: retry_response_def respond_tasks h_keeps_def)
qed

end

section \<open>The worker among administrative requests\<close>

lemma ss_database_status [simp]: "ss_database (set_worker_status env running tid e st) = ss_database st"
  by (simp add: set_worker_status_def Let_def split: option.splits)

lemma cancel_flag_tasks [simp]: "tasks_of (snd (cancel_flag env tid st)) = tasks_of st"
proof -
  obtain q db where "find_production_task (sv_db env) tid (ss_database st) = (q, db)" by fastforce
  with find_tasks [OF this] show ?thesis
    by (auto simp: cancel_flag_def block_on_simp split: sum.splits option.splits)
qed

lemma checkpoint_database:
  "ss_database (persist_task_checkpoint env task phase progress st)
     = snd (update_production_task_progress (sv_db env) (t_id task) phase progress (ss_database st))"
  by (simp add: persist_task_checkpoint_def block_on_simp split: sum.splits prod.splits)

lemma finish_database:
  "ss_database (snd (worker_step env pv (Finish task status progress body error) st))
     = snd (finish_production_task (sv_db env) (t_id task) status progress body error (ss_database st))"
  by (simp add: block_on_simp split: sum.splits prod.splits)

text \<open>The handlers the worker calls read the task table at most (they count and look up tasks).\<close>

definition providers_leave_tasks :: "task_providers \<Rightarrow> bool" where
  "providers_leave_tasks pv \<longleftrightarrow>
     (\<forall>sc payload actor st. tasks_of (snd (pv_capture_once pv sc payload actor st)) = tasks_of st)
     \<and> (\<forall>sc test payload actor st. tasks_of (snd (pv_calibration_fit pv sc test payload actor st)) = tasks_of st)
     \<and> (\<forall>sc test payload actor st. tasks_of (snd (pv_algorithm_run pv sc test payload actor st)) = tasks_of st)
     \<and> (\<forall>sc payload kind actor st. tasks_of (snd (pv_event pv sc payload kind actor st)) = tasks_of st)"

lemma tasks_of_if:
  "tasks_of (snd a) = ts \<Longrightarrow> tasks_of (snd b) = ts \<Longrightarrow> tasks_of (snd (if c then a else b)) = ts"
  by simp

lemma execute_task_tasks:
  assumes "providers_leave_tasks pv"
  shows "tasks_of (snd (execute_task env pv depth task st)) = tasks_of st"
proof (cases "runtime_capability_for_production_task_kind (t_kind task)")
  case None
  then show ?thesis by (simp add: execute_task_def)
next
  case (Some c)
  show ?thesis
    unfolding execute_task_def Let_def Some option.case
    by (intro tasks_of_if) (simp_all only: snd_conv assms [unfolded providers_leave_tasks_def])
qed

inductive queue_step ::
  "service_env \<Rightarrow> task_providers \<Rightarrow> worker_pc \<times> service_state \<Rightarrow> worker_pc \<times> service_state \<Rightarrow> bool"
  for env pv
where
  qs_worker: "queue_step env pv (pc, st) (worker_step env pv pc st)"
| qs_enqueue: "queue_step env pv (pc, st) (pc, snd (enqueue_response env body actor st))"
| qs_cancel: "queue_step env pv (pc, st) (pc, snd (cancel_response env body actor st))"
| qs_retry: "queue_step env pv (pc, st) (pc, snd (retry_response env body actor st))"
| qs_other: "tasks_of st' = tasks_of st \<Longrightarrow> queue_step env pv (pc, st) (pc, st')"

definition queue_init :: "service_env \<Rightarrow> worker_pc \<times> service_state \<Rightarrow> bool" where
  "queue_init env c \<longleftrightarrow> (\<exists>st. distinct (map t_id (tasks_of st)) \<and> c = start_worker env st)"

text \<open>The task the worker holds, and the outcomes it is about to store.\<close>

fun pc_task :: "worker_pc \<Rightarrow> production_task option" where
  "pc_task Loop_Head = None"
| "pc_task (Claimed t) = Some t"
| "pc_task (Before_Lane t) = Some t"
| "pc_task (At_Lane t) = Some t"
| "pc_task (Cancel_Early t) = Some t"
| "pc_task (Dispatch t) = Some t"
| "pc_task (Execute t) = Some t"
| "pc_task (Got_Response t _) = Some t"
| "pc_task (Decide t _) = Some t"
| "pc_task (Late_Audit t _ _ _ _) = Some t"
| "pc_task (Finish t _ _ _ _) = Some t"

fun pc_outcome :: "worker_pc \<Rightarrow> string option" where
  "pc_outcome (Late_Audit _ status _ _ _) = Some status"
| "pc_outcome (Finish _ status _ _ _) = Some status"
| "pc_outcome _ = None"

definition queue_inv :: "worker_pc \<times> service_state \<Rightarrow> bool" where
  "queue_inv c \<longleftrightarrow>
     distinct (map t_id (tasks_of (snd c)))
     \<and> (\<forall>t\<in>set (tasks_of (snd c)). t_status t = ''running'' \<longrightarrow> map_option t_id (pc_task (fst c)) = Some (t_id t))
     \<and> (\<forall>status. pc_outcome (fst c) = Some status \<longrightarrow> worker_outcome status)"

text \<open>A step that starts nothing and keeps the identities, at the same place or a later one.\<close>

lemma queue_inv_keep:
  assumes "queue_inv (pc, st)" and "no_new_running (tasks_of st) (tasks_of st')"
    and "same_identities (tasks_of st) (tasks_of st')"
    and "map_option t_id (pc_task pc') = map_option t_id (pc_task pc)"
    and "\<And>status. pc_outcome pc' = Some status \<Longrightarrow> worker_outcome status"
  shows "queue_inv (pc', st')"
  using assms same_identities_ids [OF assms(3)]
  by (auto simp: queue_inv_def no_new_running_def) metis

lemma queue_inv_same:
  assumes "queue_inv (pc, st)" and "tasks_of st' = tasks_of st"
    and "map_option t_id (pc_task pc') = map_option t_id (pc_task pc)"
    and "\<And>status. pc_outcome pc' = Some status \<Longrightarrow> worker_outcome status"
  shows "queue_inv (pc', st')"
  by (rule queue_inv_keep [OF assms(1) _ _ assms(3,4)])
    (simp_all add: assms(2) nnr.rel_refl sid.rel_refl)

lemma queue_inv_finish:
  assumes "no_faults env" and "queue_inv (pc, st)" and "pc_task pc = Some task"
    and "ss_database st' = snd (finish_production_task env (t_id task) status progress body error (ss_database st))"
    and "worker_outcome status"
  shows "queue_inv (Loop_Head, st')"
proof -
  obtain r where f: "finish_production_task env (t_id task) status progress body error (ss_database st)
      = (r, ss_database st')" using assms(4) by (metis prod.collapse)
  have ns: "status \<noteq> ''running''" using assms(5) by (auto simp: worker_outcome_def)
  have ids: "map t_id (tasks_of st') = map t_id (tasks_of st)"
    by (rule same_identities_ids [OF keepsD [OF sid_finish f]])
  have nn: "no_new_running (tasks_of st) (tasks_of st')" by (rule keepsD [OF nnr_finish [OF ns] f])
  have "t_status u \<noteq> ''running''" if u: "u \<in> set (tasks_of st')" for u
  proof
    assume run: "t_status u = ''running''"
    with nn u obtain t where "t \<in> set (tasks_of st)" "t_status t = ''running''" "t_id t = t_id u"
      by (auto simp: no_new_running_def)
    with assms(2,3) have "t_id u = t_id task" by (auto simp: queue_inv_def)
    with finish_stops [OF assms(1) f ns u] run show False by simp
  qed
  with assms(2) ids show ?thesis by (auto simp: queue_inv_def)
qed

lemma queue_inv_claim:
  assumes "no_faults (sv_db env)" and "queue_inv (Loop_Head, st)"
  shows "queue_inv (worker_claim env st)"
proof (cases "rc_acquisition_mode (sv_config env) = Offline")
  case True
  with assms(2) show ?thesis by (simp add: worker_claim_def queue_inv_def)
next
  case False
  have d: "distinct (map t_id (tasks_of st))" using assms(2) by (simp add: queue_inv_def)
  obtain c db' where c: "claim_next_production_task (sv_db env) (ss_database st) = (Inr c, db')"
    and s: "starts (tasks_of st) (db_tasks db') c"
    using claim_next_starts [OF assms(1) d] by blast
  have "map t_id (db_tasks db') = map t_id (tasks_of st)"
    using same_identities_ids [OF sid_claim [of "ss_database st" "sv_db env"]] c by simp
  moreover have "\<exists>t. c = Some t \<and> t_id t = t_id u" if "u \<in> set (db_tasks db')" "t_status u = ''running''" for u
    using that s assms(2) by (auto simp: starts_def queue_inv_def)
  ultimately have "queue_inv (case c of Some t \<Rightarrow> Claimed t | None \<Rightarrow> Loop_Head, st1)"
    if "tasks_of st1 = db_tasks db'" for st1
    using d that by (cases c) (auto simp: queue_inv_def)
  with False c show ?thesis by (cases c) (auto simp: worker_claim_def block_on_simp)
qed

lemma decide_outcome:
  assumes "worker_decide env task response st = (pc', st')"
  shows "tasks_of st' = tasks_of st \<and> pc_task pc' = Some task
    \<and> (\<forall>status. pc_outcome pc' = Some status \<longrightarrow> worker_outcome status)"
proof -
  obtain b st1 where f: "cancel_flag env (t_id task) st = (b, st1)" by fastforce
  then have "tasks_of st1 = tasks_of st" using cancel_flag_tasks [of env "t_id task" st] by simp
  with assms f show ?thesis
    by (auto simp: worker_decide_def Let_def provider_terminal_outcome_def worker_outcome_def
        split: if_splits prod.splits)
qed

lemma worker_step_inv:
  assumes "no_faults (sv_db env)" and "providers_leave_tasks pv" and "queue_inv (pc, st)"
  shows "queue_inv (worker_step env pv pc st)"
proof -
  have checkpoint: "queue_inv (pc', persist_task_checkpoint env task phase progress st1)"
    if "tasks_of st1 = tasks_of st" "pc_task pc' = pc_task pc" "pc_outcome pc' = None"
    for pc' task phase progress st1
  proof -
    obtain r db where u: "update_production_task_progress (sv_db env) (t_id task) phase progress
        (ss_database st1) = (r, db)" by fastforce
    show ?thesis
      by (rule queue_inv_keep [OF assms(3)])
        (use that keepsD [OF nnr_progress u] keepsD [OF sid_progress u] u in \<open>simp_all add: checkpoint_database\<close>)
  qed
  have same: "queue_inv (pc', st')"
    if "tasks_of st' = tasks_of st" "pc_task pc' = pc_task pc"
      "\<And>status. pc_outcome pc' = Some status \<Longrightarrow> worker_outcome status" for pc' st'
    by (rule queue_inv_same [OF assms(3)]) (use that in simp_all)
  show ?thesis
  proof (cases pc)
    case Loop_Head
    with queue_inv_claim [OF assms(1)] assms(3) show ?thesis by simp
  next
    case (Before_Lane task)
    then show ?thesis
      using cancel_flag_tasks [of env "t_id task" st]
      by (cases "cancel_flag env (t_id task) st") (auto intro!: same)
  next
    case (At_Lane task)
    then show ?thesis
      using cancel_flag_tasks [of env "t_id task" st]
      by (cases "cancel_flag env (t_id task) st")
        (auto simp: worker_lane_def intro!: same split: option.splits)
  next
    case (Cancel_Early task)
    then show ?thesis
      using queue_inv_finish [OF assms(1) assms(3), of task _ "''cancelled''"]
      by (simp add: block_on_ignored_simp worker_outcome_def)
  next
    case (Execute task)
    then show ?thesis
      using execute_task_tasks [OF assms(2), of env 0 task st]
      by (cases "execute_task env pv 0 task st") (auto intro!: same)
  next
    case (Decide task response)
    then show ?thesis
      using decide_outcome [of env task response st]
      by (cases "worker_decide env task response st") (auto intro!: same)
  next
    case (Late_Audit task status progress body error)
    with assms(3) have "worker_outcome status" by (simp add: queue_inv_def)
    with Late_Audit show ?thesis
      by (auto simp: block_on_ignored_simp append_audit_log_tasks intro!: same)
  next
    case (Finish task status progress body error)
    with assms(3) have o: "worker_outcome status" by (simp add: queue_inv_def)
    have "worker_step env pv pc st = (Loop_Head, snd (worker_step env pv pc st))"
      by (simp add: Finish block_on_simp split: sum.splits prod.splits)
    moreover have "queue_inv (Loop_Head, snd (worker_step env pv pc st))"
      unfolding Finish by (rule queue_inv_finish [OF assms(1) assms(3) _ finish_database o]) (simp add: Finish)
    ultimately show ?thesis by simp
  qed (auto intro!: checkpoint)
qed

lemma queue_step_inv:
  assumes "queue_step env pv c c'" and "no_faults (sv_db env)" and "providers_leave_tasks pv" and "queue_inv c"
  shows "queue_inv c'"
  using assms
proof (induction rule: queue_step.induct)
  case (qs_worker pc st)
  then show ?case by (simp add: worker_step_inv)
next
  case (qs_enqueue pc st body actor)
  have "tasks_of (snd (enqueue_response env body actor st)) = tasks_of st
      \<or> (\<exists>t. tasks_of (snd (enqueue_response env body actor st)) = tasks_of st @ [t]
          \<and> t_status t = ''queued'' \<and> t_id t \<notin> set (map t_id (tasks_of st)))"
    using enqueue_effect [of env body actor st] by auto
  with qs_enqueue show ?case by (auto simp: queue_inv_def)
next
  case (qs_cancel pc st body actor)
  show ?case
    by (rule queue_inv_keep [OF qs_cancel(3)])
      (use qs_cancel nnr.keeps_cancel_response [OF nnr_cancel] sid.keeps_cancel_response [OF sid_cancel] in
        \<open>auto simp: queue_inv_def\<close>)
next
  case (qs_retry pc st body actor)
  show ?case
    by (rule queue_inv_keep [OF qs_retry(3)])
      (use qs_retry nnr.keeps_retry_response [OF nnr_retry] sid.keeps_retry_response [OF sid_retry] in
        \<open>auto simp: queue_inv_def\<close>)
next
  case (qs_other st' st pc)
  then show ?case by (auto simp: queue_inv_def)
qed

interpretation wq: inductive_invariant "queue_init env" "queue_step env pv"
  "\<lambda>c. no_faults (sv_db env) \<longrightarrow> providers_leave_tasks pv \<longrightarrow> queue_inv c" for env pv
proof unfold_locales
  fix c
  assume "queue_init env c"
  then obtain st where d: "distinct (map t_id (tasks_of st))" and c: "c = start_worker env st"
    by (auto simp: queue_init_def)
  obtain r db where r: "recover_incomplete_production_tasks (sv_db env) (ss_database st) = (r, db)" by fastforce
  have t: "tasks_of (snd c) = db_tasks db" "fst c = Loop_Head"
    by (simp_all add: c start_worker_def block_on_simp r Let_def split: option.splits)
  have "queue_inv c" if "no_faults (sv_db env)"
    using recover_stops [OF that r] same_identities_ids [OF keepsD [OF sid_recover r]] d t
    by (cases c) (auto simp: queue_inv_def)
  then show "no_faults (sv_db env) \<longrightarrow> providers_leave_tasks pv \<longrightarrow> queue_inv c" by simp
next
  fix c c'
  assume "no_faults (sv_db env) \<longrightarrow> providers_leave_tasks pv \<longrightarrow> queue_inv c" "queue_step env pv c c'"
  then show "no_faults (sv_db env) \<longrightarrow> providers_leave_tasks pv \<longrightarrow> queue_inv c'"
    using queue_step_inv by blast
qed

section \<open>Runs of the worker\<close>

fun pc_rank :: "worker_pc \<Rightarrow> nat" where
  "pc_rank Loop_Head = 0"
| "pc_rank (Claimed _) = 9"
| "pc_rank (Before_Lane _) = 8"
| "pc_rank (At_Lane _) = 7"
| "pc_rank (Dispatch _) = 6"
| "pc_rank (Execute _) = 5"
| "pc_rank (Got_Response _ _) = 4"
| "pc_rank (Decide _ _) = 3"
| "pc_rank (Late_Audit _ _ _ _ _) = 2"
| "pc_rank (Finish _ _ _ _ _) = 1"
| "pc_rank (Cancel_Early _) = 1"

lemma worker_step_rank: "pc \<noteq> Loop_Head \<Longrightarrow> pc_rank (fst (worker_step env pv pc st)) < pc_rank pc"
  by (cases pc)
    (auto simp: worker_lane_def worker_decide_def Let_def split: option.splits prod.splits sum.splits)

lemma worker_claim_rank: "pc_rank (fst (worker_claim env st)) \<le> 9"
  by (auto simp: worker_claim_def split: prod.splits sum.splits option.splits)

lemma worker_run_returns: "\<exists>n\<le>pc_rank pc. fst (worker_run env pv n (pc, st)) = Loop_Head"
proof (induction "pc_rank pc" arbitrary: pc st rule: less_induct)
  case less
  show ?case
  proof (cases "pc = Loop_Head")
    case True
    then show ?thesis by (intro exI [of _ 0]) simp
  next
    case False
    obtain pc' st' where s: "worker_step env pv pc st = (pc', st')" by fastforce
    have lt: "pc_rank pc' < pc_rank pc" using worker_step_rank [OF False, of env pv st] s by simp
    from less [OF lt, of st'] obtain n where "n \<le> pc_rank pc'" "fst (worker_run env pv n (pc', st')) = Loop_Head"
      by blast
    with lt s show ?thesis by (intro exI [of _ "Suc n"]) simp
  qed
qed

section \<open>Properties\<close>

text \<open>
  C4: In every state the service can reach without database faults, whatever requests are enqueued,
  cancelled and retried between any two steps of the worker, at most one task is running, and the
  worker holds it.  After a restart no task runs that the worker does not hold.
\<close>
theorem at_most_one_task_runs:
  assumes "no_faults (sv_db env)" and "providers_leave_tasks pv"
    and "reachable (queue_init env) (queue_step env pv) (pc, st)"
  shows "length (filter (\<lambda>t. t_status t = ''running'') (tasks_of st)) \<le> 1
    \<and> (\<forall>t\<in>set (tasks_of st). t_status t = ''running'' \<longrightarrow> (\<exists>c. pc_task pc = Some c \<and> t_id c = t_id t))"
proof -
  from wq.reachable_inv [OF assms(3)] assms(1,2) have inv: "queue_inv (pc, st)" by blast
  let ?r = "filter (\<lambda>t. t_status t = ''running'') (tasks_of st)"
  let ?i = "case pc_task pc of Some c \<Rightarrow> t_id c | None \<Rightarrow> []"
  have "distinct (map t_id ?r)" using inv by (simp add: queue_inv_def distinct_map_filter)
  from distinct_card [OF this] have "card (set (map t_id ?r)) = length ?r" by (simp only: length_map)
  moreover have "set (map t_id ?r) \<subseteq> {?i}"
    using inv by (auto simp: queue_inv_def split: option.splits)
  then have "card (set (map t_id ?r)) \<le> card {?i}" by (intro card_mono) simp_all
  ultimately have "length ?r \<le> 1" by (simp only: card.insert card.empty finite.emptyI empty_iff not_False_eq_True One_nat_def)
  moreover have "\<exists>c. pc_task pc = Some c \<and> t_id c = t_id t"
    if "t \<in> set (tasks_of st)" "t_status t = ''running''" for t
    using inv that by (auto simp: queue_inv_def)
  ultimately show ?thesis by blast
qed


lemma cancel_flag_no_faults:
  assumes "no_faults (sv_db env)"
  shows "cancel_flag env tid st
    = (case find (\<lambda>t. t_id t = tid) (tasks_of st) of Some u \<Rightarrow> t_cancel_requested u | None \<Rightarrow> False,
       st\<lparr>ss_database := (ss_database st)\<lparr>db_tick := db_tick (ss_database st) + 1\<rparr>\<rparr>)"
  by (simp add: cancel_flag_def block_on_simp find_no_faults [OF assms] split: option.splits)

text \<open>
  A cancellation that is stored before the worker holds the command lock prevents execution: the
  worker does not call a provider, returns to the head of its loop and the task ends as cancelled.
\<close>
theorem cancelled_task_not_executed:
  assumes "no_faults (sv_db env)" and "lock (ss_command_lock st) = Some ()"
    and "distinct (map t_id (tasks_of st))" and "u \<in> set (tasks_of st)" and "t_id u = t_id task"
    and "t_cancel_requested u"
  shows "\<exists>st'. worker_run env pv 2 (At_Lane task, st) = (Loop_Head, st')
    \<and> (\<forall>v\<in>set (tasks_of st'). t_id v = t_id task \<longrightarrow>
          t_status v = ''cancelled'' \<and> t_error v = ''cancelled before dispatch'')"
proof -
  have f: "find (\<lambda>t. t_id t = t_id task) (tasks_of st) = Some u"
    using find_unique [OF assms(3,4)] assms(5) by simp
  let ?st1 = "st\<lparr>ss_database := (ss_database st)\<lparr>db_tick := db_tick (ss_database st) + 1\<rparr>\<rparr>"
  obtain r db' where fin: "finish_production_task (sv_db env) (t_id task) ''cancelled'' 0 []
      ''cancelled before dispatch'' (ss_database ?st1) = (r, db')" by fastforce
  have "worker_run env pv 2 (At_Lane task, st) = (Loop_Head, st\<lparr>ss_database := db'\<rparr>)"
    using fin by (simp add: numeral_2_eq_2 worker_lane_def assms(2) cancel_flag_no_faults [OF assms(1)] f assms(6)
        block_on_ignored_simp)
  moreover have "t_status v = ''cancelled'' \<and> t_error v = ''cancelled before dispatch''"
    if "v \<in> set (db_tasks db')" "t_id v = t_id task" for v
    using finish_spec [OF assms(1) _ _ fin, of u v] assms(3) f that by (auto simp: finished_row_def)
  ultimately show ?thesis by auto
qed

section \<open>Concrete instances\<close>

definition demo_providers :: task_providers where
  "demo_providers =
     \<lparr> pv_capture_once = (\<lambda>sc payload actor st. (http_response ''200 OK'' ''application/json'' ''{}'', st)),
       pv_calibration_fit = (\<lambda>sc test payload actor st. (http_response ''200 OK'' ''application/json'' ''{}'', st)),
       pv_algorithm_run = (\<lambda>sc test payload actor st. (http_response ''200 OK'' ''application/json'' ''{}'', st)),
       pv_event = (\<lambda>sc payload kind actor st. (http_response ''200 OK'' ''application/json'' ''{}'', st)) \<rparr>"

lemma demo_providers_leave: "providers_leave_tasks demo_providers"
  by (simp add: providers_leave_tasks_def demo_providers_def)

lemma queue_env_no_faults: "no_faults (sv_db queue_env)"
  by (simp add: no_faults_def demo_service_env_def demo_db_env_def)

text \<open>The queue with one claimed task, and the same after a request to cancel it.\<close>

definition demo_running :: "worker_pc \<times> service_state" where
  "demo_running = worker_run queue_env demo_providers 3 (start_worker queue_env demo_queue)"

definition demo_cancelled :: service_state where
  "demo_cancelled = snd (block_on (request_cancel_production_task (sv_db queue_env) (t_id (hd (tasks_of (snd demo_running)))))
     (snd demo_running))"

lemma demo_running_row:
  obtains u where "tasks_of (snd demo_running) = [u]" "t_status u = ''running''" "t_kind u = ''steel-in''"
    "\<not> t_cancel_requested u" "lock (ss_command_lock (snd demo_running)) = Some ()"
proof -
  have "(case tasks_of (snd demo_running) of
      [u] \<Rightarrow> t_status u = ''running'' \<and> t_kind u = ''steel-in'' \<and> \<not> t_cancel_requested u
    | _ \<Rightarrow> False) \<and> lock (ss_command_lock (snd demo_running)) = Some ()" by code_simp
  with that show ?thesis by (auto split: list.splits)
qed

lemma demo_cancelled_row:
  obtains u where "tasks_of demo_cancelled = [u]" "t_kind u = ''steel-in''" "t_cancel_requested u"
    "lock (ss_command_lock demo_cancelled) = Some ()"
proof -
  have "(case tasks_of demo_cancelled of
      [u] \<Rightarrow> t_kind u = ''steel-in'' \<and> t_cancel_requested u
    | _ \<Rightarrow> False) \<and> lock (ss_command_lock demo_cancelled) = Some ()" by code_simp
  with that show ?thesis by (auto split: list.splits)
qed

lemma worker_run_reachable:
  "reachable (queue_init env) (queue_step env pv) c \<Longrightarrow> reachable (queue_init env) (queue_step env pv) (worker_run env pv n c)"
proof (induction n arbitrary: c)
  case (Suc n)
  have "queue_step env pv c (worker_step env pv (fst c) (snd c))"
    using qs_worker [of env pv "fst c" "snd c"] by simp
  from Suc.IH [OF reachable_step [OF Suc.prems this]] show ?case by simp
qed simp

lemma demo_running_reachable: "reachable (queue_init queue_env) (queue_step queue_env demo_providers) demo_running"
proof -
  have "distinct (map t_id (tasks_of demo_queue))" by code_simp
  then show ?thesis
    unfolding demo_running_def
    by (intro worker_run_reachable reachable_init) (auto simp: queue_init_def)
qed

theorem at_most_one_task_runs_witness:
  "length (filter (\<lambda>t. t_status t = ''running'') (tasks_of (snd demo_running))) = 1
    \<and> map_option t_id (pc_task (fst demo_running)) = Some (t_id (hd (tasks_of (snd demo_running))))"
proof -
  obtain pc st where d: "demo_running = (pc, st)" by fastforce
  obtain t where t: "tasks_of st = [t]" "t_status t = ''running''"
    by (rule demo_running_row [unfolded d snd_conv])
  from at_most_one_task_runs [OF queue_env_no_faults demo_providers_leave demo_running_reachable [unfolded d]]
  show ?thesis unfolding d using t by auto
qed

theorem cancelled_task_not_executed_witness:
  "\<exists>task st'. t_kind task = ''steel-in'' 
    \<and> worker_run queue_env demo_providers 2 (At_Lane task, demo_cancelled) = (Loop_Head, st')
    \<and> list_all (\<lambda>v. t_status v = ''cancelled'') (filter (\<lambda>v. t_id v = t_id task) (tasks_of st'))"
proof -
  obtain u where u: "tasks_of demo_cancelled = [u]" "t_kind u = ''steel-in''" "t_cancel_requested u"
    and l: "lock (ss_command_lock demo_cancelled) = Some ()" by (rule demo_cancelled_row)
  have d: "distinct (map t_id (tasks_of demo_cancelled))" "u \<in> set (tasks_of demo_cancelled)" by (simp_all add: u(1))
  obtain st' where st': "worker_run queue_env demo_providers 2 (At_Lane u, demo_cancelled) = (Loop_Head, st')"
    "\<forall>v\<in>set (tasks_of st'). t_id v = t_id u \<longrightarrow> t_status v = ''cancelled'' \<and> t_error v = ''cancelled before dispatch''"
    using cancelled_task_not_executed [OF queue_env_no_faults l d refl u(3), of demo_providers] by blast
  then have "list_all (\<lambda>v. t_status v = ''cancelled'') (filter (\<lambda>v. t_id v = t_id u) (tasks_of st'))"
    by (simp add: list_all_iff)
  with st'(1) u(2) show ?thesis by blast
qed

end
