(* ===== verification/Worker_Outcome.thy ===== *)
theory Worker_Outcome
  imports Worker_Props
begin

text \<open>
  What an uninterrupted iteration of the worker leaves behind: the outcome of the provider as
  \<open>worker_loop\<close> of \<open>app/service/src/production_tasks.rs\<close> stores it.
\<close>

section \<open>Tasks without a cancellation request\<close>

text \<open>A task whose row is there and carries no cancellation request.\<close>

definition no_new_cancel :: "production_task list \<Rightarrow> production_task list \<Rightarrow> bool" where
  "no_new_cancel ts us \<longleftrightarrow>
     (\<forall>u\<in>set us. t_cancel_requested u \<longrightarrow> (\<exists>t\<in>set ts. t_cancel_requested t \<and> t_id t = t_id u))"

interpretation nnc: table_relation no_new_cancel
  by unfold_locales (auto simp: no_new_cancel_def, metis)

lemma nnc_update:
  assumes "\<And>t. P t \<Longrightarrow> t_cancel_requested (f t) \<Longrightarrow> t_cancel_requested t \<and> t_id (f t) = t_id t"
  shows "no_new_cancel ts (update_rows P f ts)"
  using assms by (auto simp: no_new_cancel_def update_rows_def) metis+

lemma nnc_progress: "keeps no_new_cancel (update_production_task_progress env tid phase progress)"
proof -
  have "keeps no_new_cancel (if n = 0 then db_return None else find_production_task env tid)" for n :: nat
    by (simp add: nnc.keeps_return nnc.keeps_find)
  then show ?thesis
    unfolding update_production_task_progress_def
    by (intro nnc.keeps_now_bind nnc.keeps_bind nnc.keeps_update_tasks nnc_update)
      (simp add: progress_row_def)
qed

definition uncancelled :: "production_task \<Rightarrow> production_task list \<Rightarrow> bool" where
  "uncancelled task ts \<longleftrightarrow>
     distinct (map t_id ts) \<and> t_id task \<in> set (map t_id ts)
     \<and> (\<forall>u\<in>set ts. t_id u = t_id task \<longrightarrow> \<not> t_cancel_requested u)"

lemma uncancelled_find:
  assumes "uncancelled task ts"
  obtains m where "find (\<lambda>t. t_id t = t_id task) ts = Some m" "\<not> t_cancel_requested m"
proof (cases "find (\<lambda>t. t_id t = t_id task) ts")
  case None
  with assms show ?thesis by (auto simp: uncancelled_def find_None_iff)
next
  case (Some m)
  with find_SomeD [OF Some] assms that show ?thesis by (auto simp: uncancelled_def)
qed

lemma uncancelledI:
  assumes "distinct (map t_id ts)" and "u \<in> set ts" and "t_id u = t_id task" and "\<not> t_cancel_requested u"
  shows "uncancelled task ts"
  unfolding uncancelled_def
proof (intro conjI ballI impI)
  show "t_id task \<in> set (map t_id ts)" using assms(2,3) by (metis image_eqI list.set_map)
  fix v assume "v \<in> set ts" "t_id v = t_id task"
  with assms(1-3) have "v = u" by (metis distinct_map inj_onD)
  with assms(4) show "\<not> t_cancel_requested v" by simp
qed (rule assms(1))

lemma uncancelled_checkpoint:
  assumes "uncancelled task (tasks_of st)"
  shows "uncancelled task (tasks_of (persist_task_checkpoint env t phase progress st))"
proof -
  obtain r db where u: "update_production_task_progress (sv_db env) (t_id t) phase progress
      (ss_database st) = (r, db)" by fastforce
  from assms keepsD [OF nnc_progress u] same_identities_ids [OF keepsD [OF sid_progress u]] u show ?thesis
    by (auto simp: uncancelled_def checkpoint_database no_new_cancel_def)
qed

lemma uncancelled_flag:
  assumes "no_faults (sv_db env)" and "uncancelled task (tasks_of st)"
  obtains st' where "cancel_flag env (t_id task) st = (False, st')" "uncancelled task (tasks_of st')"
    "ss_command_lock st' = ss_command_lock st"
proof -
  obtain m where "find (\<lambda>t. t_id t = t_id task) (tasks_of st) = Some m" "\<not> t_cancel_requested m"
    by (rule uncancelled_find [OF assms(2)])
  with assms(2) that show ?thesis by (simp add: cancel_flag_no_faults [OF assms(1)])
qed

lemma worker_run_add: "worker_run env pv (n + m) c = worker_run env pv m (worker_run env pv n c)"
  by (induction n arbitrary: c) simp_all

text \<open>The last two steps of an iteration.\<close>

lemma decide_and_finish:
  assumes "no_faults (sv_db env)" and "uncancelled task (tasks_of st)"
  shows "\<exists>st'. worker_run env pv 2 (Decide task response, st) = (Loop_Head, st')
    \<and> (\<forall>v\<in>set (tasks_of st'). t_id v = t_id task \<longrightarrow>
          t_result v = response_body response
          \<and> t_status v = (if response_cooperatively_cancelled (sv_serde env) (response_body response)
               then ''cancelled''
               else if response_succeeded (sv_serde env) response (response_body response) then ''succeeded''
               else ''failed''))"
proof -
  obtain st1 where f: "cancel_flag env (t_id task) st = (False, st1)" and u: "uncancelled task (tasks_of st1)"
    by (rule uncancelled_flag [OF assms])
  let ?coop = "response_cooperatively_cancelled (sv_serde env) (response_body response)"
  let ?ok = "response_succeeded (sv_serde env) response (response_body response)"
  let ?status = "if ?coop then ''cancelled'' else if ?ok then ''succeeded'' else ''failed''"
  have "\<exists>progress error. worker_decide env task response st
      = (Finish task ?status progress (response_body response) error, st1)"
    by (cases ?coop; cases ?ok) (simp_all add: worker_decide_def Let_def f provider_terminal_outcome_def)
  then obtain progress error where d: "worker_decide env task response st
      = (Finish task ?status progress (response_body response) error, st1)" by blast
  obtain r db' where fin: "finish_production_task (sv_db env) (t_id task) ?status progress
      (response_body response) error (ss_database st1) = (r, db')" by fastforce
  obtain m where m: "find (\<lambda>t. t_id t = t_id task) (tasks_of st1) = Some m"
    by (rule uncancelled_find [OF u])
  obtain st' where "worker_run env pv 2 (Decide task response, st) = (Loop_Head, st')" "tasks_of st' = db_tasks db'"
    using fin d by (cases r) (auto simp: numeral_2_eq_2 block_on_simp)
  moreover have "t_result v = response_body response \<and> t_status v = ?status"
    if "v \<in> set (db_tasks db')" "t_id v = t_id task" for v
    using finish_spec [OF assms(1) _ m fin _ that] u by (auto simp: uncancelled_def finished_row_def)
  ultimately show ?thesis by auto
qed

section \<open>Properties\<close>

text \<open>
  C10: Without faults and cancellation, an iteration stores the outcome of the provider: the worker
  executes the task once, and the task ends with the body of the response as its result and with
  status succeeded exactly when the response has a 2xx status line and its code, if any, is 0
  (cancelled, when the provider reports a cooperative cancellation).
\<close>
theorem worker_stores_provider_outcome:
  assumes "no_faults (sv_db env)" and "providers_leave_tasks pv" and "lock (ss_command_lock st) = Some ()"
    and "distinct (map t_id (tasks_of st))" and "u \<in> set (tasks_of st)" and "t_id u = t_id task"
    and "\<not> t_cancel_requested u"
  shows "\<exists>st2 st'. worker_run env pv 2 (At_Lane task, st) = (Execute task, st2)
    \<and> worker_run env pv 6 (At_Lane task, st) = (Loop_Head, st')
    \<and> (let response = fst (execute_task env pv 0 task st2); body = response_body response
       in \<forall>v\<in>set (tasks_of st'). t_id v = t_id task \<longrightarrow>
            t_result v = body
            \<and> t_status v = (if response_cooperatively_cancelled (sv_serde env) body then ''cancelled''
                            else if response_succeeded (sv_serde env) response body then ''succeeded''
                            else ''failed''))"
proof -
  have u0: "uncancelled task (tasks_of st)" by (rule uncancelledI [OF assms(4-7)])
  obtain st1 where f: "cancel_flag env (t_id task) st = (False, st1)" and u1: "uncancelled task (tasks_of st1)"
    by (rule uncancelled_flag [OF assms(1) u0])
  define st2 where "st2 = persist_task_checkpoint env task (dispatch_phase (t_kind task)) 25 st1"
  obtain response st3 where x: "execute_task env pv 0 task st2 = (response, st3)" by fastforce
  have u2: "uncancelled task (tasks_of st2)" unfolding st2_def by (rule uncancelled_checkpoint [OF u1])
  then have u3: "uncancelled task (tasks_of st3)" using execute_task_tasks [OF assms(2), of env 0 task st2] x by simp
  define st4 where "st4 = persist_task_checkpoint env task ''finalizing-result'' 90 st3"
  have u4: "uncancelled task (tasks_of st4)" unfolding st4_def by (rule uncancelled_checkpoint [OF u3])
  have r2: "worker_run env pv 2 (At_Lane task, st) = (Execute task, st2)"
    by (simp add: numeral_2_eq_2 worker_lane_def assms(3) f st2_def)
  have r4: "worker_run env pv 2 (Execute task, st2) = (Decide task response, st4)"
    by (simp add: numeral_2_eq_2 x st4_def)
  have "worker_run env pv (2 + (2 + 2)) (At_Lane task, st) = worker_run env pv 2 (Decide task response, st4)"
    by (simp only: worker_run_add r2 r4)
  then have "worker_run env pv 6 (At_Lane task, st) = worker_run env pv 2 (Decide task response, st4)" by simp
  with r2 x decide_and_finish [OF assms(1) u4, of pv response] show ?thesis by (auto simp: Let_def)
qed

theorem worker_stores_provider_outcome_witness:
  "\<exists>task st2 st'. t_kind task = ''steel-in''
    \<and> worker_run queue_env demo_providers 2 (At_Lane task, snd demo_running) = (Execute task, st2)
    \<and> worker_run queue_env demo_providers 6 (At_Lane task, snd demo_running) = (Loop_Head, st')
    \<and> list_all (\<lambda>v. t_result v = response_body (fst (execute_task queue_env demo_providers 0 task st2)))
        (filter (\<lambda>v. t_id v = t_id task) (tasks_of st'))"
proof -
  obtain u where u: "tasks_of (snd demo_running) = [u]" "t_kind u = ''steel-in''" "\<not> t_cancel_requested u"
    and l: "lock (ss_command_lock (snd demo_running)) = Some ()" by (rule demo_running_row)
  have d: "distinct (map t_id (tasks_of (snd demo_running)))" "u \<in> set (tasks_of (snd demo_running))"
    by (simp_all add: u(1))
  obtain st2 st' where st': "worker_run queue_env demo_providers 2 (At_Lane u, snd demo_running) = (Execute u, st2)"
    "worker_run queue_env demo_providers 6 (At_Lane u, snd demo_running) = (Loop_Head, st')"
    "\<forall>v\<in>set (tasks_of st'). t_id v = t_id u \<longrightarrow>
       t_result v = response_body (fst (execute_task queue_env demo_providers 0 u st2))"
    using worker_stores_provider_outcome [OF queue_env_no_faults demo_providers_leave l d refl u(3)]
    unfolding Let_def by blast
  then have "list_all (\<lambda>v. t_result v = response_body (fst (execute_task queue_env demo_providers 0 u st2)))
      (filter (\<lambda>v. t_id v = t_id u) (tasks_of st'))"
    by (simp add: list_all_iff)
  with st'(1,2) u(2) show ?thesis by blast
qed

end
