(* ===== verification/Service_Routes.thy ===== *)
theory Service_Routes
  imports Task_Queue
begin

text \<open>
  The routes of the inspection service, \<open>app/service/src/main.rs\<close>: the permission and the runtime
  capability a route needs, the refusals by operating mode, the check of browser origins, and the table
  by which \<open>handle_client\<close> selects a handler.  A handler is represented by its name in the source.
\<close>

section \<open>Text\<close>

definition utf8_text :: "nat list \<Rightarrow> string" where
  "utf8_text bytes = map char_of bytes"

definition starts_with :: "string \<Rightarrow> string \<Rightarrow> bool" where
  "starts_with s p \<longleftrightarrow> take (length p) s = p"

definition ends_with :: "string \<Rightarrow> string \<Rightarrow> bool" where
  "ends_with s p \<longleftrightarrow> length p \<le> length s \<and> drop (length s - length p) s = p"

section \<open>Permissions\<close>

definition permission_table :: "((string \<times> string) list \<times> string) list" where
  "permission_table =
     [([(''GET'', ''/api/database''), (''GET'', ''/api/admin/database/backup''),
         (''GET'', ''/api/admin/database/integrity''), (''GET'', ''/api/admin/diagnostics'')],
         ''admin.overview''),
      ([(''POST'', ''/api/bkv/replay/next'')],
         ''admin.services''),
      ([(''POST'', ''/api/admin/database/maintenance'')],
         ''admin.services''),
      ([(''GET'', ''/api/config/capture''), (''GET'', ''/api/config/status''),
         (''GET'', ''/api/config/profiles''), (''GET'', ''/api/config/profile''),
         (''GET'', ''/api/storage/status''), (''GET'', ''/api/param''),
         (''GET'', ''/api/calibration/active''), (''GET'', ''/api/calibration/status''),
         (''GET'', ''/api/calibration/operations/detail''), (''POST'', ''/api/config/capture''),
         (''POST'', ''/api/config/connection''), (''POST'', ''/api/storage/config''),
         (''POST'', ''/api/storage/camera-roots''), (''POST'', ''/api/config/profile/save''),
         (''POST'', ''/api/config/profile/apply''), (''POST'', ''/api/config/profile/import''),
         (''POST'', ''/api/config/camera-params/save-all''),
         (''POST'', ''/api/config/camera-params/load-all''),
         (''POST'', ''/api/cameras/connect-all''), (''POST'', ''/api/camera/connect-all''),
         (''POST'', ''/api/camera/connect''), (''POST'', ''/api/camera/disconnect''),
         (''POST'', ''/api/param/save-device''), (''POST'', ''/api/param/save-to-device''),
         (''POST'', ''/api/param/save-file''), (''POST'', ''/api/param/load-file''),
         (''POST'', ''/api/param/recovery''), (''POST'', ''/api/param''),
         (''POST'', ''/api/capture/continuous-test''),
         (''POST'', ''/api/capture/preset/line-continuous''), (''POST'', ''/api/calibration/load''),
         (''POST'', ''/api/calibration/apply-all''), (''POST'', ''/api/calibration/rollback''),
         (''POST'', ''/api/calibration/active''), (''POST'', ''/api/roi/load''),
         (''GET'', ''/api/admin/inspection-settings''),
         (''POST'', ''/api/admin/inspection-settings''), (''GET'', ''/api/admin/alarm-rules''),
         (''POST'', ''/api/admin/alarm-rules''), (''GET'', ''/api/admin/external-integrations''),
         (''POST'', ''/api/admin/external-integrations''),
         (''GET'', ''/api/admin/runtime-profile''),
         (''POST'', ''/api/admin/runtime-profile/validate''),
         (''POST'', ''/api/admin/runtime-profile''),
         (''GET'', ''/api/admin/algorithm/depth-geometry''),
         (''PUT'', ''/api/admin/algorithm/depth-geometry''),
         (''GET'', ''/api/admin/algorithm/depth-geometry/backfill''),
         (''GET'', ''/api/admin/algorithm/depth-geometry/backfill/status''),
         (''POST'', ''/api/admin/algorithm/depth-geometry/backfill''),
         (''POST'', ''/api/admin/algorithm/depth-geometry/backfill/pause''),
         (''POST'', ''/api/admin/algorithm/depth-geometry/backfill/resume''),
         (''GET'', ''/api/admin/site-configs''), (''GET'', ''/api/admin/site-configs/detail''),
         (''POST'', ''/api/admin/site-configs''), (''POST'', ''/api/admin/site-configs/clone''),
         (''PATCH'', ''/api/admin/site-configs''), (''DELETE'', ''/api/admin/site-configs''),
         (''POST'', ''/api/admin/site-configs/check''),
         (''POST'', ''/api/admin/site-configs/activate''),
         (''POST'', ''/api/admin/site-configs/import''),
         (''GET'', ''/api/admin/site-configs/export''),
         (''GET'', ''/api/admin/site-configs/machine-default''),
         (''PUT'', ''/api/admin/site-configs/machine-default''),
         (''DELETE'', ''/api/admin/site-configs/machine-default''),
         (''GET'', ''/api/admin/bkv-import/jobs''), (''POST'', ''/api/admin/bkv-import/jobs''),
         (''POST'', ''/api/admin/bkv-import/jobs/retry'')],
         ''admin.config''),
      ([(''GET'', ''/api/admin/config/revisions''),
         (''GET'', ''/api/admin/config/revisions/detail''),
         (''POST'', ''/api/admin/config/revisions/restore'')],
         ''admin.config''),
      ([(''GET'', ''/api/admin/services''), (''GET'', ''/api/admin/runtime/logs''),
         (''POST'', ''/api/admin/services/capture/start''),
         (''POST'', ''/api/admin/services/capture/stop''),
         (''POST'', ''/api/admin/services/capture/restart''), (''POST'', ''/api/capture/start''),
         (''POST'', ''/api/capture/stop''), (''POST'', ''/api/capture/restart''),
         (''POST'', ''/api/capture/simulation/control''), (''POST'', ''/api/trigger/mode''),
         (''POST'', ''/api/trigger/manual/steel-info''),
         (''POST'', ''/api/trigger/manual/steel-in''),
         (''POST'', ''/api/trigger/manual/steel-out''), (''POST'', ''/api/trigger/capture-once''),
         (''POST'', ''/api/bkv/import''), (''POST'', ''/api/bkv/replay/reset''),
         (''POST'', ''/api/production/tasks''), (''POST'', ''/api/production/tasks/cancel''),
         (''POST'', ''/api/production/tasks/retry''),
         (''POST'', ''/api/production/tasks/steel-info''),
         (''POST'', ''/api/production/tasks/steel-in''),
         (''POST'', ''/api/production/tasks/steel-out''),
         (''POST'', ''/api/production/tasks/trigger-event''),
         (''POST'', ''/api/production/steel-info''), (''POST'', ''/api/production/steel-in''),
         (''POST'', ''/api/production/steel-out''), (''POST'', ''/api/production/trigger-event''),
         (''POST'', ''/api/production/secondary-data''),
         (''POST'', ''/api/production/capture-summary''),
         (''POST'', ''/api/production/capture-once''),
         (''POST'', ''/api/production/algorithm/run''), (''POST'', ''/api/production/defect''),
         (''POST'', ''/api/algorithm/bar-surface/run''),
         (''POST'', ''/api/algorithm/bar-surface/calibration/fit''),
         (''POST'', ''/api/capture/alignment/rebuild''),
         (''POST'', ''/api/capture/measurement/rebuild''),
         (''POST'', ''/api/capture/defects/rebuild'')],
         ''admin.services''),
      ([(''GET'', ''/api/admin/overview'')],
         ''admin.overview''),
      ([(''GET'', ''/api/admin/users''), (''POST'', ''/api/admin/users''),
         (''DELETE'', ''/api/admin/users'')],
         ''admin.users''),
      ([(''GET'', ''/api/admin/roles''), (''GET'', ''/api/admin/permissions''),
         (''POST'', ''/api/admin/roles''), (''DELETE'', ''/api/admin/roles'')],
         ''admin.roles''),
      ([(''GET'', ''/api/admin/cameras''), (''POST'', ''/api/admin/cameras''),
         (''DELETE'', ''/api/admin/cameras'')],
         ''admin.cameras''),
      ([(''GET'', ''/api/admin/defect-types'')],
         ''admin.records''),
      ([(''POST'', ''/api/admin/defect-types''), (''DELETE'', ''/api/admin/defect-types'')],
         ''admin.config''),
      ([(''GET'', ''/api/admin/audit''), (''GET'', ''/api/admin/audit/export''),
         (''POST'', ''/api/admin/audit/retention'')],
         ''admin.audit''),
      ([(''GET'', ''/api/admin/security/policy''), (''POST'', ''/api/admin/security/policy'')],
         ''admin.audit''),
      ([(''GET'', ''/api/admin/records''), (''GET'', ''/api/admin/records/detail''),
         (''GET'', ''/api/admin/records/reports''),
         (''GET'', ''/api/admin/records/reports/detail''),
         (''POST'', ''/api/admin/records/reports''), (''GET'', ''/api/admin/records/cleanup''),
         (''GET'', ''/api/admin/records/export''), (''POST'', ''/api/admin/records/retention''),
         (''POST'', ''/api/admin/records/cleanup/retry''), (''DELETE'', ''/api/admin/records'')],
         ''admin.records''),
      ([(''POST'', ''/api/alarms/acknowledge''), (''POST'', ''/api/alarms/resolve'')],
         ''admin.records''),
      ([(''POST'', ''/api/defects/review'')],
         ''admin.records''),
      ([(''POST'', ''/api/admin/auth/password''), (''GET'', ''/api/admin/auth/sessions''),
         (''DELETE'', ''/api/admin/auth/sessions'')],
         ''admin.self'')]"

definition permission_for_route :: "string \<Rightarrow> string \<Rightarrow> string option" where
  "permission_for_route method path =
     find_map (\<lambda>(routes, permission). if (method, path) \<in> set routes then Some permission else None)
       permission_table"

text \<open>The identifiers of the permission catalogue; its labels are display text.\<close>

definition admin_permission_ids :: "string list" where
  "admin_permission_ids =
     [''admin.overview'', ''admin.services'', ''admin.users'', ''admin.roles'', ''admin.config'',
      ''admin.cameras'', ''admin.records'', ''admin.audit'']"

definition is_known_admin_permission :: "string \<Rightarrow> bool" where
  "is_known_admin_permission permission \<longleftrightarrow> permission \<in> set admin_permission_ids"

section \<open>Proxied routes\<close>

definition capture_json_proxy_routes :: "(string \<times> string) list" where
  "capture_json_proxy_routes =
     [(''GET'', ''/health''), (''GET'', ''/api/capture/health''), (''GET'', ''/api/capture/logs''),
      (''GET'', ''/api/storage/status''), (''GET'', ''/api/config/status''),
      (''GET'', ''/api/config/profiles''), (''GET'', ''/api/config/profile''),
      (''GET'', ''/api/cameras''), (''GET'', ''/api/camera/status''),
      (''GET'', ''/api/camera/statuses''), (''GET'', ''/api/steel/status''),
      (''GET'', ''/api/param''), (''GET'', ''/api/capture/latest''),
      (''GET'', ''/api/capture/history''), (''GET'', ''/api/capture/cache/status''),
      (''GET'', ''/api/capture/simulation/status''),
      (''GET'', ''/api/capture/continuous-settings''), (''GET'', ''/api/capture/alignment''),
      (''GET'', ''/api/capture/measurement''), (''GET'', ''/api/capture/surface''),
      (''GET'', ''/api/capture/regions''), (''GET'', ''/api/capture/defects''),
      (''GET'', ''/api/stream/status''), (''GET'', ''/api/calibration/active''),
      (''GET'', ''/api/calibration/status''), (''POST'', ''/api/storage/config''),
      (''POST'', ''/api/storage/camera-roots''), (''POST'', ''/api/config/profile/save''),
      (''POST'', ''/api/config/profile/apply''), (''POST'', ''/api/config/profile/import''),
      (''POST'', ''/api/config/camera-params/save-all''),
      (''POST'', ''/api/config/camera-params/load-all''), (''POST'', ''/api/camera/connect''),
      (''POST'', ''/api/camera/connect-all''), (''POST'', ''/api/cameras/connect-all''),
      (''POST'', ''/api/camera/disconnect''), (''POST'', ''/api/steel/capture-mode''),
      (''POST'', ''/api/steel/event''), (''POST'', ''/api/param''),
      (''POST'', ''/api/param/save-device''), (''POST'', ''/api/param/save-to-device''),
      (''POST'', ''/api/param/save-file''), (''POST'', ''/api/param/load-file''),
      (''POST'', ''/api/param/recovery''), (''POST'', ''/api/preview/capture''),
      (''POST'', ''/api/capture/preview''), (''POST'', ''/api/capture/depth-map''),
      (''POST'', ''/api/capture/continuous-test''),
      (''POST'', ''/api/capture/continuous-settings''),
      (''POST'', ''/api/capture/simulation/control''),
      (''POST'', ''/api/capture/preset/line-continuous''), (''POST'', ''/api/stream/start''),
      (''POST'', ''/api/stream/stop''), (''POST'', ''/api/calibration/load''),
      (''POST'', ''/api/calibration/apply-all''), (''POST'', ''/api/calibration/rollback''),
      (''POST'', ''/api/calibration/active''), (''POST'', ''/api/roi/load'')]"

definition capture_binary_proxy_routes :: "(string \<times> string) list" where
  "capture_binary_proxy_routes =
     [(''GET'', ''/api/capture/file''), (''GET'', ''/api/capture/render''),
      (''GET'', ''/api/stream/latest'')]"

definition is_capture_json_proxy_route :: "string \<Rightarrow> string \<Rightarrow> bool" where
  "is_capture_json_proxy_route method path \<longleftrightarrow> (method, path) \<in> set capture_json_proxy_routes"

definition is_capture_binary_proxy_route :: "string \<Rightarrow> string \<Rightarrow> bool" where
  "is_capture_binary_proxy_route method path \<longleftrightarrow> (method, path) \<in> set capture_binary_proxy_routes"

definition is_sick_algorithm_reprocess_route :: "string \<Rightarrow> string \<Rightarrow> bool" where
  "is_sick_algorithm_reprocess_route method path \<longleftrightarrow>
     method = ''POST'' \<and>
     path \<in> set [''/api/capture/alignment/rebuild'', ''/api/capture/measurement/rebuild'',
       ''/api/capture/defects/rebuild'']"

definition trigger_gateway_proxy_routes :: "(string \<times> string) list" where
  "trigger_gateway_proxy_routes =
     [(''GET'', ''/api/trigger/status''), (''GET'', ''/api/trigger/mode''), (''POST'', ''/api/trigger/mode''),
      (''POST'', ''/api/trigger/manual/steel-info''), (''POST'', ''/api/trigger/manual/steel-in''),
      (''POST'', ''/api/trigger/manual/steel-out''), (''POST'', ''/api/trigger/capture-once'')]"

definition is_trigger_gateway_proxy_route :: "string \<Rightarrow> string \<Rightarrow> bool" where
  "is_trigger_gateway_proxy_route method path \<longleftrightarrow> (method, path) \<in> set trigger_gateway_proxy_routes"

definition is_production_mutation_route :: "string \<Rightarrow> string \<Rightarrow> bool" where
  "is_production_mutation_route method path \<longleftrightarrow>
     method = ''POST'' \<and>
     ((starts_with path ''/api/production/'' \<and> \<not> starts_with path ''/api/production/tasks'')
      \<or> path \<in> set [''/api/bkv/import'', ''/api/bkv/replay/reset'', ''/internal/v1/steel-in'',
          ''/internal/v1/steel-out'', ''/internal/v1/capture-commit'', ''/internal/v1/capture-regions'',
          ''/internal/v1/defect-batch'', ''/api/defects/review''])"

definition mutation_requires_reconciliation_fence :: "string \<Rightarrow> string \<Rightarrow> bool" where
  "mutation_requires_reconciliation_fence method path \<longleftrightarrow>
     method = ''POST'' \<and>
     path \<in> set [''/api/calibration/load'', ''/api/roi/load'', ''/api/calibration/active'',
       ''/api/config/profile/save'', ''/api/config/profile/import'', ''/api/config/profile/apply'',
       ''/api/config/camera-params/save-all'', ''/api/config/camera-params/load-all'', ''/api/param'',
       ''/api/param/save-device'', ''/api/param/save-to-device'', ''/api/param/load-file'',
       ''/api/param/recovery'', ''/api/capture/preset/line-continuous'']"

datatype health_endpoint = Health_Compatibility | Health_Live | Health_Ready | Health_Details

definition health_endpoint_for_route :: "string \<Rightarrow> string \<Rightarrow> health_endpoint option" where
  "health_endpoint_for_route method path =
     (if method \<noteq> ''GET'' then None
      else if path = ''/api/health'' then Some Health_Compatibility
      else if path = ''/api/health/live'' then Some Health_Live
      else if path = ''/api/health/ready'' then Some Health_Ready
      else if path \<in> set [''/api/health/details'', ''/api/health/ready/details''] then Some Health_Details
      else None)"

section \<open>Capabilities and operating modes\<close>

definition mutating_method :: "string \<Rightarrow> bool" where
  "mutating_method method \<longleftrightarrow> method \<in> set [''POST'', ''PUT'', ''PATCH'', ''DELETE'']"

definition runtime_capability_for_route :: "string \<Rightarrow> string \<Rightarrow> runtime_capability option" where
  "runtime_capability_for_route method path =
     (if method \<notin> set [''POST'', ''DELETE'', ''PUT'', ''PATCH''] then None
      else if path \<in> set [''/api/bkv/replay/next'', ''/api/bkv/replay/reset''] then Some OfflineReplay
      else if path \<in> set [''/api/algorithm/bar-surface/run'', ''/api/algorithm/bar-surface/calibration/fit'',
          ''/api/production/algorithm/run'', ''/api/admin/algorithm/depth-geometry/backfill'',
          ''/api/admin/algorithm/depth-geometry/backfill/resume'', ''/api/capture/alignment/rebuild'',
          ''/api/capture/measurement/rebuild'', ''/api/capture/defects/rebuild'']
      then Some Reconstruction
      else if path \<in> set [''/api/config/capture'', ''/api/admin/cameras'']
          \<or> list_ex (starts_with path) [''/api/config/profile/'', ''/api/camera/'', ''/api/cameras/'',
              ''/api/config/camera-'', ''/api/param'', ''/api/calibration/'', ''/api/roi/'', ''/api/stream/'',
              ''/api/preview/'', ''/api/capture/preview'', ''/api/capture/depth-map'',
              ''/api/capture/continuous'', ''/api/capture/preset'']
      then Some DirectCamera
      else if path \<in> set [''/api/production/capture-once'', ''/api/production/tasks/retry'',
            ''/api/storage/config'', ''/api/storage/camera-roots'', ''/api/steel/capture-mode'',
            ''/api/steel/event'']
          \<or> starts_with path ''/api/trigger/''
          \<or> path \<in> set [''/internal/v1/steel-in'', ''/internal/v1/steel-out'', ''/internal/v1/capture-commit'',
              ''/internal/v1/capture-regions'', ''/api/production/tasks/steel-info'',
              ''/api/production/tasks/steel-in'', ''/api/production/tasks/steel-out'',
              ''/api/production/tasks/trigger-event'', ''/api/production/steel-info'',
              ''/api/production/steel-in'', ''/api/production/steel-out'', ''/api/production/trigger-event'',
              ''/api/production/secondary-data'', ''/api/production/capture-summary'']
          \<or> starts_with path ''/api/admin/services/capture/'' \<or> starts_with path ''/api/capture/''
      then Some CaptureManagement
      else if path \<in> set [''/api/production/defect'', ''/internal/v1/defect-batch''] then Some Reconstruction
      else None)"

definition runtime_capability_for_request ::
  "service_env \<Rightarrow> string \<Rightarrow> string \<Rightarrow> string \<Rightarrow> runtime_capability option" where
  "runtime_capability_for_request env method path body =
     (case runtime_capability_for_route method path of
        Some capability \<Rightarrow> Some capability
      | None \<Rightarrow>
          if method \<noteq> ''POST'' \<or> path \<noteq> ''/api/production/tasks'' then None
          else case from_str (sv_serde env) (trim body) of
                 Inl _ \<Rightarrow> None
               | Inr request \<Rightarrow> runtime_capability_for_production_task_kind
                   (value_string request [''kind'', ''type'', ''command'']))"

definition runtime_capability_guard_response_for_request ::
  "service_env \<Rightarrow> string \<Rightarrow> string \<Rightarrow> string \<Rightarrow> string option" where
  "runtime_capability_guard_response_for_request env method path body =
     (case runtime_capability_for_request env method path body of
        None \<Rightarrow> None
      | Some capability \<Rightarrow>
          if allows (sv_config env) capability then None
          else Some (json_reply env ''409 Conflict''
            [(''code'', jint 409), (''error'', JString ''runtime_capability_unavailable''),
             (''capability'', JString (capability_str capability)),
             (''profileId'', JString (rc_id (sv_config env))),
             (''message'', JString ''The active runtime profile does not provide this capability'')]))"

fun acquisition_mode_str :: "acquisition_mode \<Rightarrow> string" where
  "acquisition_mode_str Online = ''online''"
| "acquisition_mode_str Offline = ''offline''"
| "acquisition_mode_str Simulation = ''simulation''"

text \<open>The messages of the refusals, UTF-8 encoded.\<close>

definition offline_message :: string where
  "offline_message = utf8_text
     [233, 135, 135, 233, 155, 134, 229, 146, 140, 230, 150, 176, 229, 164, 132, 231, 144, 134, 229,
      183, 178, 231, 166, 129, 231, 148, 168]"

definition physical_trigger_message :: string where
  "physical_trigger_message = utf8_text
     [230, 168, 161, 230, 139, 159, 230, 168, 161, 229, 188, 143, 231, 166, 129, 230, 173, 162, 32,
      80, 76, 67, 32, 229, 146, 140, 231, 137, 169, 231, 144, 134, 232, 167, 166, 229, 143, 145,
      230, 147, 141, 228, 189, 156]"

definition physical_camera_message :: string where
  "physical_camera_message = utf8_text
     [230, 168, 161, 230, 139, 159, 230, 168, 161, 229, 188, 143, 231, 166, 129, 230, 173, 162, 231,
      137, 169, 231, 144, 134, 231, 155, 184, 230, 156, 186, 230, 147, 141, 228, 189, 156]"

definition replay_control_message :: string where
  "replay_control_message = utf8_text
     [230, 168, 161, 230, 139, 159, 233, 135, 135, 233, 155, 134, 229, 143, 170, 232, 131, 189, 233,
      128, 154, 232, 191, 135, 230, 149, 176, 230, 141, 174, 229, 155, 158, 230, 148, 190, 230, 142,
      167, 229, 136, 182, 230, 142, 165, 229, 143, 163, 233, 169, 177, 229, 138, 168]"

definition mode_conflict :: "service_env \<Rightarrow> string \<Rightarrow> string option \<Rightarrow> string \<Rightarrow> string" where
  "mode_conflict env e capability message =
     json_reply env ''409 Conflict''
       ([(''code'', jint 409), (''error'', JString e),
         (''acquisitionMode'', JString (acquisition_mode_str (rc_acquisition_mode (sv_config env))))]
        @ (case capability of None \<Rightarrow> [] | Some c \<Rightarrow> [(''capability'', JString c)])
        @ [(''profileId'', JString (rc_id (sv_config env))), (''message'', JString message)])"

definition runtime_mode_guard_response_for_request ::
  "service_env \<Rightarrow> string \<Rightarrow> string \<Rightarrow> string \<Rightarrow> string option" where
  "runtime_mode_guard_response_for_request env method path body =
     (let mode = rc_acquisition_mode (sv_config env) in
      if (method, path) \<in> set [(''GET'', ''/api/capture/simulation/status''),
            (''POST'', ''/api/capture/simulation/control'')] \<and> mode \<noteq> Simulation
      then (if mode = Online
            then Some (mode_conflict env ''mode_online'' None
              ''simulation endpoint requires acquisitionMode=simulation'')
            else Some (mode_conflict env ''mode_offline'' None offline_message))
      else if mode = Simulation \<and> mutating_method method
          \<and> (starts_with path ''/api/trigger/'' \<or> path \<in> set [''/api/steel/capture-mode'', ''/api/steel/event''])
      then Some (mode_conflict env ''mode_simulation_physical_operation_forbidden'' (Some ''physical-trigger'')
        physical_trigger_message)
      else case runtime_capability_for_request env method path body of
             None \<Rightarrow> None
           | Some capability \<Rightarrow>
               (case (mode, capability) of
                  (Offline, OfflineReplay) \<Rightarrow> None
                | (Offline, _) \<Rightarrow>
                    Some (mode_conflict env ''mode_offline'' (Some (capability_str capability)) offline_message)
                | (Simulation, DirectCamera) \<Rightarrow>
                    Some (mode_conflict env ''mode_simulation_physical_operation_forbidden''
                      (Some (capability_str capability)) physical_camera_message)
                | (Simulation, CaptureManagement) \<Rightarrow>
                    if path = ''/api/capture/simulation/control'' \<or> starts_with path ''/internal/v1/'' then None
                    else Some (mode_conflict env ''mode_simulation_replay_control_required''
                      (Some (capability_str capability)) replay_control_message)
                | _ \<Rightarrow> None))"

section \<open>Browser origins\<close>

definition origin_host :: "string \<Rightarrow> string option" where
  "origin_host v =
     (let trimmed = trim v in
      if eq_ignore_ascii_case trimmed ''null'' \<or> trimmed = [] then None
      else case split_once_str ''://'' trimmed of
             None \<Rightarrow> None
           | Some (_, rest) \<Rightarrow>
               let authority = last (split_on (\<lambda>c. c = CHR ''@'')
                     (hd (split_on (\<lambda>c. c \<in> set [CHR ''/'', CHR ''?'', CHR ''#'']) rest)))
               in if starts_with authority ''['' then
                    (case find_sub '']'' authority of
                       None \<Rightarrow> None
                     | Some e \<Rightarrow> Some (to_ascii_lowercase (take (e - 1) (drop 1 authority))))
                  else
                    let host = trim (hd (split_on (\<lambda>c. c = CHR '':'') authority))
                    in if host = [] then None else Some (to_ascii_lowercase host))"

fun is_local_address :: "ip_addr \<Rightarrow> bool" where
  "is_local_address (V4 a) \<longleftrightarrow>
     drop_bit 24 a = 10 \<or> drop_bit 20 a = 0xAC1 \<or> drop_bit 16 a = 0xC0A8
     \<or> drop_bit 16 a = 0xA9FE \<or> is_loopback (V4 a)"
| "is_local_address (V6 a) \<longleftrightarrow>
     is_loopback (V6 a) \<or> drop_bit 121 a = 0x7E \<or> drop_bit 118 a = 0x3FA"

definition loopback_host :: "string \<Rightarrow> bool" where
  "loopback_host host \<longleftrightarrow>
     host \<in> set [''localhost'', ''127.0.0.1'', ''::1''] \<or> ends_with host ''.localhost''"

definition is_trusted_local_origin :: "string \<Rightarrow> bool" where
  "is_trusted_local_origin v =
     (case origin_host v of
        None \<Rightarrow> False
      | Some host \<Rightarrow>
          if loopback_host host then True
          else (case parse_ip_addr host of Some a \<Rightarrow> is_local_address a | None \<Rightarrow> False))"

definition request_targets_loopback :: "string \<Rightarrow> bool" where
  "request_targets_loopback request =
     (case service_request_header request ''Host'' of
        None \<Rightarrow> True
      | Some host \<Rightarrow> (case origin_host (''http://'' @ host) of Some h \<Rightarrow> loopback_host h | None \<Rightarrow> False))"

text \<open>The recursive call on the requested method of a preflight request, with an empty header block.\<close>

definition changing_verb :: "string \<Rightarrow> bool" where
  "changing_verb method \<longleftrightarrow> list_ex (eq_ignore_ascii_case method) [''POST'', ''PUT'', ''PATCH'', ''DELETE'']"

definition request_state_changing_method :: "string \<Rightarrow> string \<Rightarrow> bool" where
  "request_state_changing_method request method =
     (if eq_ignore_ascii_case method ''OPTIONS''
      then (case service_request_header request ''Access-Control-Request-Method'' of
              Some requested \<Rightarrow> \<not> eq_ignore_ascii_case requested ''OPTIONS'' \<and> changing_verb requested
            | None \<Rightarrow> False)
      else changing_verb method)"

definition request_origin_allowed :: "string \<Rightarrow> string \<Rightarrow> bool" where
  "request_origin_allowed request method =
     (if \<not> request_state_changing_method request method then True
      else case service_request_header request ''Origin'' of
             Some origin \<Rightarrow> is_trusted_local_origin origin
           | None \<Rightarrow> (case service_request_header request ''Referer'' of
                       Some referer \<Rightarrow> is_trusted_local_origin referer
                     | None \<Rightarrow> True))"

section \<open>Selection of the handler\<close>

text \<open>
  \<open>Internal h e\<close> is a callback that runs \<open>h\<close> for a loopback peer and answers 403 with error \<open>e\<close> otherwise.
\<close>

datatype route_target =
    Handler string
  | Internal string string
  | No_Content
  | Web_Asset
  | Not_Found

datatype capture_provider = HeadlessCpp | ExternalApi | Simulated | Bkv

fun uses_local_api :: "capture_provider \<Rightarrow> bool" where
  "uses_local_api Simulated = False"
| "uses_local_api Bkv = False"
| "uses_local_api _ = True"

definition bkv_compat_paths :: "string list" where
  "bkv_compat_paths =
     [''/api/capture/health'', ''/api/cameras'', ''/api/camera/status'', ''/api/camera/statuses'',
      ''/api/capture/logs'']"

definition dispatch_table :: "((string \<times> string) \<times> route_target) list" where
  "dispatch_table =
     [((''GET'', ''/api/runtime/status''), Handler ''read_runtime_status_response''),
      ((''GET'', ''/api/system/network''), Handler ''system_network_status_response''),
      ((''GET'', ''/api/system/resources''), Handler ''app_resource_usage::app_resource_usage_response''),
      ((''GET'', ''/api/runtime-profile''), Handler ''runtime_profile_response''),
      ((''GET'', ''/api/services''), Handler ''services''),
      ((''GET'', ''/api/capture/lifecycle''), Handler ''capture_lifecycle''),
      ((''GET'', ''/api/bkv/status''), Handler ''bkv_status_response or production_tasks::bkv_status_response''),
      ((''GET'', ''/api/bkv/materials''), Handler ''bkv_materials_response''),
      ((''GET'', ''/api/bkv/material''), Handler ''bkv_material_response''),
      ((''GET'', ''/api/bkv/file''), Handler ''bkv_file_response''),
      ((''GET'', ''/api/bkv-online/status''), Handler ''bkv_online_status_response''),
      ((''GET'', ''/api/bkv-online/image''), Handler ''bkv_online_image_response''),
      ((''GET'', ''/api/inspection-world/records''), Handler ''inspection_world_records_response''),
      ((''GET'', ''/api/inspection-world/records/status''), Handler ''inspection_world_records_status_response''),
      ((''GET'', ''/api/inspection-world/meta''), Handler ''inspection_world_meta_response''),
      ((''GET'', ''/api/inspection-world/surface''), Handler ''inspection_world_surface_response''),
      ((''GET'', ''/api/inspection-world/reconstruction-parameters''),
        Handler ''inspection_world_reconstruction_parameters_response''),
      ((''GET'', ''/api/inspection-world/defects''), Handler ''inspection_world_defects_response''),
      ((''GET'', ''/api/inspection-world/frame''), Handler ''inspection_world_frame_response''),
      ((''GET'', ''/api/inspection-world/tile''), Handler ''inspection_world_tile_response''),
      ((''POST'', ''/api/bkv/replay/next''), Handler ''bkv_next_response''),
      ((''POST'', ''/api/bkv/replay/reset''),
        Handler ''bkv_reset_response or production_tasks::bkv_replay_reset_response''),
      ((''GET'', ''/api/algorithm/bar-surface/latest''), Handler ''algorithm_latest_response''),
      ((''GET'', ''/api/algorithm/bar-surface/manifest''), Handler ''algorithm_manifest_response''),
      ((''GET'', ''/api/algorithm/bar-surface/file''), Handler ''algorithm_file_response''),
      ((''GET'', ''/api/algorithm/bar-surface/captures''), Handler ''algorithm_capture_materials_response''),
      ((''GET'', ''/api/algorithm/bar-surface/runs''), Handler ''algorithm_runs_response''),
      ((''POST'', ''/api/algorithm/bar-surface/run''), Handler ''algorithm_run_response''),
      ((''POST'', ''/api/algorithm/bar-surface/calibration/fit''), Handler ''algorithm_calibration_fit_response''),
      ((''POST'', ''/api/admin/auth/login''), Handler ''write_auth_login_response''),
      ((''GET'', ''/api/admin/auth/me''), Handler ''read_auth_me_response''),
      ((''POST'', ''/api/admin/auth/logout''), Handler ''write_auth_logout_response''),
      ((''POST'', ''/api/admin/auth/password''), Handler ''write_auth_password_response''),
      ((''GET'', ''/api/admin/auth/sessions''), Handler ''read_auth_sessions_response''),
      ((''DELETE'', ''/api/admin/auth/sessions''), Handler ''delete_auth_session_response''),
      ((''GET'', ''/api/admin/services''), Handler ''read_admin_services_response''),
      ((''GET'', ''/api/admin/runtime/logs''), Handler ''read_admin_runtime_log_status_response''),
      ((''GET'', ''/api/admin/diagnostics''), Handler ''read_admin_diagnostics_response''),
      ((''GET'', ''/api/admin/runtime-profile''), Handler ''read_admin_runtime_profile_response''),
      ((''POST'', ''/api/admin/runtime-profile/validate''), Handler ''validate_admin_runtime_profile_response''),
      ((''POST'', ''/api/admin/runtime-profile''), Handler ''save_admin_runtime_profile_response''),
      ((''GET'', ''/api/admin/site-configs''), Handler ''read_admin_site_configs_response''),
      ((''GET'', ''/api/admin/site-configs/detail''), Handler ''read_admin_site_config_detail_response''),
      ((''POST'', ''/api/admin/site-configs''), Handler ''create_admin_site_config_response''),
      ((''POST'', ''/api/admin/site-configs/clone''), Handler ''clone_admin_site_config_response''),
      ((''PATCH'', ''/api/admin/site-configs''), Handler ''update_admin_site_config_response''),
      ((''DELETE'', ''/api/admin/site-configs''), Handler ''delete_admin_site_config_response''),
      ((''POST'', ''/api/admin/site-configs/check''), Handler ''check_admin_site_config_response''),
      ((''POST'', ''/api/admin/site-configs/activate''), Handler ''activate_admin_site_config_response''),
      ((''POST'', ''/api/admin/site-configs/import''), Handler ''import_admin_site_config_response''),
      ((''GET'', ''/api/admin/site-configs/export''), Handler ''export_admin_site_config_response''),
      ((''GET'', ''/api/admin/site-configs/machine-default''), Handler ''read_machine_site_selection_response''),
      ((''PUT'', ''/api/admin/site-configs/machine-default''), Handler ''set_machine_default_site_response''),
      ((''DELETE'', ''/api/admin/site-configs/machine-default''), Handler ''clear_machine_default_site_response''),
      ((''GET'', ''/api/admin/bkv-import/jobs''), Handler ''read_admin_bkv_import_jobs_response''),
      ((''POST'', ''/api/admin/bkv-import/jobs''), Handler ''start_admin_bkv_import_job_response''),
      ((''POST'', ''/api/admin/bkv-import/jobs/retry''), Handler ''retry_admin_bkv_import_job_response''),
      ((''POST'', ''/api/bkv/import''), Handler ''production_tasks::bkv_import_response''),
      ((''POST'', ''/api/admin/services/capture/start''), Handler ''start_capture_service_response''),
      ((''POST'', ''/api/admin/services/capture/stop''), Handler ''stop_capture_service_response''),
      ((''POST'', ''/api/admin/services/capture/restart''), Handler ''restart_capture_service_response''),
      ((''POST'', ''/api/capture/start''), Handler ''start_capture_service_response''),
      ((''POST'', ''/api/capture/stop''), Handler ''stop_capture_service_response''),
      ((''POST'', ''/api/capture/restart''), Handler ''restart_capture_service_response''),
      ((''GET'', ''/api/config''), Handler ''read_public_config_response''),
      ((''GET'', ''/api/config/capture''), Handler ''read_config_response''),
      ((''POST'', ''/api/config/capture''), Handler ''write_config_response''),
      ((''GET'', ''/api/config/discovery''), Handler ''connection_discovery_response''),
      ((''GET'', ''/api/config/connection''), Handler ''read_connection_response''),
      ((''POST'', ''/api/config/connection''), Handler ''write_connection_response''),
      ((''GET'', ''/api/inspection/settings''), Handler ''read_inspection_settings_response''),
      ((''GET'', ''/api/admin/inspection-settings''), Handler ''read_inspection_settings_response''),
      ((''POST'', ''/api/admin/inspection-settings''), Handler ''write_inspection_settings_response''),
      ((''GET'', ''/api/admin/alarm-rules''), Handler ''read_alarm_rules_response''),
      ((''POST'', ''/api/admin/alarm-rules''), Handler ''write_alarm_rules_response''),
      ((''GET'', ''/api/admin/external-integrations''), Handler ''read_external_integrations_response''),
      ((''POST'', ''/api/admin/external-integrations''), Handler ''write_external_integrations_response''),
      ((''GET'', ''/api/admin/algorithm/depth-geometry''), Handler ''depth_geometry_config_response''),
      ((''PUT'', ''/api/admin/algorithm/depth-geometry''), Handler ''write_depth_geometry_config_response''),
      ((''GET'', ''/api/admin/algorithm/depth-geometry/backfill''),
        Handler ''depth_geometry_backfill_status_response''),
      ((''GET'', ''/api/admin/algorithm/depth-geometry/backfill/status''),
        Handler ''depth_geometry_backfill_status_response''),
      ((''POST'', ''/api/admin/algorithm/depth-geometry/backfill''),
        Handler ''write_depth_geometry_backfill_control_response''),
      ((''POST'', ''/api/admin/algorithm/depth-geometry/backfill/pause''),
        Handler ''write_depth_geometry_backfill_control_response''),
      ((''POST'', ''/api/admin/algorithm/depth-geometry/backfill/resume''),
        Handler ''write_depth_geometry_backfill_control_response''),
      ((''GET'', ''/api/admin/config/revisions''), Handler ''read_config_revisions_response''),
      ((''GET'', ''/api/admin/config/revisions/detail''), Handler ''read_config_revision_detail_response''),
      ((''POST'', ''/api/admin/config/revisions/restore''), Handler ''restore_config_revision_response''),
      ((''GET'', ''/api/admin/database/backup''), Handler ''database_backup_response''),
      ((''GET'', ''/api/admin/database/integrity''), Handler ''database_integrity_response''),
      ((''POST'', ''/api/admin/database/maintenance''), Handler ''database_maintenance_response''),
      ((''GET'', ''/api/database''), Handler ''database_info_response''),
      ((''GET'', ''/api/admin/overview''), Handler ''admin_overview_response''),
      ((''GET'', ''/api/admin/users''), Handler ''read_admin_users_response''),
      ((''POST'', ''/api/admin/users''), Handler ''write_admin_user_response''),
      ((''DELETE'', ''/api/admin/users''), Handler ''delete_admin_user_response''),
      ((''GET'', ''/api/admin/roles''), Handler ''read_admin_roles_response''),
      ((''GET'', ''/api/admin/permissions''), Handler ''read_admin_permissions_response''),
      ((''POST'', ''/api/admin/roles''), Handler ''write_admin_role_response''),
      ((''DELETE'', ''/api/admin/roles''), Handler ''delete_admin_role_response''),
      ((''GET'', ''/api/admin/cameras''), Handler ''read_admin_cameras_response''),
      ((''POST'', ''/api/admin/cameras''), Handler ''write_admin_camera_response''),
      ((''DELETE'', ''/api/admin/cameras''), Handler ''delete_admin_camera_response''),
      ((''GET'', ''/api/admin/defect-types''), Handler ''read_admin_defect_types_response''),
      ((''POST'', ''/api/admin/defect-types''), Handler ''write_admin_defect_type_response''),
      ((''DELETE'', ''/api/admin/defect-types''), Handler ''delete_admin_defect_type_response''),
      ((''POST'', ''/api/admin/audit/retention''), Handler ''apply_audit_retention_response''),
      ((''GET'', ''/api/admin/audit/export''), Handler ''read_audit_export_response''),
      ((''GET'', ''/api/admin/audit''), Handler ''read_audit_logs_response''),
      ((''GET'', ''/api/admin/security/policy''), Handler ''read_security_policy_response''),
      ((''POST'', ''/api/admin/security/policy''), Handler ''write_security_policy_response''),
      ((''GET'', ''/api/admin/records/export''), Handler ''read_admin_records_export_response''),
      ((''GET'', ''/api/admin/records/detail''), Handler ''read_admin_record_detail_response''),
      ((''GET'', ''/api/admin/records/reports/detail''), Handler ''read_inspection_report_detail_response''),
      ((''GET'', ''/api/admin/records/reports''), Handler ''read_inspection_reports_response''),
      ((''POST'', ''/api/admin/records/reports''), Handler ''write_inspection_report_response''),
      ((''GET'', ''/api/admin/records/cleanup''), Handler ''read_record_cleanup_response''),
      ((''POST'', ''/api/admin/records/retention''), Handler ''apply_record_retention_response''),
      ((''POST'', ''/api/admin/records/cleanup/retry''), Handler ''retry_record_cleanup_response''),
      ((''DELETE'', ''/api/admin/records''), Handler ''delete_admin_record_response''),
      ((''GET'', ''/api/admin/records''), Handler ''read_admin_records_response''),
      ((''GET'', ''/api/alarms''), Handler ''read_production_alarms_response''),
      ((''POST'', ''/api/alarms/acknowledge''), Handler ''write_production_alarm_action_response''),
      ((''POST'', ''/api/alarms/resolve''), Handler ''write_production_alarm_action_response''),
      ((''GET'', ''/api/production/status''), Handler ''production_status_response''),
      ((''GET'', ''/api/production/processing-log''), Handler ''processing_log_response''),
      ((''GET'', ''/api/production/flows/latest''), Handler ''latest_steel_flow_response''),
      ((''POST'', ''/api/production/tasks''), Handler ''production_tasks::enqueue_response''),
      ((''GET'', ''/api/production/tasks''), Handler ''production_tasks::list_response''),
      ((''GET'', ''/api/production/tasks/detail''), Handler ''production_tasks::detail_response''),
      ((''POST'', ''/api/production/tasks/cancel''), Handler ''production_tasks::cancel_response''),
      ((''POST'', ''/api/production/tasks/retry''), Handler ''production_tasks::retry_response'')]"

definition production_table :: "((string \<times> string) \<times> route_target) list" where
  "production_table =
     [((''POST'', ''/api/production/steel-info''), Handler ''write_production_event_response''),
      ((''POST'', ''/api/production/steel-in''), Handler ''write_production_event_response''),
      ((''POST'', ''/api/production/steel-out''), Handler ''write_production_event_response''),
      ((''POST'', ''/api/production/trigger-event''), Handler ''write_production_event_response''),
      ((''POST'', ''/api/production/secondary-data''), Handler ''write_secondary_data_response''),
      ((''POST'', ''/api/production/capture-summary''), Handler ''write_capture_summary_response''),
      ((''POST'', ''/internal/v1/steel-in''),
        Internal ''write_production_event_response'' ''capture_transition_loopback_only''),
      ((''POST'', ''/internal/v1/steel-out''),
        Internal ''write_production_event_response'' ''capture_transition_loopback_only''),
      ((''POST'', ''/internal/v1/capture-commit''),
        Internal ''write_capture_commit_response'' ''capture_commit_loopback_only''),
      ((''POST'', ''/internal/v1/capture-regions''),
        Internal ''write_capture_regions_response'' ''capture_regions_loopback_only''),
      ((''POST'', ''/api/production/capture-once''), Handler ''write_production_capture_once_response''),
      ((''POST'', ''/api/production/algorithm/run''), Handler ''write_production_algorithm_run_response''),
      ((''POST'', ''/api/production/defect''), Handler ''write_production_defect_response''),
      ((''POST'', ''/internal/v1/defect-batch''),
        Internal ''write_production_defect_batch_response'' ''defect_batch_loopback_only''),
      ((''GET'', ''/api/defects/history''), Handler ''production_defect_history_response''),
      ((''GET'', ''/api/production/defects/history''), Handler ''production_defect_history_response''),
      ((''POST'', ''/api/defects/review''), Handler ''write_production_defect_review_response''),
      ((''GET'', ''/api/production/file''), Handler ''production_file_response''),
      ((''GET'', ''/api/calibration/operations/detail''), Handler ''calibration_operations::detail_response''),
      ((''POST'', ''/api/calibration/apply-all''), Handler ''calibration_operations::apply_response''),
      ((''POST'', ''/api/calibration/rollback''), Handler ''calibration_operations::mutation_response''),
      ((''GET'', ''/api/inspection/snapshot''), Handler ''inspection_snapshot'')]"

text \<open>The arms of the \<open>match\<close>, in their order.\<close>

definition route_of :: "capture_provider \<Rightarrow> string \<Rightarrow> string \<Rightarrow> string \<Rightarrow> route_target" where
  "route_of provider request method path =
     (if method = ''OPTIONS'' then No_Content
      else if method = ''GET'' \<and> provider = Bkv \<and> path \<in> set bkv_compat_paths
      then Handler ''bkv_capture_compat_response''
      else if health_endpoint_for_route method path \<noteq> None then Handler ''service_health_response''
      else case map_of dispatch_table (method, path) of
        Some t \<Rightarrow> t
      | None \<Rightarrow>
        if queued_kind_for_route method path \<noteq> None then Handler ''production_tasks::enqueue_kind_response''
        else case map_of production_table (method, path) of
          Some t \<Rightarrow> t
        | None \<Rightarrow>
          if is_trigger_gateway_proxy_route method path then Handler ''trigger_gateway_proxy_http_response''
          else if is_sick_algorithm_reprocess_route method path
          then Handler ''sick_algorithm_reprocess_response''
          else if is_capture_json_proxy_route method path then Handler ''capture_proxy_http_response''
          else if method = ''GET'' \<and> path = ''/api/stream/latest'' \<and> uses_local_api provider
              \<and> request_targets_loopback request
          then Handler ''capture_stream_redirect_response''
          else if is_capture_binary_proxy_route method path then Handler ''capture_proxy_http_response''
          else if method = ''GET'' \<and> \<not> starts_with path ''/api/'' \<and> \<not> starts_with path ''/internal/''
          then Web_Asset
          else Not_Found)"

end
