(* ===== verification/Route_Props.thy ===== *)
theory Route_Props
  imports Service_Routes
begin

text \<open>
  What the tables of \<open>app/service/src/main.rs\<close> guarantee: which requests that change state are open to
  everyone, that the permissions they name exist, and what the guards of the operating mode let through.
\<close>

section \<open>The permission table\<close>

definition open_capture_routes :: "(string \<times> string) list" where
  "open_capture_routes =
     [(''POST'', ''/api/steel/capture-mode''), (''POST'', ''/api/steel/event''),
      (''POST'', ''/api/preview/capture''), (''POST'', ''/api/capture/preview''),
      (''POST'', ''/api/capture/depth-map''), (''POST'', ''/api/capture/continuous-settings''),
      (''POST'', ''/api/stream/start''), (''POST'', ''/api/stream/stop'')]"

definition session_routes :: "(string \<times> string) list" where
  "session_routes = [(''POST'', ''/api/admin/auth/login''), (''POST'', ''/api/admin/auth/logout'')]"

fun internal_target :: "route_target \<Rightarrow> bool" where
  "internal_target (Internal _ _) = True"
| "internal_target _ = False"

definition guarded :: "(string \<times> string) list \<Rightarrow> string \<times> string \<Rightarrow> bool" where
  "guarded ex r =
     (if mutating_method (fst r)
      then (if r \<in> set ex then True else permission_for_route (fst r) (snd r) \<noteq> None)
      else True)"

lemma dispatch_table_guarded: "list_all (\<lambda>(r, t). guarded session_routes r) dispatch_table"
  by code_simp

lemma production_table_guarded:
  "list_all (\<lambda>(r, t). if internal_target t then True else guarded [] r) production_table"
  by code_simp

lemma json_proxy_guarded: "list_all (guarded open_capture_routes) capture_json_proxy_routes"
  by code_simp

lemma other_proxies_guarded:
  "list_all (guarded [])
     (capture_binary_proxy_routes @ trigger_gateway_proxy_routes
      @ map (Pair ''POST'') [''/api/capture/alignment/rebuild'', ''/api/capture/measurement/rebuild'',
          ''/api/capture/defects/rebuild'', ''/api/production/tasks/steel-info'',
          ''/api/production/tasks/steel-in'', ''/api/production/tasks/steel-out'',
          ''/api/production/tasks/trigger-event''])"
  by code_simp

lemma open_routes_open:
  "list_all (\<lambda>r. permission_for_route (fst r) (snd r) = None) (open_capture_routes @ session_routes)"
  by code_simp

lemma open_routes_dispatched:
  "list_all (\<lambda>r. route_of HeadlessCpp [] (fst r) (snd r) = Handler ''capture_proxy_http_response'')
     open_capture_routes"
  by code_simp

lemma permission_in_table:
  "permission_for_route m p = Some q \<Longrightarrow> \<exists>routes. (routes, q) \<in> set permission_table \<and> (m, p) \<in> set routes"
  unfolding permission_for_route_def by (drule find_map_Some) (auto split: if_splits)

lemma session_routes_dispatched:
  "map (\<lambda>r. route_of HeadlessCpp [] (fst r) (snd r)) session_routes
     = [Handler ''write_auth_login_response'', Handler ''write_auth_logout_response'']"
  by code_simp

lemma mutating_not_get: "mutating_method m \<Longrightarrow> m \<noteq> ''GET'' \<and> m \<noteq> ''OPTIONS''"
  by (auto simp: mutating_method_def)

lemma route_of_mutating:
  "mutating_method m \<Longrightarrow> route_of provider request m p = route_of HeadlessCpp [] m p"
  by (drule mutating_not_get) (simp only: route_of_def simp_thms if_False)

lemma guardedD:
  "guarded ex (m, p) \<Longrightarrow> mutating_method m \<Longrightarrow> permission_for_route m p = None \<Longrightarrow> (m, p) \<in> set ex"
  by (simp add: guarded_def split: if_splits)

lemma dispatch_guarded: "map_of dispatch_table r = Some t \<Longrightarrow> guarded session_routes r"
  using dispatch_table_guarded by (auto simp: list_all_iff dest!: map_of_SomeD)

lemma production_guarded: "map_of production_table r = Some t \<Longrightarrow> internal_target t \<or> guarded [] r"
  using production_table_guarded by (force simp: list_all_iff dest!: map_of_SomeD split: if_splits)

lemma queued_guarded: "queued_kind_for_route m p \<noteq> None \<Longrightarrow> guarded [] (m, p)"
  using other_proxies_guarded by (auto simp: queued_kind_for_route_def list_all_iff split: if_splits)

lemma proxy_guarded:
  "is_trigger_gateway_proxy_route m p \<Longrightarrow> guarded [] (m, p)"
  "is_sick_algorithm_reprocess_route m p \<Longrightarrow> guarded [] (m, p)"
  "is_capture_binary_proxy_route m p \<Longrightarrow> guarded [] (m, p)"
  "is_capture_json_proxy_route m p \<Longrightarrow> guarded open_capture_routes (m, p)"
  using other_proxies_guarded json_proxy_guarded
  unfolding is_trigger_gateway_proxy_route_def is_sick_algorithm_reprocess_route_def
    is_capture_binary_proxy_route_def is_capture_json_proxy_route_def list_all_iff
  by (force, force, force, blast)

lemma open_route_listed:
  assumes "mutating_method m" and "permission_for_route m p = None"
    and "route_of provider request m p = Handler h"
  shows "(m, p) \<in> set session_routes \<or> (m, p) \<in> set open_capture_routes"
proof (rule ccontr)
  assume n: "\<not> ?thesis"
  have no: "\<not> guarded [] (m, p)" "\<not> guarded session_routes (m, p)" "\<not> guarded open_capture_routes (m, p)"
    using guardedD [OF _ assms(1,2)] n by fastforce+
  have h: "health_endpoint_for_route m p = None"
    using mutating_not_get [OF assms(1)] by (simp add: health_endpoint_for_route_def)
  have d: "map_of dispatch_table (m, p) = None"
    using dispatch_guarded no(2) by (cases "map_of dispatch_table (m, p)") auto
  have q: "queued_kind_for_route m p = None" using queued_guarded no(1) by blast
  have x: "\<not> is_trigger_gateway_proxy_route m p" "\<not> is_sick_algorithm_reprocess_route m p"
    "\<not> is_capture_binary_proxy_route m p" "\<not> is_capture_json_proxy_route m p"
    using proxy_guarded no by blast+
  show False
  proof (cases "map_of production_table (m, p)")
    case None
    with h d q x mutating_not_get [OF assms(1)] assms(3) show False by (simp add: route_of_def)
  next
    case (Some t)
    with production_guarded [OF Some] no(1) have "internal_target t" by blast
    with Some h d q mutating_not_get [OF assms(1)] assms(3) show False
      by (cases t) (simp_all add: route_of_def)
  qed
qed

section \<open>Properties\<close>



text \<open>
  Every permission a route names is one of the catalogue, or the permission each session has; and the
  routes the trigger gateway may use with its token alone are routes of the permission for services.
\<close>
theorem route_permissions_known:
  "(case permission_for_route m p of
      Some q \<Rightarrow> is_known_admin_permission q \<or> q = ''admin.self'' | None \<Rightarrow> True)
   \<and> (is_trigger_service_mutation_route m p \<longrightarrow> permission_for_route m p = Some ''admin.services'')"
proof
  have "list_all (\<lambda>(rs, q). is_known_admin_permission q \<or> q = ''admin.self'') permission_table"
    by (simp add: permission_table_def is_known_admin_permission_def admin_permission_ids_def)
  then show "case permission_for_route m p of
      Some q \<Rightarrow> is_known_admin_permission q \<or> q = ''admin.self'' | None \<Rightarrow> True"
    by (auto simp: list_all_iff split: option.splits dest!: permission_in_table)
  have "list_all (\<lambda>p. permission_for_route ''POST'' p = Some ''admin.services'')
      [''/api/production/tasks/steel-info'', ''/api/production/tasks/steel-in'',
       ''/api/production/tasks/steel-out'', ''/api/production/tasks/trigger-event'',
       ''/api/production/steel-info'', ''/api/production/steel-in'', ''/api/production/steel-out'',
       ''/api/production/trigger-event'', ''/api/production/secondary-data'',
       ''/api/production/capture-summary'', ''/api/production/capture-once'', ''/api/production/defect'']"
    by code_simp
  then show "is_trigger_service_mutation_route m p \<longrightarrow> permission_for_route m p = Some ''admin.services''"
    unfolding is_trigger_service_mutation_route_def list_all_iff by blast
qed

theorem route_permissions_known_witness:
  "permission_for_route ''POST'' ''/api/production/steel-in'' = Some ''admin.services''"
proof -
  have "is_trigger_service_mutation_route ''POST'' ''/api/production/steel-in''"
    by (simp add: is_trigger_service_mutation_route_def)
  with route_permissions_known [of "''POST''" "''/api/production/steel-in''"] show ?thesis by blast
qed

text \<open>
  A request that passes the guards of the operating mode and of the capabilities needs no capability
  the active profile lacks.  Offline, only the replay of stored data is left; in simulation no camera is
  accessed directly, and no trigger or plant event that changes state passes.
\<close>
theorem mode_guards_sound:
  assumes "runtime_mode_guard_response_for_request env m p body = None"
    and "runtime_capability_guard_response_for_request env m p body = None"
  shows "(\<forall>c. runtime_capability_for_request env m p body = Some c \<longrightarrow>
        allows (sv_config env) c
        \<and> (rc_acquisition_mode (sv_config env) = Offline \<longrightarrow> c = OfflineReplay)
        \<and> (rc_acquisition_mode (sv_config env) = Simulation \<longrightarrow> c \<noteq> DirectCamera))
    \<and> (rc_acquisition_mode (sv_config env) = Simulation \<and> mutating_method m \<longrightarrow>
        \<not> starts_with p ''/api/trigger/'' \<and> p \<noteq> ''/api/steel/event'' \<and> p \<noteq> ''/api/steel/capture-mode'')"
proof (intro conjI allI impI)
  fix c
  assume c: "runtime_capability_for_request env m p body = Some c"
  then show "allows (sv_config env) c"
    using assms(2) by (simp add: runtime_capability_guard_response_for_request_def split: if_splits)
  show "c = OfflineReplay" if "rc_acquisition_mode (sv_config env) = Offline"
    using assms(1) c that
    by (cases c) (simp_all add: runtime_mode_guard_response_for_request_def Let_def split: if_splits)
  show "c \<noteq> DirectCamera" if "rc_acquisition_mode (sv_config env) = Simulation"
    using assms(1) c that
    by (cases c) (simp_all add: runtime_mode_guard_response_for_request_def Let_def split: if_splits)
next
  assume m: "rc_acquisition_mode (sv_config env) = Simulation \<and> mutating_method m"
  then show "\<not> starts_with p ''/api/trigger/''" "p \<noteq> ''/api/steel/event''" "p \<noteq> ''/api/steel/capture-mode''"
    using assms(1) by (auto simp: runtime_mode_guard_response_for_request_def Let_def split: if_splits)
qed

theorem mode_guards_sound_witness:
  "runtime_capability_for_request (demo_service_env demo_serde) ''POST'' ''/api/production/steel-in'' [] = Some CaptureManagement
    \<and> allows (sv_config (demo_service_env demo_serde)) CaptureManagement"
proof -
  have "runtime_mode_guard_response_for_request (demo_service_env demo_serde) ''POST'' ''/api/production/steel-in'' [] = None"
    "runtime_capability_guard_response_for_request (demo_service_env demo_serde) ''POST'' ''/api/production/steel-in'' [] = None"
    and c: "runtime_capability_for_request (demo_service_env demo_serde) ''POST'' ''/api/production/steel-in'' [] = Some CaptureManagement"
    by code_simp+
  from mode_guards_sound [OF this(1,2)] c show ?thesis by blast
qed

end
