(* ===== verification/Admin_Store.thy ===== *)
theory Admin_Store
  imports Service_Routes
begin

text \<open>
  Accounts, roles and the security policy: the tables and password hashes of \<open>app/service/src/db/mod.rs\<close>,
  and the policy stored under its configuration key with its bounds, from \<open>app/service/src/main.rs\<close>.
  Argon2 is a parameter; the legacy hash and the 64-bit FNV-1a hash are computed.
\<close>

section \<open>Hashes\<close>

fun show_hex :: "nat \<Rightarrow> string" where
  "show_hex n =
     (let d = (\<lambda>k. if k < 10 then char_of (48 + k) else char_of (87 + k))
      in if n < 16 then [d n] else show_hex (n div 16) @ [d (n mod 16)])"

definition hex16 :: "64 word \<Rightarrow> string" where
  "hex16 w = pad_zeros 16 (show_hex (unat w))"

definition fnv_offset :: "64 word" where "fnv_offset = 0xcbf29ce484222325"

definition fnv_prime :: "64 word" where "fnv_prime = 0x100000001b3"

definition fnv1a :: "string \<Rightarrow> 64 word" where
  "fnv1a s = foldl (\<lambda>h c. (h XOR word_of_nat (byte c)) * fnv_prime) fnv_offset s"

definition create_session_token :: "string \<Rightarrow> nat \<Rightarrow> string" where
  "create_session_token user_id now =
     ''adm-'' @ show_nat now @ ''-''
     @ hex16 (fnv1a (user_id @ '':'' @ show_nat now @ '':'' @ show_nat now))"

definition create_session_id :: "string \<Rightarrow> string \<Rightarrow> nat \<Rightarrow> string" where
  "create_session_id user_id token created_at =
     ''ses-'' @ show_nat created_at @ ''-''
     @ hex16 (fnv1a (user_id @ '':'' @ token @ '':'' @ show_nat created_at))"

section \<open>Passwords\<close>

text \<open>
  Argon2: \<open>a2_verify\<close> parses the stored hash and verifies a password against it, \<open>a2_hash\<close> hashes with the
  salt drawn at a point of time.
\<close>

record argon2 =
  a2_verify :: "string \<Rightarrow> string \<Rightarrow> bool"
  a2_hash :: "nat \<Rightarrow> string \<Rightarrow> string"

definition legacy_step :: "64 word \<Rightarrow> char \<Rightarrow> 64 word" where
  "legacy_step hash c =
     (let h = (hash XOR word_of_nat (byte c)) * fnv_prime in h XOR word_rotl 13 h)"

definition legacy_admin_password_hash :: "string \<Rightarrow> string \<Rightarrow> string" where
  "legacy_admin_password_hash user_id password =
     ''steel-v1:'' @ user_id @ '':''
     @ hex16 (foldl legacy_step fnv_offset (''steel-inspection-admin-auth:v1'' @ user_id @ '':'' @ password))"

definition admin_password_hash_needs_upgrade :: "string \<Rightarrow> bool" where
  "admin_password_hash_needs_upgrade password_hash \<longleftrightarrow> \<not> starts_with password_hash ''$argon2''"

definition verify_admin_password :: "argon2 \<Rightarrow> admin_user \<Rightarrow> string \<Rightarrow> bool" where
  "verify_admin_password a2 user password =
     (if u_password_hash user = [] then False
      else if starts_with (u_password_hash user) ''$argon2'' then a2_verify a2 (u_password_hash user) password
      else u_password_hash user = legacy_admin_password_hash (u_id user) password)"

definition development_default_admin_password :: string where
  "development_default_admin_password = ''admin123''"

datatype password_policy_error = Password_Missing | Password_Length | Password_Complexity

definition admin_password_min_len :: nat where "admin_password_min_len = 8"

definition admin_password_max_len :: nat where "admin_password_max_len = 128"

definition is_ascii_alphabetic :: "char \<Rightarrow> bool" where
  "is_ascii_alphabetic c \<longleftrightarrow> is_ascii_alphanumeric c \<and> \<not> is_ascii_digit c"

definition validate_admin_password :: "string option \<Rightarrow> password_policy_error + unit" where
  "validate_admin_password password =
     (case password of
        None \<Rightarrow> Inl Password_Missing
      | Some p \<Rightarrow>
          if p = [] then Inl Password_Missing
          else if length p < admin_password_min_len \<or> admin_password_max_len < length p
          then Inl Password_Length
          else if \<not> list_ex is_ascii_alphabetic p \<or> \<not> list_ex is_ascii_digit p then Inl Password_Complexity
          else Inr ())"

fun password_policy_error_code :: "password_policy_error \<Rightarrow> string" where
  "password_policy_error_code Password_Missing = ''password required''"
| "password_policy_error_code Password_Length = ''invalid password length''"
| "password_policy_error_code Password_Complexity = ''password complexity required''"

definition password_policy_response :: "service_env \<Rightarrow> password_policy_error \<Rightarrow> string" where
  "password_policy_response env e =
     json_reply env ''400 Bad Request'' [(''code'', jint 400), (''error'', JString (password_policy_error_code e))]"

section \<open>Tables\<close>

definition find_admin_user :: "db_env \<Rightarrow> string \<Rightarrow> admin_user option dbm" where
  "find_admin_user env uid = query env (\<lambda>db. find (\<lambda>u. u_id u = uid) (db_users db))"

definition find_admin_role :: "db_env \<Rightarrow> string \<Rightarrow> admin_role option dbm" where
  "find_admin_role env rid = query env (\<lambda>db. find (\<lambda>r. r_id r = rid) (db_roles db))"

definition update_admin_user_last_login :: "db_env \<Rightarrow> string \<Rightarrow> string \<Rightarrow> unit dbm" where
  "update_admin_user_last_login env uid last_login_at =
     db_bind (find_admin_user env uid) (\<lambda>found.
     case found of
       None \<Rightarrow> db_return ()
     | Some _ \<Rightarrow> db_bind (update_user env uid (\<lambda>u. u\<lparr>u_last_login_at := last_login_at\<rparr>)) (\<lambda>_. db_return ()))"

definition update_admin_user_password :: "db_env \<Rightarrow> string \<Rightarrow> string \<Rightarrow> unit dbm" where
  "update_admin_user_password env uid password_hash =
     db_bind (find_admin_user env uid) (\<lambda>found.
     case found of
       None \<Rightarrow> db_return ()
     | Some _ \<Rightarrow>
         db_bind (update_user env uid (\<lambda>u. u\<lparr>u_password_hash := password_hash, u_must_change_password := False\<rparr>))
           (\<lambda>_. db_return ()))"

definition get_config :: "db_env \<Rightarrow> string \<Rightarrow> string option dbm" where
  "get_config env key = query env (\<lambda>db. map_option c_value (find (\<lambda>c. c_key c = key) (db_configs db)))"

section \<open>The security policy\<close>

record security_policy =
  sp_audit_retention_days :: nat
  sp_login_max_failures :: nat
  sp_login_failure_window_minutes :: nat
  sp_login_lockout_minutes :: nat
  sp_session_ttl_hours :: nat

definition login_failure_window_ms :: "security_policy \<Rightarrow> nat" where
  "login_failure_window_ms p = sp_login_failure_window_minutes p * 60 * 1000"

definition login_lockout_ms :: "security_policy \<Rightarrow> nat" where
  "login_lockout_ms p = sp_login_lockout_minutes p * 60 * 1000"

definition session_ttl_ms :: "security_policy \<Rightarrow> nat" where
  "session_ttl_ms p = sp_session_ttl_hours p * 60 * 60 * 1000"

definition default_security_policy :: security_policy where
  "default_security_policy =
     \<lparr> sp_audit_retention_days = 180, sp_login_max_failures = 5,
       sp_login_failure_window_minutes = 10 * 60 * 1000 div 60000,
       sp_login_lockout_minutes = 5 * 60 * 1000 div 60000, sp_session_ttl_hours = 8 \<rparr>"

text \<open>The parts of the error messages, UTF-8 encoded.\<close>

definition must_be_number :: string where
  "must_be_number = utf8_text
     [32, 229, 191, 133, 233, 161, 187, 230, 152, 175, 230, 149, 176, 229, 173, 151]"

definition must_be_object :: string where
  "must_be_object = utf8_text
     [32, 229, 191, 133, 233, 161, 187, 230, 152, 175, 229, 175, 185, 232, 177, 161]"

definition must_be_in :: string where
  "must_be_in = utf8_text
     [32, 229, 191, 133, 233, 161, 187, 229, 156, 168, 32]"

definition in_range :: string where
  "in_range = utf8_text
     [32, 232, 140, 131, 229, 155, 180, 229, 134, 133]"

definition must_not_be_empty :: string where
  "must_not_be_empty = utf8_text
     [32, 228, 184, 141, 232, 131, 189, 228, 184, 186, 231, 169, 186]"

definition range_error :: "string \<Rightarrow> nat \<Rightarrow> nat \<Rightarrow> string" where
  "range_error label lo hi = label @ must_be_in @ show_nat lo @ ''..'' @ show_nat hi @ in_range"

definition get_either :: "string \<Rightarrow> string \<Rightarrow> json \<Rightarrow> json option" where
  "get_either primary secondary v =
     (case value_get primary v of Some x \<Rightarrow> Some x | None \<Rightarrow> value_get secondary v)"

definition optional_bounded_u64_field ::
  "json option \<Rightarrow> string \<Rightarrow> string \<Rightarrow> nat \<Rightarrow> nat \<Rightarrow> nat \<Rightarrow> string \<Rightarrow> string + nat" where
  "optional_bounded_u64_field container primary secondary default_value lo hi label =
     (case Option.bind container (get_either primary secondary) of
        None \<Rightarrow> Inr default_value
      | Some v \<Rightarrow>
          (case as_u64 v of
             None \<Rightarrow> Inl (label @ must_be_number)
           | Some n \<Rightarrow> if lo \<le> n \<and> n \<le> hi then Inr n else Inl (range_error label lo hi)))"

definition optional_object_field :: "json \<Rightarrow> string \<Rightarrow> string \<Rightarrow> string \<Rightarrow> string + json option" where
  "optional_object_field v primary secondary label =
     (case get_either primary secondary v of
        None \<Rightarrow> Inr None
      | Some field \<Rightarrow> if is_object field then Inr (Some field) else Inl (label @ must_be_object))"

definition bind_sum :: "'e + 'a \<Rightarrow> ('a \<Rightarrow> 'e + 'b) \<Rightarrow> 'e + 'b" where
  "bind_sum r f = (case r of Inl e \<Rightarrow> Inl e | Inr x \<Rightarrow> f x)"

definition validate_security_policy_value :: "json \<Rightarrow> string + security_policy" where
  "validate_security_policy_value v =
     (case Option.bind (get_either ''auditRetentionDays'' ''audit_retention_days'' v) as_u64 of
        None \<Rightarrow> Inl (''securityPolicy.auditRetentionDays'' @ must_not_be_empty)
      | Some retention_days \<Rightarrow>
          if \<not> (1 \<le> retention_days \<and> retention_days \<le> 3650)
          then Inl (range_error ''securityPolicy.auditRetentionDays'' 1 3650)
          else
            bind_sum (optional_object_field v ''login'' ''login_policy'' ''securityPolicy.login'') (\<lambda>login.
            bind_sum (optional_object_field v ''session'' ''session_policy'' ''securityPolicy.session'') (\<lambda>session.
            bind_sum (optional_bounded_u64_field login ''maxFailures'' ''max_failures''
              (sp_login_max_failures default_security_policy) 1 20
              ''securityPolicy.login.maxFailures'') (\<lambda>max_failures.
            bind_sum (optional_bounded_u64_field login ''failureWindowMinutes'' ''failure_window_minutes''
              (sp_login_failure_window_minutes default_security_policy) 1 (24 * 60)
              ''securityPolicy.login.failureWindowMinutes'') (\<lambda>window.
            bind_sum (optional_bounded_u64_field login ''lockoutMinutes'' ''lockout_minutes''
              (sp_login_lockout_minutes default_security_policy) 1 (24 * 60)
              ''securityPolicy.login.lockoutMinutes'') (\<lambda>lockout.
            bind_sum (optional_bounded_u64_field session ''ttlHours'' ''ttl_hours''
              (sp_session_ttl_hours default_security_policy) 1 (24 * 7)
              ''securityPolicy.session.ttlHours'') (\<lambda>ttl.
            Inr \<lparr> sp_audit_retention_days = retention_days, sp_login_max_failures = max_failures,
              sp_login_failure_window_minutes = window, sp_login_lockout_minutes = lockout,
              sp_session_ttl_hours = ttl \<rparr>)))))))"

definition parse_security_policy :: "serde \<Rightarrow> string \<Rightarrow> security_policy option" where
  "parse_security_policy sd raw =
     (case from_str sd raw of
        Inl _ \<Rightarrow> None
      | Inr v \<Rightarrow> (case validate_security_policy_value v of Inr p \<Rightarrow> Some p | Inl _ \<Rightarrow> None))"

definition load_security_policy :: "service_env \<Rightarrow> security_policy handler" where
  "load_security_policy env =
     h_bind (h_db_opt (get_config (sv_db env) ''security_policy'')) (\<lambda>config.
     h_return (unwrap_or default_security_policy
       (Option.bind config (parse_security_policy (sv_serde env)))))"

section \<open>Bounds of the policy\<close>

definition policy_ok :: "security_policy \<Rightarrow> bool" where
  "policy_ok p \<longleftrightarrow>
     1 \<le> sp_audit_retention_days p \<and> sp_audit_retention_days p \<le> 3650
     \<and> 1 \<le> sp_login_max_failures p \<and> sp_login_max_failures p \<le> 20
     \<and> 1 \<le> sp_login_failure_window_minutes p \<and> sp_login_failure_window_minutes p \<le> 1440
     \<and> 1 \<le> sp_login_lockout_minutes p \<and> sp_login_lockout_minutes p \<le> 1440
     \<and> 1 \<le> sp_session_ttl_hours p \<and> sp_session_ttl_hours p \<le> 168"

lemma default_policy_ok: "policy_ok default_security_policy"
  by (simp add: policy_ok_def default_security_policy_def)

lemma bind_sum_Inr: "bind_sum r f = Inr y \<longleftrightarrow> (\<exists>x. r = Inr x \<and> f x = Inr y)"
  by (cases r) (simp_all add: bind_sum_def)

lemma optional_bounded_range:
  "optional_bounded_u64_field c a b d lo hi l = Inr n \<Longrightarrow> lo \<le> d \<Longrightarrow> d \<le> hi \<Longrightarrow> lo \<le> n \<and> n \<le> hi"
  by (auto simp: optional_bounded_u64_field_def split: option.splits if_splits)

lemma validated_policy_ok:
  assumes "validate_security_policy_value v = Inr p"
  shows "policy_ok p"
proof -
  obtain n login session a b c d where n: "1 \<le> n" "n \<le> 3650"
    and f: "optional_bounded_u64_field login ''maxFailures'' ''max_failures'' 5 1 20
        ''securityPolicy.login.maxFailures'' = Inr a"
      "optional_bounded_u64_field login ''failureWindowMinutes'' ''failure_window_minutes'' 10 1 1440
        ''securityPolicy.login.failureWindowMinutes'' = Inr b"
      "optional_bounded_u64_field login ''lockoutMinutes'' ''lockout_minutes'' 5 1 1440
        ''securityPolicy.login.lockoutMinutes'' = Inr c"
      "optional_bounded_u64_field session ''ttlHours'' ''ttl_hours'' 8 1 168
        ''securityPolicy.session.ttlHours'' = Inr d"
    and p: "p = \<lparr> sp_audit_retention_days = n, sp_login_max_failures = a, sp_login_failure_window_minutes = b,
       sp_login_lockout_minutes = c, sp_session_ttl_hours = d \<rparr>"
    using assms
    by (simp add: validate_security_policy_value_def bind_sum_Inr default_security_policy_def
        split: option.splits if_splits) blast
  from f [THEN optional_bounded_range] n show ?thesis by (simp add: policy_ok_def p)
qed

lemma loaded_policy_ok: "load_security_policy env st = (Inr p, st') \<Longrightarrow> policy_ok p"
  by (auto simp: load_security_policy_def h_bind_Inr h_return_def unwrap_or_def parse_security_policy_def
      default_policy_ok validated_policy_ok split: option.splits sum.splits Option.bind_splits)

end
