(* ===== verification/Service_Auth.thy ===== *)
theory Service_Auth
  imports Admin_Store
begin

text \<open>
  Authentication and authorisation in \<open>app/service/src/main.rs\<close>: sessions and their bearer tokens, the
  lockout after failed logins, login, logout and change of password, and the permission check every
  request passes.
\<close>

section \<open>Texts\<close>

text \<open>Details of audit rows and messages, UTF-8 encoded.\<close>

definition locked_detail :: string where
  "locked_detail = utf8_text
     [229, 144, 142, 229, 143, 176, 231, 153, 187, 229, 189, 149, 232, 162, 171, 228, 184, 180, 230,
      151, 182, 233, 148, 129, 229, 174, 154, 239, 188, 154, 229, 164, 177, 232, 180, 165, 230, 172,
      161, 230, 149, 176, 232, 191, 135, 229, 164, 154]"

definition locked_message :: string where
  "locked_message = utf8_text
     [231, 153, 187, 229, 189, 149, 229, 164, 177, 232, 180, 165, 230, 172, 161, 230, 149, 176, 232,
      191, 135, 229, 164, 154, 239, 188, 140, 232, 175, 183, 231, 168, 141, 229, 144, 142, 229, 134,
      141, 232, 175, 149]"

definition unknown_account_detail :: string where
  "unknown_account_detail = utf8_text
     [229, 144, 142, 229, 143, 176, 231, 153, 187, 229, 189, 149, 229, 164, 177, 232, 180, 165, 239,
      188, 154, 232, 180, 166, 229, 143, 183, 228, 184, 141, 229, 173, 152, 229, 156, 168]"

definition inactive_account_detail :: string where
  "inactive_account_detail = utf8_text
     [229, 144, 142, 229, 143, 176, 231, 153, 187, 229, 189, 149, 229, 164, 177, 232, 180, 165, 239,
      188, 154, 232, 180, 166, 229, 143, 183, 229, 129, 156, 231, 148, 168, 230, 136, 150, 229, 175,
      134, 231, 160, 129, 233, 148, 153, 232, 175, 175]"

definition wrong_password_detail :: string where
  "wrong_password_detail = utf8_text
     [229, 144, 142, 229, 143, 176, 231, 153, 187, 229, 189, 149, 229, 164, 177, 232, 180, 165, 239,
      188, 154, 229, 175, 134, 231, 160, 129, 233, 148, 153, 232, 175, 175]"

definition upgraded_detail :: string where
  "upgraded_detail = utf8_text
     [229, 144, 142, 229, 143, 176, 232, 180, 166, 229, 143, 183, 229, 175, 134, 231, 160, 129, 229,
      147, 136, 229, 184, 140, 229, 183, 178, 229, 141, 135, 231, 186, 167, 228, 184, 186, 32, 65,
      114, 103, 111, 110, 50, 105, 100]"

definition login_detail :: string where
  "login_detail = utf8_text
     [229, 144, 142, 229, 143, 176, 232, 180, 166, 229, 143, 183, 231, 153, 187, 229, 189, 149, 230,
      136, 144, 229, 138, 159]"

definition logout_detail :: string where
  "logout_detail = utf8_text
     [229, 144, 142, 229, 143, 176, 232, 180, 166, 229, 143, 183, 233, 128, 128, 229, 135, 186, 231,
      153, 187, 229, 189, 149]"

definition old_password_detail :: string where
  "old_password_detail = utf8_text
     [229, 189, 147, 229, 137, 141, 231, 148, 168, 230, 136, 183, 228, 191, 174, 230, 148, 185, 229,
      175, 134, 231, 160, 129, 229, 164, 177, 232, 180, 165, 239, 188, 154, 230, 151, 167, 229, 175,
      134, 231, 160, 129, 233, 148, 153, 232, 175, 175]"

definition password_changed_detail :: string where
  "password_changed_detail = utf8_text
     [229, 189, 147, 229, 137, 141, 231, 148, 168, 230, 136, 183, 228, 191, 174, 230, 148, 185, 231,
      153, 187, 229, 189, 149, 229, 175, 134, 231, 160, 129]"

definition origin_denied_detail :: string where
  "origin_denied_detail = utf8_text
     [230, 139, 146, 231, 187, 157, 233, 157, 158, 230, 156, 172, 230, 156, 186, 230, 157, 165, 230,
      186, 144, 232, 175, 183, 230, 177, 130, 239, 188, 154]"

definition permission_denied_detail :: string where
  "permission_denied_detail = utf8_text
     [230, 139, 146, 231, 187, 157, 232, 174, 191, 233, 151, 174, 239, 188, 154, 233, 156, 128, 232,
      166, 129, 230, 157, 131, 233, 153, 144, 32]"

section \<open>Responses\<close>

definition json_escape :: "string \<Rightarrow> string" where
  "json_escape s =
     concat (map (\<lambda>ch.
       if ch = CHR 0x22 then [CHR 0x5C, CHR 0x22]
       else if ch = CHR 0x5C then [CHR 0x5C, CHR 0x5C]
       else if ch = CHR 0x0A then [CHR 0x5C, CHR ''n'']
       else if ch = CHR 0x0D then [CHR 0x5C, CHR ''r'']
       else if ch = CHR 0x09 then [CHR 0x5C, CHR ''t'']
       else [ch]) s)"

text \<open>A JSON text the source writes out; \<open>!\<close> stands for the double quote.\<close>

definition quoted :: "string \<Rightarrow> string" where
  "quoted s = map (\<lambda>c. if c = CHR ''!'' then CHR 0x22 else c) s"

definition literal_reply :: "string \<Rightarrow> string \<Rightarrow> string" where
  "literal_reply status text = http_response status json_ct (quoted text)"

definition database_failure :: "string \<Rightarrow> string" where
  "database_failure e =
     http_response ''500 Internal Server Error'' json_ct (quoted ''{!error!:!'' @ json_escape e @ quoted ''!}'')"

definition auth_failure :: "service_env \<Rightarrow> string \<Rightarrow> nat \<Rightarrow> string \<Rightarrow> string" where
  "auth_failure env status code e = json_reply env status [(''code'', jint code), (''error'', JString e)]"

definition h_audit :: "service_env \<Rightarrow> string \<Rightarrow> string \<Rightarrow> string \<Rightarrow> string \<Rightarrow> string \<Rightarrow> unit handler" where
  "h_audit env actor action target detail level =
     h_effect (block_on_ignored (append_audit_log (sv_db env) actor action target detail level))"

definition h_db_failing :: "'a dbm \<Rightarrow> 'a handler" where
  "h_db_failing m = (\<lambda>st. case block_on m st of
     (Inl e, st') \<Rightarrow> (Inl (database_failure e), st') | (Inr x, st') \<Rightarrow> (Inr x, st'))"

section \<open>Sessions\<close>

type_synonym sessions = "string \<Rightarrow> admin_session option"

definition bearer_token :: "string \<Rightarrow> string option" where
  "bearer_token request =
     Option.bind (service_request_header request ''Authorization'') (\<lambda>v.
     Option.bind (map_option trim (strip_prefix ''Bearer '' v)) (\<lambda>token.
     if token \<noteq> [] then Some token else None))"

definition put_sessions :: "(sessions \<Rightarrow> sessions) \<Rightarrow> service_state \<Rightarrow> service_state" where
  "put_sessions f st =
     (case lock (ss_sessions st) of
        None \<Rightarrow> st
      | Some m \<Rightarrow> st\<lparr>ss_sessions := unlock (ss_sessions st) (f m)\<rparr>)"

definition session_from_request ::
  "service_env \<Rightarrow> string \<Rightarrow> service_state \<Rightarrow> admin_session option \<times> service_state" where
  "session_from_request env request st =
     (case bearer_token request of
        None \<Rightarrow> (None, st)
      | Some token \<Rightarrow>
          (case lock (ss_sessions st) of
             None \<Rightarrow> (None, st)
           | Some m \<Rightarrow>
               (case m token of
                  Some s \<Rightarrow>
                    if current_time_millis env st < as_expires_at s then (Some s, st)
                    else (None, put_sessions (\<lambda>m. m(token := None)) st)
                | None \<Rightarrow> (None, put_sessions (\<lambda>m. m(token := None)) st))))"

definition retain_sessions :: "(string \<Rightarrow> admin_session \<Rightarrow> bool) \<Rightarrow> sessions \<Rightarrow> sessions" where
  "retain_sessions P m =
     (\<lambda>token. case m token of Some s \<Rightarrow> if P token s then Some s else None | None \<Rightarrow> None)"

definition complete_password_change_sessions ::
  "service_env \<Rightarrow> string \<Rightarrow> string \<Rightarrow> service_state \<Rightarrow> service_state" where
  "complete_password_change_sessions env user_id keep_token st =
     (let now = current_time_millis env st
      in put_sessions (\<lambda>m.
           let m' = retain_sessions
                 (\<lambda>token s. now < as_expires_at s \<and> (as_user_id s \<noteq> user_id \<or> token = keep_token)) m
           in (case m' keep_token of
                 None \<Rightarrow> m'
               | Some s \<Rightarrow> m'(keep_token \<mapsto> s\<lparr>as_must_change_password := False\<rparr>))) st)"

definition invalidate_user_sessions :: "service_env \<Rightarrow> string \<Rightarrow> service_state \<Rightarrow> service_state" where
  "invalidate_user_sessions env user_id st =
     (let now = current_time_millis env st
      in put_sessions (retain_sessions (\<lambda>_ s. now < as_expires_at s \<and> as_user_id s \<noteq> user_id)) st)"

definition invalidate_role_sessions :: "service_env \<Rightarrow> string \<Rightarrow> service_state \<Rightarrow> service_state" where
  "invalidate_role_sessions env role st =
     (let now = current_time_millis env st
      in put_sessions (retain_sessions (\<lambda>_ s. now < as_expires_at s \<and> as_role s \<noteq> role)) st)"

definition session_user_json :: "admin_session \<Rightarrow> json" where
  "session_user_json s = mk_obj
     [(''id'', JString (as_user_id s)), (''displayName'', JString (as_display_name s)),
      (''role'', JString (as_role s)), (''permissions'', JArray (map JString (as_permissions s))),
      (''mustChangePassword'', JBool (as_must_change_password s))]"

definition auth_session_json :: "service_env \<Rightarrow> admin_session \<Rightarrow> string" where
  "auth_session_json env s = to_string (sv_serde env) (mk_obj
     [(''authenticated'', JBool True), (''token'', JString (as_token s)),
      (''createdAt'', JString (show_nat (as_created_at s))),
      (''expiresAt'', JString (show_nat (as_expires_at s))), (''user'', session_user_json s)])"

section \<open>Lockout\<close>

type_synonym login_failures = "string \<Rightarrow> login_failure_state option"

definition login_failure_key :: "string \<Rightarrow> string" where
  "login_failure_key user_id =
     (let key = to_ascii_lowercase (trim user_id) in if key = [] then ''<empty>'' else key)"

definition prune_login_failures :: "nat \<Rightarrow> security_policy \<Rightarrow> login_failures \<Rightarrow> login_failures" where
  "prune_login_failures now policy m =
     (\<lambda>key. case m key of
        Some f \<Rightarrow>
          if now < lf_locked_until f \<or> now - lf_first_failed_at f \<le> login_failure_window_ms policy
          then Some f else None
      | None \<Rightarrow> None)"

definition login_locked_until :: "string \<Rightarrow> nat \<Rightarrow> security_policy \<Rightarrow> nat option handler" where
  "login_locked_until user_id now policy =
     (\<lambda>st. case lock (ss_login_failures st) of
        None \<Rightarrow> (Inr None, st)
      | Some m \<Rightarrow>
          let m' = prune_login_failures now policy m
          in (Inr (case m' (login_failure_key user_id) of
                Some f \<Rightarrow> if now < lf_locked_until f then Some (lf_locked_until f) else None
              | None \<Rightarrow> None),
              st\<lparr>ss_login_failures := unlock (ss_login_failures st) m'\<rparr>))"

definition clear_login_failures :: "string \<Rightarrow> service_state \<Rightarrow> service_state" where
  "clear_login_failures user_id st =
     (case lock (ss_login_failures st) of
        None \<Rightarrow> st
      | Some m \<Rightarrow>
          st\<lparr>ss_login_failures := unlock (ss_login_failures st) (m(login_failure_key user_id := None))\<rparr>)"

text \<open>The entry after one more failure.\<close>

definition next_failure ::
  "nat \<Rightarrow> security_policy \<Rightarrow> login_failure_state option \<Rightarrow> login_failure_state" where
  "next_failure now policy entry =
     (let f = (case entry of
                 Some f \<Rightarrow> f
               | None \<Rightarrow> \<lparr> lf_count = 0, lf_first_failed_at = now, lf_locked_until = 0 \<rparr>);
          f1 = (if login_failure_window_ms policy < now - lf_first_failed_at f
                then \<lparr> lf_count = 0, lf_first_failed_at = now, lf_locked_until = 0 \<rparr> else f)
      in if lf_locked_until f1 \<le> now
         then let f2 = f1\<lparr>lf_count := min (lf_count f1 + 1) (2 ^ 32 - 1)\<rparr>
              in if sp_login_max_failures policy \<le> lf_count f2
                 then f2\<lparr>lf_locked_until := now + login_lockout_ms policy\<rparr> else f2
         else f1)"

definition record_login_failure ::
  "string \<Rightarrow> nat \<Rightarrow> security_policy \<Rightarrow> service_state \<Rightarrow> login_failure_state \<times> service_state" where
  "record_login_failure user_id now policy st =
     (case lock (ss_login_failures st) of
        None \<Rightarrow> (\<lparr> lf_count = 1, lf_first_failed_at = now, lf_locked_until = 0 \<rparr>, st)
      | Some m \<Rightarrow>
          let key = login_failure_key user_id;
              m' = prune_login_failures now policy m;
              f = next_failure now policy (m' key)
          in (f, st\<lparr>ss_login_failures := unlock (ss_login_failures st) (m'(key \<mapsto> f))\<rparr>))"

definition login_lockout_response :: "service_env \<Rightarrow> nat \<Rightarrow> nat \<Rightarrow> string" where
  "login_lockout_response env locked_until now =
     json_reply env ''423 Locked''
       [(''code'', jint 423), (''error'', JString ''login_locked''), (''message'', JString locked_message),
        (''lockedUntil'', JString (show_nat locked_until)), (''retryAfterMs'', jint (locked_until - now))]"

definition login_failure_response ::
  "service_env \<Rightarrow> string \<Rightarrow> nat \<Rightarrow> security_policy \<Rightarrow> string handler" where
  "login_failure_response env user_id now policy =
     (\<lambda>st. let (failure, st') = record_login_failure user_id now policy st
           in if now < lf_locked_until failure
              then h_bind (h_audit env ''anonymous'' ''auth.login.locked'' user_id locked_detail ''warning'')
                     (\<lambda>_. h_return (login_lockout_response env (lf_locked_until failure) now)) st'
              else h_return (auth_failure env ''401 Unauthorized'' 401 ''invalid_credentials'') st')"

section \<open>Login\<close>

definition json_text_field :: "json \<Rightarrow> string \<Rightarrow> string \<Rightarrow> string option" where
  "json_text_field payload camel_key snake_key =
     Option.bind (get_either camel_key snake_key payload) (\<lambda>v.
     Option.bind (as_str v) (\<lambda>s. if trim s \<noteq> [] then Some (trim s) else None))"

definition role_permissions_vec :: "serde \<Rightarrow> string \<Rightarrow> string list" where
  "role_permissions_vec sd permissions =
     (case from_str sd permissions of
        Inr (JArray items) \<Rightarrow> List.map_filter as_str items
      | _ \<Rightarrow> [])"

definition upgrade_password_hash :: "argon2 \<Rightarrow> service_env \<Rightarrow> admin_user \<Rightarrow> string \<Rightarrow> unit handler" where
  "upgrade_password_hash a2 env user password =
     (if admin_password_hash_needs_upgrade (u_password_hash user)
      then (\<lambda>st.
        let upgraded = a2_hash a2 (db_tick (ss_database st)) password
        in case block_on (update_admin_user_password (sv_db env) (u_id user) upgraded) st of
             (Inr _, st') \<Rightarrow>
               h_audit env (u_id user) ''auth.password.upgrade'' (u_id user) upgraded_detail ''info'' st'
           | (Inl _, st') \<Rightarrow> (Inr (), st'))
      else h_return ())"

definition new_session ::
  "service_env \<Rightarrow> string \<Rightarrow> admin_user \<Rightarrow> admin_role \<Rightarrow> security_policy \<Rightarrow> nat \<Rightarrow> string \<Rightarrow> admin_session" where
  "new_session env request user role policy now token =
     \<lparr> as_session_id = create_session_id (u_id user) token now, as_token = token,
       as_user_id = u_id user, as_display_name = u_display_name user, as_role = u_role user,
       as_permissions = role_permissions_vec (sv_serde env) (r_permissions role),
       as_must_change_password = u_must_change_password user,
       as_user_agent = unwrap_or ''unknown'' (service_request_header request ''User-Agent''),
       as_created_at = now, as_expires_at = now + session_ttl_ms policy \<rparr>"

definition open_session ::
  "service_env \<Rightarrow> string \<Rightarrow> admin_user \<Rightarrow> admin_role \<Rightarrow> security_policy \<Rightarrow> nat \<Rightarrow> string handler" where
  "open_session env request user role policy now =
     h_bind (h_get (\<lambda>st. create_session_token (u_id user) (current_time_millis env st))) (\<lambda>token.
     let session = new_session env request user role policy now token in
     h_bind (h_effect (put_sessions (\<lambda>m. m(token \<mapsto> session)))) (\<lambda>_.
     h_bind (h_effect (block_on_ignored
       (update_admin_user_last_login (sv_db env) (u_id user) (show_nat now)))) (\<lambda>_.
     h_bind (h_audit env (u_id user) ''auth.login'' (u_id user) login_detail ''info'') (\<lambda>_.
     h_return (http_response ''200 OK'' json_ct (auth_session_json env session))))))"

definition refuse_login ::
  "service_env \<Rightarrow> string \<Rightarrow> string \<Rightarrow> string \<Rightarrow> nat \<Rightarrow> security_policy \<Rightarrow> string handler" where
  "refuse_login env actor user_id detail now policy =
     h_bind (h_audit env actor ''auth.login.failed'' user_id detail ''warning'')
       (\<lambda>_. login_failure_response env user_id now policy)"

definition accept_login ::
  "argon2 \<Rightarrow> service_env \<Rightarrow> string \<Rightarrow> admin_user \<Rightarrow> string \<Rightarrow> security_policy \<Rightarrow> nat \<Rightarrow> string handler" where
  "accept_login a2 env request user password policy now =
     h_bind (upgrade_password_hash a2 env user password) (\<lambda>_.
     h_bind (h_db_opt (find_admin_role (sv_db env) (u_role user))) (\<lambda>role.
     case role of
       None \<Rightarrow> h_return (auth_failure env ''403 Forbidden'' 403 ''role_disabled'')
     | Some r \<Rightarrow>
         if r_status r \<noteq> ''active'' then h_return (auth_failure env ''403 Forbidden'' 403 ''role_disabled'')
         else h_bind (h_effect (clear_login_failures (u_id user))) (\<lambda>_.
              open_session env request user r policy now)))"

definition login_account ::
  "argon2 \<Rightarrow> service_env \<Rightarrow> string \<Rightarrow> string \<Rightarrow> bool \<Rightarrow> string \<Rightarrow> nat \<Rightarrow> security_policy \<Rightarrow> string handler" where
  "login_account a2 env request user_id default_access password now policy =
     h_bind (h_db_failing (find_admin_user (sv_db env) user_id)) (\<lambda>found.
     case found of
       None \<Rightarrow> refuse_login env ''anonymous'' user_id unknown_account_detail now policy
     | Some user \<Rightarrow>
         if u_status user \<noteq> ''active''
         then refuse_login env (u_id user) (u_id user) inactive_account_detail now policy
         else if \<not> verify_admin_password a2 user password
         then (if default_access then h_return (auth_failure env ''401 Unauthorized'' 401 ''password_configured'')
               else refuse_login env (u_id user) (u_id user) wrong_password_detail now policy)
         else accept_login a2 env request user password policy now)"

definition login_attempt ::
  "argon2 \<Rightarrow> service_env \<Rightarrow> string \<Rightarrow> string \<Rightarrow> bool \<Rightarrow> string \<Rightarrow> string handler" where
  "login_attempt a2 env request user_id default_access password =
     h_bind (h_get (current_time_millis env)) (\<lambda>now.
     h_bind (load_security_policy env) (\<lambda>policy.
     h_bind (login_locked_until user_id now policy) (\<lambda>locked.
     case locked of
       Some until \<Rightarrow>
         h_bind (h_audit env ''anonymous'' ''auth.login.locked'' user_id locked_detail ''warning'')
           (\<lambda>_. h_return (login_lockout_response env until now))
     | None \<Rightarrow> login_account a2 env request user_id default_access password now policy)))"

definition write_auth_login_response ::
  "argon2 \<Rightarrow> service_env \<Rightarrow> string \<Rightarrow> string \<Rightarrow> service_state \<Rightarrow> string \<times> service_state" where
  "write_auth_login_response a2 env request body =
     respond (case from_str (sv_serde env) (trim body) of
       Inl _ \<Rightarrow> h_reply (literal_reply ''400 Bad Request'' ''{!code!:400,!error!:!invalid login json!}'')
     | Inr payload \<Rightarrow>
         (case (case json_text_field payload ''userId'' ''user_id'' of
                  Some u \<Rightarrow> Some u | None \<Rightarrow> json_text_field payload ''id'' ''id'') of
            None \<Rightarrow> h_reply (literal_reply ''400 Bad Request'' ''{!code!:400,!error!:!user id required!}'')
          | Some user_id \<Rightarrow>
              let default_access =
                    unwrap_or False (Option.bind (get_either ''defaultAccess'' ''default_access'' payload) as_bool)
              in case (if default_access then Some development_default_admin_password
                       else get_str ''password'' payload) of
                   None \<Rightarrow> h_reply (literal_reply ''400 Bad Request'' ''{!code!:400,!error!:!password required!}'')
                 | Some password \<Rightarrow> login_attempt a2 env request user_id default_access password))"

section \<open>Session requests\<close>

definition read_auth_me_response :: "service_env \<Rightarrow> string \<Rightarrow> service_state \<Rightarrow> string \<times> service_state" where
  "read_auth_me_response env request st =
     (let (session, st') = session_from_request env request st
      in (case session of
            Some s \<Rightarrow> http_response ''200 OK'' json_ct (auth_session_json env s)
          | None \<Rightarrow> literal_reply ''200 OK'' ''{!authenticated!:false}'', st'))"

definition write_auth_logout_response ::
  "service_env \<Rightarrow> string \<Rightarrow> service_state \<Rightarrow> string \<times> service_state" where
  "write_auth_logout_response env request st =
     (let removed = Option.bind (bearer_token request) (\<lambda>token.
            Option.bind (lock (ss_sessions st)) (\<lambda>m. m token));
          st1 = (case bearer_token request of
                   None \<Rightarrow> st | Some token \<Rightarrow> put_sessions (\<lambda>m. m(token := None)) st);
          st2 = (case removed of
                   None \<Rightarrow> st1
                 | Some s \<Rightarrow> block_on_ignored (append_audit_log (sv_db env) (as_user_id s) ''auth.logout''
                     (as_user_id s) logout_detail ''info'') st1)
      in (literal_reply ''200 OK'' ''{!code!:0,!message!:!logged out!}'', st2))"

text \<open>The tail of a change of password, once the new password is valid.\<close>

definition change_password ::
  "argon2 \<Rightarrow> service_env \<Rightarrow> admin_session \<Rightarrow> string \<Rightarrow> string \<Rightarrow> string \<Rightarrow> string handler" where
  "change_password a2 env session token current_password new_password =
     h_bind (h_db_failing (find_admin_user (sv_db env) (as_user_id session))) (\<lambda>found.
     case found of
       None \<Rightarrow> h_return (auth_failure env ''401 Unauthorized'' 401 ''invalid_credentials'')
     | Some user \<Rightarrow>
         if u_status user \<noteq> ''active'' then h_return (auth_failure env ''401 Unauthorized'' 401 ''invalid_credentials'')
         else if \<not> verify_admin_password a2 user current_password
         then h_bind (h_audit env (as_user_id session) ''auth.password.failed'' (as_user_id session)
                old_password_detail ''warning'')
                (\<lambda>_. h_return (auth_failure env ''401 Unauthorized'' 401 ''invalid_credentials''))
         else
           h_bind (h_get (\<lambda>st. a2_hash a2 (db_tick (ss_database st)) new_password)) (\<lambda>password_hash.
           h_bind (h_db_failing (update_admin_user_password (sv_db env) (as_user_id session) password_hash)) (\<lambda>_.
           h_bind (h_effect (complete_password_change_sessions env (as_user_id session) token)) (\<lambda>_.
           h_bind (h_audit env (as_user_id session) ''auth.password.change'' (as_user_id session)
             password_changed_detail ''warning'') (\<lambda>_.
           h_return (literal_reply ''200 OK'' ''{!code!:0,!message!:!password changed!}''))))))"

definition write_auth_password_response ::
  "argon2 \<Rightarrow> service_env \<Rightarrow> string \<Rightarrow> string \<Rightarrow> service_state \<Rightarrow> string \<times> service_state" where
  "write_auth_password_response a2 env request body st =
     (let (found, st') = session_from_request env request st in
      case found of
        None \<Rightarrow> (auth_failure env ''401 Unauthorized'' 401 ''auth_required'', st')
      | Some session \<Rightarrow>
        case bearer_token request of
          None \<Rightarrow> (auth_failure env ''401 Unauthorized'' 401 ''auth_required'', st')
        | Some token \<Rightarrow>
          case from_str (sv_serde env) (trim body) of
            Inl _ \<Rightarrow> (literal_reply ''400 Bad Request'' ''{!code!:400,!error!:!invalid password json!}'', st')
          | Inr payload \<Rightarrow>
            let current_password = unwrap_or []
                  (Option.bind (get_either ''currentPassword'' ''current_password'' payload) as_str);
                new_password = unwrap_or []
                  (Option.bind (get_either ''newPassword'' ''new_password'' payload) as_str);
                confirm_password = unwrap_or new_password
                  (Option.bind (get_either ''confirmPassword'' ''confirm_password'' payload) as_str)
            in case validate_admin_password (Some new_password) of
                 Inl e \<Rightarrow> (password_policy_response env e, st')
               | Inr _ \<Rightarrow>
                 if new_password \<noteq> confirm_password
                 then (literal_reply ''400 Bad Request'' ''{!code!:400,!error!:!password confirmation mismatch!}'', st')
                 else if current_password = new_password
                 then (literal_reply ''400 Bad Request'' ''{!code!:400,!error!:!new password must be different!}'', st')
                 else respond (change_password a2 env session token current_password new_password) st')"

section \<open>Authorisation\<close>

definition append_origin_audit ::
  "service_env \<Rightarrow> string \<Rightarrow> string \<Rightarrow> string \<Rightarrow> service_state \<Rightarrow> service_state" where
  "append_origin_audit env request method path st =
     (let (session, st') = session_from_request env request st;
          actor = (case session of Some s \<Rightarrow> as_user_id s | None \<Rightarrow> ''anonymous'');
          origin = (case service_request_header request ''Origin'' of
                      Some v \<Rightarrow> v
                    | None \<Rightarrow> unwrap_or ''unknown'' (service_request_header request ''Referer''))
      in block_on_ignored (append_audit_log (sv_db env) actor ''auth.origin.denied''
           (method @ '' '' @ path) (origin_denied_detail @ origin) ''warning'') st')"

definition append_authorization_audit ::
  "service_env \<Rightarrow> string \<Rightarrow> string \<Rightarrow> string \<Rightarrow> string \<Rightarrow> string \<Rightarrow> service_state \<Rightarrow> service_state" where
  "append_authorization_audit env actor action method path required_permission st =
     block_on_ignored (append_audit_log (sv_db env) actor action (method @ '' '' @ path)
       (permission_denied_detail @ required_permission) ''warning'') st"

text \<open>
  The permission a request needs; the outer \<open>None\<close> is the panic while the query of a file request is
  decoded.
\<close>

definition required_permission :: "string \<Rightarrow> string \<Rightarrow> string \<Rightarrow> string option option" where
  "required_permission request method path =
     (case permission_for_route method path of
        Some p \<Rightarrow> Some (Some p)
      | None \<Rightarrow>
          if method = ''GET'' \<and> path = ''/api/production/file''
          then
            let raw_path = nth_or_empty (split_whitespace (nth_or_empty (str_lines request) 0)) 1
            in map_option (\<lambda>v. case v of
                   Some file \<Rightarrow> if starts_with file ''bkv://'' then Some ''admin.records'' else None
                 | None \<Rightarrow> None)
                 (query_value (snd (split_path_and_query raw_path)) ''path'')
          else Some None)"

definition password_change_routes :: "(string \<times> string) list" where
  "password_change_routes =
     [(''GET'', ''/api/admin/auth/me''), (''POST'', ''/api/admin/auth/password''),
      (''POST'', ''/api/admin/auth/logout'')]"

definition authorize_request ::
  "service_env \<Rightarrow> string \<Rightarrow> string \<Rightarrow> string \<Rightarrow> service_state
     \<Rightarrow> ((string + admin_session option) \<times> service_state) option" where
  "authorize_request env request method path st =
     map_option (\<lambda>required.
       let (session, st') = session_from_request env request st in
       if (case session of Some s \<Rightarrow> as_must_change_password s | None \<Rightarrow> False)
          \<and> (method, path) \<notin> set password_change_routes
       then (Inl (auth_failure env ''403 Forbidden'' 403 ''password_change_required''), st')
       else case required of
              None \<Rightarrow> (Inr session, st')
            | Some permission \<Rightarrow>
                (case session of
                   None \<Rightarrow>
                     (Inl (auth_failure env ''401 Unauthorized'' 401 ''auth_required''),
                      append_authorization_audit env ''anonymous'' ''auth.access.denied'' method path permission st')
                 | Some s \<Rightarrow>
                     if permission = ''admin.self'' \<or> permission \<in> set (as_permissions s)
                     then (Inr (Some s), st')
                     else (Inl (auth_failure env ''403 Forbidden'' 403 ''permission_denied''),
                           append_authorization_audit env (as_user_id s) ''auth.permission.denied'' method path
                             permission st')))
       (required_permission request method path)"

end
