(* ===== verification/Auth_Props.thy ===== *)
theory Auth_Props
  imports Service_Auth Worker_Props
begin

text \<open>
  What the authentication of \<open>app/service/src/main.rs\<close> guarantees: which requests an authorised session
  may make, when a session is opened, that repeated failures lock an account, and what a login with a
  legacy password hash does to a forced change of password.
\<close>

section \<open>Authorisation\<close>

lemma session_from_request_Some:
  assumes "session_from_request env request st = (Some s, st')"
  shows "st' = st \<and> (\<exists>token m. bearer_token request = Some token \<and> lock (ss_sessions st) = Some m
    \<and> m token = Some s \<and> current_time_millis env st < as_expires_at s)"
  using assms by (auto simp: session_from_request_def split: option.splits if_splits)

section \<open>Effects of the steps of a login\<close>

definition same_accounts :: "service_state \<Rightarrow> service_state \<Rightarrow> bool" where
  "same_accounts st st' \<longleftrightarrow>
     ss_sessions st' = ss_sessions st
     \<and> db_users (ss_database st') = db_users (ss_database st)
     \<and> db_roles (ss_database st') = db_roles (ss_database st)"

lemma same_accounts_refl [simp]: "same_accounts st st"
  by (simp add: same_accounts_def)

lemma audit_accounts:
  "append_audit_log env a b c d e db = (r, db') \<Longrightarrow> db_users db' = db_users db \<and> db_roles db' = db_roles db"
  by (auto simp: append_audit_log_def now_nanos_string_def now_millis_string_def db_bind_def stmt_def Let_def
      split: option.splits if_splits)

lemma h_audit_effect:
  assumes "h_audit env a b c d e st = (r, st')"
  shows "r = Inr () \<and> same_accounts st st' \<and> ss_login_failures st' = ss_login_failures st"
proof -
  obtain q db where q: "append_audit_log (sv_db env) a b c d e (ss_database st) = (q, db)" by fastforce
  from audit_accounts [OF q] q assms show ?thesis
    by (simp add: h_audit_def block_on_ignored_simp same_accounts_def)
qed

lemma load_policy_effect:
  assumes "load_security_policy env st = (r, st')"
  shows "(\<exists>p. r = Inr p \<and> policy_ok p) \<and> same_accounts st st' \<and> ss_login_failures st' = ss_login_failures st"
proof -
  obtain p where r: "r = Inr p"
    using assms by (auto simp: load_security_policy_def h_bind_any h_db_opt_any)
  moreover have "same_accounts st st' \<and> ss_login_failures st' = ss_login_failures st"
    using assms
    by (auto simp: load_security_policy_def h_bind_any h_db_opt_any get_config_def query_iff block_on_iff
        same_accounts_def)
  ultimately show ?thesis using loaded_policy_ok assms by blast
qed

lemma locked_until_effect:
  assumes "login_locked_until uid now policy st = (r, st')"
  shows "same_accounts st st'"
    and "r = Inr None \<Longrightarrow> lock (ss_login_failures st) = Some m \<Longrightarrow> m (login_failure_key uid) = Some f
      \<Longrightarrow> lf_locked_until f \<le> now"
  using assms
  by (auto simp: login_locked_until_def prune_login_failures_def Let_def same_accounts_def
      split: option.splits if_splits)

lemma failure_response_effect:
  assumes "login_failure_response env uid now policy st = (r, st')"
  shows "same_accounts st st'"
proof -
  obtain f st1 where f: "record_login_failure uid now policy st = (f, st1)" by fastforce
  then have "same_accounts st st1"
    by (auto simp: record_login_failure_def Let_def same_accounts_def split: option.splits)
  with assms f show ?thesis
    by (auto simp: login_failure_response_def h_bind_any same_accounts_def split: if_splits
        dest!: h_audit_effect)
qed

lemma refuse_login_effect:
  "refuse_login env a uid d now policy st = (r, st') \<Longrightarrow> same_accounts st st'"
  by (auto simp: refuse_login_def h_bind_any same_accounts_def dest!: h_audit_effect failure_response_effect)

lemma h_db_failing_any:
  "h_db_failing m st = (r, st') \<longleftrightarrow>
     (\<exists>db q. m (ss_database st) = (q, db) \<and> st' = st\<lparr>ss_database := db\<rparr>
        \<and> r = (case q of Inl e \<Rightarrow> Inl (database_failure e) | Inr x \<Rightarrow> Inr x))"
  by (cases "m (ss_database st)") (auto simp: h_db_failing_def block_on_simp split: sum.splits)

lemma update_user_cases:
  "update_user env uid f db = (r, db') \<Longrightarrow> db_roles db' = db_roles db"
  by (auto simp: update_user_def stmt_def Let_def split: option.splits)

lemma update_password_roles:
  "update_admin_user_password env uid h db = (r, db') \<Longrightarrow> db_roles db' = db_roles db"
  by (auto simp: update_admin_user_password_def find_admin_user_def db_bind_any query_iff
      split: option.splits dest!: update_user_cases)

lemma update_last_login_roles:
  "update_admin_user_last_login env uid h db = (r, db') \<Longrightarrow> db_roles db' = db_roles db"
  by (auto simp: update_admin_user_last_login_def find_admin_user_def db_bind_any query_iff
      split: option.splits dest!: update_user_cases)

lemma upgrade_effect:
  assumes "upgrade_password_hash a2 env user password st = (r, st')"
  shows "ss_sessions st' = ss_sessions st \<and> ss_login_failures st' = ss_login_failures st
    \<and> db_roles (ss_database st') = db_roles (ss_database st)"
proof (cases "admin_password_hash_needs_upgrade (u_password_hash user)")
  case True
  let ?h = "a2_hash a2 (db_tick (ss_database st)) password"
  obtain q db where q: "update_admin_user_password (sv_db env) (u_id user) ?h (ss_database st) = (q, db)" by fastforce
  from update_password_roles [OF q] True assms q show ?thesis
    by (cases q) (auto simp: upgrade_password_hash_def block_on_simp Let_def same_accounts_def dest!: h_audit_effect)
next
  case False
  with assms show ?thesis by (simp add: upgrade_password_hash_def)
qed

lemma open_session_effect:
  assumes "open_session env request user role policy now st = (r, st')"
  shows "ss_sessions st' = ss_sessions (put_sessions
    (\<lambda>m. m(create_session_token (u_id user) (current_time_millis env st) \<mapsto>
      new_session env request user role policy now (create_session_token (u_id user) (current_time_millis env st)))) st)"
  using assms
  by (auto simp: open_session_def Let_def h_bind_any block_on_ignored_simp same_accounts_def dest!: h_audit_effect)

text \<open>The session a successful login opens.\<close>

definition opens_session ::
  "argon2 \<Rightarrow> service_env \<Rightarrow> string \<Rightarrow> string \<Rightarrow> string \<Rightarrow> service_state \<Rightarrow> service_state \<Rightarrow> bool" where
  "opens_session a2 env request uid password st st' \<longleftrightarrow>
     (\<exists>user role policy clock.
        user \<in> set (db_users (ss_database st)) \<and> u_id user = uid \<and> u_status user = ''active''
        \<and> verify_admin_password a2 user password
        \<and> role \<in> set (db_roles (ss_database st)) \<and> r_id role = u_role user \<and> r_status role = ''active''
        \<and> policy_ok policy
        \<and> ss_sessions st' = ss_sessions (put_sessions
            (\<lambda>m. m(create_session_token uid clock \<mapsto> new_session env request user role policy
               (current_time_millis env st) (create_session_token uid clock))) st))"

lemma put_sessions_cong:
  "ss_sessions st = ss_sessions st' \<Longrightarrow> ss_sessions (put_sessions f st) = ss_sessions (put_sessions f st')"
  by (simp add: put_sessions_def split: option.splits)

lemma find_role_effect:
  assumes "h_db_opt (find_admin_role (sv_db env) rid) st = (Inr (Some role), st')"
  shows "role \<in> set (db_roles (ss_database st)) \<and> r_id role = rid"
proof -
  obtain q db where q: "find_admin_role (sv_db env) rid (ss_database st) = (q, db)" by fastforce
  with assms have "q = Inr (Some role)" by (cases q) (auto simp: h_db_opt_def block_on_simp)
  with q have "find (\<lambda>r. r_id r = rid) (db_roles (ss_database st)) = Some role"
    by (auto simp: find_admin_role_def query_Inr)
  then show ?thesis by (auto simp: find_Some_iff)
qed

lemma accept_login_effect:
  assumes "accept_login a2 env request user password policy now st = (r, st')"
  shows "ss_sessions st' = ss_sessions st
    \<or> (\<exists>role clock. role \<in> set (db_roles (ss_database st)) \<and> r_id role = u_role user \<and> r_status role = ''active''
        \<and> ss_sessions st' = ss_sessions (put_sessions
            (\<lambda>m. m(create_session_token (u_id user) clock \<mapsto> new_session env request user role policy now
               (create_session_token (u_id user) clock))) st))"
proof -
  obtain q1 st1 where u: "upgrade_password_hash a2 env user password st = (q1, st1)" by fastforce
  obtain q2 st2 where f: "h_db_opt (find_admin_role (sv_db env) (u_role user)) st1 = (q2, st2)" by fastforce
  have e1: "ss_sessions st1 = ss_sessions st" "db_roles (ss_database st1) = db_roles (ss_database st)"
    using upgrade_effect [OF u] by simp_all
  have e2: "ss_sessions st2 = ss_sessions st1" "db_roles (ss_database st2) = db_roles (ss_database st1)"
    using f by (auto simp: h_db_opt_any find_admin_role_def query_iff)
  have q1: "q1 = Inr ()"
    using u by (auto simp: upgrade_password_hash_def Let_def split: if_splits sum.splits prod.splits
        dest!: h_audit_effect)
  show ?thesis
  proof (cases "\<exists>role. q2 = Inr (Some role) \<and> r_status role = ''active''")
    case True
    then obtain role where role: "q2 = Inr (Some role)" "r_status role = ''active''" by blast
    have mem: "role \<in> set (db_roles (ss_database st))" "r_id role = u_role user"
      using find_role_effect [OF f [unfolded role(1)]] e1(2) by simp_all
    let ?st3 = "clear_login_failures (u_id user) st2"
    have s3: "ss_sessions ?st3 = ss_sessions st"
      using e1 e2 by (simp add: clear_login_failures_def split: option.splits)
    have "open_session env request user role policy now ?st3 = (r, st')"
      using assms u f role q1 by (simp add: accept_login_def h_bind_def h_effect_def)
    from open_session_effect [OF this] have "ss_sessions st' = ss_sessions (put_sessions
        (\<lambda>m. m(create_session_token (u_id user) (current_time_millis env ?st3) \<mapsto>
          new_session env request user role policy now
            (create_session_token (u_id user) (current_time_millis env ?st3)))) st)"
      by (simp only: put_sessions_cong [OF s3])
    with mem role(2) show ?thesis by blast
  next
    case False
    with assms u f q1 e1 e2 show ?thesis
      by (cases q2) (auto simp: accept_login_def h_bind_def h_effect_def h_return_def split: option.splits if_splits)
  qed
qed

lemma find_user_effect:
  assumes "find_admin_user env uid db = (q, db')"
  shows "db_users db' = db_users db \<and> db_roles db' = db_roles db"
    and "q = Inr (Some user) \<Longrightarrow> user \<in> set (db_users db) \<and> u_id user = uid"
  using assms find_SomeD [of "\<lambda>u. u_id u = uid" "db_users db" user]
  by (auto simp: find_admin_user_def query_iff split: option.splits)

lemma login_account_effect:
  assumes "login_account a2 env request uid da password now policy st = (r, st')" and "policy_ok policy"
    and "now = current_time_millis env st0" and "same_accounts st0 st"
  shows "ss_sessions st' = ss_sessions st0 \<or> opens_session a2 env request uid password st0 st'"
proof -
  obtain q db where q: "find_admin_user (sv_db env) uid (ss_database st) = (q, db)" by fastforce
  let ?st1 = "st\<lparr>ss_database := db\<rparr>"
  have same: "same_accounts st0 ?st1"
    using find_user_effect(1) [OF q] assms(4) by (simp add: same_accounts_def)
  have refused: "ss_sessions st' = ss_sessions st0" if "refuse_login env a u d now policy ?st1 = (r, st')" for a u d
    using refuse_login_effect [OF that] same by (simp add: same_accounts_def)
  show ?thesis
  proof (cases "\<exists>user. q = Inr (Some user) \<and> u_status user = ''active'' \<and> verify_admin_password a2 user password")
    case True
    then obtain user where user: "q = Inr (Some user)" "u_status user = ''active''" "verify_admin_password a2 user password"
      by blast
    have mem: "user \<in> set (db_users (ss_database st0))" "u_id user = uid"
      using find_user_effect(2) [OF q user(1)] assms(4) by (simp_all add: same_accounts_def)
    have "accept_login a2 env request user password policy now ?st1 = (r, st')"
      using assms(1) q user by (simp add: login_account_def h_bind_def h_db_failing_def block_on_simp)
    from accept_login_effect [OF this] show ?thesis
    proof
      assume "ss_sessions st' = ss_sessions ?st1"
      with same show ?thesis by (simp add: same_accounts_def)
    next
      assume "\<exists>role clock. role \<in> set (db_roles (ss_database ?st1)) \<and> r_id role = u_role user
        \<and> r_status role = ''active'' \<and> ss_sessions st' = ss_sessions (put_sessions
            (\<lambda>m. m(create_session_token (u_id user) clock \<mapsto> new_session env request user role policy now
               (create_session_token (u_id user) clock))) ?st1)"
      then obtain role clock where role: "role \<in> set (db_roles (ss_database ?st1))" "r_id role = u_role user"
        "r_status role = ''active''" and put: "ss_sessions st' = ss_sessions (put_sessions
            (\<lambda>m. m(create_session_token (u_id user) clock \<mapsto> new_session env request user role policy now
               (create_session_token (u_id user) clock))) ?st1)" by blast
      have "ss_sessions ?st1 = ss_sessions st0" using same by (simp add: same_accounts_def)
      from put put_sessions_cong [OF this] role same mem user(2,3) assms(2,3) show ?thesis
        unfolding opens_session_def same_accounts_def by metis
    qed
  next
    case False
    with assms(1) q same refused show ?thesis
      by (cases q) (auto simp: login_account_def h_bind_def h_db_failing_def block_on_simp same_accounts_def
          h_return_def split: option.splits if_splits)
  qed
qed

lemma login_attempt_effect:
  assumes "login_attempt a2 env request uid da password st = (r, st')"
  shows "ss_sessions st' = ss_sessions st \<or> opens_session a2 env request uid password st st'
      \<and> (\<forall>m f. lock (ss_login_failures st) = Some m \<longrightarrow> m (login_failure_key uid) = Some f
           \<longrightarrow> lf_locked_until f \<le> current_time_millis env st)"
proof -
  obtain policy st1 where p: "load_security_policy env st = (Inr policy, st1)" "policy_ok policy" "same_accounts st st1"
    "ss_login_failures st1 = ss_login_failures st"
    using load_policy_effect [of env st] by (cases "load_security_policy env st") auto
  let ?now = "current_time_millis env st"
  obtain locked st2 where l: "login_locked_until uid ?now policy st1 = (Inr locked, st2)"
    by (cases "lock (ss_login_failures st1)") (auto simp: login_locked_until_def Let_def)
  have same: "same_accounts st st2"
    using locked_until_effect(1) [OF l] p(3) by (simp add: same_accounts_def)
  show ?thesis
  proof (cases locked)
    case None
    then have "login_account a2 env request uid da password ?now policy st2 = (r, st')"
      using assms p l by (simp add: login_attempt_def h_bind_def h_get_def)
    from login_account_effect [OF this p(2) refl same] locked_until_effect(2) [OF l] None p(4)
    show ?thesis by auto
  next
    case (Some u)
    with assms p l same show ?thesis
      by (auto simp: login_attempt_def h_bind_def h_get_def h_return_def same_accounts_def
          split: sum.splits prod.splits dest!: h_audit_effect)
  qed
qed

lemma login_response_attempt:
  assumes "write_auth_login_response a2 env request body st = (response, st')" and "ss_sessions st' \<noteq> ss_sessions st"
  obtains payload uid da password r where "from_str (sv_serde env) (trim body) = Inr payload"
    "get_str ''password'' payload = Some password \<or> password = development_default_admin_password"
    "login_attempt a2 env request uid da password st = (r, st')"
proof -
  obtain payload where p: "from_str (sv_serde env) (trim body) = Inr payload"
    using assms by (cases "from_str (sv_serde env) (trim body)")
      (auto simp: write_auth_login_response_def respond_def h_reply_def)
  let ?u = "case json_text_field payload ''userId'' ''user_id'' of
      Some u \<Rightarrow> Some u | None \<Rightarrow> json_text_field payload ''id'' ''id''"
  obtain uid where u: "?u = Some uid"
    using assms p by (cases ?u) (auto simp: write_auth_login_response_def respond_def h_reply_def)
  let ?d = "unwrap_or False (Option.bind (get_either ''defaultAccess'' ''default_access'' payload) as_bool)"
  let ?p = "if ?d then Some development_default_admin_password else get_str ''password'' payload"
  obtain password where w: "?p = Some password"
    using assms p u by (cases ?p) (auto simp: write_auth_login_response_def respond_def h_reply_def Let_def)
  obtain r where "login_attempt a2 env request uid ?d password st = (r, st')"
    using assms(1) p u w
    by (auto simp: write_auth_login_response_def respond_def Let_def split: sum.splits prod.splits)
  moreover have "get_str ''password'' payload = Some password \<or> password = development_default_admin_password"
    using w by (auto split: if_splits)
  ultimately show ?thesis using that p by blast
qed

section \<open>Repeated failures\<close>

fun fail_run :: "string \<Rightarrow> security_policy \<Rightarrow> nat list \<Rightarrow> service_state \<Rightarrow> service_state" where
  "fail_run uid policy [] st = st"
| "fail_run uid policy (t # ts) st = fail_run uid policy ts (snd (record_login_failure uid t policy st))"

lemma record_failure_step:
  assumes "lock (ss_login_failures st) = Some m" and "policy_ok policy"
    and "m (login_failure_key uid) = (if k = 0 then None else Some \<lparr> lf_count = k, lf_first_failed_at = t0, lf_locked_until = 0 \<rparr>)"
    and "k < sp_login_max_failures policy" and "t0 \<le> t" and "t \<le> t0 + login_failure_window_ms policy" and "k = 0 \<Longrightarrow> t = t0"
  shows "\<exists>m'. lock (ss_login_failures (snd (record_login_failure uid t policy st))) = Some m'
    \<and> m' (login_failure_key uid) = Some \<lparr> lf_count = k + 1, lf_first_failed_at = t0,
        lf_locked_until = (if k + 1 = sp_login_max_failures policy then t + login_lockout_ms policy else 0) \<rparr>"
proof -
  have "k + 1 \<le> 2 ^ 32 - 1" using assms(2,4) by (simp add: policy_ok_def)
  then show ?thesis
    using assms by (auto simp: record_login_failure_def next_failure_def prune_login_failures_def Let_def lock_def unlock_def
        min_def split: if_splits)
qed

lemma fail_run_counts:
  assumes "lock (ss_login_failures st) = Some m" and "policy_ok policy"
    and "m (login_failure_key uid) = (if k = 0 then None else Some \<lparr> lf_count = k, lf_first_failed_at = t0, lf_locked_until = 0 \<rparr>)"
    and "ts \<noteq> []" and "k + length ts = sp_login_max_failures policy" and "k = 0 \<Longrightarrow> hd ts = t0"
    and "\<forall>t\<in>set ts. t0 \<le> t \<and> t \<le> t0 + login_failure_window_ms policy"
  shows "\<exists>m'. lock (ss_login_failures (fail_run uid policy ts st)) = Some m'
    \<and> m' (login_failure_key uid) = Some \<lparr> lf_count = sp_login_max_failures policy, lf_first_failed_at = t0,
        lf_locked_until = last ts + login_lockout_ms policy \<rparr>"
  using assms
proof (induction ts arbitrary: k st m)
  case Nil
  then show ?case by simp
next
  case (Cons t ts)
  let ?st = "snd (record_login_failure uid t policy st)"
  obtain m' where m': "lock (ss_login_failures ?st) = Some m'"
    "m' (login_failure_key uid) = Some \<lparr> lf_count = k + 1, lf_first_failed_at = t0,
        lf_locked_until = (if k + 1 = sp_login_max_failures policy then t + login_lockout_ms policy else 0) \<rparr>"
    using record_failure_step [OF Cons.prems(1-3), of t] Cons.prems(5-7) by auto
  show ?case
  proof (cases ts)
    case Nil
    with m' Cons.prems(5) show ?thesis by simp
  next
    case (Cons t' ts')
    have "k + 1 \<noteq> sp_login_max_failures policy" using Cons.prems(5) Cons by simp
    with m'(2) have "m' (login_failure_key uid) = (if Suc k = 0 then None
        else Some \<lparr> lf_count = Suc k, lf_first_failed_at = t0, lf_locked_until = 0 \<rparr>)" by simp
    from Cons.IH [OF m'(1) Cons.prems(2) this] Cons.prems(5,7) Cons show ?thesis by simp
  qed
qed

lemma locked_entry_refused:
  assumes "lock (ss_login_failures st) = Some m" and "m (login_failure_key uid) = Some f" and "now < lf_locked_until f"
  shows "\<exists>st'. login_locked_until uid now policy st = (Inr (Some (lf_locked_until f)), st')"
  using assms by (simp add: login_locked_until_def prune_login_failures_def Let_def)

section \<open>Logins without database faults\<close>

lemma load_policy_no_faults:
  assumes "no_faults (sv_db env)"
  obtains policy where "policy_ok policy" "load_security_policy env st
    = (Inr policy, st\<lparr>ss_database := (ss_database st)\<lparr>db_tick := db_tick (ss_database st) + 1\<rparr>\<rparr>)"
proof -
  obtain p where p: "load_security_policy env st
    = (Inr p, st\<lparr>ss_database := (ss_database st)\<lparr>db_tick := db_tick (ss_database st) + 1\<rparr>\<rparr>)"
    by (simp add: load_security_policy_def h_bind_def h_db_opt_def get_config_def block_on_simp h_return_def
        query_no_faults [OF assms])
  with loaded_policy_ok [OF p] that show ?thesis by blast
qed

definition upgraded_rows :: "string \<Rightarrow> string \<Rightarrow> admin_user list \<Rightarrow> admin_user list" where
  "upgraded_rows uid h = update_rows (\<lambda>u. u_id u = uid) (\<lambda>u. u\<lparr>u_password_hash := h, u_must_change_password := False\<rparr>)"

lemma update_password_no_faults:
  assumes "no_faults env" and "user \<in> set (db_users db)" and "u_id user = uid"
  shows "\<exists>db'. update_admin_user_password env uid h db = (Inr (), db')
    \<and> db_users db' = upgraded_rows uid h (db_users db) \<and> db_roles db' = db_roles db"
proof -
  obtain u where "find (\<lambda>u. u_id u = uid) (db_users db) = Some u"
    using assms(2,3) by (cases "find (\<lambda>u. u_id u = uid) (db_users db)") (auto simp: find_None_iff)
  with assms(1) show ?thesis
    by (simp add: update_admin_user_password_def find_admin_user_def db_bind_def query_no_faults update_user_def
        stmt_def no_faults_def upgraded_rows_def db_return_def Let_def)
qed

lemma upgrade_no_faults:
  assumes "no_faults (sv_db env)" and "user \<in> set (db_users (ss_database st))"
  shows "\<exists>st' h. upgrade_password_hash a2 env user password st = (Inr (), st')
    \<and> h = a2_hash a2 (db_tick (ss_database st)) password
    \<and> ss_sessions st' = ss_sessions st \<and> db_roles (ss_database st') = db_roles (ss_database st)
    \<and> db_users (ss_database st') =
        (if admin_password_hash_needs_upgrade (u_password_hash user)
         then upgraded_rows (u_id user) h (db_users (ss_database st)) else db_users (ss_database st))"
proof (cases "admin_password_hash_needs_upgrade (u_password_hash user)")
  case True
  let ?h = "a2_hash a2 (db_tick (ss_database st)) password"
  obtain db' where u: "update_admin_user_password (sv_db env) (u_id user) ?h (ss_database st) = (Inr (), db')"
    "db_users db' = upgraded_rows (u_id user) ?h (db_users (ss_database st))"
    "db_roles db' = db_roles (ss_database st)"
    using update_password_no_faults [OF assms refl] by blast
  obtain q st2 where a: "h_audit env (u_id user) ''auth.password.upgrade'' (u_id user) upgraded_detail ''info''
      (st\<lparr>ss_database := db'\<rparr>) = (q, st2)" by fastforce
  from h_audit_effect [OF a] u a True show ?thesis
    by (auto simp: upgrade_password_hash_def block_on_simp Let_def same_accounts_def)
next
  case False
  then show ?thesis by (simp add: upgrade_password_hash_def h_return_def)
qed

text \<open>Rows that differ in the time of the last login only.\<close>

definition same_credentials :: "admin_user \<Rightarrow> admin_user \<Rightarrow> bool" where
  "same_credentials u u' \<longleftrightarrow>
     u_id u' = u_id u \<and> u_password_hash u' = u_password_hash u \<and> u_status u' = u_status u \<and> u_role u' = u_role u
     \<and> u_must_change_password u' = u_must_change_password u"

lemma same_credentials_rows:
  "list_all2 same_credentials rows (update_rows P (\<lambda>u. u\<lparr>u_last_login_at := t\<rparr>) rows)"
  "list_all2 same_credentials rows rows"
  by (simp_all add: update_rows_def list_all2_map2 same_credentials_def list.rel_refl)

lemma open_session_users:
  assumes "open_session env request user role policy now st = (r, st')" and "no_faults (sv_db env)"
  shows "(\<exists>body. r = Inr (http_response ''200 OK'' json_ct body))
    \<and> list_all2 same_credentials (db_users (ss_database st)) (db_users (ss_database st'))"
proof -
  define token where "token = create_session_token (u_id user) (current_time_millis env st)"
  define st1 where "st1 = put_sessions (\<lambda>m. m(token \<mapsto> new_session env request user role policy now token)) st"
  have d1: "ss_database st1 = ss_database st" by (simp add: st1_def put_sessions_def split: option.splits)
  obtain q db where q: "update_admin_user_last_login (sv_db env) (u_id user) (show_nat now) (ss_database st) = (q, db)"
    by fastforce
  obtain q2 st2 where a: "h_audit env (u_id user) ''auth.login'' (u_id user) login_detail ''info''
      (st1\<lparr>ss_database := db\<rparr>) = (q2, st2)" by fastforce
  have st': "st' = st2" "r = Inr (http_response ''200 OK'' json_ct (auth_session_json env
      (new_session env request user role policy now token)))"
    using assms(1) q a h_audit_effect [OF a]
    by (simp_all add: open_session_def Let_def h_bind_def h_get_def h_effect_def h_return_def token_def [symmetric]
        st1_def [symmetric] block_on_ignored_simp d1)
  have users: "db_users db = db_users (ss_database st)
      \<or> db_users db = update_rows (\<lambda>u. u_id u = u_id user) (\<lambda>u. u\<lparr>u_last_login_at := show_nat now\<rparr>) (db_users (ss_database st))"
    using q assms(2)
    by (auto simp: update_admin_user_last_login_def find_admin_user_def db_bind_def query_no_faults update_user_def
        stmt_def no_faults_def db_return_def Let_def split: option.splits)
  have "db_users (ss_database st') = db_users db"
    using h_audit_effect [OF a] st' by (simp add: same_accounts_def)
  with users st'(2) same_credentials_rows [of "db_users (ss_database st)"] show ?thesis by auto
qed

lemma accept_login_no_faults:
  assumes "no_faults (sv_db env)" and "user \<in> set (db_users (ss_database st))"
    and "accept_login a2 env request user password policy now st = (r, st')"
  shows "list_all2 same_credentials
      (if admin_password_hash_needs_upgrade (u_password_hash user)
       then upgraded_rows (u_id user) (a2_hash a2 (db_tick (ss_database st)) password) (db_users (ss_database st))
       else db_users (ss_database st))
      (db_users (ss_database st'))"
    and "find (\<lambda>r. r_id r = u_role user) (db_roles (ss_database st)) = Some role \<Longrightarrow> r_status role = ''active'' \<Longrightarrow>
      (\<exists>body clock. r = Inr (http_response ''200 OK'' json_ct body)
        \<and> ss_sessions st' = ss_sessions (put_sessions
            (\<lambda>m. m(create_session_token (u_id user) clock \<mapsto> new_session env request user role policy now
               (create_session_token (u_id user) clock))) st))"
proof -
  obtain st1 h where u: "upgrade_password_hash a2 env user password st = (Inr (), st1)"
    "h = a2_hash a2 (db_tick (ss_database st)) password" "ss_sessions st1 = ss_sessions st"
    "db_roles (ss_database st1) = db_roles (ss_database st)"
    "db_users (ss_database st1) =
        (if admin_password_hash_needs_upgrade (u_password_hash user)
         then upgraded_rows (u_id user) h (db_users (ss_database st)) else db_users (ss_database st))"
    using upgrade_no_faults [OF assms(1,2)] by blast
  let ?st2 = "st1\<lparr>ss_database := (ss_database st1)\<lparr>db_tick := db_tick (ss_database st1) + 1\<rparr>\<rparr>"
  let ?found = "find (\<lambda>r. r_id r = u_role user) (db_roles (ss_database st))"
  have f: "h_db_opt (find_admin_role (sv_db env) (u_role user)) st1 = (Inr ?found, ?st2)"
    by (simp add: h_db_opt_def find_admin_role_def block_on_simp query_no_faults [OF assms(1)] u(4))
  let ?st3 = "clear_login_failures (u_id user) ?st2"
  have s3: "ss_sessions ?st3 = ss_sessions st" "db_users (ss_database ?st3) = db_users (ss_database st1)"
    using u(3) by (simp_all add: clear_login_failures_def split: option.splits)
  have opened: "open_session env request user role policy now ?st3 = (r, st')"
    if "?found = Some role" "r_status role = ''active''" for role
    using assms(3) u(1) f that by (simp add: accept_login_def h_bind_def h_effect_def)
  have refused: "st' = ?st2" if "\<not> (\<exists>role. ?found = Some role \<and> r_status role = ''active'')"
    using assms(3) u(1) f that by (cases ?found) (auto simp: accept_login_def h_bind_def h_return_def)
  show "list_all2 same_credentials
      (if admin_password_hash_needs_upgrade (u_password_hash user)
       then upgraded_rows (u_id user) (a2_hash a2 (db_tick (ss_database st)) password) (db_users (ss_database st))
       else db_users (ss_database st))
      (db_users (ss_database st'))"
  proof (cases "\<exists>role. ?found = Some role \<and> r_status role = ''active''")
    case True
    then obtain role where "?found = Some role" "r_status role = ''active''" by blast
    from open_session_users [OF opened [OF this] assms(1)] show ?thesis
      by (simp only: s3(2) u(5) [unfolded u(2)])
  next
    case False
    have "db_users (ss_database st') = db_users (ss_database st1)" using refused [OF False] by simp
    then show ?thesis by (simp only: u(5) [unfolded u(2)] same_credentials_rows(2))
  qed
  assume role: "?found = Some role" "r_status role = ''active''"
  from open_session_users [OF opened [OF role] assms(1)] obtain body where
    b: "r = Inr (http_response ''200 OK'' json_ct body)" by blast
  have "ss_sessions st' = ss_sessions (put_sessions
      (\<lambda>m. m(create_session_token (u_id user) (current_time_millis env ?st3) \<mapsto>
        new_session env request user role policy now
          (create_session_token (u_id user) (current_time_millis env ?st3)))) st)"
    using open_session_effect [OF opened [OF role]] by (simp only: put_sessions_cong [OF s3(1)])
  with b show "\<exists>body clock. r = Inr (http_response ''200 OK'' json_ct body)
        \<and> ss_sessions st' = ss_sessions (put_sessions
            (\<lambda>m. m(create_session_token (u_id user) clock \<mapsto> new_session env request user role policy now
               (create_session_token (u_id user) clock))) st)" by blast
qed

lemma login_attempt_accepts:
  assumes "no_faults (sv_db env)" and "find (\<lambda>u. u_id u = uid) (db_users (ss_database st)) = Some user"
    and "u_status user = ''active''" and "verify_admin_password a2 user password"
    and "lock (ss_login_failures st) = Some fm" and "fm (login_failure_key uid) = None"
  shows "\<exists>policy st1. policy_ok policy \<and> same_accounts st st1
    \<and> login_attempt a2 env request uid da password st
        = accept_login a2 env request user password policy (current_time_millis env st) st1"
proof -
  let ?tick = "\<lambda>st. st\<lparr>ss_database := (ss_database st)\<lparr>db_tick := db_tick (ss_database st) + 1\<rparr>\<rparr>"
  let ?now = "current_time_millis env st"
  obtain policy where p: "policy_ok policy" "load_security_policy env st = (Inr policy, ?tick st)"
    by (rule load_policy_no_faults [OF assms(1), of st])
  obtain st2 where l: "login_locked_until uid ?now policy (?tick st) = (Inr None, st2)"
    using assms(5,6) by (simp add: login_locked_until_def prune_login_failures_def Let_def)
  have s2: "same_accounts st st2" using locked_until_effect(1) [OF l] by (simp add: same_accounts_def)
  then have "find_admin_user (sv_db env) uid (ss_database st2)
      = (Inr (Some user), (ss_database st2)\<lparr>db_tick := db_tick (ss_database st2) + 1\<rparr>)"
    using assms(1,2) by (simp add: find_admin_user_def query_no_faults same_accounts_def)
  then have "login_account a2 env request uid da password ?now policy st2
      = accept_login a2 env request user password policy ?now (?tick st2)"
    using assms(3,4) by (simp add: login_account_def h_bind_def h_db_failing_def block_on_simp)
  with p l have "login_attempt a2 env request uid da password st
      = accept_login a2 env request user password policy ?now (?tick st2)"
    by (simp add: login_attempt_def h_bind_def h_get_def)
  moreover have "same_accounts st (?tick st2)" using s2 by (simp add: same_accounts_def)
  ultimately show ?thesis using p(1) by blast
qed

lemma valid_login_session:
  assumes "no_faults (sv_db env)" and "find (\<lambda>u. u_id u = uid) (db_users (ss_database st)) = Some user"
    and "u_status user = ''active''" and "verify_admin_password a2 user password"
    and "find (\<lambda>r. r_id r = u_role user) (db_roles (ss_database st)) = Some role" and "r_status role = ''active''"
    and "lock (ss_login_failures st) = Some fm" and "fm (login_failure_key uid) = None"
    and "lock (ss_sessions st) = Some m"
  shows "\<exists>body st' m' token s. login_attempt a2 env request uid da password st
      = (Inr (http_response ''200 OK'' json_ct body), st')
    \<and> lock (ss_sessions st') = Some m' \<and> m' token = Some s \<and> as_user_id s = uid
    \<and> as_permissions s = role_permissions_vec (sv_serde env) (r_permissions role)
    \<and> current_time_millis env st < as_expires_at s"
proof -
  have user: "user \<in> set (db_users (ss_database st))" "u_id user = uid"
    using find_SomeD [OF assms(2)] by simp_all
  obtain policy st1 where a: "policy_ok policy" "same_accounts st st1"
    "login_attempt a2 env request uid da password st
        = accept_login a2 env request user password policy (current_time_millis env st) st1"
    using login_attempt_accepts [OF assms(1-4,7,8)] by blast
  obtain r st' where r: "accept_login a2 env request user password policy (current_time_millis env st) st1 = (r, st')"
    by fastforce
  have s1: "user \<in> set (db_users (ss_database st1))"
    "find (\<lambda>r. r_id r = u_role user) (db_roles (ss_database st1)) = Some role" "ss_sessions st1 = ss_sessions st"
    using a(2) user(1) assms(5) by (simp_all add: same_accounts_def)
  obtain body clock where b: "r = Inr (http_response ''200 OK'' json_ct body)"
    "ss_sessions st' = ss_sessions (put_sessions
       (\<lambda>m. m(create_session_token (u_id user) clock \<mapsto> new_session env request user role policy
          (current_time_millis env st) (create_session_token (u_id user) clock))) st1)"
    using accept_login_no_faults(2) [OF assms(1) s1(1) r s1(2) assms(6)] by blast
  let ?t = "create_session_token (u_id user) clock"
  let ?s = "new_session env request user role policy (current_time_millis env st) ?t"
  have "lock (ss_sessions st') = Some (m(?t \<mapsto> ?s))"
    using b(2) s1(3) assms(9) by (auto simp: put_sessions_def lock_def unlock_def split: if_splits)
  moreover have "as_user_id ?s = uid" "current_time_millis env st < as_expires_at ?s"
    "as_permissions ?s = role_permissions_vec (sv_serde env) (r_permissions role)"
    using user(2) a(1) by (simp_all add: new_session_def session_ttl_ms_def policy_ok_def)
  moreover have "(m(?t \<mapsto> ?s)) ?t = Some ?s" by simp
  moreover have "login_attempt a2 env request uid da password st = (Inr (http_response ''200 OK'' json_ct body), st')"
    using a(3) r b(1) by simp
  ultimately show ?thesis by blast
qed

section \<open>A concrete account\<close>

definition demo_argon2 :: argon2 where
  "demo_argon2 = \<lparr> a2_verify = (\<lambda>h p. h = ''$argon2'' @ p), a2_hash = (\<lambda>_ p. ''$argon2'' @ p) \<rparr>"

definition demo_user :: admin_user where
  "demo_user =
     \<lparr> u_id = ''root'', u_display_name = ''Root'', u_role = ''admin'', u_status = ''active'',
       u_password_hash = legacy_admin_password_hash ''root'' ''secret42'', u_must_change_password = True,
       u_last_login_at = [], u_created_at = ''0'' \<rparr>"

definition demo_role :: admin_role where
  "demo_role =
     \<lparr> r_id = ''admin'', r_label = [], r_description = [], r_permissions = ''P'', r_status = ''active'',
       r_updated_at = ''0'' \<rparr>"

definition auth_serde :: serde where
  "auth_serde =
     \<lparr> from_str = (\<lambda>s.
         if s = ''L'' then Inr (mk_obj [(''userId'', JString ''root''), (''password'', JString ''secret42'')])
         else if s = ''P'' then Inr (JArray [JString ''admin.services'']) else Inl ''bad''),
       to_string = (\<lambda>v. ''{}'') \<rparr>"

abbreviation auth_env :: service_env where
  "auth_env \<equiv> demo_service_env auth_serde"

definition demo_accounts :: service_state where
  "demo_accounts =
     demo_service\<lparr>ss_database := empty_database\<lparr>db_users := [demo_user], db_roles := [demo_role]\<rparr>\<rparr>"

definition demo_session :: admin_session where
  "demo_session =
     \<lparr> as_session_id = ''S'', as_token = ''T'', as_user_id = ''root'', as_display_name = ''Root'',
       as_role = ''admin'', as_permissions = [''admin.services''], as_must_change_password = False,
       as_user_agent = ''unknown'', as_created_at = 0, as_expires_at = 1000 \<rparr>"

definition demo_bearer_request :: string where
  "demo_bearer_request =
     ''POST /api/production/tasks HTTP/1.1'' @ crlf @ ''Authorization: Bearer T'' @ crlf @ crlf"

lemma auth_env_no_faults: "no_faults (sv_db auth_env)"
  by (simp add: no_faults_def demo_service_env_def demo_db_env_def)

lemma demo_account_facts:
  "find (\<lambda>u. u_id u = ''root'') (db_users (ss_database demo_accounts)) = Some demo_user"
  "find (\<lambda>r. r_id r = u_role demo_user) (db_roles (ss_database demo_accounts)) = Some demo_role"
  "u_status demo_user = ''active''" "r_status demo_role = ''active''" "u_id demo_user = ''root''"
  "lock (ss_sessions demo_accounts) = Some (\<lambda>_. None)"
  "lock (ss_login_failures demo_accounts) = Some (\<lambda>_. None)"
  by (simp_all add: demo_accounts_def demo_user_def demo_role_def demo_service_def lock_def)

lemma demo_user_hash:
  "verify_admin_password a2 demo_user ''secret42''" "admin_password_hash_needs_upgrade (u_password_hash demo_user)"
  by (simp_all add: verify_admin_password_def admin_password_hash_needs_upgrade_def starts_with_def demo_user_def
      legacy_admin_password_hash_def)

lemma demo_login_attempt:
  "write_auth_login_response a2 auth_env request ''L'' st
     = respond (login_attempt a2 auth_env request ''root'' False ''secret42'') st"
proof -
  let ?p = "mk_obj [(''userId'', JString ''root''), (''password'', JString ''secret42'')]"
  have e: "trim ''L'' = ''L''" "json_text_field ?p ''userId'' ''user_id'' = Some ''root''"
    "get_either ''defaultAccess'' ''default_access'' ?p = None" "get_str ''password'' ?p = Some ''secret42''"
    by code_simp+
  have "from_str (sv_serde auth_env) ''L'' = Inr ?p" by (simp add: demo_service_env_def auth_serde_def)
  then show ?thesis by (simp add: write_auth_login_response_def e)
qed

lemma demo_login:
  obtains body st' m' token s where
    "write_auth_login_response demo_argon2 auth_env [] ''L'' demo_accounts
       = (http_response ''200 OK'' json_ct body, st')"
    "lock (ss_sessions st') = Some m'" "m' token = Some s" "as_user_id s = ''root''"
  using valid_login_session [OF auth_env_no_faults demo_account_facts(1,3) demo_user_hash(1)
      demo_account_facts(2,4,7) refl demo_account_facts(6), of demo_argon2 "[]" False]
  unfolding demo_login_attempt respond_def by fastforce

section \<open>Properties\<close>



text \<open>
  A login with an account name, the password of the active account and an active role, while the
  account is not locked, opens a session with exactly the permissions of the role.
\<close>
theorem valid_login_succeeds:
  assumes "no_faults (sv_db env)" and "find (\<lambda>u. u_id u = uid) (db_users (ss_database st)) = Some user"
    and "u_status user = ''active''" and "verify_admin_password a2 user password"
    and "find (\<lambda>r. r_id r = u_role user) (db_roles (ss_database st)) = Some role" and "r_status role = ''active''"
    and "lock (ss_login_failures st) = Some fm" and "fm (login_failure_key uid) = None"
    and "lock (ss_sessions st) = Some m"
  shows "\<exists>body st' m' token s. login_attempt a2 env request uid da password st
      = (Inr (http_response ''200 OK'' json_ct body), st')
    \<and> lock (ss_sessions st') = Some m' \<and> m' token = Some s \<and> as_user_id s = uid
    \<and> as_permissions s = role_permissions_vec (sv_serde env) (r_permissions role)
    \<and> current_time_millis env st < as_expires_at s"
  by (rule valid_login_session [OF assms])

theorem valid_login_succeeds_witness:
  "\<exists>body st'. login_attempt demo_argon2 auth_env [] ''root'' False ''secret42'' demo_accounts
    = (Inr (http_response ''200 OK'' json_ct body), st')"
  using valid_login_succeeds [OF auth_env_no_faults demo_account_facts(1,3) demo_user_hash(1)
      demo_account_facts(2,4,7) refl demo_account_facts(6), of demo_argon2 "[]" False] by blast

text \<open>
  C40: A login to an account whose stored hash has the legacy format ends the obligation to change the
  password although the password stays the same: the row afterwards verifies the same password and no
  longer asks for a change, so that the next session is not restricted.
\<close>
theorem legacy_login_lifts_forced_change:
  assumes "no_faults (sv_db env)" and "distinct (map u_id (db_users (ss_database st)))"
    and "user \<in> set (db_users (ss_database st))" and "u_status user = ''active''"
    and "verify_admin_password a2 user password" and "admin_password_hash_needs_upgrade (u_password_hash user)"
    and argon2_format: "\<And>n. starts_with (a2_hash a2 n password) ''$argon2''"
    and argon2_verifies: "\<And>n. a2_verify a2 (a2_hash a2 n password) password"
    and "lock (ss_login_failures st) = Some fm" and "fm (login_failure_key (u_id user)) = None"
    and "login_attempt a2 env request (u_id user) da password st = (r, st')"
  shows "\<exists>u\<in>set (db_users (ss_database st')). u_id u = u_id user \<and> u_status u = ''active''
    \<and> verify_admin_password a2 u password \<and> \<not> u_must_change_password u"
proof -
  have f: "find (\<lambda>u. u_id u = u_id user) (db_users (ss_database st)) = Some user"
  proof (cases "find (\<lambda>u. u_id u = u_id user) (db_users (ss_database st))")
    case None
    with assms(3) show ?thesis by (auto simp: find_None_iff)
  next
    case (Some u)
    from find_SomeD [OF Some] have "u \<in> set (db_users (ss_database st))" "u_id u = u_id user" by simp_all
    with assms(2,3) have "u = user" by (metis distinct_map inj_onD)
    with Some show ?thesis by simp
  qed
  obtain policy st1 where a: "same_accounts st st1"
    "accept_login a2 env request user password policy (current_time_millis env st) st1 = (r, st')"
    using login_attempt_accepts [OF assms(1) f assms(4,5,9,10)] assms(11) by metis
  have m1: "user \<in> set (db_users (ss_database st1))" using a(1) assms(3) by (simp add: same_accounts_def)
  let ?h = "a2_hash a2 (db_tick (ss_database st1)) password"
  let ?rows = "upgraded_rows (u_id user) ?h (db_users (ss_database st1))"
  have rel: "list_all2 same_credentials ?rows (db_users (ss_database st'))"
    using accept_login_no_faults(1) [OF assms(1) m1 a(2)] assms(6) by simp
  have "user\<lparr>u_password_hash := ?h, u_must_change_password := False\<rparr> \<in> set ?rows"
    using m1 by (auto simp: upgraded_rows_def update_rows_def)
  then obtain i where i: "i < length ?rows" "?rows ! i = user\<lparr>u_password_hash := ?h, u_must_change_password := False\<rparr>"
    by (metis in_set_conv_nth)
  let ?u = "db_users (ss_database st') ! i"
  have "same_credentials (?rows ! i) ?u" "i < length (db_users (ss_database st'))"
    using rel i(1) by (auto dest: list_all2_nthD list_all2_lengthD)
  moreover have "?h \<noteq> []" using argon2_format [of "db_tick (ss_database st1)"] by (auto simp: starts_with_def)
  ultimately have "?u \<in> set (db_users (ss_database st')) \<and> u_id ?u = u_id user \<and> u_status ?u = ''active''
      \<and> verify_admin_password a2 ?u password \<and> \<not> u_must_change_password ?u"
    using i(2) assms(4) argon2_format argon2_verifies by (simp add: same_credentials_def verify_admin_password_def)
  then show ?thesis by blast
qed

theorem legacy_login_lifts_forced_change_witness:
  "u_must_change_password demo_user
    \<and> (\<exists>u\<in>set (db_users (ss_database
          (snd (login_attempt demo_argon2 auth_env [] ''root'' False ''secret42'' demo_accounts)))).
        u_id u = ''root'' \<and> verify_admin_password demo_argon2 u ''secret42'' \<and> \<not> u_must_change_password u)"
proof -
  obtain r st' where l: "login_attempt demo_argon2 auth_env [] (u_id demo_user) False ''secret42'' demo_accounts = (r, st')"
    by fastforce
  have d: "distinct (map u_id (db_users (ss_database demo_accounts)))" "demo_user \<in> set (db_users (ss_database demo_accounts))"
    by (simp_all add: demo_accounts_def)
  have "starts_with (a2_hash demo_argon2 n ''secret42'') ''$argon2''"
    "a2_verify demo_argon2 (a2_hash demo_argon2 n ''secret42'') ''secret42''" for n
    by (simp_all add: demo_argon2_def starts_with_def)
  from legacy_login_lifts_forced_change [OF auth_env_no_faults d demo_account_facts(3) demo_user_hash this
      demo_account_facts(7) refl l] l
  show ?thesis by (auto simp: demo_user_def)
qed

text \<open>
  C31: After as many failed logins for an account as the policy allows, all within its window, every login
  for that account before the end of the lockout is answered with 423, whatever the password, and no
  session is opened.
\<close>
theorem repeated_failures_lock_account:
  assumes "lock (ss_login_failures st) = Some m" and "m (login_failure_key uid) = None" and "policy_ok policy"
    and "length ts = sp_login_max_failures policy"
    and "\<forall>t\<in>set ts. hd ts \<le> t \<and> t \<le> hd ts + login_failure_window_ms policy"
    and "ss_login_failures st1 = ss_login_failures (fail_run uid policy ts st)"
    and "load_security_policy env st1 = (Inr policy, st2)"
    and "current_time_millis env st1 < last ts + login_lockout_ms policy"
  shows "\<exists>st3. login_attempt a2 env request uid da password st1
      = (Inr (login_lockout_response env (last ts + login_lockout_ms policy) (current_time_millis env st1)), st3)
    \<and> ss_sessions st3 = ss_sessions st1"
proof -
  have "ts \<noteq> []" using assms(3,4) by (auto simp: policy_ok_def)
  then obtain m' where m': "lock (ss_login_failures st1) = Some m'"
    "m' (login_failure_key uid) = Some \<lparr> lf_count = sp_login_max_failures policy, lf_first_failed_at = hd ts,
        lf_locked_until = last ts + login_lockout_ms policy \<rparr>"
    using fail_run_counts [OF assms(1,3), of uid 0 "hd ts" ts] assms(2,4-6) by auto
  have p: "same_accounts st1 st2" "ss_login_failures st2 = ss_login_failures st1"
    using load_policy_effect [OF assms(7)] by simp_all
  let ?now = "current_time_millis env st1"
  obtain st4 where l: "login_locked_until uid ?now policy st2 = (Inr (Some (last ts + login_lockout_ms policy)), st4)"
    using locked_entry_refused [of st2 m' uid] m' p(2) assms(8) by fastforce
  have s4: "same_accounts st2 st4" by (rule locked_until_effect(1) [OF l])
  obtain q st5 where a: "h_audit env ''anonymous'' ''auth.login.locked'' uid locked_detail ''warning'' st4 = (q, st5)"
    by fastforce
  from h_audit_effect [OF a] have "q = Inr ()" "same_accounts st4 st5" by simp_all
  with a l assms(7) have "login_attempt a2 env request uid da password st1
      = (Inr (login_lockout_response env (last ts + login_lockout_ms policy) ?now), st5)"
    by (simp add: login_attempt_def h_bind_def h_get_def h_return_def)
  with p(1) s4 \<open>same_accounts st4 st5\<close> show ?thesis by (auto simp: same_accounts_def)
qed

theorem repeated_failures_lock_account_witness:
  "\<exists>st3. login_attempt demo_argon2 auth_env [] ''root'' False ''secret42''
      (fail_run ''root'' default_security_policy (replicate 5 100) demo_accounts)
    = (Inr (login_lockout_response auth_env 300100 100), st3)"
proof -
  let ?st = "fail_run ''root'' default_security_policy (replicate 5 100) demo_accounts"
  have db: "ss_database (fail_run uid policy ts st) = ss_database st" for uid policy ts st
    by (induction ts arbitrary: st) (auto simp: record_login_failure_def Let_def split: option.splits)
  have n: "current_time_millis auth_env ?st = 100"
    by (simp add: current_time_millis_def db demo_accounts_def empty_database_def demo_service_env_def demo_db_env_def)
  have p: "fst (load_security_policy auth_env ?st) = Inr default_security_policy"
    by (simp add: load_security_policy_def h_bind_def h_db_opt_def get_config_def block_on_simp h_return_def
        query_no_faults [OF auth_env_no_faults] db demo_accounts_def empty_database_def)
  then obtain st2 where l: "load_security_policy auth_env ?st = (Inr default_security_policy, st2)"
    by (cases "load_security_policy auth_env ?st") simp
  from repeated_failures_lock_account [OF demo_account_facts(7) refl default_policy_ok, of "replicate 5 100" ?st "''root''"
      auth_env st2 demo_argon2 "[]" False "''secret42''"] l n
  show ?thesis
    by (auto simp: default_security_policy_def login_lockout_ms_def login_failure_window_ms_def)
qed

lemma authorized_session:
  assumes "authorize_request env request method path st = Some (Inr session, st')"
  shows "(\<forall>q. required_permission request method path = Some (Some q) \<longrightarrow>
      (\<exists>s token m. session = Some s \<and> bearer_token request = Some token \<and> lock (ss_sessions st) = Some m
        \<and> m token = Some s \<and> current_time_millis env st < as_expires_at s
        \<and> (q = ''admin.self'' \<or> q \<in> set (as_permissions s))))
    \<and> (\<forall>s. session = Some s \<and> as_must_change_password s \<longrightarrow> (method, path) \<in> set password_change_routes)"
proof -
  obtain required where q: "required_permission request method path = Some required"
    using assms by (cases "required_permission request method path") (simp_all add: authorize_request_def)
  obtain found st1 where f: "session_from_request env request st = (found, st1)" by fastforce
  show ?thesis
  proof (cases found)
    case None
    with assms q f show ?thesis by (cases required) (simp_all add: authorize_request_def)
  next
    case (Some s)
    have r: "\<not> as_must_change_password s \<or> (method, path) \<in> set password_change_routes"
      and p: "session = Some s" "required = Some x \<Longrightarrow> x = ''admin.self'' \<or> x \<in> set (as_permissions s)" for x
      using assms q f Some by (cases required; simp add: authorize_request_def split: if_splits)+
    obtain token m where t: "bearer_token request = Some token" "lock (ss_sessions st) = Some m" "m token = Some s"
      "current_time_millis env st < as_expires_at s"
      using session_from_request_Some [OF f [unfolded Some]] by blast
    show ?thesis
    proof (intro conjI allI impI)
      fix x
      assume "required_permission request method path = Some (Some x)"
      with q have "x = ''admin.self'' \<or> x \<in> set (as_permissions s)" using p(2) by simp
      with t p(1) show "\<exists>s token m. session = Some s \<and> bearer_token request = Some token
          \<and> lock (ss_sessions st) = Some m \<and> m token = Some s \<and> current_time_millis env st < as_expires_at s
          \<and> (x = ''admin.self'' \<or> x \<in> set (as_permissions s))" by blast
    qed (use r p(1) in simp)
  qed
qed

text \<open>
  A request that is authorised for a route with a permission carries the token of an unexpired session
  that has this permission; and a session whose password must be changed reaches only the routes for that.
\<close>
theorem authorized_request_has_permission:
  assumes "authorize_request env request method path st = Some (Inr session, st')"
  shows "(\<forall>q. required_permission request method path = Some (Some q) \<longrightarrow>
      (\<exists>s token m. session = Some s \<and> bearer_token request = Some token \<and> lock (ss_sessions st) = Some m
        \<and> m token = Some s \<and> current_time_millis env st < as_expires_at s
        \<and> (q = ''admin.self'' \<or> q \<in> set (as_permissions s))))
    \<and> (\<forall>s. session = Some s \<and> as_must_change_password s \<longrightarrow> (method, path) \<in> set password_change_routes)"
  by (rule authorized_session [OF assms])

theorem authorized_request_has_permission_witness:
  "\<exists>session st'. authorize_request auth_env demo_bearer_request ''POST'' ''/api/production/tasks''
      (demo_accounts\<lparr>ss_sessions := Mutex False [''T'' \<mapsto> demo_session]\<rparr>) = Some (Inr session, st')
    \<and> map_option as_user_id session = Some ''root''"
proof -
  let ?st = "demo_accounts\<lparr>ss_sessions := Mutex False [''T'' \<mapsto> demo_session]\<rparr>"
  have "bearer_token demo_bearer_request = Some ''T''" by code_simp
  then have s: "session_from_request auth_env demo_bearer_request ?st = (Some demo_session, ?st)"
    by (simp add: session_from_request_def lock_def current_time_millis_def demo_session_def demo_accounts_def
        empty_database_def demo_service_env_def demo_db_env_def)
  have q: "required_permission demo_bearer_request ''POST'' ''/api/production/tasks'' = Some (Some ''admin.services'')"
    by code_simp
  have a: "authorize_request auth_env demo_bearer_request ''POST'' ''/api/production/tasks'' ?st = Some (Inr (Some demo_session), ?st)"
    by (simp add: authorize_request_def q s) (simp add: demo_session_def)
  from authorized_request_has_permission [OF a] q a show ?thesis by (auto simp: demo_session_def)
qed


end
