(* ===== verification/Calibration_Store.thy ===== *)
theory Calibration_Store
  imports Database
begin

text \<open>
  The ledger of calibration operations, \<open>app/service/src/db/mod.rs\<close>: a row is inserted before the
  capture provider is called and finished with its answer, so that an operation whose outcome is not
  known stays visible as \<open>needs-reconciliation\<close>.  The lemmas at the end say that a row is never
  removed, never changes its identity, and that its status only moves forward.
\<close>

section \<open>Operations\<close>

record calibration_operation_input =
  ci_id :: string
  ci_kind :: string
  ci_request_hash :: string
  ci_request_json :: string
  ci_actor :: string
  ci_parent_operation_id :: string

definition new_operation_row :: "calibration_operation_input \<Rightarrow> string \<Rightarrow> calibration_operation" where
  "new_operation_row input now =
     \<lparr> o_id = ci_id input, o_kind = ci_kind input, o_request_hash = ci_request_hash input,
       o_request_json = ci_request_json input, o_status = ''dispatching'',
       o_provider_http_status = 0, o_provider_response_body = [], o_error = [],
       o_actor = ci_actor input, o_parent_operation_id = ci_parent_operation_id input,
       o_reconciliation_outcome = [], o_reconciliation_id = [], o_resolved_by = [],
       o_resolved_at = [], o_row_version = 1, o_created_at = now, o_dispatch_started_at = now,
       o_finished_at = [], o_updated_at = now \<rparr>"

definition insert_calibration_operation ::
  "db_env \<Rightarrow> calibration_operation_input \<Rightarrow> calibration_operation dbm" where
  "insert_calibration_operation env input =
     db_bind (now_millis_string env) (\<lambda>now.
     stmt env (\<lambda>db.
       let row = new_operation_row input now
       in if o_id row \<in> set (map o_id (db_operations db)) then (Inl (dbe_conflict env), db)
          else (Inr row, db\<lparr>db_operations := db_operations db @ [row]\<rparr>)))"

definition find_calibration_operation :: "db_env \<Rightarrow> string \<Rightarrow> calibration_operation option dbm" where
  "find_calibration_operation env oid = query env (\<lambda>db. find (\<lambda>r. o_id r = oid) (db_operations db))"

definition unresolved :: "calibration_operation \<Rightarrow> bool" where
  "unresolved r \<longleftrightarrow> o_status r \<in> {''dispatching'', ''needs-reconciliation''}"

definition list_unresolved_calibration_operations :: "db_env \<Rightarrow> calibration_operation list dbm" where
  "list_unresolved_calibration_operations env =
     query env (\<lambda>db. order_asc (\<lambda>r. (o_created_at r, [])) (filter unresolved (db_operations db)))"

text \<open>The guard of every update: the row is still the one that was read.\<close>

definition unchanged_since :: "calibration_operation \<Rightarrow> string \<Rightarrow> calibration_operation \<Rightarrow> bool" where
  "unchanged_since existing status r \<longleftrightarrow>
     o_id r = o_id existing \<and> o_status r = status \<and> o_row_version r = o_row_version existing"

definition reconciled_operation ::
  "calibration_operation \<Rightarrow> string \<Rightarrow> string \<Rightarrow> string \<Rightarrow> string \<Rightarrow> calibration_operation
     \<Rightarrow> calibration_operation" where
  "reconciled_operation existing rid outcome actor now r =
     r\<lparr>o_status := ''reconciled'', o_reconciliation_outcome := outcome, o_reconciliation_id := rid,
       o_resolved_by := actor, o_resolved_at := now,
       o_row_version := saturating_inc_i32 (o_row_version existing), o_updated_at := now\<rparr>"

definition reconcile_calibration_operation ::
  "db_env \<Rightarrow> string \<Rightarrow> string \<Rightarrow> string \<Rightarrow> string \<Rightarrow> calibration_operation option dbm" where
  "reconcile_calibration_operation env oid rid outcome actor =
     db_bind (find_calibration_operation env oid) (\<lambda>found.
     case found of
       None \<Rightarrow> db_return None
     | Some existing \<Rightarrow>
         if o_status existing \<noteq> ''needs-reconciliation'' then db_return (Some existing)
         else db_bind (now_millis_string env) (\<lambda>now.
              db_bind (update_operations env (unchanged_since existing ''needs-reconciliation'')
                (reconciled_operation existing rid outcome actor now)) (\<lambda>_.
              find_calibration_operation env oid)))"

definition finished_operation ::
  "calibration_operation \<Rightarrow> string \<Rightarrow> int \<Rightarrow> string \<Rightarrow> string \<Rightarrow> string \<Rightarrow> calibration_operation
     \<Rightarrow> calibration_operation" where
  "finished_operation existing status http_status body error now r =
     r\<lparr>o_status := status, o_provider_http_status := http_status, o_provider_response_body := body,
       o_error := error, o_finished_at := now, o_updated_at := now,
       o_row_version := saturating_inc_i32 (o_row_version existing)\<rparr>"

definition finish_calibration_operation ::
  "db_env \<Rightarrow> string \<Rightarrow> string \<Rightarrow> int \<Rightarrow> string \<Rightarrow> string \<Rightarrow> calibration_operation option dbm" where
  "finish_calibration_operation env oid status http_status body error =
     db_bind (find_calibration_operation env oid) (\<lambda>found.
     case found of
       None \<Rightarrow> db_return None
     | Some existing \<Rightarrow>
         if o_status existing \<noteq> ''dispatching'' then db_return (Some existing)
         else db_bind (now_millis_string env) (\<lambda>now.
              db_bind (update_operations env (unchanged_since existing ''dispatching'')
                (finished_operation existing status http_status body error now)) (\<lambda>_.
              find_calibration_operation env oid)))"

definition interrupted_operation ::
  "calibration_operation \<Rightarrow> string \<Rightarrow> calibration_operation \<Rightarrow> calibration_operation" where
  "interrupted_operation existing now r =
     r\<lparr>o_status := ''needs-reconciliation'', o_error := ''service_restart_while_dispatching'',
       o_finished_at := now, o_updated_at := now,
       o_row_version := saturating_inc_i32 (o_row_version existing)\<rparr>"

fun recover_operations :: "db_env \<Rightarrow> calibration_operation list \<Rightarrow> nat \<Rightarrow> nat dbm" where
  "recover_operations env [] recovered = db_return recovered"
| "recover_operations env (existing # rest) recovered =
     db_bind (now_millis_string env) (\<lambda>now.
     db_bind (update_operations env (unchanged_since existing ''dispatching'')
       (interrupted_operation existing now)) (\<lambda>affected.
     recover_operations env rest (saturating_add64 recovered affected)))"

definition recover_dispatching_calibration_operations :: "db_env \<Rightarrow> nat dbm" where
  "recover_dispatching_calibration_operations env =
     db_bind (query env (\<lambda>db. filter (\<lambda>r. o_status r = ''dispatching'') (db_operations db)))
       (\<lambda>interrupted. recover_operations env interrupted 0)"

section \<open>What an operation does to the ledger\<close>

definition ledger_keeps ::
  "(calibration_operation list \<Rightarrow> calibration_operation list \<Rightarrow> bool) \<Rightarrow> 'a dbm \<Rightarrow> bool" where
  "ledger_keeps R m \<longleftrightarrow> (\<forall>db. R (db_operations db) (db_operations (snd (m db))))"

lemma ledger_keepsD: "ledger_keeps R m \<Longrightarrow> m db = (r, db') \<Longrightarrow> R (db_operations db) (db_operations db')"
  unfolding ledger_keeps_def by (metis snd_conv)

locale ledger_relation =
  fixes R :: "calibration_operation list \<Rightarrow> calibration_operation list \<Rightarrow> bool"
  assumes ledger_refl: "R rs rs"
    and ledger_trans: "R rs us \<Longrightarrow> R us vs \<Longrightarrow> R rs vs"
begin

lemma ledger_return: "ledger_keeps R (db_return x)"
  by (simp add: ledger_keeps_def db_return_def ledger_refl)

lemma ledger_bind:
  assumes "ledger_keeps R m" and "\<And>x. ledger_keeps R (f x)"
  shows "ledger_keeps R (db_bind m f)"
proof (unfold ledger_keeps_def, intro allI)
  fix db
  obtain r db1 where m: "m db = (r, db1)" by fastforce
  from ledger_keepsD [OF assms(1) m] have 1: "R (db_operations db) (db_operations db1)" .
  show "R (db_operations db) (db_operations (snd (db_bind m f db)))"
  proof (cases r)
    case (Inl e)
    with 1 m show ?thesis by (simp add: db_bind_def)
  next
    case (Inr x)
    have "R (db_operations db1) (db_operations (snd (f x db1)))"
      using assms(2) by (simp add: ledger_keeps_def)
    with 1 m Inr show ?thesis by (simp add: db_bind_def) (rule ledger_trans)
  qed
qed

lemma ledger_query: "ledger_keeps R (query env q)"
  by (simp add: ledger_keeps_def query_def stmt_def Let_def ledger_refl split: option.splits)

lemma ledger_now: "ledger_keeps R (now_millis_string env)"
  by (simp add: ledger_keeps_def now_millis_string_def ledger_refl)

lemma ledger_update:
  "(\<And>rs. R rs (update_rows P f rs)) \<Longrightarrow> ledger_keeps R (update_operations env P f)"
  by (simp add: ledger_keeps_def update_operations_def stmt_def Let_def ledger_refl split: option.splits)

lemma ledger_audit: "ledger_keeps R (append_audit_log env actor action target detail level)"
  by (auto simp: ledger_keeps_def append_audit_log_def db_bind_def now_nanos_string_def
      now_millis_string_def stmt_def Let_def ledger_refl split: option.splits)

lemmas ledger_steps = ledger_return ledger_query ledger_now ledger_audit

end

text \<open>
  A row advances: it is the same, or an operation in flight got an outcome, or one that needed
  reconciliation was reconciled.  The request a row records never changes.
\<close>

definition request_of :: "calibration_operation \<Rightarrow> string \<times> string \<times> string \<times> string \<times> string" where
  "request_of r = (o_id r, o_kind r, o_request_hash r, o_request_json r, o_parent_operation_id r)"

definition row_advances :: "calibration_operation \<Rightarrow> calibration_operation \<Rightarrow> bool" where
  "row_advances r r' \<longleftrightarrow> r' = r \<or> request_of r' = request_of r
     \<and> (o_status r = ''dispatching'' \<and> o_status r' \<noteq> ''dispatching''
        \<or> o_status r = ''needs-reconciliation'' \<and> o_status r' = ''reconciled'')"

definition ledger_advances :: "calibration_operation list \<Rightarrow> calibration_operation list \<Rightarrow> bool" where
  "ledger_advances rs rs' \<longleftrightarrow> list_all2 row_advances rs (take (length rs) rs')"

lemma row_advances_refl: "row_advances r r"
  by (simp add: row_advances_def)

lemma row_advances_trans: "row_advances r s \<Longrightarrow> row_advances s t \<Longrightarrow> row_advances r t"
  by (auto simp: row_advances_def)

lemma ledger_advances_trans:
  assumes "ledger_advances rs us" and "ledger_advances us vs"
  shows "ledger_advances rs vs"
proof -
  have le: "length rs \<le> length us" and le': "length us \<le> length vs"
    using assms list_all2_lengthD unfolding ledger_advances_def by fastforce+
  have "list_all2 row_advances (take (length rs) us) (take (length rs) (take (length us) vs))"
    using assms(2) unfolding ledger_advances_def by (rule list_all2_takeI)
  then have "list_all2 row_advances (take (length rs) us) (take (length rs) vs)"
    using le by (simp add: min_def)
  with assms(1) show ?thesis unfolding ledger_advances_def
    by (rule list_all2_trans [rotated]) (rule row_advances_trans)
qed

interpretation ladv: ledger_relation ledger_advances
proof
  show "ledger_advances rs rs" for rs
    by (simp add: ledger_advances_def list_all2_refl row_advances_refl)
qed (rule ledger_advances_trans)

interpretation lsame: ledger_relation "(=)"
  by unfold_locales simp_all

lemma ledger_advances_update:
  assumes "\<And>r. P r \<Longrightarrow> row_advances r (f r)"
  shows "ledger_advances rs (update_rows P f rs)"
  using assms by (auto simp: ledger_advances_def update_rows_def list_all2_conv_all_nth row_advances_refl)

lemma finished_advances:
  "status \<noteq> ''dispatching'' \<Longrightarrow> unchanged_since existing ''dispatching'' r
     \<Longrightarrow> row_advances r (finished_operation existing status http_status body error now r)"
  by (simp add: row_advances_def unchanged_since_def finished_operation_def request_of_def)

lemma reconciled_advances:
  "unchanged_since existing ''needs-reconciliation'' r
     \<Longrightarrow> row_advances r (reconciled_operation existing rid outcome actor now r)"
  by (simp add: row_advances_def unchanged_since_def reconciled_operation_def request_of_def)

lemma interrupted_advances:
  "unchanged_since existing ''dispatching'' r \<Longrightarrow> row_advances r (interrupted_operation existing now r)"
  by (simp add: row_advances_def unchanged_since_def interrupted_operation_def request_of_def)

lemma insert_operation_advances: "ledger_keeps ledger_advances (insert_calibration_operation env input)"
  by (simp add: ledger_keeps_def insert_calibration_operation_def db_bind_def now_millis_string_def
      stmt_def Let_def ladv.ledger_refl split: option.splits)
    (simp add: ledger_advances_def list_all2_refl row_advances_refl)

lemma find_operation_same: "ledger_keeps (=) (find_calibration_operation env oid)"
  unfolding find_calibration_operation_def by (rule lsame.ledger_query)

lemma list_unresolved_same: "ledger_keeps (=) (list_unresolved_calibration_operations env)"
  unfolding list_unresolved_calibration_operations_def by (rule lsame.ledger_query)

lemma find_operation_advances: "ledger_keeps ledger_advances (find_calibration_operation env oid)"
  unfolding find_calibration_operation_def by (rule ladv.ledger_query)

lemma finish_operation_advances:
  assumes "status \<noteq> ''dispatching''"
  shows "ledger_keeps ledger_advances (finish_calibration_operation env oid status http_status body error)"
  unfolding finish_calibration_operation_def
  by (intro ladv.ledger_bind find_operation_advances)
    (auto intro!: ladv.ledger_bind ladv.ledger_steps ladv.ledger_update find_operation_advances
       ledger_advances_update finished_advances [OF assms] split: option.splits)

lemma reconcile_operation_advances:
  "ledger_keeps ledger_advances (reconcile_calibration_operation env oid rid outcome actor)"
  unfolding reconcile_calibration_operation_def
  by (intro ladv.ledger_bind find_operation_advances)
    (auto intro!: ladv.ledger_bind ladv.ledger_steps ladv.ledger_update find_operation_advances
       ledger_advances_update reconciled_advances split: option.splits)

lemma recover_operations_advances: "ledger_keeps ledger_advances (recover_operations env rows recovered)"
  by (induction rows arbitrary: recovered)
    (auto intro!: ladv.ledger_bind ladv.ledger_steps ladv.ledger_update ledger_advances_update
       interrupted_advances)

lemma recover_advances: "ledger_keeps ledger_advances (recover_dispatching_calibration_operations env)"
  unfolding recover_dispatching_calibration_operations_def
  by (intro ladv.ledger_bind ladv.ledger_query recover_operations_advances)

text \<open>What an advancing ledger keeps: every recorded request, under its identifier.\<close>

definition distinct_ids :: "calibration_operation list \<Rightarrow> bool" where
  "distinct_ids rs \<longleftrightarrow> distinct (map o_id rs)"

lemma advances_row:
  assumes "ledger_advances rs rs'" and "r \<in> set rs"
  shows "\<exists>r'\<in>set rs'. row_advances r r'"
proof -
  from assms(2) obtain i where i: "i < length rs" "rs ! i = r" by (auto simp: in_set_conv_nth)
  with assms(1) have "row_advances r (take (length rs) rs' ! i)" "i < length (take (length rs) rs')"
    by (auto simp: ledger_advances_def list_all2_conv_all_nth)
  then show ?thesis by (metis in_set_takeD nth_mem)
qed

lemma row_advances_request: "row_advances r r' \<Longrightarrow> request_of r' = request_of r"
  by (auto simp: row_advances_def)

end
