(* ===== verification/Calibration_Request.thy ===== *)
theory Calibration_Request
  imports Admin_Store Calibration_Store
begin

text \<open>
  Requests that write to cameras: the confirmation and safety rules every such request must satisfy,
  from \<open>app/service/src/main.rs\<close>, and the normal form under which the calibration ledger records a
  request, from \<open>app/service/src/calibration_operations.rs\<close>.  The tokens of a JSON text, with the keys of
  an object in the order they are written and repeated keys kept, are what the third-party reader
  gives; \<open>ce_reader\<close> is that reader.
\<close>

section \<open>JSON without duplicate keys\<close>

datatype raw_json =
    RNull
  | RBool bool
  | RNumber json_number
  | RString string
  | RArray "raw_json list"
  | RObject "(string \<times> raw_json) list"

record calibration_env =
  ce_env :: service_env
  ce_reader :: "string \<Rightarrow> raw_json option"
  ce_camera_count :: nat

fun unique_json :: "raw_json \<Rightarrow> json option"
  and unique_array :: "raw_json list \<Rightarrow> json list option"
  and unique_object :: "(string \<times> json) list \<Rightarrow> (string \<times> raw_json) list \<Rightarrow> (string \<times> json) list option" where
  "unique_json RNull = Some JNull"
| "unique_json (RBool b) = Some (JBool b)"
| "unique_json (RNumber n) = Some (JNumber n)"
| "unique_json (RString s) = Some (JString s)"
| "unique_json (RArray vs) = map_option JArray (unique_array vs)"
| "unique_json (RObject kvs) = map_option JObject (unique_object [] kvs)"
| "unique_array [] = Some []"
| "unique_array (v # vs) =
     (case unique_json v of None \<Rightarrow> None | Some j \<Rightarrow> map_option ((#) j) (unique_array vs))"
| "unique_object values [] = Some values"
| "unique_object values ((k, v) # rest) =
     (if k \<in> fst ` set values then None
      else case unique_json v of None \<Rightarrow> None | Some j \<Rightarrow> unique_object (obj_insert k j values) rest)"

definition parse_unique_json :: "calibration_env \<Rightarrow> string \<Rightarrow> string + json" where
  "parse_unique_json ce body =
     (case Option.bind (ce_reader ce (trim body)) unique_json of
        None \<Rightarrow> Inl ''invalid_or_duplicate_calibration_operation_json''
      | Some v \<Rightarrow> Inr v)"

fun canonicalize :: "json \<Rightarrow> json"
  and canonical_array :: "json list \<Rightarrow> json list"
  and canonical_fields :: "(string \<times> json) list \<Rightarrow> (string \<times> json) list" where
  "canonicalize (JObject m) = JObject (obj_of (sort_key fst (canonical_fields m)))"
| "canonicalize (JArray vs) = JArray (canonical_array vs)"
| "canonicalize JNull = JNull"
| "canonicalize (JBool b) = JBool b"
| "canonicalize (JNumber n) = JNumber n"
| "canonicalize (JString s) = JString s"
| "canonical_array [] = []"
| "canonical_array (v # vs) = canonicalize v # canonical_array vs"
| "canonical_fields [] = []"
| "canonical_fields ((k, v) # m) = (k, canonicalize v) # canonical_fields m"

section \<open>The normal form of a request\<close>

definition operation_id_max_bytes :: nat where "operation_id_max_bytes = 128"

definition operation_id_byte :: "char \<Rightarrow> bool" where
  "operation_id_byte c \<longleftrightarrow> is_ascii_alphanumeric c \<or> c \<in> {CHR ''-'', CHR ''_'', CHR ''.'', CHR '':''}"

definition valid_operation_id :: "string \<Rightarrow> bool" where
  "valid_operation_id v \<longleftrightarrow>
     v \<noteq> [] \<and> length v \<le> operation_id_max_bytes \<and> list_all operation_id_byte v"

definition non_blank :: "string option \<Rightarrow> string option" where
  "non_blank v = (case v of None \<Rightarrow> None | Some s \<Rightarrow> if trim s = [] then None else Some (trim s))"

definition normalized_request :: "calibration_env \<Rightarrow> string \<Rightarrow> string + string \<times> string" where
  "normalized_request ce body =
     (case parse_unique_json ce body of
        Inl e \<Rightarrow> Inl e
      | Inr v \<Rightarrow>
     (case as_object v of
        None \<Rightarrow> Inl ''calibration_operation_json_object_required''
      | Some m \<Rightarrow>
     (case non_blank (get_str ''operationId'' v) of
        None \<Rightarrow> Inl ''calibration_operation_id_required''
      | Some oid \<Rightarrow>
          if operation_id_max_bytes < length oid then Inl ''calibration_operation_id_too_long''
          else if \<not> list_all operation_id_byte oid then Inl ''calibration_operation_id_invalid''
          else Inr (oid, to_string (sv_serde (ce_env ce))
                 (canonicalize (JObject (obj_insert ''operationId'' (JString oid) m)))))))"

definition request_hash :: "string \<Rightarrow> string \<Rightarrow> string" where
  "request_hash kind request_json = ''fnv1a64-'' @ hex16 (fnv1a (kind @ [LF] @ request_json))"

definition request_operation_id :: "serde \<Rightarrow> string \<Rightarrow> string \<Rightarrow> string" where
  "request_operation_id sd request_json field =
     unwrap_or [] (Option.bind (from_str_ok sd request_json) (\<lambda>v. map_option trim (get_str field v)))"

section \<open>Rules for writes to cameras\<close>

definition line_continuous_preset_confirmation :: string where
  "line_continuous_preset_confirmation = ''APPLY LINE CONTINUOUS PRESET''"

definition line_continuous_device_persist_confirmation :: string where
  "line_continuous_device_persist_confirmation = ''PERSIST LINE PRESET TO CAMERA DEVICES''"

definition camera_device_persist_confirmation :: string where
  "camera_device_persist_confirmation = ''PERSIST CAMERA PARAMETERS''"

definition sdk_parameter_write_confirmation :: string where
  "sdk_parameter_write_confirmation = ''WRITE SDK PARAMETER''"

definition camera_calibration_confirmation :: string where
  "camera_calibration_confirmation = ''APPLY CAMERA CALIBRATION''"

definition camera_calibration_set_confirmation :: string where
  "camera_calibration_set_confirmation = ''APPLY CAMERA CALIBRATION SET''"

definition camera_calibration_rollback_confirmation :: string where
  "camera_calibration_rollback_confirmation = ''ROLLBACK CAMERA CALIBRATION''"

definition camera_roi_confirmation :: string where
  "camera_roi_confirmation = ''APPLY CAMERA ROI''"

definition calibration_set_camera_count :: nat where "calibration_set_camera_count = 8"

definition calibration_set_camera_count_error :: "nat \<Rightarrow> string" where
  "calibration_set_camera_count_error expected =
     (if expected = calibration_set_camera_count then ''calibration_set_requires_eight_cameras''
      else ''calibration_set_camera_count_mismatch'')"

fun as_array :: "json \<Rightarrow> json list option" where
  "as_array (JArray vs) = Some vs"
| "as_array _ = None"

definition replace_char :: "char \<Rightarrow> char \<Rightarrow> string \<Rightarrow> string" where
  "replace_char a b s = map (\<lambda>c. if c = a then b else c) s"

text \<open>One entry of \<open>cameraCalibrations\<close>: its address, serial number and artifact, in normal form.\<close>

definition mapping_entry :: "json \<Rightarrow> string + string \<times> string \<times> string" where
  "mapping_entry mapping =
     (let required_text = (\<lambda>name. non_blank (get_str name mapping))
      in if \<not> is_object mapping then Inl ''calibration_set_mapping_invalid''
         else case required_text ''ip'' of
                None \<Rightarrow> Inl ''calibration_set_mapping_invalid''
              | Some ip \<Rightarrow>
         (case required_text ''path'' of
                None \<Rightarrow> Inl ''calibration_set_mapping_invalid''
              | Some path \<Rightarrow>
         (case required_text ''expectedSn'' of
                None \<Rightarrow> Inl ''calibration_set_serial_required''
              | Some sn \<Rightarrow>
         (case required_text ''rollbackPath'' of
                None \<Rightarrow> Inl ''calibration_set_durable_rollback_path_required''
              | Some _ \<Rightarrow> Inr (ip, to_ascii_lowercase sn,
                             to_ascii_lowercase (replace_char (CHR 0x5C) (CHR ''/'') path))))))"

text \<open>The loop over the entries, with the three sets seen so far.\<close>

fun mapping_loop ::
  "json list \<Rightarrow> string list \<Rightarrow> string list \<Rightarrow> string list \<Rightarrow> string + string list" where
  "mapping_loop [] ips serials paths = Inr ips"
| "mapping_loop (mapping # rest) ips serials paths =
     (case mapping_entry mapping of
        Inl e \<Rightarrow> Inl e
      | Inr (ip, sn, path) \<Rightarrow>
          if ip \<in> set ips then Inl ''calibration_set_duplicate_camera''
          else if sn \<in> set serials then Inl ''calibration_set_duplicate_serial''
          else if path \<in> set paths then Inl ''calibration_set_duplicate_artifact''
          else mapping_loop rest (ip # ips) (sn # serials) (path # paths))"

definition target_ip :: "json \<Rightarrow> string" where
  "target_ip v = unwrap_or [] (map_option trim (as_str v))"

definition validate_calibration_set_safety_for_camera_count :: "json \<Rightarrow> nat \<Rightarrow> string + unit" where
  "validate_calibration_set_safety_for_camera_count object cameras =
     (let expected = max 1 cameras;
          count_error = calibration_set_camera_count_error expected
      in if get_bool ''atomic'' object \<noteq> Some True \<or> get_bool ''rollbackOnFailure'' object \<noteq> Some True
            \<or> get_bool ''requireAllMapped'' object \<noteq> Some True \<or> get_bool ''stopStreams'' object \<noteq> Some True
         then Inl ''calibration_set_safe_mode_required''
         else if Option.bind (value_get ''expectedCameras'' object) as_u64 \<noteq> Some expected then Inl count_error
         else if get_bool ''allowBestEffortDeviceRollback'' object = Some True
            \<or> get_bool ''saveCameraParams'' object = Some True
         then Inl ''calibration_set_unsafe_option_rejected''
         else if get_bool ''persistActive'' object = Some True
            \<and> non_blank (get_str ''path'' object) = None
         then Inl ''calibration_set_array_path_required''
         else case Option.bind (value_get ''cameraCalibrations'' object) as_array of
                None \<Rightarrow> Inl ''calibration_set_mapping_required''
              | Some mappings \<Rightarrow>
         if length mappings \<noteq> expected then Inl count_error
         else case mapping_loop mappings [] [] [] of
                Inl e \<Rightarrow> Inl e
              | Inr ips \<Rightarrow>
         (case Option.bind (value_get ''ips'' object) as_array of
                None \<Rightarrow> Inl ''calibration_set_target_list_required''
              | Some requested \<Rightarrow>
         if length requested \<noteq> expected then Inl count_error
         else let targets = remdups (map target_ip requested)
              in if length targets \<noteq> expected \<or> list_ex (\<lambda>ip. ip \<notin> set ips) targets
                 then Inl ''calibration_set_target_mapping_mismatch''
                 else Inr ()))"

text \<open>
  \<open>as_f64\<close> of a number in the range 0.1 to 100000: the order of positive 64-bit floats is the order of
  their bit patterns, an integer is converted exactly in this range.
\<close>

fun line_rate_ok :: "json \<Rightarrow> bool" where
  "line_rate_ok (JNumber (PosInt n)) \<longleftrightarrow> 1 \<le> n \<and> n \<le> 100000"
| "line_rate_ok (JNumber (FloatBits w)) \<longleftrightarrow> 0x3FB999999999999A \<le> w \<and> w \<le> 0x40F86A0000000000"
| "line_rate_ok _ \<longleftrightarrow> False"

definition integer_in_range :: "json \<Rightarrow> string \<Rightarrow> int \<Rightarrow> int \<Rightarrow> bool" where
  "integer_in_range object name lo hi =
     (case value_get name object of
        None \<Rightarrow> True
      | Some v \<Rightarrow> (case as_i64 v of None \<Rightarrow> False | Some i \<Rightarrow> lo \<le> i \<and> i \<le> hi))"

definition validate_line_continuous_preset_request :: "serde \<Rightarrow> string \<Rightarrow> string + unit" where
  "validate_line_continuous_preset_request sd body =
     (case from_str_ok sd (trim body) of
        None \<Rightarrow> Inl ''invalid_json''
      | Some object \<Rightarrow>
          if \<not> is_object object then Inl ''json_object_required''
          else if get_str ''confirmation'' object \<noteq> Some line_continuous_preset_confirmation
          then Inl ''line_preset_confirmation_required''
          else if \<not> integer_in_range object ''lines'' 1 100000 \<or> \<not> integer_in_range object ''laserPower'' 0 100
            \<or> \<not> integer_in_range object ''laserLineSelect'' 0 2 \<or> \<not> integer_in_range object ''controlMode'' 0 1
          then Inl ''line_preset_parameter_out_of_range''
          else if (case value_get ''timeTriggerFreq'' object of None \<Rightarrow> False | Some v \<Rightarrow> \<not> line_rate_ok v)
          then Inl ''line_preset_parameter_out_of_range''
          else if get_bool ''saveToDevice'' object = Some True
            \<and> get_str ''deviceConfirmation'' object \<noteq> Some line_continuous_device_persist_confirmation
          then Inl ''line_preset_device_confirmation_required''
          else Inr ())"

definition operator_keys :: "string list" where
  "operator_keys =
     [''exposuretime'', ''expsure_time'', ''gaink'', ''gain_k'', ''timetriggerfreq'',
      ''time_trigger_freq'', ''triggermode'', ''trigger_mode'']"

text \<open>The checks in order: the first whose condition holds gives the error.\<close>

fun first_error :: "(bool \<times> string) list \<Rightarrow> string + unit" where
  "first_error [] = Inr ()"
| "first_error ((bad, e) # rest) = (if bad then Inl e else first_error rest)"

definition calibration_set_error :: "string + unit \<Rightarrow> (bool \<times> string) list" where
  "calibration_set_error r = (case r of Inl e \<Rightarrow> [(True, e)] | Inr _ \<Rightarrow> [])"

definition validate_capture_device_mutation_request_for_camera_count ::
  "serde \<Rightarrow> string \<Rightarrow> string \<Rightarrow> nat \<Rightarrow> string + unit" where
  "validate_capture_device_mutation_request_for_camera_count sd path body cameras =
     (let object = from_str_or_empty sd (trim body);
          unconfirmed = (\<lambda>field text. get_str field object \<noteq> Some text);
          dry_run = (get_bool ''dryRun'' object = Some True)
      in if \<not> is_object object then Inl ''json_object_required''
         else first_error
          ([(path = ''/api/calibration/load'' \<and> \<not> dry_run
               \<and> unconfirmed ''confirmation'' camera_calibration_confirmation,
             ''camera_calibration_confirmation_required'')]
           @ (if path = ''/api/calibration/apply-all''
              then calibration_set_error (validate_calibration_set_safety_for_camera_count object cameras) else [])
           @ [(path = ''/api/calibration/apply-all'' \<and> \<not> dry_run
               \<and> unconfirmed ''confirmation'' camera_calibration_set_confirmation,
              ''camera_calibration_set_confirmation_required''),
             (path = ''/api/calibration/rollback''
               \<and> unconfirmed ''confirmation'' camera_calibration_rollback_confirmation,
              ''camera_calibration_rollback_confirmation_required''),
             (path = ''/api/calibration/rollback'' \<and> non_blank (get_str ''applyOperationId'' object) = None,
              ''calibration_rollback_apply_operation_id_required''),
             (path = ''/api/roi/load'' \<and> unconfirmed ''confirmation'' camera_roi_confirmation,
              ''camera_roi_confirmation_required''),
             (path = ''/api/capture/continuous-settings''
               \<and> \<not> (case find_map (\<lambda>k. value_get k object) [''timeTriggerFreq'', ''time_trigger_freq''] of
                       None \<Rightarrow> False | Some v \<Rightarrow> line_rate_ok v),
              ''continuous_line_rate_out_of_range''),
             (path = ''/api/param''
               \<and> to_ascii_lowercase (unwrap_or [] (get_str ''key'' object)) \<notin> set operator_keys
               \<and> unconfirmed ''confirmation'' sdk_parameter_write_confirmation,
              ''sdk_parameter_write_confirmation_required''),
             (path = ''/api/param/recovery''
               \<and> unconfirmed ''confirmation'' sdk_parameter_write_confirmation,
              ''sdk_parameter_write_confirmation_required''),
             ((path \<in> {''/api/param/save-device'', ''/api/param/save-to-device''}
                \<or> get_bool ''saveToDevice'' object = Some True)
               \<and> unconfirmed ''deviceConfirmation'' camera_device_persist_confirmation,
              ''camera_device_persist_confirmation_required'')]))"

end
