(* ===== verification/Calibration_Operations.thy ===== *)
theory Calibration_Operations
  imports Calibration_Request
begin

text \<open>
  Calibration writes, \<open>app/service/src/calibration_operations.rs\<close>.  A request is normalised, looked up in
  the ledger, held back by the reconciliation fence, recorded, and only then sent to the capture
  provider.  Requests run on threads of their own, so the handler is a machine whose steps are the
  database calls and the call of the provider; \<open>busy\<close> says whether another thread holds the dispatch
  lock at this moment.
\<close>

section \<open>Responses\<close>

record capture_proxy_response =
  cp_status_code :: nat
  cp_content_type :: string
  cp_body :: string

definition capture_proxy_reason :: "nat \<Rightarrow> string" where
  "capture_proxy_reason code = unwrap_or ''Capture Provider Response'' (map_of
     [(200, ''OK''), (201, ''Created''), (202, ''Accepted''), (204, ''No Content''),
      (400, ''Bad Request''), (401, ''Unauthorized''), (403, ''Forbidden''), (404, ''Not Found''),
      (408, ''Request Timeout''), (409, ''Conflict''), (422, ''Unprocessable Entity''),
      (429, ''Too Many Requests''), (500, ''Internal Server Error''), (502, ''Bad Gateway''),
      (503, ''Service Unavailable''), (504, ''Gateway Timeout'')] code)"

definition capture_proxy_status :: "nat \<Rightarrow> string" where
  "capture_proxy_status code = show_nat code @ '' '' @ capture_proxy_reason code"

definition http_bytes_response_with_headers ::
  "string \<Rightarrow> string \<Rightarrow> string \<Rightarrow> (string \<times> string) list \<Rightarrow> string" where
  "http_bytes_response_with_headers status content_type body extra_headers =
     http_response_with_headers status content_type body extra_headers"

definition parsed_or_text :: "serde \<Rightarrow> string \<Rightarrow> json" where
  "parsed_or_text sd s = (case from_str_ok sd s of None \<Rightarrow> JString s | Some v \<Rightarrow> v)"

definition operation_value :: "serde \<Rightarrow> calibration_operation \<Rightarrow> bool \<Rightarrow> (string \<times> json) list" where
  "operation_value sd r replayed =
     [(''schema'', JString ''steel.service.calibration-operation.v1''), (''code'', jint 0),
      (''operationId'', JString (o_id r)), (''kind'', JString (o_kind r)),
      (''requestHash'', JString (o_request_hash r)), (''request'', parsed_or_text sd (o_request_json r)),
      (''status'', JString (o_status r)),
      (''needsReconciliation'', JBool (o_status r = ''needs-reconciliation'')),
      (''providerHttpStatus'', jnum (o_provider_http_status r)),
      (''providerResponse'', if o_provider_response_body r = [] then JNull
                           else parsed_or_text sd (o_provider_response_body r)),
      (''error'', JString (o_error r)), (''actor'', JString (o_actor r)),
      (''parentOperationId'', JString (o_parent_operation_id r)),
      (''reconciliationOutcome'', JString (o_reconciliation_outcome r)),
      (''reconciliationId'', JString (o_reconciliation_id r)), (''resolvedBy'', JString (o_resolved_by r)),
      (''resolvedAt'', JString (o_resolved_at r)), (''rowVersion'', jnum (o_row_version r)),
      (''createdAt'', JString (o_created_at r)), (''dispatchStartedAt'', JString (o_dispatch_started_at r)),
      (''finishedAt'', JString (o_finished_at r)), (''updatedAt'', JString (o_updated_at r)),
      (''replayed'', JBool replayed)]"

definition operation_http_response :: "service_env \<Rightarrow> string \<Rightarrow> calibration_operation \<Rightarrow> bool \<Rightarrow> string" where
  "operation_http_response env status r replayed =
     json_reply env status (operation_value (sv_serde env) r replayed)"

definition replay_response :: "service_env \<Rightarrow> calibration_operation \<Rightarrow> string" where
  "replay_response env r =
     (if o_status r = ''dispatching'' then operation_http_response env ''202 Accepted'' r True
      else if o_status r \<in> {''succeeded'', ''failed''} \<and> 0 < o_provider_http_status r
         \<and> o_provider_response_body r \<noteq> []
      then http_bytes_response_with_headers
             (capture_proxy_status (nat (o_provider_http_status r mod 65536)))
             json_ct (o_provider_response_body r) []
      else if o_status r = ''needs-reconciliation'' then operation_http_response env ''409 Conflict'' r True
      else if o_status r \<in> {''succeeded'', ''failed'', ''reconciled''}
      then operation_http_response env ''200 OK'' r True
      else operation_http_response env ''500 Internal Server Error'' r True)"

definition conflict_response :: "service_env \<Rightarrow> string \<Rightarrow> string" where
  "conflict_response env oid =
     json_reply env ''409 Conflict''
       [(''code'', jint 409), (''error'', JString ''calibration_operation_id_conflict''),
        (''operationId'', JString oid)]"

definition operation_in_progress_response :: "service_env \<Rightarrow> string \<Rightarrow> string" where
  "operation_in_progress_response env oid =
     json_reply env ''409 Conflict''
       [(''code'', jint 409), (''error'', JString ''calibration_operation_in_progress''),
        (''operationId'', JString oid), (''retryable'', JBool True)]"

definition database_error_response :: "service_env \<Rightarrow> string \<Rightarrow> string" where
  "database_error_response env e =
     json_reply env ''500 Internal Server Error'' [(''code'', jint 500), (''error'', JString e)]"

definition validation_error_response :: "service_env \<Rightarrow> string \<Rightarrow> string" where
  "validation_error_response env e =
     json_reply env ''400 Bad Request'' [(''code'', jint 400), (''error'', JString e)]"

definition expected_apply_operation_id :: "serde \<Rightarrow> calibration_operation \<Rightarrow> string" where
  "expected_apply_operation_id sd r =
     (if o_kind r \<in> {''apply'', ''apply-all''} then o_id r
      else if o_kind r = ''rollback'' then request_operation_id sd (o_request_json r) ''applyOperationId''
      else [])"

definition unresolved_json :: "serde \<Rightarrow> calibration_operation \<Rightarrow> json" where
  "unresolved_json sd r = mk_obj
     [(''operationId'', JString (o_id r)), (''kind'', JString (o_kind r)), (''status'', JString (o_status r)),
      (''error'', JString (o_error r)),
      (''expectedApplyOperationId'', JString (expected_apply_operation_id sd r)),
      (''updatedAt'', JString (o_updated_at r))]"

definition reconciliation_required_response ::
  "service_env \<Rightarrow> string \<Rightarrow> calibration_operation list \<Rightarrow> string" where
  "reconciliation_required_response env request_target rows =
     json_reply env ''423 Locked''
       ([(''code'', jint 423), (''error'', JString ''calibration_reconciliation_required''),
         (''requestTarget'', JString request_target),
         (''unresolvedOperations'', JArray (map (unresolved_json (sv_serde env)) rows))]
        @ (if valid_operation_id request_target then [(''operationId'', JString request_target)] else []))"

section \<open>The reconciliation fence\<close>

definition reconciliation_fence_response ::
  "service_env \<Rightarrow> string \<Rightarrow> service_state \<Rightarrow> string option \<times> service_state" where
  "reconciliation_fence_response env oid st =
     (case block_on (list_unresolved_calibration_operations (sv_db env)) st of
        (Inr rows, st') \<Rightarrow>
          (if rows = [] then None else Some (reconciliation_required_response env oid rows), st')
      | (Inl _, st') \<Rightarrow>
          (Some (database_error_response env ''calibration_operation_fence_lookup_failed''), st'))"

section \<open>The answer of the provider\<close>

definition from_slice :: "serde \<Rightarrow> string \<Rightarrow> json option" where
  "from_slice sd bytes = (if is_utf8 bytes then from_str_ok sd bytes else None)"

definition provider_terminal_status :: "serde \<Rightarrow> string \<Rightarrow> capture_proxy_response \<Rightarrow> string \<times> string" where
  "provider_terminal_status sd kind response =
     (case from_slice sd (cp_body response) of
        None \<Rightarrow> (''needs-reconciliation'', ''capture_provider_response_not_decisive'')
      | Some body \<Rightarrow>
          if kind = ''apply-all'' \<and> get_bool ''rollbackPerformed'' body = Some True
             \<and> get_bool ''rollbackComplete'' body = Some False
          then (''needs-reconciliation'', ''capture_provider_automatic_rollback_incomplete'')
          else if kind = ''rollback'' \<and> get_bool ''sideEffects'' body = Some False
             \<and> get_bool ''attempted'' body = Some False
          then (''failed'', ''capture_provider_rollback_preflight_rejected'')
          else if kind = ''rollback'' \<and> get_bool ''complete'' body \<noteq> Some True
          then (''needs-reconciliation'', ''capture_provider_manual_rollback_incomplete'')
          else if cp_status_code response \<in> {408, 502, 503, 504}
          then (''needs-reconciliation'', ''capture_provider_timeout_or_unavailable'')
          else if \<not> (200 \<le> cp_status_code response \<and> cp_status_code response < 300)
          then (''failed'', ''capture_provider_rejected_operation'')
          else case get_i64 ''code'' body of
                 None \<Rightarrow> (''needs-reconciliation'', ''capture_provider_response_not_decisive'')
               | Some code \<Rightarrow> if code = 0 then (''succeeded'', [])
                             else (''failed'', ''capture_provider_operation_failed''))"

section \<open>Accepting a request\<close>

record calibration_request =
  cr_kind :: string
  cr_id :: string
  cr_json :: string
  cr_hash :: string
  cr_parent :: string
  cr_apply :: string
  cr_actor :: string

definition apply_path :: string where "apply_path = ''/api/calibration/apply-all''"

definition rollback_path :: string where "rollback_path = ''/api/calibration/rollback''"

definition operation_kind :: "string \<Rightarrow> string option" where
  "operation_kind path =
     (if path = apply_path then Some ''apply-all''
      else if path = rollback_path then Some ''rollback'' else None)"

definition production_capture_expected_cameras :: "calibration_env \<Rightarrow> nat" where
  "production_capture_expected_cameras ce = max (ce_camera_count ce) 1"

text \<open>The checks before the ledger is read: the response of a refusal, or the normalised request.\<close>

definition mutation_request ::
  "calibration_env \<Rightarrow> string \<Rightarrow> string \<Rightarrow> string \<Rightarrow> string + calibration_request" where
  "mutation_request ce path body actor =
     (let refuse = (\<lambda>e. Inl (validation_error_response (ce_env ce) e));
          sd = sv_serde (ce_env ce)
      in case operation_kind path of
           None \<Rightarrow> refuse ''unsupported_calibration_operation_kind''
         | Some kind \<Rightarrow>
      (case normalized_request ce body of
           Inl e \<Rightarrow> refuse e
         | Inr (oid, request_json) \<Rightarrow>
      (case validate_capture_device_mutation_request_for_camera_count sd path request_json
              (production_capture_expected_cameras ce) of
           Inl e \<Rightarrow> refuse e
         | Inr _ \<Rightarrow>
             let parent = request_operation_id sd request_json ''parentOperationId'';
                 requested_apply = request_operation_id sd request_json ''applyOperationId''
             in if parent \<noteq> [] \<and> \<not> valid_operation_id parent
                then refuse ''calibration_parent_operation_id_invalid''
                else if kind = ''rollback'' \<and> \<not> valid_operation_id requested_apply
                then refuse ''calibration_apply_operation_id_invalid''
                else Inr \<lparr> cr_kind = kind, cr_id = oid, cr_json = request_json,
                            cr_hash = request_hash kind request_json, cr_parent = parent,
                            cr_apply = requested_apply, cr_actor = actor \<rparr>)))"

definition matches_request :: "calibration_operation \<Rightarrow> calibration_request \<Rightarrow> bool" where
  "matches_request r rq \<longleftrightarrow>
     o_kind r = cr_kind rq \<and> o_request_hash r = cr_hash rq \<and> o_request_json r = cr_json rq"

definition known_operation_response ::
  "service_env \<Rightarrow> calibration_request \<Rightarrow> calibration_operation \<Rightarrow> string" where
  "known_operation_response env rq existing =
     (if matches_request existing rq then replay_response env existing
      else conflict_response env (cr_id rq))"

text \<open>
  The decision on the unresolved operations: a refusal, or the apply operation a recovery rollback
  must restore.
\<close>

definition fence_decision ::
  "service_env \<Rightarrow> calibration_request \<Rightarrow> calibration_operation list \<Rightarrow> string + string" where
  "fence_decision env rq rows =
     (case rows of
        [] \<Rightarrow> Inr []
      | r # rest \<Rightarrow>
          if list_ex (\<lambda>item. o_status item = ''dispatching'') rows
          then Inl (operation_in_progress_response env (cr_id rq))
          else if \<not> (cr_kind rq = ''rollback'' \<and> cr_parent rq \<noteq> [] \<and> rest = []
                    \<and> o_id r = cr_parent rq \<and> o_status r = ''needs-reconciliation'')
          then Inl (reconciliation_required_response env (cr_id rq) rows)
          else let expected = expected_apply_operation_id (sv_serde env) r
               in if expected = [] \<or> cr_apply rq \<noteq> expected
                  then Inl (json_reply env ''409 Conflict''
                    [(''code'', jint 409),
                     (''error'', JString ''calibration_reconciliation_expected_apply_mismatch''),
                     (''operationId'', JString (cr_id rq)), (''parentOperationId'', JString (cr_parent rq)),
                     (''expectedApplyOperationId'', JString expected),
                     (''requestedApplyOperationId'', JString (cr_apply rq)),
                     (''needsReconciliation'', JBool True)])
                  else Inr expected)"

section \<open>The handler\<close>

datatype calibration_pc =
    Lookup
  | Fence
  | Try_Lock string
  | Busy
  | Recheck string
  | Insert_Row string
  | Insert_Failed
  | Call_Provider string
  | Provider_Answer string "capture_proxy_response option"
  | Reconcile string capture_proxy_response calibration_operation
  | Reconciled capture_proxy_response
  | Answered string

definition provider_response :: "capture_proxy_response \<Rightarrow> string" where
  "provider_response response =
     http_bytes_response_with_headers (capture_proxy_status (cp_status_code response))
       (cp_content_type response) (cp_body response) []"

definition parent_error :: "service_env \<Rightarrow> calibration_request \<Rightarrow> string \<Rightarrow> (string \<times> json) list \<Rightarrow> string" where
  "parent_error env rq e extra =
     json_reply env ''409 Conflict''
       ([(''code'', jint 409), (''error'', JString e), (''operationId'', JString (cr_id rq)),
         (''parentOperationId'', JString (cr_parent rq))] @ extra @ [(''needsReconciliation'', JBool True)])"

definition operation_input :: "calibration_request \<Rightarrow> calibration_operation_input" where
  "operation_input rq =
     \<lparr> ci_id = cr_id rq, ci_kind = cr_kind rq, ci_request_hash = cr_hash rq,
       ci_request_json = cr_json rq, ci_actor = cr_actor rq, ci_parent_operation_id = cr_parent rq \<rparr>"

text \<open>The outcome of a decided provider call, after the ledger row was finished.\<close>

definition finished_pc ::
  "service_env \<Rightarrow> calibration_request \<Rightarrow> string \<Rightarrow> capture_proxy_response \<Rightarrow> string
     \<Rightarrow> calibration_operation \<Rightarrow> calibration_pc" where
  "finished_pc env rq expected response status r =
     (if o_status r = ''needs-reconciliation'' \<or> o_status r \<noteq> status
      then Answered (operation_http_response env ''409 Conflict'' r False)
      else if status = ''succeeded'' \<and> cr_kind rq = ''rollback'' \<and> cr_parent rq \<noteq> []
      then Reconcile expected response r
      else Answered (provider_response response))"

fun calibration_step ::
  "service_env \<Rightarrow> (string \<Rightarrow> capture_proxy_response option) \<Rightarrow> bool \<Rightarrow> calibration_request
     \<Rightarrow> calibration_pc \<Rightarrow> service_state \<Rightarrow> calibration_pc \<times> service_state" where
  "calibration_step env dispatch busy rq Lookup st =
     (case block_on (find_calibration_operation (sv_db env) (cr_id rq)) st of
        (Inr (Some existing), st') \<Rightarrow> (Answered (known_operation_response env rq existing), st')
      | (Inr None, st') \<Rightarrow> (Fence, st')
      | (Inl _, st') \<Rightarrow> (Answered (database_error_response env ''calibration_operation_lookup_failed''), st'))"
| "calibration_step env dispatch busy rq Fence st =
     (case block_on (list_unresolved_calibration_operations (sv_db env)) st of
        (Inr rows, st') \<Rightarrow>
          (case fence_decision env rq rows of
             Inl response \<Rightarrow> (Answered response, st') | Inr expected \<Rightarrow> (Try_Lock expected, st'))
      | (Inl _, st') \<Rightarrow>
          (Answered (database_error_response env ''calibration_operation_fence_lookup_failed''), st'))"
| "calibration_step env dispatch busy rq (Try_Lock expected) st =
     (if busy \<or> lock (ss_calibration_lock st) = None then (Busy, st) else (Recheck expected, st))"
| "calibration_step env dispatch busy rq Busy st =
     (case block_on (find_calibration_operation (sv_db env) (cr_id rq)) st of
        (Inr (Some existing), st') \<Rightarrow> (Answered (known_operation_response env rq existing), st')
      | (Inr None, st') \<Rightarrow> (Answered (operation_in_progress_response env (cr_id rq)), st')
      | (Inl _, st') \<Rightarrow> (Answered (database_error_response env ''calibration_operation_lookup_failed''), st'))"
| "calibration_step env dispatch busy rq (Recheck expected) st =
     (case block_on (find_calibration_operation (sv_db env) (cr_id rq)) st of
        (Inr (Some existing), st') \<Rightarrow> (Answered (known_operation_response env rq existing), st')
      | (Inr None, st') \<Rightarrow> (Insert_Row expected, st')
      | (Inl _, st') \<Rightarrow> (Answered (database_error_response env ''calibration_operation_lookup_failed''), st'))"
| "calibration_step env dispatch busy rq (Insert_Row expected) st =
     (case block_on (insert_calibration_operation (sv_db env) (operation_input rq)) st of
        (Inr _, st') \<Rightarrow> (Call_Provider expected, st')
      | (Inl _, st') \<Rightarrow> (Insert_Failed, st'))"
| "calibration_step env dispatch busy rq Insert_Failed st =
     (case block_on (find_calibration_operation (sv_db env) (cr_id rq)) st of
        (Inr (Some existing), st') \<Rightarrow> (Answered (known_operation_response env rq existing), st')
      | (_, st') \<Rightarrow> (Answered (database_error_response env ''calibration_operation_insert_failed''), st'))"
| "calibration_step env dispatch busy rq (Call_Provider expected) st =
     (Provider_Answer expected (dispatch (cr_json rq)), st)"
| "calibration_step env dispatch busy rq (Provider_Answer expected None) st =
     (case block_on (finish_calibration_operation (sv_db env) (cr_id rq) ''needs-reconciliation'' 0 []
              ''capture_provider_timeout_or_unavailable'') st of
        (Inr (Some r), st') \<Rightarrow> (Answered (operation_http_response env ''409 Conflict'' r False), st')
      | (_, st') \<Rightarrow> (Answered (database_error_response env ''calibration_operation_finalize_failed''), st'))"
| "calibration_step env dispatch busy rq (Provider_Answer expected (Some response)) st =
     (let (status, e) = provider_terminal_status (sv_serde env) (cr_kind rq) response
      in case block_on (finish_calibration_operation (sv_db env) (cr_id rq) status
                (int (cp_status_code response)) (from_utf8_lossy (cp_body response)) e) st of
           (Inr (Some r), st') \<Rightarrow> (finished_pc env rq expected response status r, st')
         | (_, st') \<Rightarrow> (Answered (database_error_response env ''calibration_operation_finalize_failed''), st'))"
| "calibration_step env dispatch busy rq (Reconcile expected response r) st =
     (let provider_apply = unwrap_or [] (Option.bind
            (from_str_ok (sv_serde env) (o_provider_response_body r)) (get_str ''applyOperationId''))
      in if provider_apply \<noteq> expected
         then (Answered (parent_error env rq ''calibration_reconciliation_parent_mismatch''
                [(''expectedApplyOperationId'', JString expected),
                 (''providerApplyOperationId'', JString provider_apply)]), st)
         else case block_on (reconcile_calibration_operation (sv_db env) (cr_parent rq) (cr_id rq)
                   ''restored-to-staged-baseline'' (cr_actor rq)) st of
                (Inr (Some parent), st') \<Rightarrow>
                  if o_status parent = ''reconciled'' then (Reconciled response, st')
                  else (Answered (parent_error env rq ''calibration_reconciliation_finalize_failed'' []), st')
              | (_, st') \<Rightarrow>
                  (Answered (parent_error env rq ''calibration_reconciliation_finalize_failed'' []), st'))"
| "calibration_step env dispatch busy rq (Reconciled response) st =
     (Answered (provider_response response),
      block_on_ignored (append_audit_log (sv_db env) (cr_actor rq) ''calibration.reconciled'' (cr_parent rq)
        (''restored to staged baseline by rollback operation '' @ cr_id rq) ''warning'') st)"
| "calibration_step env dispatch busy rq (Answered response) st = (Answered response, st)"

fun calibration_run ::
  "service_env \<Rightarrow> (string \<Rightarrow> capture_proxy_response option) \<Rightarrow> calibration_request \<Rightarrow> nat
     \<Rightarrow> calibration_pc \<Rightarrow> service_state \<Rightarrow> calibration_pc \<times> service_state" where
  "calibration_run env dispatch rq 0 pc st = (pc, st)"
| "calibration_run env dispatch rq (Suc n) pc st =
     (let (pc', st') = calibration_step env dispatch False rq pc st
      in calibration_run env dispatch rq n pc' st')"

fun answer :: "calibration_pc \<Rightarrow> string" where
  "answer (Answered response) = response"
| "answer _ = []"

text \<open>One request with no other thread at the lock; nine steps are the longest way to an answer.\<close>

definition mutation_response_with_dispatch ::
  "calibration_env \<Rightarrow> (string \<Rightarrow> capture_proxy_response option) \<Rightarrow> string \<Rightarrow> string \<Rightarrow> string
     \<Rightarrow> service_state \<Rightarrow> string \<times> service_state" where
  "mutation_response_with_dispatch ce dispatch path body actor st =
     (case mutation_request ce path body actor of
        Inl response \<Rightarrow> (response, st)
      | Inr rq \<Rightarrow> (let (pc, st') = calibration_run (ce_env ce) dispatch rq 9 Lookup st in (answer pc, st')))"

text \<open>
  The capture provider as its two uses here: \<open>cv_post\<close> is \<open>proxy_response_with_read_timeout\<close> for a POST with
  the 120 second timeout, \<open>cv_dry_run\<close> the proxied response of a dry run.
\<close>

record capture_provider_calls =
  cv_post :: "string \<Rightarrow> string \<Rightarrow> capture_proxy_response option"
  cv_dry_run :: "string \<Rightarrow> string"

definition mutation_response ::
  "calibration_env \<Rightarrow> capture_provider_calls \<Rightarrow> string \<Rightarrow> string \<Rightarrow> string \<Rightarrow> service_state
     \<Rightarrow> string \<times> service_state" where
  "mutation_response ce cv path body actor st =
     mutation_response_with_dispatch ce (cv_post cv path) path body actor st"

definition apply_response ::
  "calibration_env \<Rightarrow> capture_provider_calls \<Rightarrow> string \<Rightarrow> string \<Rightarrow> service_state \<Rightarrow> string \<times> service_state" where
  "apply_response ce cv body actor st =
     (case parse_unique_json ce body of
        Inl e \<Rightarrow> (validation_error_response (ce_env ce) e, st)
      | Inr v \<Rightarrow>
          let normalized_body = to_string (sv_serde (ce_env ce)) (canonicalize v)
          in case validate_capture_device_mutation_request_for_camera_count (sv_serde (ce_env ce)) apply_path
                    normalized_body (production_capture_expected_cameras ce) of
               Inl e \<Rightarrow> (validation_error_response (ce_env ce) e, st)
             | Inr _ \<Rightarrow>
                 if get_bool ''dryRun'' v = Some True then (cv_dry_run cv normalized_body, st)
                 else mutation_response ce cv apply_path normalized_body actor st)"

text \<open>\<open>None\<close> is the panic of the query decoder.\<close>

definition calibration_detail_response ::
  "service_env \<Rightarrow> string \<Rightarrow> service_state \<Rightarrow> (string \<times> service_state) option" where
  "calibration_detail_response env qs st =
     Option.bind (query_value qs ''id'') (\<lambda>id_text.
     let oid = trim (unwrap_or [] id_text)
     in Some (if oid = [] then (validation_error_response env ''calibration_operation_id_required'', st)
        else case block_on (find_calibration_operation (sv_db env) oid) st of
               (Inr (Some r), st') \<Rightarrow> (operation_http_response env ''200 OK'' r False, st')
             | (Inr None, st') \<Rightarrow> (json_reply env ''404 Not Found''
                 [(''code'', jint 404), (''error'', JString ''calibration_operation_not_found''),
                  (''operationId'', JString oid)], st')
             | (Inl _, st') \<Rightarrow>
                 (database_error_response env ''calibration_operation_lookup_failed'', st')))"

end
