(* ===== verification/Service_Client.thy ===== *)
theory Service_Client
  imports Route_Props Auth_Props Calibration_Operations
begin

text \<open>
  A client connection of the inspection service, \<open>handle_client\<close> of \<open>app/service/src/main.rs\<close>: the request is
  read, and passes the origin check, the drain endpoint, the authorisation, the two mode guards, the
  admission gate and the reconciliation fence, in this order, before it is routed to its handler.  The
  handlers are an argument: \<open>run\<close> gives the response of the target and the state it leaves.
\<close>

section \<open>Reading a request\<close>

fun service_read_loop :: "string \<Rightarrow> read_result list \<Rightarrow> string option" where
  "service_read_loop bytes [] = Some bytes"
| "service_read_loop bytes (ReadErr # rs) = None"
| "service_read_loop bytes (ReadBytes chunk # rs) =
     (if chunk = [] then Some bytes
      else
        let bytes' = bytes @ chunk
        in case header_end_index bytes' of
             None \<Rightarrow> if 1024 * 1024 < length bytes' then None else service_read_loop bytes' rs
           | Some header_end \<Rightarrow>
               let total = wrapping_add64 header_end
                     (content_length_from_headers (from_utf8_lossy (take header_end bytes')))
               in if total \<le> length bytes' then Some (take total bytes')
                  else if 17 * 1024 * 1024 < total then None
                  else service_read_loop bytes' rs)"

definition service_read_http_request :: "read_result list \<Rightarrow> string option" where
  "service_read_http_request reads = service_read_loop [] reads"

record client_request =
  cl_head :: string
  cl_method :: string
  cl_raw_path :: string
  cl_body :: string

definition cl_path :: "client_request \<Rightarrow> string" where
  "cl_path rq = fst (split_path_and_query (cl_raw_path rq))"

definition parse_client_request :: "string \<Rightarrow> client_request option" where
  "parse_client_request bytes =
     map_option (\<lambda>header_end.
       let request = from_utf8_lossy (take header_end bytes);
           parts = split_whitespace (nth_or_empty (str_lines request) 0)
       in \<lparr> cl_head = request, cl_method = nth_or_empty parts 0, cl_raw_path = nth_or_empty parts 1,
            cl_body = from_utf8_lossy (drop header_end bytes) \<rparr>)
       (header_end_index bytes)"

section \<open>Before the handler\<close>

text \<open>
  A request that reaches its handler: on whose behalf, for which target, and which guards are held while
  the handler runs.
\<close>

record dispatch =
  di_actor :: string
  di_target :: route_target
  di_admission_guard :: bool
  di_command_guard :: bool

datatype client_outcome = Client_Panic | Reply string | Dispatch_To dispatch

definition client_actor :: "bool \<Rightarrow> admin_session option \<Rightarrow> string" where
  "client_actor trusted session =
     (if trusted then ''trigger-gateway''
      else case session of Some s \<Rightarrow> as_user_id s | None \<Rightarrow> ''anonymous'')"

definition release_admission :: "bool \<Rightarrow> service_state \<Rightarrow> service_state" where
  "release_admission guard st = (if guard then drop_runtime_admission_guard st else st)"

text \<open>From the admission gate to the dispatch; a refused request drops its guard.\<close>

definition client_admission ::
  "service_env \<Rightarrow> capture_provider \<Rightarrow> client_request \<Rightarrow> string \<Rightarrow> service_state
     \<Rightarrow> client_outcome \<times> service_state" where
  "client_admission env provider rq actor st =
     (case enter_runtime_admission env (cl_method rq) (cl_path rq) st of
        (Inl response, st') \<Rightarrow> (Reply response, st')
      | (Inr guard, st') \<Rightarrow>
          let (fence, st2) = (if mutation_requires_reconciliation_fence (cl_method rq) (cl_path rq)
                              then reconciliation_fence_response env (cl_path rq) st' else (None, st'))
          in case fence of
               Some response \<Rightarrow> (Reply response, release_admission guard st2)
             | None \<Rightarrow>
                 (Dispatch_To \<lparr> di_actor = actor,
                    di_target = route_of provider (cl_head rq) (cl_method rq) (cl_path rq),
                    di_admission_guard = guard,
                    di_command_guard = is_production_mutation_route (cl_method rq) (cl_path rq)
                      \<and> lock (ss_command_lock st2) \<noteq> None \<rparr>, st2))"

definition client_front ::
  "service_env \<Rightarrow> capture_provider \<Rightarrow> ip_addr option \<Rightarrow> client_request \<Rightarrow> service_state
     \<Rightarrow> client_outcome \<times> service_state" where
  "client_front env provider peer rq st =
     (let request = cl_head rq; method = cl_method rq; path = cl_path rq; body = cl_body rq;
          trusted = trusted_trigger_service_request env request method path peer
      in if \<not> request_origin_allowed request method
         then (Reply (auth_failure env ''403 Forbidden'' 403 ''origin_not_allowed''),
               append_origin_audit env request method path st)
         else if method = ''POST'' \<and> path = ''/api/runtime/drain''
         then (let (response, st') = runtime_drain_response env request peer st in (Reply response, st'))
         else case (if trusted then Some (Inr None, st) else authorize_request env request method path st) of
                None \<Rightarrow> (Client_Panic, st)
              | Some (Inl response, st1) \<Rightarrow> (Reply response, st1)
              | Some (Inr session, st1) \<Rightarrow>
                  (case runtime_mode_guard_response_for_request env method path body of
                     Some response \<Rightarrow> (Reply response, st1)
                   | None \<Rightarrow>
                  (case runtime_capability_guard_response_for_request env method path body of
                     Some response \<Rightarrow> (Reply response, st1)
                   | None \<Rightarrow> client_admission env provider rq (client_actor trusted session) st1)))"

section \<open>The whole connection\<close>

definition client_route ::
  "(route_target \<Rightarrow> client_request \<Rightarrow> string \<Rightarrow> service_state \<Rightarrow> string \<times> service_state)
     \<Rightarrow> client_request \<Rightarrow> dispatch \<Rightarrow> service_state \<Rightarrow> string \<times> service_state" where
  "client_route run rq d st =
     (case di_target d of
        No_Content \<Rightarrow> (http_response ''204 No Content'' json_ct [], st)
      | Not_Found \<Rightarrow> (http_response ''404 Not Found'' json_ct
          (quoted ''{!error!:!not_found!}''), st)
      | t \<Rightarrow> run t rq (di_actor d) st)"

text \<open>The bytes written, if any; \<open>None\<close> is a panic of the client thread.\<close>

definition service_handle_client ::
  "service_env \<Rightarrow> capture_provider
     \<Rightarrow> (route_target \<Rightarrow> client_request \<Rightarrow> string \<Rightarrow> service_state \<Rightarrow> string \<times> service_state)
     \<Rightarrow> ip_addr option \<Rightarrow> read_result list \<Rightarrow> service_state \<Rightarrow> string option option \<times> service_state" where
  "service_handle_client env provider run peer reads st =
     (case Option.bind (service_read_http_request reads) parse_client_request of
        None \<Rightarrow> (Some None, st)
      | Some rq \<Rightarrow>
          (case client_front env provider peer rq st of
             (Client_Panic, st') \<Rightarrow> (None, st')
           | (Reply response, st') \<Rightarrow> (Some (Some response), st')
           | (Dispatch_To d, st') \<Rightarrow>
               let (response, st2) = client_route run rq d st'
               in (Some (Some response), release_admission (di_admission_guard d) st2)))"

end
