(* ===== verification/Calibration_Ledger.thy ===== *)
theory Calibration_Ledger
  imports Calibration_Operations Transition_System
begin

text \<open>
  Calibration requests on concurrent threads.  A step changes the ledger only while its thread holds the
  dispatch lock, the lock has one holder, and a row is inserted before its provider call; so under any
  interleaving, with any database faults and restarts, the provider is called at most once for an
  operation identifier.
\<close>

section \<open>Steps and the ledger\<close>

abbreviation ledger :: "service_state \<Rightarrow> calibration_operation list" where
  "ledger st \<equiv> db_operations (ss_database st)"

definition keeps_ids :: "calibration_operation list \<Rightarrow> calibration_operation list \<Rightarrow> bool" where
  "keeps_ids rs rs' \<longleftrightarrow> (distinct_ids rs \<longrightarrow> distinct_ids rs')"

interpretation lids: ledger_relation keeps_ids
  by unfold_locales (auto simp: keeps_ids_def)

interpretation fin: row_update o_id "finished_operation existing status http_status body error now"
  for existing status http_status body error now
  by unfold_locales (simp add: finished_operation_def)

interpretation rec: row_update o_id "reconciled_operation existing rid outcome actor now"
  for existing rid outcome actor now
  by unfold_locales (simp add: reconciled_operation_def)

interpretation itr: row_update o_id "interrupted_operation existing now" for existing now
  by unfold_locales (simp add: interrupted_operation_def)

lemma find_operation_ids: "ledger_keeps keeps_ids (find_calibration_operation env oid)"
  unfolding find_calibration_operation_def by (rule lids.ledger_query)

lemma finish_operation_ids:
  "ledger_keeps keeps_ids (finish_calibration_operation env oid status http_status body error)"
  unfolding finish_calibration_operation_def
  by (intro lids.ledger_bind find_operation_ids)
    (auto intro!: lids.ledger_bind lids.ledger_steps lids.ledger_update find_operation_ids
       simp: keeps_ids_def distinct_ids_def fin.map_key split: option.splits)

lemma reconcile_operation_ids:
  "ledger_keeps keeps_ids (reconcile_calibration_operation env oid rid outcome actor)"
  unfolding reconcile_calibration_operation_def
  by (intro lids.ledger_bind find_operation_ids)
    (auto intro!: lids.ledger_bind lids.ledger_steps lids.ledger_update find_operation_ids
       simp: keeps_ids_def distinct_ids_def rec.map_key split: option.splits)

lemma recover_operations_ids: "ledger_keeps keeps_ids (recover_operations env rows recovered)"
  by (induction rows arbitrary: recovered)
    (auto intro!: lids.ledger_bind lids.ledger_steps lids.ledger_update
       simp: keeps_ids_def distinct_ids_def itr.map_key)

lemma recover_ids: "ledger_keeps keeps_ids (recover_dispatching_calibration_operations env)"
  unfolding recover_dispatching_calibration_operations_def
  by (intro lids.ledger_bind lids.ledger_query recover_operations_ids)

text \<open>An insertion that succeeds is the only way a row appears, and the identifier was free.\<close>

lemma insert_operation_cases:
  assumes "insert_calibration_operation env input db = (r, db')"
  shows "(\<exists>e. r = Inl e) \<and> db_operations db' = db_operations db
    \<or> (\<exists>row now. r = Inr row \<and> row = new_operation_row input now \<and> ci_id input \<notin> o_id ` set (db_operations db)
         \<and> db_operations db' = db_operations db @ [row])"
  using assms
  by (auto simp: insert_calibration_operation_def db_bind_def now_millis_string_def stmt_def Let_def
      new_operation_row_def split: option.splits if_splits)

text \<open>The program points at which a thread holds the dispatch lock.\<close>

fun holds_lock :: "calibration_pc \<Rightarrow> bool" where
  "holds_lock (Recheck _) = True"
| "holds_lock (Insert_Row _) = True"
| "holds_lock Insert_Failed = True"
| "holds_lock (Call_Provider _) = True"
| "holds_lock (Provider_Answer _ _) = True"
| "holds_lock (Reconcile _ _ _) = True"
| "holds_lock (Reconciled _) = True"
| "holds_lock _ = False"

definition calls_provider :: "calibration_pc \<Rightarrow> bool" where
  "calls_provider pc \<longleftrightarrow> (\<exists>expected. pc = Call_Provider expected)"

lemma block_on_ledger:
  "ledger_keeps R m \<Longrightarrow> block_on m st = (r, st') \<Longrightarrow> R (ledger st) (ledger st')"
  by (auto simp: block_on_iff dest: ledger_keepsD)

lemma terminal_not_dispatching:
  "provider_terminal_status sd kind response = (status, e) \<Longrightarrow> status \<noteq> ''dispatching''"
  by (auto simp: provider_terminal_status_def split: option.splits if_splits)

lemma step_without_lock:
  assumes "calibration_step env dispatch busy rq pc st = (pc', st')" and "\<not> holds_lock pc"
  shows "ledger st' = ledger st"
  using assms find_operation_same [of "sv_db env" "cr_id rq"] list_unresolved_same [of "sv_db env"]
  by (cases pc) (auto split: prod.splits sum.splits option.splits if_splits dest: block_on_ledger)

lemma step_takes_lock:
  assumes "calibration_step env dispatch busy rq pc st = (pc', st')" and "\<not> holds_lock pc" and "holds_lock pc'"
  shows "\<not> busy"
  using assms by (cases pc) (auto split: prod.splits sum.splits option.splits if_splits)

lemma step_to_call:
  assumes "calibration_step env dispatch busy rq pc st = (pc', st')" and "calls_provider pc'"
  shows "holds_lock pc \<and> \<not> calls_provider pc \<and> cr_id rq \<notin> o_id ` set (ledger st)
    \<and> (\<exists>now. ledger st' = ledger st @ [new_operation_row (operation_input rq) now])"
proof (cases pc)
  case (Insert_Row expected)
  obtain r where b: "block_on (insert_calibration_operation (sv_db env) (operation_input rq)) st = (r, st')"
    and r: "\<exists>x. r = Inr x"
    using assms Insert_Row by (auto simp: calls_provider_def split: prod.splits sum.splits)
  from b obtain db where "insert_calibration_operation (sv_db env) (operation_input rq) (ss_database st) = (r, db)"
    and st': "st' = st\<lparr>ss_database := db\<rparr>" by (auto simp: block_on_iff)
  from insert_operation_cases [OF this(1)] r st' show ?thesis
    by (auto simp: Insert_Row calls_provider_def operation_input_def)
next
  case (Provider_Answer expected response)
  then show ?thesis using assms
    by (cases response)
      (auto simp: calls_provider_def finished_pc_def split: prod.splits sum.splits option.splits if_splits)
qed (use assms in \<open>auto simp: calls_provider_def Let_def split: prod.splits sum.splits option.splits if_splits\<close>)

lemma step_ledger:
  assumes "calibration_step env dispatch busy rq pc st = (pc', st')"
  shows "ledger_advances (ledger st) (ledger st') \<and> keeps_ids (ledger st) (ledger st')"
proof (cases pc)
  case (Insert_Row expected)
  obtain r where b: "block_on (insert_calibration_operation (sv_db env) (operation_input rq)) st = (r, st')"
    using assms Insert_Row by (auto split: prod.splits sum.splits)
  from b obtain db where i: "insert_calibration_operation (sv_db env) (operation_input rq) (ss_database st) = (r, db)"
    and st': "st' = st\<lparr>ss_database := db\<rparr>" by (auto simp: block_on_iff)
  from insert_operation_cases [OF i] st' have "keeps_ids (ledger st) (ledger st')"
    by (auto simp: keeps_ids_def distinct_ids_def new_operation_row_def)
  with block_on_ledger [OF insert_operation_advances b] show ?thesis by blast
next
  case Insert_Failed
  with assms show ?thesis
    using find_operation_advances [of "sv_db env" "cr_id rq"] find_operation_ids [of "sv_db env" "cr_id rq"]
    by (auto split: prod.splits sum.splits option.splits dest: block_on_ledger)
next
  case (Recheck expected)
  with assms show ?thesis
    using find_operation_advances [of "sv_db env" "cr_id rq"] find_operation_ids [of "sv_db env" "cr_id rq"]
    by (auto split: prod.splits sum.splits option.splits dest: block_on_ledger)
next
  case (Provider_Answer expected response)
  obtain status http_status body e r where
    b: "block_on (finish_calibration_operation (sv_db env) (cr_id rq) status http_status body e) st = (r, st')"
    and s: "status \<noteq> ''dispatching''"
    using assms Provider_Answer
    by (cases response) (auto split: prod.splits sum.splits option.splits dest: terminal_not_dispatching)
  from block_on_ledger [OF finish_operation_advances [OF s] b] block_on_ledger [OF finish_operation_ids b]
  show ?thesis by blast
next
  case (Reconcile expected response row)
  have a: "ledger_keeps ledger_advances (reconcile_calibration_operation (sv_db env) (cr_parent rq) (cr_id rq)
      ''restored-to-staged-baseline'' (cr_actor rq))"
    and i: "ledger_keeps keeps_ids (reconcile_calibration_operation (sv_db env) (cr_parent rq) (cr_id rq)
      ''restored-to-staged-baseline'' (cr_actor rq))"
    by (rule reconcile_operation_advances reconcile_operation_ids)+
  from assms Reconcile show ?thesis
    by (auto simp: Let_def ladv.ledger_refl lids.ledger_refl split: if_splits prod.splits sum.splits option.splits
        dest: block_on_ledger [OF a] block_on_ledger [OF i])
next
  case (Reconciled response)
  let ?m = "append_audit_log (sv_db env) (cr_actor rq) ''calibration.reconciled'' (cr_parent rq)
        (''restored to staged baseline by rollback operation '' @ cr_id rq) ''warning''"
  have st': "st' = snd (block_on ?m st)" using assms Reconciled by (simp add: block_on_ignored_def)
  have b: "block_on ?m st = (fst (block_on ?m st), st')" by (simp add: st')
  from block_on_ledger [OF ladv.ledger_audit b] block_on_ledger [OF lids.ledger_audit b]
  show ?thesis by blast
qed (use assms step_without_lock [OF assms] in \<open>auto simp: ladv.ledger_refl lids.ledger_refl\<close>)

section \<open>Concurrent requests\<close>

text \<open>
  Any number of threads with their requests, the shared state, and the provider calls made so far
  with the identifier and the text of their request.
\<close>

record calibration_system =
  cs_service :: service_state
  cs_threads :: "nat \<Rightarrow> (calibration_request \<times> calibration_pc) option"
  cs_dispatched :: "(string \<times> string) list"

definition holder :: "(nat \<Rightarrow> (calibration_request \<times> calibration_pc) option) \<Rightarrow> nat \<Rightarrow> bool" where
  "holder th i \<longleftrightarrow> (case th i of None \<Rightarrow> False | Some (rq, pc) \<Rightarrow> holds_lock pc)"

definition lock_busy :: "(nat \<Rightarrow> (calibration_request \<times> calibration_pc) option) \<Rightarrow> nat \<Rightarrow> bool" where
  "lock_busy th i \<longleftrightarrow> (\<exists>j. j \<noteq> i \<and> holder th j)"

definition calls_made :: "calibration_request \<Rightarrow> calibration_pc \<Rightarrow> (string \<times> string) list" where
  "calls_made rq pc = (if calls_provider pc then [(cr_id rq, cr_json rq)] else [])"

text \<open>
  A thread accepts a request, takes a step, or ends; anything else may happen to the rest of the
  state; and the service may be restarted at any time, which runs the recovery.
\<close>

inductive calibration_move :: "calibration_env \<Rightarrow> calibration_system \<Rightarrow> calibration_system \<Rightarrow> bool" for ce where
  cm_accept: "th i = None \<Longrightarrow> mutation_request ce path body actor = Inr rq
    \<Longrightarrow> calibration_move ce \<lparr> cs_service = st, cs_threads = th, cs_dispatched = ds \<rparr>
          \<lparr> cs_service = st, cs_threads = th(i \<mapsto> (rq, Lookup)), cs_dispatched = ds \<rparr>"
| cm_step: "th i = Some (rq, pc)
    \<Longrightarrow> calibration_step (ce_env ce) dispatch (lock_busy th i) rq pc st = (pc', st')
    \<Longrightarrow> calibration_move ce \<lparr> cs_service = st, cs_threads = th, cs_dispatched = ds \<rparr>
          \<lparr> cs_service = st', cs_threads = th(i \<mapsto> (rq, pc')), cs_dispatched = ds @ calls_made rq pc \<rparr>"
| cm_end: "th i = Some (rq, Answered response)
    \<Longrightarrow> calibration_move ce \<lparr> cs_service = st, cs_threads = th, cs_dispatched = ds \<rparr>
          \<lparr> cs_service = st, cs_threads = th(i := None), cs_dispatched = ds \<rparr>"
| cm_other: "ledger st' = ledger st
    \<Longrightarrow> calibration_move ce \<lparr> cs_service = st, cs_threads = th, cs_dispatched = ds \<rparr>
          \<lparr> cs_service = st', cs_threads = th, cs_dispatched = ds \<rparr>"
| cm_restart: "ledger st' = ledger st
    \<Longrightarrow> calibration_move ce \<lparr> cs_service = st, cs_threads = th, cs_dispatched = ds \<rparr>
          \<lparr> cs_service = snd (block_on (recover_dispatching_calibration_operations (sv_db (ce_env ce))) st'),
            cs_threads = (\<lambda>_. None), cs_dispatched = ds \<rparr>"

definition calibration_init :: "calibration_system \<Rightarrow> bool" where
  "calibration_init s \<longleftrightarrow>
     distinct_ids (ledger (cs_service s)) \<and> cs_threads s = (\<lambda>_. None) \<and> cs_dispatched s = []"

definition recorded :: "service_state \<Rightarrow> string \<times> string \<Rightarrow> bool" where
  "recorded st d \<longleftrightarrow> (\<exists>r\<in>set (ledger st). (o_id r, o_request_json r) = d)"

definition in_flight :: "service_state \<Rightarrow> calibration_request \<Rightarrow> bool" where
  "in_flight st rq \<longleftrightarrow> (\<exists>r\<in>set (ledger st). (o_id r, o_request_json r) = (cr_id rq, cr_json rq)
     \<and> o_status r = ''dispatching'')"

definition calibration_inv :: "calibration_system \<Rightarrow> bool" where
  "calibration_inv s \<longleftrightarrow>
     distinct_ids (ledger (cs_service s))
     \<and> (\<forall>i j. holder (cs_threads s) i \<and> holder (cs_threads s) j \<longrightarrow> i = j)
     \<and> distinct (map fst (cs_dispatched s))
     \<and> (\<forall>d\<in>set (cs_dispatched s). recorded (cs_service s) d)
     \<and> (\<forall>i rq pc. cs_threads s i = Some (rq, pc) \<and> calls_provider pc
          \<longrightarrow> cr_id rq \<notin> fst ` set (cs_dispatched s) \<and> in_flight (cs_service s) rq)"

lemma calibration_invI:
  assumes "distinct_ids (ledger st)"
    and "\<And>j k. holder th j \<Longrightarrow> holder th k \<Longrightarrow> j = k"
    and "distinct (map fst ds)"
    and "\<And>d. d \<in> set ds \<Longrightarrow> recorded st d"
    and "\<And>i rq pc. th i = Some (rq, pc) \<Longrightarrow> calls_provider pc
           \<Longrightarrow> cr_id rq \<notin> fst ` set ds \<and> in_flight st rq"
  shows "calibration_inv \<lparr> cs_service = st, cs_threads = th, cs_dispatched = ds \<rparr>"
  unfolding calibration_inv_def calibration_system.simps using assms by blast

lemma recorded_advances:
  assumes "ledger_advances (ledger st) (ledger st')" and "recorded st d"
  shows "recorded st' d"
proof -
  from assms(2) obtain r where r: "r \<in> set (ledger st)" "(o_id r, o_request_json r) = d"
    by (auto simp: recorded_def)
  from advances_row [OF assms(1) r(1)] obtain r' where "r' \<in> set (ledger st')" "request_of r' = request_of r"
    by (auto dest: row_advances_request)
  with r(2) show ?thesis by (auto simp: recorded_def request_of_def)
qed

lemma calls_provider_holds: "calls_provider pc \<Longrightarrow> holds_lock pc"
  by (auto simp: calls_provider_def)

lemma after_call: "calibration_step env dispatch busy rq pc st = (pc', st') \<Longrightarrow> calls_provider pc
   \<Longrightarrow> st' = st \<and> \<not> calls_provider pc'"
  by (auto simp: calls_provider_def)

text \<open>The lock has one holder.\<close>

lemma one_holder_step:
  assumes i: "th i = Some (rq, pc)" and one: "\<And>j k. holder th j \<Longrightarrow> holder th k \<Longrightarrow> j = k"
    and step: "calibration_step env dispatch (lock_busy th i) rq pc st = (pc', st')"
    and jk: "holder (th(i \<mapsto> (rq, pc'))) j" "holder (th(i \<mapsto> (rq, pc'))) k"
  shows "j = k"
proof -
  let ?th = "th(i \<mapsto> (rq, pc'))"
  have hi: "holder th i = holds_lock pc" by (simp add: holder_def i)
  have other: "holder ?th j = holder th j" if "j \<noteq> i" for j using that by (simp add: holder_def)
  show ?thesis
  proof (cases "holds_lock pc")
    case True
    then have "holder th l \<Longrightarrow> l = i" for l using one hi by blast
    with jk other show ?thesis by metis
  next
    case False
    then have "holds_lock pc' \<Longrightarrow> \<not> lock_busy th i" using step_takes_lock [OF step] by blast
    with jk other one show ?thesis
      by (cases "j = i"; cases "k = i") (auto simp: lock_busy_def holder_def)
  qed
qed

text \<open>The step of one thread.\<close>

lemma thread_step_inv:
  assumes inv: "calibration_inv \<lparr> cs_service = st, cs_threads = th, cs_dispatched = ds \<rparr>"
    and i: "th i = Some (rq, pc)"
    and step: "calibration_step (ce_env ce) dispatch (lock_busy th i) rq pc st = (pc', st')"
  shows "calibration_inv
    \<lparr> cs_service = st', cs_threads = th(i \<mapsto> (rq, pc')), cs_dispatched = ds @ calls_made rq pc \<rparr>"
proof -
  let ?th = "th(i \<mapsto> (rq, pc'))"
  have one: "holder th j \<Longrightarrow> holder th k \<Longrightarrow> j = k" for j k
    using inv by (simp add: calibration_inv_def)
  have hi: "holder th i = holds_lock pc" by (simp add: holder_def i)
  have one': "holder ?th j \<Longrightarrow> holder ?th k \<Longrightarrow> j = k" for j k
    using one_holder_step [OF i one step] by blast
  have led: "ledger_advances (ledger st) (ledger st')" "keeps_ids (ledger st) (ledger st')"
    using step_ledger [OF step] by auto
  have d: "distinct_ids (ledger st)" "distinct (map fst ds)" "\<forall>d\<in>set ds. recorded st d"
    using inv by (simp_all add: calibration_inv_def)
  have call: "cr_id rq' \<notin> fst ` set ds \<and> in_flight st rq'"
    if "th j = Some (rq', pcj)" "calls_provider pcj" for j rq' pcj
    using inv that(1) that(2) by (simp only: calibration_inv_def calibration_system.simps) metis
  have made: "distinct (map fst (ds @ calls_made rq pc))
      \<and> (\<forall>d\<in>set (ds @ calls_made rq pc). recorded st' d)"
  proof (cases "calls_provider pc")
    case True
    with call [OF i True] after_call [OF step True] d show ?thesis
      by (auto simp: calls_made_def in_flight_def recorded_def image_iff)
  next
    case False
    with d recorded_advances [OF led(1)] show ?thesis by (auto simp: calls_made_def)
  qed
  have calling: "cr_id rq' \<notin> fst ` set (ds @ calls_made rq pc) \<and> in_flight st' rq'"
    if "?th j = Some (rq', pcj)" "calls_provider pcj" for j rq' pcj
  proof (cases "j = i")
    case True
    with that have eq: "rq' = rq" "pcj = pc'" by simp_all
    from step_to_call [OF step] that(2) eq(2) obtain now where s: "\<not> calls_provider pc"
      "cr_id rq \<notin> o_id ` set (ledger st)" "ledger st' = ledger st @ [new_operation_row (operation_input rq) now]"
      by blast
    have "cr_id rq \<notin> fst ` set ds" using d(3) s(2) by (force simp: recorded_def)
    with s eq show ?thesis by (simp add: calls_made_def in_flight_def new_operation_row_def operation_input_def)
  next
    case False
    with that have j: "th j = Some (rq', pcj)" by simp
    have "holder th j" using j calls_provider_holds [OF that(2)] by (simp add: holder_def)
    then have "\<not> holds_lock pc" using one hi False by blast
    then have "ledger st' = ledger st" "\<not> calls_provider pc"
      using step_without_lock [OF step] calls_provider_holds by blast+
    with call [OF j that(2)] show ?thesis by (simp add: calls_made_def in_flight_def)
  qed
  from led(2) d(1) have "distinct_ids (ledger st')" by (simp add: keeps_ids_def)
  then show ?thesis by (rule calibration_invI [OF _ one' conjunct1 [OF made] bspec [OF conjunct2 [OF made]] calling])
qed

lemma recover_ledger:
  "ledger_advances (ledger st) (ledger (snd (block_on (recover_dispatching_calibration_operations env) st)))"
  "distinct_ids (ledger st)
     \<Longrightarrow> distinct_ids (ledger (snd (block_on (recover_dispatching_calibration_operations env) st)))"
  using recover_advances [of env] recover_ids [of env]
  by (simp_all add: ledger_keeps_def block_on_simp keeps_ids_def)

lemma calibration_move_inv: "calibration_move ce s t \<Longrightarrow> calibration_inv s \<Longrightarrow> calibration_inv t"
proof (induction rule: calibration_move.induct)
  case (cm_accept th i path body actor rq st ds)
  then show ?case
    by (auto simp: calibration_inv_def holder_def calls_provider_def split: option.splits if_splits)
next
  case (cm_step th i rq pc dispatch st pc' st' ds)
  then show ?case by (blast intro: thread_step_inv)
next
  case (cm_end th i rq response st ds)
  then show ?case by (auto simp: calibration_inv_def holder_def split: option.splits if_splits)
next
  case (cm_other st' st th ds)
  then show ?case by (simp add: calibration_inv_def recorded_def in_flight_def)
next
  case (cm_restart st' st th ds)
  have "recorded st' d \<Longrightarrow> recorded (snd (block_on (recover_dispatching_calibration_operations (sv_db (ce_env ce))) st')) d"
    for d using recover_ledger(1) by (rule recorded_advances)
  with cm_restart recover_ledger(2) [of st'] show ?case
    by (simp add: calibration_inv_def recorded_def holder_def)
qed

interpretation cal: inductive_invariant calibration_init "calibration_move ce" calibration_inv for ce
proof
  show "calibration_init s \<Longrightarrow> calibration_inv s" for s
    by (simp add: calibration_init_def calibration_inv_def holder_def)
qed (rule calibration_move_inv)

end
