(* ===== verification/Calibration_Props.thy ===== *)
theory Calibration_Props
  imports Calibration_Ledger
begin

text \<open>
  The properties of calibration operations: every request is answered, the provider is called at most once
  for an identifier, the outcome is recorded, an unresolved operation holds back further ones unless two
  requests pass the fence at the same time, a recovery rollback resolves it, and a restart never repeats a
  provider call.
\<close>

section \<open>Every request is answered\<close>

fun calibration_rank :: "calibration_pc \<Rightarrow> nat" where
  "calibration_rank Lookup = 9"
| "calibration_rank Fence = 8"
| "calibration_rank (Try_Lock _) = 7"
| "calibration_rank (Recheck _) = 6"
| "calibration_rank (Insert_Row _) = 5"
| "calibration_rank (Call_Provider _) = 4"
| "calibration_rank (Provider_Answer _ _) = 3"
| "calibration_rank (Reconcile _ _ _) = 2"
| "calibration_rank (Reconciled _) = 1"
| "calibration_rank Busy = 1"
| "calibration_rank Insert_Failed = 1"
| "calibration_rank (Answered _) = 0"

lemma calibration_rank_0: "calibration_rank pc = 0 \<longleftrightarrow> (\<exists>response. pc = Answered response)"
  by (cases pc) auto

lemma calibration_step_rank:
  "calibration_step env dispatch busy rq pc st = (pc', st') \<Longrightarrow> calibration_rank pc' \<le> calibration_rank pc - 1"
proof (cases pc)
  case (Provider_Answer expected response)
  assume "calibration_step env dispatch busy rq pc st = (pc', st')"
  with Provider_Answer show ?thesis
    by (cases response) (auto simp: finished_pc_def split: prod.splits sum.splits option.splits if_splits)
qed (auto simp: Let_def split: prod.splits sum.splits option.splits if_splits)

lemma calibration_run_answers:
  "calibration_rank pc \<le> n \<Longrightarrow> \<exists>response st'. calibration_run env dispatch rq n pc st = (Answered response, st')"
proof (induction n arbitrary: pc st)
  case 0
  then show ?case by (simp add: calibration_rank_0)
next
  case (Suc n)
  obtain pc' st' where s: "calibration_step env dispatch False rq pc st = (pc', st')" by fastforce
  with calibration_step_rank [OF s] Suc.prems have "calibration_rank pc' \<le> n" by simp
  from Suc.IH [OF this] s show ?case by simp
qed

section \<open>Without faults\<close>

definition tick :: "service_state \<Rightarrow> service_state" where
  "tick st = st\<lparr>ss_database := (ss_database st)\<lparr>db_tick := db_tick (ss_database st) + 1\<rparr>\<rparr>"

lemma tick_sel [simp]: "ledger (tick st) = ledger st" "ss_calibration_lock (tick st) = ss_calibration_lock st"
  by (simp_all add: tick_def)

lemma find_operation_tick:
  "no_faults (sv_db env) \<Longrightarrow> block_on (find_calibration_operation (sv_db env) oid) st
     = (Inr (find (\<lambda>r. o_id r = oid) (ledger st)), tick st)"
  by (simp add: find_calibration_operation_def query_no_faults block_on_simp tick_def)

abbreviation unresolved_rows :: "calibration_operation list \<Rightarrow> calibration_operation list" where
  "unresolved_rows rs \<equiv> order_asc (\<lambda>r. (o_created_at r, [])) (filter unresolved rs)"

lemma list_unresolved_tick:
  "no_faults (sv_db env) \<Longrightarrow> block_on (list_unresolved_calibration_operations (sv_db env)) st
     = (Inr (unresolved_rows (ledger st)), tick st)"
  by (simp add: list_unresolved_calibration_operations_def query_no_faults block_on_simp tick_def)

lemma find_operation_None: "find (\<lambda>r. o_id r = oid) rs = None \<longleftrightarrow> oid \<notin> o_id ` set rs"
  by (auto simp: find_None_iff)

lemma insert_operation_no_faults:
  assumes "no_faults (sv_db env)" and "ci_id input \<notin> o_id ` set (ledger st)"
  shows "\<exists>st' now. block_on (insert_calibration_operation (sv_db env) input) st = (Inr (new_operation_row input now), st')
    \<and> ledger st' = ledger st @ [new_operation_row input now] \<and> ss_calibration_lock st' = ss_calibration_lock st"
  using assms
  by (auto simp: insert_calibration_operation_def db_bind_def now_millis_string_def stmt_def Let_def
      no_faults_def new_operation_row_def block_on_simp)

lemma finish_operation_no_faults:
  assumes "no_faults (sv_db env)" and "find (\<lambda>r. o_id r = oid) (ledger st) = Some row"
    and "o_status row = ''dispatching''"
  shows "\<exists>st' now. block_on (finish_calibration_operation (sv_db env) oid status http_status body error) st
      = (Inr (Some (finished_operation row status http_status body error now row)), st')
    \<and> ledger st' = update_rows (unchanged_since row ''dispatching'')
        (finished_operation row status http_status body error now) (ledger st)
    \<and> ss_calibration_lock st' = ss_calibration_lock st"
proof -
  have "unchanged_since row ''dispatching'' row" using assms(3) by (simp add: unchanged_since_def)
  then show ?thesis using assms
    by (auto simp: finish_calibration_operation_def find_calibration_operation_def db_bind_def query_no_faults
        now_millis_string_def update_operations_no_faults block_on_simp fin.find_key)
qed

lemma reconcile_operation_no_faults:
  assumes "no_faults (sv_db env)" and "find (\<lambda>r. o_id r = oid) (ledger st) = Some row"
    and "o_status row = ''needs-reconciliation''"
  shows "\<exists>st' now. block_on (reconcile_calibration_operation (sv_db env) oid rid outcome actor) st
      = (Inr (Some (reconciled_operation row rid outcome actor now row)), st')
    \<and> ledger st' = update_rows (unchanged_since row ''needs-reconciliation'')
        (reconciled_operation row rid outcome actor now) (ledger st)"
proof -
  have "unchanged_since row ''needs-reconciliation'' row" using assms(3) by (simp add: unchanged_since_def)
  then show ?thesis using assms
    by (auto simp: reconcile_calibration_operation_def find_calibration_operation_def db_bind_def query_no_faults
        now_millis_string_def update_operations_no_faults block_on_simp rec.find_key)
qed

text \<open>A new request that passes the fence is recorded and reaches the provider.\<close>

lemma run_to_provider:
  assumes nf: "no_faults (sv_db env)" and new: "cr_id rq \<notin> o_id ` set (ledger st)"
    and fence: "fence_decision env rq (unresolved_rows (ledger st)) = Inr expected"
    and lock: "lock (ss_calibration_lock st) \<noteq> None"
  shows "\<exists>st' now. calibration_run env dispatch rq (6 + n) Lookup st
      = calibration_run env dispatch rq n (Provider_Answer expected (dispatch (cr_json rq))) st'
    \<and> ledger st' = ledger st @ [new_operation_row (operation_input rq) now]"
proof -
  have f: "find (\<lambda>r. o_id r = cr_id rq) (ledger st) = None" using new by (simp add: find_operation_None)
  have "ci_id (operation_input rq) \<notin> o_id ` set (ledger (tick (tick (tick st))))"
    using new by (simp add: operation_input_def)
  from insert_operation_no_faults [OF nf this] obtain st' now where
    "block_on (insert_calibration_operation (sv_db env) (operation_input rq)) (tick (tick (tick st)))
       = (Inr (new_operation_row (operation_input rq) now), st')"
    "ledger st' = ledger st @ [new_operation_row (operation_input rq) now]" by auto
  with f fence lock show ?thesis
    by (auto simp: eval_nat_numeral find_operation_tick [OF nf] list_unresolved_tick [OF nf])
qed

lemma find_new_row:
  "cr_id rq \<notin> o_id ` set rs
     \<Longrightarrow> find (\<lambda>r. o_id r = cr_id rq) (rs @ [new_operation_row (operation_input rq) now])
          = Some (new_operation_row (operation_input rq) now)"
  by (induction rs) (auto simp: new_operation_row_def operation_input_def)

lemma update_new_row:
  "cr_id rq \<notin> o_id ` set rs
     \<Longrightarrow> update_rows (unchanged_since (new_operation_row (operation_input rq) now) ''dispatching'') f
           (rs @ [new_operation_row (operation_input rq) now])
          = rs @ [f (new_operation_row (operation_input rq) now)]"
  by (induction rs) (auto simp: update_rows_def unchanged_since_def new_operation_row_def operation_input_def)

text \<open>What the row of a finished operation records.\<close>

definition records_outcome ::
  "calibration_request \<Rightarrow> string \<Rightarrow> capture_proxy_response option \<Rightarrow> calibration_operation \<Rightarrow> bool" where
  "records_outcome rq status response r \<longleftrightarrow>
     request_of r = (cr_id rq, cr_kind rq, cr_hash rq, cr_json rq, cr_parent rq) \<and> o_actor r = cr_actor rq
     \<and> o_status r = status
     \<and> (case response of
          None \<Rightarrow> o_provider_http_status r = 0 \<and> o_provider_response_body r = []
        | Some a \<Rightarrow> o_provider_http_status r = int (cp_status_code a)
                    \<and> o_provider_response_body r = from_utf8_lossy (cp_body a))"

definition outcome_of :: "serde \<Rightarrow> calibration_request \<Rightarrow> capture_proxy_response option \<Rightarrow> string" where
  "outcome_of sd rq response =
     (case response of
        None \<Rightarrow> ''needs-reconciliation'' | Some a \<Rightarrow> fst (provider_terminal_status sd (cr_kind rq) a))"

lemma provider_answer_recorded:
  assumes nf: "no_faults (sv_db env)" and new: "cr_id rq \<notin> o_id ` set rs"
    and led: "ledger st = rs @ [new_operation_row (operation_input rq) now]"
  shows "\<exists>row st'. calibration_step env dispatch busy rq (Provider_Answer expected response) st
      = (case response of
           None \<Rightarrow> Answered (operation_http_response env ''409 Conflict'' row False)
         | Some a \<Rightarrow> finished_pc env rq expected a (outcome_of (sv_serde env) rq response) row, st')
    \<and> ledger st' = rs @ [row] \<and> records_outcome rq (outcome_of (sv_serde env) rq response) response row"
proof -
  let ?new = "new_operation_row (operation_input rq) now"
  have d: "o_status ?new = ''dispatching''" by (simp add: new_operation_row_def)
  from find_new_row [OF new] led have f: "find (\<lambda>r. o_id r = cr_id rq) (ledger st) = Some ?new" by simp
  note fin = finish_operation_no_faults [OF nf f d]
  show ?thesis
  proof (cases response)
    case None
    from fin obtain st' now' where
      "block_on (finish_calibration_operation (sv_db env) (cr_id rq) ''needs-reconciliation'' 0 []
          ''capture_provider_timeout_or_unavailable'') st
        = (Inr (Some (finished_operation ?new ''needs-reconciliation'' 0 []
            ''capture_provider_timeout_or_unavailable'' now' ?new)), st')"
      "ledger st' = rs @ [finished_operation ?new ''needs-reconciliation'' 0 []
            ''capture_provider_timeout_or_unavailable'' now' ?new]"
      unfolding led update_new_row [OF new] by blast
    then show ?thesis
      by (auto simp: None records_outcome_def outcome_of_def request_of_def finished_operation_def
          new_operation_row_def operation_input_def)
  next
    case (Some a)
    obtain status e where t: "provider_terminal_status (sv_serde env) (cr_kind rq) a = (status, e)" by fastforce
    from fin obtain st' now' where
      "block_on (finish_calibration_operation (sv_db env) (cr_id rq) status (int (cp_status_code a))
          (from_utf8_lossy (cp_body a)) e) st
        = (Inr (Some (finished_operation ?new status (int (cp_status_code a))
            (from_utf8_lossy (cp_body a)) e now' ?new)), st')"
      "ledger st' = rs @ [finished_operation ?new status (int (cp_status_code a))
            (from_utf8_lossy (cp_body a)) e now' ?new]"
      unfolding led update_new_row [OF new] by blast
    then show ?thesis
      by (auto simp: Some t records_outcome_def outcome_of_def request_of_def finished_operation_def
          new_operation_row_def operation_input_def)
  qed
qed

lemma calibration_run_answered [simp]: "calibration_run env dispatch rq n (Answered response) st = (Answered response, st)"
  by (induction n) simp_all

lemma fence_open: "filter unresolved rs = [] \<Longrightarrow> fence_decision env rq (unresolved_rows rs) = Inr []"
  by (simp add: order_asc_def fence_decision_def)

lemma fence_refuses:
  assumes "\<not> (cr_kind rq = ''rollback'' \<and> cr_parent rq \<noteq> [] \<and> xs = [] \<and> o_id x = cr_parent rq
      \<and> o_status x = ''needs-reconciliation'')"
  shows "fence_decision env rq (x # xs) = Inl (operation_in_progress_response env (cr_id rq))
    \<or> fence_decision env rq (x # xs) = Inl (reconciliation_required_response env (cr_id rq) (x # xs))"
  unfolding fence_decision_def using assms by simp

lemma find_unique_row:
  "distinct_ids rs \<Longrightarrow> r \<in> set rs \<Longrightarrow> o_id r = oid \<Longrightarrow> find (\<lambda>r. o_id r = oid) rs = Some r"
  by (induction rs) (auto simp: distinct_ids_def)

lemma find_append_Some: "find P xs = Some x \<Longrightarrow> find P (xs @ ys) = Some x"
  by (induction xs) auto

lemma only_unresolved:
  assumes "filter unresolved rs = [parent]"
  shows "r \<in> set rs \<and> unresolved r \<longleftrightarrow> r = parent"
proof -
  have "set (filter unresolved rs) = {parent}" unfolding assms by simp
  then show ?thesis by auto
qed

lemma filter_unresolved_reconciled:
  assumes "filter unresolved rs = [parent]" and "o_status parent = ''needs-reconciliation''"
  shows "filter unresolved (update_rows (unchanged_since parent ''needs-reconciliation'')
    (reconciled_operation parent rid outcome actor now) rs) = []"
proof -
  have "r = parent" if "r \<in> set rs" "unresolved r" for r
    using that only_unresolved [OF assms(1), of r] by simp
  then show ?thesis using assms(2)
    by (auto simp: update_rows_def filter_empty_conv unresolved_def unchanged_since_def reconciled_operation_def)
qed

lemma reconcile_answers:
  assumes nf: "no_faults (sv_db env)" and f: "find (\<lambda>r. o_id r = cr_parent rq) (ledger st) = Some parent"
    and p: "o_status parent = ''needs-reconciliation''"
    and b: "Option.bind (from_str_ok (sv_serde env) (o_provider_response_body row)) (get_str ''applyOperationId'')
      = Some expected"
  shows "\<exists>st' now. calibration_run env dispatch rq 2 (Reconcile expected a row) st = (Answered (provider_response a), st')
    \<and> ledger st' = update_rows (unchanged_since parent ''needs-reconciliation'')
        (reconciled_operation parent (cr_id rq) ''restored-to-staged-baseline'' (cr_actor rq) now) (ledger st)"
proof -
  from reconcile_operation_no_faults [OF nf f p] obtain st1 now where
    r: "block_on (reconcile_calibration_operation (sv_db env) (cr_parent rq) (cr_id rq)
       ''restored-to-staged-baseline'' (cr_actor rq)) st
      = (Inr (Some (reconciled_operation parent (cr_id rq) ''restored-to-staged-baseline'' (cr_actor rq) now parent)), st1)"
    and l: "ledger st1 = update_rows (unchanged_since parent ''needs-reconciliation'')
        (reconciled_operation parent (cr_id rq) ''restored-to-staged-baseline'' (cr_actor rq) now) (ledger st)"
    by blast
  let ?m = "append_audit_log (sv_db env) (cr_actor rq) ''calibration.reconciled'' (cr_parent rq)
        (''restored to staged baseline by rollback operation '' @ cr_id rq) ''warning''"
  have "ledger (snd (block_on ?m st1)) = ledger st1"
    using lsame.ledger_audit [of "sv_db env" "cr_actor rq" "''calibration.reconciled''" "cr_parent rq"
        "''restored to staged baseline by rollback operation '' @ cr_id rq" "''warning''"]
    by (simp add: ledger_keeps_def block_on_simp)
  moreover have "calibration_run env dispatch rq 2 (Reconcile expected a row) st
      = (Answered (provider_response a), snd (block_on ?m st1))"
    unfolding numeral_2_eq_2 by (simp add: b r reconciled_operation_def block_on_ignored_def)
  ultimately show ?thesis using l by metis
qed

lemma reconciled_ledger:
  assumes "filter unresolved rs = [parent]" and "o_status parent = ''needs-reconciliation''" and "\<not> unresolved row"
  shows "filter unresolved (update_rows (unchanged_since parent ''needs-reconciliation'')
      (reconciled_operation parent rid outcome actor now) (rs @ [row])) = []"
    and "\<exists>r\<in>set (update_rows (unchanged_since parent ''needs-reconciliation'')
      (reconciled_operation parent rid outcome actor now) (rs @ [row])).
        request_of r = request_of parent \<and> o_status r = ''reconciled'' \<and> o_reconciliation_id r = rid"
proof -
  have "\<not> unchanged_since parent ''needs-reconciliation'' row"
    using assms(3) by (auto simp: unresolved_def unchanged_since_def)
  with filter_unresolved_reconciled [OF assms(1,2)] assms(3)
  show "filter unresolved (update_rows (unchanged_since parent ''needs-reconciliation'')
      (reconciled_operation parent rid outcome actor now) (rs @ [row])) = []"
    by (simp add: update_rows_def)
  have "parent \<in> set rs" using only_unresolved [OF assms(1), of parent] by simp
  moreover have "unchanged_since parent ''needs-reconciliation'' parent"
    using assms(2) by (simp add: unchanged_since_def)
  ultimately have "reconciled_operation parent rid outcome actor now parent
      \<in> set (update_rows (unchanged_since parent ''needs-reconciliation'')
          (reconciled_operation parent rid outcome actor now) (rs @ [row]))"
    by (force simp: update_rows_def)
  then show "\<exists>r\<in>set (update_rows (unchanged_since parent ''needs-reconciliation'')
      (reconciled_operation parent rid outcome actor now) (rs @ [row])).
        request_of r = request_of parent \<and> o_status r = ''reconciled'' \<and> o_reconciliation_id r = rid"
    by (rule bexI [rotated]) (simp add: reconciled_operation_def request_of_def)
qed

section \<open>Two requests at the fence\<close>

definition two_threads ::
  "calibration_request \<Rightarrow> calibration_pc \<Rightarrow> calibration_request \<Rightarrow> calibration_pc
     \<Rightarrow> nat \<Rightarrow> (calibration_request \<times> calibration_pc) option" where
  "two_threads rq pc rq' pc' i =
     (if i = 0 then Some (rq, pc) else if i = Suc 0 then Some (rq', pc') else None)"

lemma two_threads_busy:
  "lock_busy (two_threads rq pc rq' pc') 0 = holds_lock pc'"
  "lock_busy (two_threads rq pc rq' pc') (Suc 0) = holds_lock pc"
  by (auto simp: lock_busy_def holder_def two_threads_def split: if_splits)

lemma two_threads_upd:
  "(two_threads rq pc rq' pc')(0 \<mapsto> (rq, pc1)) = two_threads rq pc1 rq' pc'"
  "(two_threads rq pc rq' pc')(Suc 0 \<mapsto> (rq', pc1)) = two_threads rq pc rq' pc1"
  "(\<lambda>_. None)(0 \<mapsto> (rq, pc), Suc 0 \<mapsto> (rq', pc')) = two_threads rq pc rq' pc'"
  by (auto simp: two_threads_def)

lemma first_thread_moves:
  assumes "(calibration_move ce)\<^sup>*\<^sup>* s \<lparr> cs_service = st, cs_threads = two_threads rq pc rq' pc', cs_dispatched = ds \<rparr>"
    and "calibration_step (ce_env ce) dispatch (holds_lock pc') rq pc st = (pc1, st1)"
  shows "(calibration_move ce)\<^sup>*\<^sup>* s
    \<lparr> cs_service = st1, cs_threads = two_threads rq pc1 rq' pc', cs_dispatched = ds @ calls_made rq pc \<rparr>"
proof -
  have "calibration_move ce \<lparr> cs_service = st, cs_threads = two_threads rq pc rq' pc', cs_dispatched = ds \<rparr>
      \<lparr> cs_service = st1, cs_threads = (two_threads rq pc rq' pc')(0 \<mapsto> (rq, pc1)), cs_dispatched = ds @ calls_made rq pc \<rparr>"
    by (rule cm_step [where dispatch = dispatch])
      (use assms(2) in \<open>simp_all add: two_threads_busy two_threads_def [of _ _ _ _ 0]\<close>)
  with assms(1) show ?thesis unfolding two_threads_upd by (rule rtranclp.rtrancl_into_rtrancl)
qed

lemma second_thread_moves:
  assumes "(calibration_move ce)\<^sup>*\<^sup>* s \<lparr> cs_service = st, cs_threads = two_threads rq pc rq' pc', cs_dispatched = ds \<rparr>"
    and "calibration_step (ce_env ce) dispatch (holds_lock pc) rq' pc' st = (pc1, st1)"
  shows "(calibration_move ce)\<^sup>*\<^sup>* s
    \<lparr> cs_service = st1, cs_threads = two_threads rq pc rq' pc1, cs_dispatched = ds @ calls_made rq' pc' \<rparr>"
proof -
  have "calibration_move ce \<lparr> cs_service = st, cs_threads = two_threads rq pc rq' pc', cs_dispatched = ds \<rparr>
      \<lparr> cs_service = st1, cs_threads = (two_threads rq pc rq' pc')(Suc 0 \<mapsto> (rq', pc1)), cs_dispatched = ds @ calls_made rq' pc' \<rparr>"
    by (rule cm_step [where dispatch = dispatch])
      (use assms(2) in \<open>simp_all add: two_threads_busy two_threads_def [of _ _ _ _ "Suc 0"]\<close>)
  with assms(1) show ?thesis unfolding two_threads_upd by (rule rtranclp.rtrancl_into_rtrancl)
qed

text \<open>Both requests reach the lock before either is recorded.\<close>

lemma both_pass_fence:
  assumes nf: "no_faults (sv_db (ce_env ce))"
    and acc: "mutation_request ce path body actor = Inr rq" "mutation_request ce path' body' actor' = Inr rq'"
    and new: "cr_id rq \<notin> o_id ` set (ledger st)" "cr_id rq' \<notin> o_id ` set (ledger st)"
    and un: "filter unresolved (ledger st) = []"
  shows "\<exists>st'. (calibration_move ce)\<^sup>*\<^sup>* \<lparr> cs_service = st, cs_threads = (\<lambda>_. None), cs_dispatched = [] \<rparr>
      \<lparr> cs_service = st', cs_threads = two_threads rq (Try_Lock []) rq' (Try_Lock []), cs_dispatched = [] \<rparr>
    \<and> ledger st' = ledger st \<and> ss_calibration_lock st' = ss_calibration_lock st"
proof -
  let ?s = "\<lparr> cs_service = st, cs_threads = (\<lambda>_. None), cs_dispatched = [] \<rparr>"
  note steps = find_operation_tick [OF nf] list_unresolved_tick [OF nf] fence_open [OF un] find_operation_None
  have "calibration_move ce ?s \<lparr> cs_service = st, cs_threads = (\<lambda>_. None)(0 \<mapsto> (rq, Lookup)), cs_dispatched = [] \<rparr>"
    by (rule cm_accept [OF _ acc(1)]) simp
  moreover have "calibration_move ce
      \<lparr> cs_service = st, cs_threads = (\<lambda>_. None)(0 \<mapsto> (rq, Lookup)), cs_dispatched = [] \<rparr>
      \<lparr> cs_service = st, cs_threads = two_threads rq Lookup rq' Lookup, cs_dispatched = [] \<rparr>"
    unfolding two_threads_upd(3) [symmetric] by (rule cm_accept [OF _ acc(2)]) simp
  ultimately have 0: "(calibration_move ce)\<^sup>*\<^sup>* ?s
      \<lparr> cs_service = st, cs_threads = two_threads rq Lookup rq' Lookup, cs_dispatched = [] \<rparr>"
    by (meson rtranclp.rtrancl_into_rtrancl rtranclp.rtrancl_refl)
  have f: "find (\<lambda>r. o_id r = cr_id rq) (ledger st) = None" "find (\<lambda>r. o_id r = cr_id rq') (ledger st) = None"
    using new by (simp_all add: find_operation_None)
  have 1: "(calibration_move ce)\<^sup>*\<^sup>* ?s
      \<lparr> cs_service = tick st, cs_threads = two_threads rq Fence rq' Lookup, cs_dispatched = [] \<rparr>"
    using first_thread_moves [OF 0, of "\<lambda>_. None" Fence "tick st"]
    by (simp add: f steps(1) calls_made_def calls_provider_def)
  have 2: "(calibration_move ce)\<^sup>*\<^sup>* ?s
      \<lparr> cs_service = tick (tick st), cs_threads = two_threads rq (Try_Lock []) rq' Lookup, cs_dispatched = [] \<rparr>"
    using first_thread_moves [OF 1, of "\<lambda>_. None" "Try_Lock []" "tick (tick st)"]
    by (simp add: steps(2,3) calls_made_def calls_provider_def)
  have 3: "(calibration_move ce)\<^sup>*\<^sup>* ?s
      \<lparr> cs_service = tick (tick (tick st)), cs_threads = two_threads rq (Try_Lock []) rq' Fence, cs_dispatched = [] \<rparr>"
    using second_thread_moves [OF 2, of "\<lambda>_. None" Fence "tick (tick (tick st))"]
    by (simp add: f steps(1) calls_made_def calls_provider_def)
  have 4: "(calibration_move ce)\<^sup>*\<^sup>* ?s
      \<lparr> cs_service = tick (tick (tick (tick st))), cs_threads = two_threads rq (Try_Lock []) rq' (Try_Lock []),
        cs_dispatched = [] \<rparr>"
    using second_thread_moves [OF 3, of "\<lambda>_. None" "Try_Lock []" "tick (tick (tick (tick st)))"]
    by (simp add: steps(2,3) calls_made_def calls_provider_def)
  then show ?thesis by (metis tick_sel)
qed

text \<open>From the lock on, a thread whose identifier is free and that finds the lock free reaches the provider.\<close>

lemma lock_to_provider:
  assumes nf: "no_faults (sv_db env)" and new: "cr_id rq \<notin> o_id ` set (ledger st)"
    and lock: "lock (ss_calibration_lock st) \<noteq> None"
  shows "\<exists>st' now. calibration_step env dispatch False rq (Try_Lock expected) st = (Recheck expected, st)
    \<and> calibration_step env dispatch False rq (Recheck expected) st = (Insert_Row expected, tick st)
    \<and> calibration_step env dispatch False rq (Insert_Row expected) (tick st) = (Call_Provider expected, st')
    \<and> calibration_step env dispatch False rq (Call_Provider expected) st'
        = (Provider_Answer expected (dispatch (cr_json rq)), st')
    \<and> ledger st' = ledger st @ [new_operation_row (operation_input rq) now]
    \<and> ss_calibration_lock st' = ss_calibration_lock st"
proof -
  have f: "find (\<lambda>r. o_id r = cr_id rq) (ledger st) = None" using new by (simp add: find_operation_None)
  have "ci_id (operation_input rq) \<notin> o_id ` set (ledger (tick st))" using new by (simp add: operation_input_def)
  from insert_operation_no_faults [OF nf this] obtain st' now where
    "block_on (insert_calibration_operation (sv_db env) (operation_input rq)) (tick st)
       = (Inr (new_operation_row (operation_input rq) now), st')"
    "ledger st' = ledger st @ [new_operation_row (operation_input rq) now]"
    "ss_calibration_lock st' = ss_calibration_lock st" by auto
  with f lock show ?thesis by (auto simp: find_operation_tick [OF nf])
qed

lemma step_keeps_lock:
  "calibration_step env dispatch busy rq (Provider_Answer expected response) st = (pc', st')
     \<Longrightarrow> ss_calibration_lock st' = ss_calibration_lock st"
  by (cases response) (auto simp: block_on_simp split: prod.splits sum.splits option.splits)

lemma thread_to_provider:
  assumes nf: "no_faults (sv_db (ce_env ce))" and new: "cr_id rq' \<notin> o_id ` set (ledger st)"
    and lock: "lock (ss_calibration_lock st) \<noteq> None" and free: "\<not> holds_lock pc"
    and run: "(calibration_move ce)\<^sup>*\<^sup>* s
      \<lparr> cs_service = st, cs_threads = two_threads rq pc rq' (Try_Lock expected), cs_dispatched = ds \<rparr>"
  shows "\<exists>st' now. (calibration_move ce)\<^sup>*\<^sup>* s
      \<lparr> cs_service = st', cs_threads = two_threads rq pc rq' (Provider_Answer expected (dispatch (cr_json rq'))),
        cs_dispatched = ds @ [(cr_id rq', cr_json rq')] \<rparr>
    \<and> ledger st' = ledger st @ [new_operation_row (operation_input rq') now]"
proof -
  have h: "holds_lock pc = False" using free by simp
  from lock_to_provider [OF nf new lock, of dispatch expected] obtain st' now where
    s: "calibration_step (ce_env ce) dispatch (holds_lock pc) rq' (Try_Lock expected) st = (Recheck expected, st)"
      "calibration_step (ce_env ce) dispatch (holds_lock pc) rq' (Recheck expected) st = (Insert_Row expected, tick st)"
      "calibration_step (ce_env ce) dispatch (holds_lock pc) rq' (Insert_Row expected) (tick st) = (Call_Provider expected, st')"
      "calibration_step (ce_env ce) dispatch (holds_lock pc) rq' (Call_Provider expected) st'
        = (Provider_Answer expected (dispatch (cr_json rq')), st')"
    and l: "ledger st' = ledger st @ [new_operation_row (operation_input rq') now]" unfolding h by blast
  note m = second_thread_moves [OF run s(1)]
  note m = second_thread_moves [OF m s(2)]
  note m = second_thread_moves [OF m s(3)]
  note m = second_thread_moves [OF m s(4)]
  from m l show ?thesis by (auto simp: calls_made_def calls_provider_def)
qed

lemma first_thread_unanswered:
  assumes nf: "no_faults (sv_db (ce_env ce))" and new: "cr_id rq \<notin> o_id ` set (ledger st)"
    and lock: "lock (ss_calibration_lock st) \<noteq> None"
    and run: "(calibration_move ce)\<^sup>*\<^sup>* s
      \<lparr> cs_service = st, cs_threads = two_threads rq (Try_Lock expected) rq' (Try_Lock expected'), cs_dispatched = ds \<rparr>"
  shows "\<exists>st' row response. (calibration_move ce)\<^sup>*\<^sup>* s
      \<lparr> cs_service = st', cs_threads = two_threads rq (Answered response) rq' (Try_Lock expected'),
        cs_dispatched = ds @ [(cr_id rq, cr_json rq)] \<rparr>
    \<and> ledger st' = ledger st @ [row] \<and> records_outcome rq ''needs-reconciliation'' None row
    \<and> ss_calibration_lock st' = ss_calibration_lock st"
proof -
  have h: "holds_lock (Try_Lock expected') = False" by simp
  from lock_to_provider [OF nf new lock, of "\<lambda>_. None" expected] obtain st1 now where
    s: "calibration_step (ce_env ce) (\<lambda>_. None) False rq (Try_Lock expected) st = (Recheck expected, st)"
      "calibration_step (ce_env ce) (\<lambda>_. None) False rq (Recheck expected) st = (Insert_Row expected, tick st)"
      "calibration_step (ce_env ce) (\<lambda>_. None) False rq (Insert_Row expected) (tick st) = (Call_Provider expected, st1)"
      "calibration_step (ce_env ce) (\<lambda>_. None) False rq (Call_Provider expected) st1 = (Provider_Answer expected None, st1)"
    and l: "ledger st1 = ledger st @ [new_operation_row (operation_input rq) now]"
      "ss_calibration_lock st1 = ss_calibration_lock st" by blast
  from provider_answer_recorded [OF nf new l(1), of "\<lambda>_. None" False expected None] obtain row st' response where
    a: "calibration_step (ce_env ce) (\<lambda>_. None) False rq (Provider_Answer expected None) st1 = (Answered response, st')"
    and row: "ledger st' = ledger st @ [row]" "records_outcome rq ''needs-reconciliation'' None row"
    by (auto simp: outcome_of_def)
  note m = first_thread_moves [OF run, unfolded h, OF s(1)]
  note m = first_thread_moves [OF m, unfolded h, OF s(2)]
  note m = first_thread_moves [OF m, unfolded h, OF s(3)]
  note m = first_thread_moves [OF m, unfolded h, OF s(4)]
  note m = first_thread_moves [OF m, unfolded h, OF a]
  from m row step_keeps_lock [OF a] l(2) show ?thesis
    by (auto simp: calls_made_def calls_provider_def)
qed

section \<open>Recovery at startup\<close>

lemma count_row: "distinct rs \<Longrightarrow> length (filter (\<lambda>x. x = r) rs) = (if r \<in> set rs then 1 else 0)"
  by (induction rs) auto

lemma update_one_row:
  assumes "distinct_ids rs" and "r \<in> set rs" and "P r" and "\<And>x. P x \<Longrightarrow> o_id x = o_id r"
  shows "update_rows P f rs = map (\<lambda>x. if x = r then f x else x) rs" and "rows_affected P rs = 1"
proof -
  have u: "P x \<longleftrightarrow> x = r" if "x \<in> set rs" for x
  proof
    assume "P x"
    then have "o_id x = o_id r" by (rule assms(4))
    moreover have "inj_on o_id (set rs)" using assms(1) by (simp add: distinct_ids_def distinct_map)
    ultimately show "x = r" using that assms(2) by (simp add: inj_onD)
  qed (simp add: assms(3))
  then show "update_rows P f rs = map (\<lambda>x. if x = r then f x else x) rs" by (simp add: update_rows_def)
  have "filter P rs = filter (\<lambda>x. x = r) rs" using u by (rule filter_cong [OF refl])
  moreover have "distinct rs" using assms(1) by (auto simp: distinct_ids_def distinct_map)
  ultimately show "rows_affected P rs = 1" using assms(2) by (simp add: rows_affected_def count_row)
qed

text \<open>What the recovery makes of a row: an operation in flight is marked, everything else is kept.\<close>

definition recovered_version :: "calibration_operation \<Rightarrow> calibration_operation \<Rightarrow> bool" where
  "recovered_version r r' \<longleftrightarrow>
     (if o_status r = ''dispatching''
      then o_status r' = ''needs-reconciliation'' \<and> o_error r' = ''service_restart_while_dispatching''
           \<and> request_of r' = request_of r
      else r' = r)"

lemma recover_operations_no_faults:
  assumes nf: "no_faults env" and "distinct_ids (db_operations db)" and "distinct rows"
    and "set rows \<subseteq> set (db_operations db)" and "\<And>r. r \<in> set rows \<Longrightarrow> o_status r = ''dispatching''"
    and "recovered + length rows \<le> u64_max"
  shows "\<exists>db'. recover_operations env rows recovered db = (Inr (recovered + length rows), db')
    \<and> list_all2 (\<lambda>r r'. if r \<in> set rows then recovered_version r r' else r' = r)
        (db_operations db) (db_operations db')"
  using assms(2-)
proof (induction rows arbitrary: recovered db)
  case Nil
  then show ?case by (simp add: db_return_def list_all2_refl)
next
  case (Cons r rows)
  let ?now = "show_nat (dbe_millis env (db_tick db))"
  let ?f = "interrupted_operation r ?now" and ?P = "unchanged_since r ''dispatching''"
  let ?db = "db\<lparr>db_tick := db_tick db + 1, db_operations := update_rows ?P ?f (db_operations db)\<rparr>"
  have P: "?P r" "\<And>x. ?P x \<Longrightarrow> o_id x = o_id r" using Cons.prems(4) by (simp_all add: unchanged_since_def)
  have r: "r \<in> set (db_operations db)" using Cons.prems(3) by simp
  note one = update_one_row(1) [where P = ?P and f = ?f, OF Cons.prems(1) r P] update_one_row(2) [where P = ?P, OF Cons.prems(1) r P]
  have rec: "recover_operations env (r # rows) recovered db = recover_operations env rows (Suc recovered) ?db"
    using Cons.prems(5)
    by (simp add: db_bind_def now_millis_string_def update_operations_no_faults [OF nf] one(2) saturating_add64_def)
  have "\<exists>db'. recover_operations env rows (Suc recovered) ?db = (Inr (Suc recovered + length rows), db')
    \<and> list_all2 (\<lambda>r r'. if r \<in> set rows then recovered_version r r' else r' = r)
        (db_operations ?db) (db_operations db')"
  proof (rule Cons.IH)
    show "distinct_ids (db_operations ?db)" using Cons.prems(1) by (simp add: distinct_ids_def itr.map_key)
    show "set rows \<subseteq> set (db_operations ?db)"
      using Cons.prems(2,3) by (auto simp: one(1) image_iff split: if_splits)
  qed (use Cons.prems in auto)
  then obtain db' where db': "recover_operations env rows (Suc recovered) ?db = (Inr (Suc recovered + length rows), db')"
    "list_all2 (\<lambda>r r'. if r \<in> set rows then recovered_version r r' else r' = r)
        (map (\<lambda>x. if x = r then ?f x else x) (db_operations db)) (db_operations db')"
    by (auto simp: one(1))
  have "o_status (?f r) \<noteq> ''dispatching''" by (simp add: interrupted_operation_def)
  then have "?f r \<notin> set rows" using Cons.prems(4) [of "?f r"] by auto
  moreover have "recovered_version r (?f r)"
    using Cons.prems(4) by (simp add: recovered_version_def interrupted_operation_def request_of_def)
  ultimately have "list_all2 (\<lambda>x r'. if x \<in> set (r # rows) then recovered_version x r' else r' = x)
        (db_operations db) (db_operations db')"
    using db'(2) Cons.prems(2) unfolding list_all2_map1 by (elim list_all2_mono) (auto split: if_splits)
  with db'(1) rec show ?case by auto
qed

section \<open>Concrete requests\<close>

definition demo_raw :: "string \<Rightarrow> (string \<times> raw_json) list \<Rightarrow> raw_json" where
  "demo_raw oid extra = RObject ([(''operationId'', RString oid),
     (''confirmation'', RString ''ROLLBACK CAMERA CALIBRATION'')] @ extra)"

definition demo_reader :: "string \<Rightarrow> raw_json option" where
  "demo_reader s = map_of
     [(''op-1'', demo_raw ''op-1'' [(''applyOperationId'', RString ''ap-1'')]),
      (''op-2'', demo_raw ''op-2'' [(''applyOperationId'', RString ''ap-1'')]),
      (''op-3'', demo_raw ''op-3'' [(''applyOperationId'', RString ''ap-0''), (''parentOperationId'', RString ''ap-0'')]),
      (''done'', RObject [(''code'', RNumber (PosInt 0)), (''complete'', RBool True),
                        (''applyOperationId'', RString ''ap-0'')])] s"

text \<open>A codec that writes an object as its operation identifier and reads it back.\<close>

definition demo_codec :: serde where
  "demo_codec =
     \<lparr> from_str = (\<lambda>s. case Option.bind (demo_reader s) unique_json of None \<Rightarrow> Inl ''error'' | Some v \<Rightarrow> Inr v),
       to_string = (\<lambda>v. unwrap_or [] (get_str ''operationId'' v)) \<rparr>"

definition demo_ce :: calibration_env where
  "demo_ce = \<lparr> ce_env = demo_service_env demo_codec, ce_reader = demo_reader, ce_camera_count = 8 \<rparr>"

definition demo_rq :: "string \<Rightarrow> string \<Rightarrow> string \<Rightarrow> calibration_request" where
  "demo_rq oid parent ap =
     \<lparr> cr_kind = ''rollback'', cr_id = oid, cr_json = oid, cr_hash = request_hash ''rollback'' oid,
       cr_parent = parent, cr_apply = ap, cr_actor = ''amy'' \<rparr>"

lemma demo_requests:
  "mutation_request demo_ce rollback_path ''op-1'' ''amy'' = Inr (demo_rq ''op-1'' [] ''ap-1'')"
  "mutation_request demo_ce rollback_path ''op-2'' ''amy'' = Inr (demo_rq ''op-2'' [] ''ap-1'')"
  "mutation_request demo_ce rollback_path ''op-3'' ''amy'' = Inr (demo_rq ''op-3'' ''ap-0'' ''ap-0'')"
proof -
  have k: "operation_kind rollback_path = Some ''rollback''" by code_simp
  have n: "normalized_request demo_ce ''op-1'' = Inr (''op-1'', ''op-1'')"
    "normalized_request demo_ce ''op-2'' = Inr (''op-2'', ''op-2'')"
    "normalized_request demo_ce ''op-3'' = Inr (''op-3'', ''op-3'')" by code_simp+
  have v: "validate_capture_device_mutation_request_for_camera_count (sv_serde (ce_env demo_ce)) rollback_path ''op-1''
      (production_capture_expected_cameras demo_ce) = Inr ()"
    "validate_capture_device_mutation_request_for_camera_count (sv_serde (ce_env demo_ce)) rollback_path ''op-2''
      (production_capture_expected_cameras demo_ce) = Inr ()"
    "validate_capture_device_mutation_request_for_camera_count (sv_serde (ce_env demo_ce)) rollback_path ''op-3''
      (production_capture_expected_cameras demo_ce) = Inr ()" by code_simp+
  have p: "request_operation_id (sv_serde (ce_env demo_ce)) ''op-1'' ''parentOperationId'' = []"
    "request_operation_id (sv_serde (ce_env demo_ce)) ''op-2'' ''parentOperationId'' = []"
    "request_operation_id (sv_serde (ce_env demo_ce)) ''op-3'' ''parentOperationId'' = ''ap-0''"
    "request_operation_id (sv_serde (ce_env demo_ce)) ''op-1'' ''applyOperationId'' = ''ap-1''"
    "request_operation_id (sv_serde (ce_env demo_ce)) ''op-2'' ''applyOperationId'' = ''ap-1''"
    "request_operation_id (sv_serde (ce_env demo_ce)) ''op-3'' ''applyOperationId'' = ''ap-0''" by code_simp+
  have i: "valid_operation_id ''ap-0''" "valid_operation_id ''ap-1''" by code_simp+
  show "mutation_request demo_ce rollback_path ''op-1'' ''amy'' = Inr (demo_rq ''op-1'' [] ''ap-1'')"
    "mutation_request demo_ce rollback_path ''op-2'' ''amy'' = Inr (demo_rq ''op-2'' [] ''ap-1'')"
    "mutation_request demo_ce rollback_path ''op-3'' ''amy'' = Inr (demo_rq ''op-3'' ''ap-0'' ''ap-0'')"
    by (simp_all add: mutation_request_def demo_rq_def k n v p i Let_def)
qed

lemma demo_calibration_sel:
  "no_faults (sv_db (ce_env demo_ce))" "lock (ss_calibration_lock demo_service) \<noteq> None" "ledger demo_service = []"
  by (simp_all add: demo_ce_def demo_service_env_def demo_db_env_def no_faults_def demo_service_def lock_def
      empty_database_def)

definition demo_row :: "string \<Rightarrow> calibration_operation" where
  "demo_row status = (new_operation_row \<lparr> ci_id = ''ap-0'', ci_kind = ''apply-all'', ci_request_hash = ''h'',
     ci_request_json = ''{}'', ci_actor = ''amy'', ci_parent_operation_id = [] \<rparr> ''100'')\<lparr>o_status := status\<rparr>"

definition demo_ledger_service :: "string \<Rightarrow> service_state" where
  "demo_ledger_service status = demo_service\<lparr>ss_database := empty_database\<lparr>db_operations := [demo_row status]\<rparr>\<rparr>"

lemma demo_ledger_sel:
  "ledger (demo_ledger_service status) = [demo_row status]"
  "ss_calibration_lock (demo_ledger_service status) = ss_calibration_lock demo_service"
  "o_id (demo_row status) = ''ap-0''" "o_status (demo_row status) = status" "o_kind (demo_row status) = ''apply-all''"
  "distinct_ids (ledger (demo_ledger_service status))"
  by (simp_all add: demo_ledger_service_def demo_row_def new_operation_row_def distinct_ids_def)

definition demo_done :: capture_proxy_response where
  "demo_done = \<lparr> cp_status_code = 200, cp_content_type = ''application/json'', cp_body = ''done'' \<rparr>"

lemma demo_rq_sel [simp]:
  "cr_kind (demo_rq oid parent ap) = ''rollback''" "cr_id (demo_rq oid parent ap) = oid"
  "cr_json (demo_rq oid parent ap) = oid" "cr_parent (demo_rq oid parent ap) = parent"
  "cr_apply (demo_rq oid parent ap) = ap" "cr_actor (demo_rq oid parent ap) = ''amy''"
  by (simp_all add: demo_rq_def)

lemma demo_done_outcome:
  "provider_terminal_status (sv_serde (ce_env demo_ce)) ''rollback'' demo_done = (''succeeded'', [])"
  "Option.bind (from_str_ok (sv_serde (ce_env demo_ce)) (from_utf8_lossy (cp_body demo_done)))
     (get_str ''applyOperationId'') = Some ''ap-0''"
  by code_simp+

text \<open>
  C3: Whatever requests run concurrently, whatever the provider answers, whichever database statements
  fail and whenever the service is restarted: the capture provider is called at most once for an
  operation identifier, every call made is recorded in the ledger with the request it was made for, and
  at most one thread is about to call the provider.
\<close>
theorem provider_called_at_most_once:
  assumes "reachable calibration_init (calibration_move ce) s"
  shows "distinct (map fst (cs_dispatched s)) \<and> list_all (recorded (cs_service s)) (cs_dispatched s)
    \<and> (\<forall>i j rq rq' pc pc'. cs_threads s i = Some (rq, pc) \<and> calls_provider pc
        \<and> cs_threads s j = Some (rq', pc') \<and> calls_provider pc' \<longrightarrow> i = j)"
proof -
  have inv: "calibration_inv s" by (rule cal.reachable_inv [OF assms])
  have "i = j" if "cs_threads s i = Some (rq, pc)" "calls_provider pc"
    "cs_threads s j = Some (rq', pc')" "calls_provider pc'" for i j rq rq' pc pc'
  proof -
    have "holder (cs_threads s) i" "holder (cs_threads s) j"
      using that calls_provider_holds by (simp_all add: holder_def)
    with inv show ?thesis unfolding calibration_inv_def by blast
  qed
  moreover have "distinct (map fst (cs_dispatched s))" "list_all (recorded (cs_service s)) (cs_dispatched s)"
    using inv by (simp_all add: calibration_inv_def list_all_iff)
  ultimately show ?thesis by blast
qed

theorem provider_called_at_most_once_witness:
  "\<exists>s. reachable calibration_init (calibration_move demo_ce) s \<and> cs_dispatched s = [(''op-1'', ''op-1'')]
    \<and> recorded (cs_service s) (''op-1'', ''op-1'')"
proof -
  let ?s = "\<lparr> cs_service = demo_service, cs_threads = (\<lambda>_. None), cs_dispatched = [] \<rparr>"
  from both_pass_fence [OF demo_calibration_sel(1) demo_requests(1,2), of demo_service] obtain st1 where
    1: "(calibration_move demo_ce)\<^sup>*\<^sup>* ?s \<lparr> cs_service = st1,
        cs_threads = two_threads (demo_rq ''op-1'' [] ''ap-1'') (Try_Lock []) (demo_rq ''op-2'' [] ''ap-1'') (Try_Lock []),
        cs_dispatched = [] \<rparr>"
      "ledger st1 = []" "ss_calibration_lock st1 = ss_calibration_lock demo_service"
    by (auto simp: demo_calibration_sel(3))
  from first_thread_unanswered [OF demo_calibration_sel(1) _ _ 1(1)] 1(2,3) demo_calibration_sel(2) obtain st2 response where
    2: "(calibration_move demo_ce)\<^sup>*\<^sup>* ?s \<lparr> cs_service = st2,
        cs_threads = two_threads (demo_rq ''op-1'' [] ''ap-1'') (Answered response) (demo_rq ''op-2'' [] ''ap-1'') (Try_Lock []),
        cs_dispatched = [(''op-1'', ''op-1'')] \<rparr>" by auto
  have "calibration_init ?s" by (simp add: calibration_init_def demo_calibration_sel(3) distinct_ids_def)
  then have "reachable calibration_init (calibration_move demo_ce) ?s" by (rule reachable_init)
  note r = reachable_rtranclp [OF this 2]
  from provider_called_at_most_once [OF r] have d: "recorded st2 (''op-1'', ''op-1'')" by simp
  show ?thesis by (intro exI conjI, rule r) (simp_all add: d)
qed

text \<open>
  A calibration request is answered within nine steps, whatever the database, the provider and the
  ledger do.
\<close>

theorem calibration_request_answered:
  "\<exists>response st'. calibration_run env dispatch rq 9 Lookup st = (Answered response, st')"
  by (rule calibration_run_answers) simp



text \<open>
  C16: While an operation is unresolved, a new request that is not its recovery rollback is refused without
  a change of the ledger, and the refusal does not depend on the provider, which is not called.
\<close>
theorem unresolved_operation_fences:
  assumes "no_faults (sv_db (ce_env ce))" and "mutation_request ce path body actor = Inr rq"
    and "cr_id rq \<notin> o_id ` set (ledger st)" and "r \<in> set (ledger st)" and "unresolved r"
    and "cr_kind rq = ''apply-all'' \<or> cr_parent rq \<noteq> o_id r"
  shows "\<exists>response st'. mutation_response_with_dispatch ce dispatch path body actor st = (response, st')
    \<and> ledger st' = ledger st
    \<and> (response = operation_in_progress_response (ce_env ce) (cr_id rq)
       \<or> response = reconciliation_required_response (ce_env ce) (cr_id rq) (unresolved_rows (ledger st)))"
proof -
  let ?rows = "unresolved_rows (ledger st)"
  have f: "find (\<lambda>r. o_id r = cr_id rq) (ledger st) = None" using assms(3) by (simp add: find_operation_None)
  have mem: "r \<in> set ?rows" using assms(4,5) by simp
  then obtain x xs where rows: "?rows = x # xs" by (cases ?rows) auto
  have "\<not> (cr_kind rq = ''rollback'' \<and> cr_parent rq \<noteq> [] \<and> xs = [] \<and> o_id x = cr_parent rq
      \<and> o_status x = ''needs-reconciliation'')"
    using assms(6) mem unfolding rows by auto
  from fence_refuses [OF this, of "ce_env ce"] rows obtain response where
    d: "fence_decision (ce_env ce) rq ?rows = Inl response"
    and "response = operation_in_progress_response (ce_env ce) (cr_id rq)
       \<or> response = reconciliation_required_response (ce_env ce) (cr_id rq) ?rows"
    by metis
  moreover have "calibration_run (ce_env ce) dispatch rq 9 Lookup st = (Answered response, tick (tick st))"
    by (simp add: eval_nat_numeral find_operation_tick [OF assms(1)] list_unresolved_tick [OF assms(1)] f d)
  ultimately show ?thesis by (simp add: mutation_response_with_dispatch_def assms(2))
qed

theorem unresolved_operation_fences_witness:
  "\<exists>response st'. mutation_response_with_dispatch demo_ce (\<lambda>_. None) rollback_path ''op-1'' ''amy''
      (demo_ledger_service ''needs-reconciliation'') = (response, st')
    \<and> ledger st' = [demo_row ''needs-reconciliation'']"
  using unresolved_operation_fences [OF demo_calibration_sel(1) demo_requests(1),
      of "demo_ledger_service ''needs-reconciliation''" "demo_row ''needs-reconciliation''" "\<lambda>_. None"]
  by (auto simp: demo_ledger_sel unresolved_def)

text \<open>
  C15: A rollback that names the only unresolved operation as its parent, asks for the apply operation that
  operation must restore, and is confirmed by the provider for that apply operation resolves it: nothing
  is unresolved afterwards, and the parent is reconciled by this rollback.
\<close>
theorem recovery_rollback_reconciles:
  assumes nf: "no_faults (sv_db (ce_env ce))" and mr: "mutation_request ce path body actor = Inr rq"
    and new: "cr_id rq \<notin> o_id ` set (ledger st)" and lock: "lock (ss_calibration_lock st) \<noteq> None"
    and ids: "distinct_ids (ledger st)" and un: "filter unresolved (ledger st) = [parent]"
    and p: "o_status parent = ''needs-reconciliation''" "o_id parent = cr_parent rq" "cr_parent rq \<noteq> []"
    and k: "cr_kind rq = ''rollback''"
    and e: "cr_apply rq = expected_apply_operation_id (sv_serde (ce_env ce)) parent" "cr_apply rq \<noteq> []"
    and d: "dispatch (cr_json rq) = Some a"
    and t: "fst (provider_terminal_status (sv_serde (ce_env ce)) (cr_kind rq) a) = ''succeeded''"
    and pa: "Option.bind (from_str_ok (sv_serde (ce_env ce)) (from_utf8_lossy (cp_body a)))
      (get_str ''applyOperationId'') = Some (cr_apply rq)"
  shows "\<exists>st'. mutation_response_with_dispatch ce dispatch path body actor st = (provider_response a, st')
    \<and> filter unresolved (ledger st') = []
    \<and> (\<exists>r\<in>set (ledger st'). request_of r = request_of parent \<and> o_status r = ''reconciled''
         \<and> o_reconciliation_id r = cr_id rq)"
proof -
  let ?env = "ce_env ce"
  have rows: "unresolved_rows (ledger st) = [parent]" by (simp add: un order_asc_def)
  have fence: "fence_decision ?env rq (unresolved_rows (ledger st)) = Inr (cr_apply rq)"
    using p k e unfolding rows by (simp add: fence_decision_def)
  from run_to_provider [OF nf new fence lock, of dispatch 3] d obtain st1 now where
    r: "calibration_run ?env dispatch rq 9 Lookup st
          = calibration_run ?env dispatch rq 3 (Provider_Answer (cr_apply rq) (Some a)) st1"
    and l: "ledger st1 = ledger st @ [new_operation_row (operation_input rq) now]" by auto
  have o: "outcome_of (sv_serde ?env) rq (Some a) = ''succeeded''" using t by (simp add: outcome_of_def)
  from provider_answer_recorded [OF nf new l, of dispatch False "cr_apply rq" "Some a"]
  obtain row st2 where s: "calibration_step ?env dispatch False rq (Provider_Answer (cr_apply rq) (Some a)) st1
      = (finished_pc ?env rq (cr_apply rq) a ''succeeded'' row, st2)"
    and row: "ledger st2 = ledger st @ [row]" "records_outcome rq ''succeeded'' (Some a) row"
    by (auto simp: o)
  have fp: "finished_pc ?env rq (cr_apply rq) a ''succeeded'' row = Reconcile (cr_apply rq) a row"
    and body: "o_provider_response_body row = from_utf8_lossy (cp_body a)"
    using row(2) k p(3) by (auto simp: finished_pc_def records_outcome_def)
  have "parent \<in> set (ledger st)" using only_unresolved [OF un, of parent] by simp
  from find_append_Some [OF find_unique_row [OF ids this p(2)], of "[row]"]
  have "find (\<lambda>r. o_id r = cr_parent rq) (ledger st2) = Some parent" by (simp add: row)
  from reconcile_answers [OF nf this p(1), of row "cr_apply rq"] pa obtain st3 now' where
    fin: "calibration_run ?env dispatch rq 2 (Reconcile (cr_apply rq) a row) st2 = (Answered (provider_response a), st3)"
    and l3: "ledger st3 = update_rows (unchanged_since parent ''needs-reconciliation'')
        (reconciled_operation parent (cr_id rq) ''restored-to-staged-baseline'' (cr_actor rq) now') (ledger st @ [row])"
    unfolding body row(1) by blast
  have three: "(3::nat) = Suc 2" by simp
  have "calibration_run ?env dispatch rq 9 Lookup st = (Answered (provider_response a), st3)"
    unfolding r three calibration_run.simps s fp by (simp add: fin)
  moreover have "\<not> unresolved row" using row(2) by (simp add: records_outcome_def unresolved_def)
  ultimately show ?thesis using reconciled_ledger [OF un p(1)] l3
    by (auto simp: mutation_response_with_dispatch_def mr)
qed

theorem recovery_rollback_reconciles_witness:
  "\<exists>st'. mutation_response_with_dispatch demo_ce (\<lambda>_. Some demo_done) rollback_path ''op-3'' ''amy''
      (demo_ledger_service ''needs-reconciliation'') = (provider_response demo_done, st')
    \<and> filter unresolved (ledger st') = []"
proof -
  have p: "filter unresolved (ledger (demo_ledger_service ''needs-reconciliation'')) = [demo_row ''needs-reconciliation'']"
    by (simp add: demo_ledger_sel unresolved_def)
  have "\<exists>st'. mutation_response_with_dispatch demo_ce (\<lambda>_. Some demo_done) rollback_path ''op-3'' ''amy''
      (demo_ledger_service ''needs-reconciliation'') = (provider_response demo_done, st')
    \<and> filter unresolved (ledger st') = []
    \<and> (\<exists>r\<in>set (ledger st'). request_of r = request_of (demo_row ''needs-reconciliation'') \<and> o_status r = ''reconciled''
         \<and> o_reconciliation_id r = cr_id (demo_rq ''op-3'' ''ap-0'' ''ap-0''))"
    by (rule recovery_rollback_reconciles [OF demo_calibration_sel(1) demo_requests(3) _ _ demo_ledger_sel(6) p])
      (use demo_calibration_sel(2) in \<open>simp_all add: demo_ledger_sel demo_done_outcome expected_apply_operation_id_def\<close>)
  then show ?thesis by blast
qed

text \<open>
  C37: The fence is checked before the dispatch lock is taken and not again after it.  Two requests that
  both pass it reach the provider one after the other, the second one while the first one already needs
  reconciliation.
\<close>
theorem calibration_fence_overtaken:
  assumes nf: "no_faults (sv_db (ce_env ce))"
    and acc: "mutation_request ce path body actor = Inr rq" "mutation_request ce path' body' actor' = Inr rq'"
    and new: "cr_id rq \<notin> o_id ` set (ledger st)" "cr_id rq' \<notin> o_id ` set (ledger st)" "cr_id rq \<noteq> cr_id rq'"
    and un: "filter unresolved (ledger st) = []" and lock: "lock (ss_calibration_lock st) \<noteq> None"
  shows "\<exists>s r. (calibration_move ce)\<^sup>*\<^sup>* \<lparr> cs_service = st, cs_threads = (\<lambda>_. None), cs_dispatched = [] \<rparr> s
    \<and> r \<in> set (ledger (cs_service s)) \<and> o_id r = cr_id rq \<and> o_status r = ''needs-reconciliation''
    \<and> cs_dispatched s = [(cr_id rq, cr_json rq), (cr_id rq', cr_json rq')]"
proof -
  let ?s = "\<lparr> cs_service = st, cs_threads = (\<lambda>_. None), cs_dispatched = [] \<rparr>"
  from both_pass_fence [OF nf acc new(1,2) un] obtain st1 where
    1: "(calibration_move ce)\<^sup>*\<^sup>* ?s
      \<lparr> cs_service = st1, cs_threads = two_threads rq (Try_Lock []) rq' (Try_Lock []), cs_dispatched = [] \<rparr>"
      "ledger st1 = ledger st" "ss_calibration_lock st1 = ss_calibration_lock st" by blast
  have new1: "cr_id rq \<notin> o_id ` set (ledger st1)" and lock1: "lock (ss_calibration_lock st1) \<noteq> None"
    using new(1) lock 1(2,3) by simp_all
  from first_thread_unanswered [OF nf new1 lock1 1(1)] obtain st2 row response where
    2: "(calibration_move ce)\<^sup>*\<^sup>* ?s
      \<lparr> cs_service = st2, cs_threads = two_threads rq (Answered response) rq' (Try_Lock []),
        cs_dispatched = [(cr_id rq, cr_json rq)] \<rparr>"
      "ledger st2 = ledger st1 @ [row]" "records_outcome rq ''needs-reconciliation'' None row"
      "ss_calibration_lock st2 = ss_calibration_lock st1" by auto
  have id: "o_id row = cr_id rq" "o_status row = ''needs-reconciliation''"
    using 2(3) by (simp_all add: records_outcome_def request_of_def)
  have new2: "cr_id rq' \<notin> o_id ` set (ledger st2)" and lock2: "lock (ss_calibration_lock st2) \<noteq> None"
    using new(2,3) id 1(2) 2(2,4) lock1 by auto
  from thread_to_provider [OF nf new2 lock2 _ 2(1), of "\<lambda>_. None"] obtain st3 now where
    3: "(calibration_move ce)\<^sup>*\<^sup>* ?s
      \<lparr> cs_service = st3, cs_threads = two_threads rq (Answered response) rq' (Provider_Answer [] None),
        cs_dispatched = [(cr_id rq, cr_json rq), (cr_id rq', cr_json rq')] \<rparr>"
    "ledger st3 = ledger st2 @ [new_operation_row (operation_input rq') now]" by auto
  show ?thesis by (intro exI [where x = row] exI conjI, rule 3(1)) (simp_all add: 3(2) id 2(2))
qed

theorem calibration_fence_overtaken_witness:
  "\<exists>s r. (calibration_move demo_ce)\<^sup>*\<^sup>* \<lparr> cs_service = demo_service, cs_threads = (\<lambda>_. None), cs_dispatched = [] \<rparr> s
    \<and> r \<in> set (ledger (cs_service s)) \<and> o_id r = ''op-1'' \<and> o_status r = ''needs-reconciliation''
    \<and> cs_dispatched s = [(''op-1'', ''op-1''), (''op-2'', ''op-2'')]"
  using calibration_fence_overtaken [OF demo_calibration_sel(1) demo_requests(1,2), of demo_service] demo_calibration_sel(2)
  by (simp add: demo_calibration_sel(3))

text \<open>
  The recovery at startup counts the operations in flight and marks each of them as needing
  reconciliation, and keeps every other row and every recorded request.
\<close>

theorem restart_marks_interrupted:
  assumes "no_faults (sv_db env)" and "distinct_ids (ledger st)" and "length (ledger st) \<le> u64_max"
  shows "\<exists>st'. block_on (recover_dispatching_calibration_operations (sv_db env)) st
      = (Inr (length (filter (\<lambda>r. o_status r = ''dispatching'') (ledger st))), st')
    \<and> list_all2 recovered_version (ledger st) (ledger st')"
proof -
  let ?rows = "filter (\<lambda>r. o_status r = ''dispatching'') (ledger st)"
  let ?db = "(ss_database st)\<lparr>db_tick := db_tick (ss_database st) + 1\<rparr>"
  have sel: "db_operations ?db = ledger st" by simp
  have "distinct ?rows" using assms(2) by (simp add: distinct_ids_def distinct_map)
  moreover have "0 + length ?rows \<le> u64_max" using assms(3) by (simp add: le_trans [OF length_filter_le])
  ultimately have "\<exists>db'. recover_operations (sv_db env) ?rows 0 ?db = (Inr (0 + length ?rows), db')
    \<and> list_all2 (\<lambda>r r'. if r \<in> set ?rows then recovered_version r r' else r' = r)
        (db_operations ?db) (db_operations db')"
    by (intro recover_operations_no_faults [OF assms(1)]) (simp_all add: assms(2))
  then obtain db' where
    r: "recover_operations (sv_db env) ?rows 0 ?db = (Inr (length ?rows), db')"
      "list_all2 (\<lambda>r r'. if r \<in> set ?rows then recovered_version r r' else r' = r) (ledger st) (db_operations db')"
    unfolding add_0 sel by blast
  have "list_all2 recovered_version (ledger st) (db_operations db')"
    by (rule list.rel_mono_strong [OF r(2)]) (auto simp: recovered_version_def split: if_splits)
  with r(1) show ?thesis
    by (auto simp: recover_dispatching_calibration_operations_def db_bind_def query_no_faults [OF assms(1)] block_on_simp)
qed

theorem restart_marks_interrupted_witness:
  "\<exists>st' r. block_on (recover_dispatching_calibration_operations (sv_db (ce_env demo_ce))) (demo_ledger_service ''dispatching'')
      = (Inr 1, st') \<and> ledger st' = [r] \<and> o_id r = ''ap-0'' \<and> o_status r = ''needs-reconciliation''"
proof -
  have "length (ledger (demo_ledger_service ''dispatching'')) \<le> u64_max" by (simp add: demo_ledger_sel u64_max_def)
  from restart_marks_interrupted [OF demo_calibration_sel(1) demo_ledger_sel(6) this] show ?thesis
    by (auto simp: demo_ledger_sel recovered_version_def request_of_def list_all2_Cons1)
qed

end
