(* ===== verification/Client_Props.thy ===== *)
theory Client_Props
  imports Service_Client Calibration_Props
begin

text \<open>
  What a request has passed when its handler runs, and that the admission guard of a connection is
  released again on every way out.
\<close>

section \<open>Inversion\<close>

lemma client_front_dispatched:
  assumes "client_front env provider peer rq st = (Dispatch_To d, st')"
  obtains session st1 where
    "request_origin_allowed (cl_head rq) (cl_method rq)"
    "(if trusted_trigger_service_request env (cl_head rq) (cl_method rq) (cl_path rq) peer then Some (Inr None, st)
      else authorize_request env (cl_head rq) (cl_method rq) (cl_path rq) st) = Some (Inr session, st1)"
    "\<not> (cl_method rq = ''POST'' \<and> cl_path rq = ''/api/runtime/drain'')"
    "client_admission env provider rq
       (client_actor (trusted_trigger_service_request env (cl_head rq) (cl_method rq) (cl_path rq) peer) session) st1
     = (Dispatch_To d, st')"
  using assms unfolding client_front_def Let_def
  by (auto split: if_splits prod.splits option.splits sum.splits)

lemma client_admission_dispatched:
  assumes "client_admission env provider rq actor st = (Dispatch_To d, st')"
  obtains st1 where
    "enter_runtime_admission env (cl_method rq) (cl_path rq) st = (Inr (di_admission_guard d), st1)"
    "if mutation_requires_reconciliation_fence (cl_method rq) (cl_path rq)
     then reconciliation_fence_response env (cl_path rq) st1 = (None, st') else st' = st1"
    "di_actor d = actor" "di_target d = route_of provider (cl_head rq) (cl_method rq) (cl_path rq)"
  using assms unfolding client_admission_def Let_def
  by (auto split: if_splits prod.splits option.splits sum.splits)

lemma session_from_request_frame:
  "session_from_request env request st = (session, st')
     \<Longrightarrow> ss_runtime_admission st' = ss_runtime_admission st \<and> ss_database st' = ss_database st"
  by (auto simp: session_from_request_def put_sessions_def split: option.splits if_splits)

lemma authorized_frame:
  assumes "authorize_request env request method path st = Some (Inr session, st')"
  shows "ss_runtime_admission st' = ss_runtime_admission st \<and> ss_database st' = ss_database st"
proof -
  obtain found st1 where f: "session_from_request env request st = (found, st1)" by fastforce
  from assms f have "st' = st1"
    by (auto simp: authorize_request_def split: option.splits if_splits)
  with session_from_request_frame [OF f] show ?thesis by simp
qed

lemma fence_passed:
  assumes "reconciliation_fence_response env oid st = (None, st')"
  shows "filter unresolved (ledger st) = []"
proof -
  obtain rows where "block_on (list_unresolved_calibration_operations (sv_db env)) st = (Inr rows, st')" "rows = []"
    using assms by (auto simp: reconciliation_fence_response_def split: prod.splits sum.splits if_splits)
  then show ?thesis
    by (auto simp: block_on_iff list_unresolved_calibration_operations_def query_iff split: option.splits)
      (metis order_asc_Nil)
qed

lemma admitted:
  assumes "enter_runtime_admission env method path st = (Inr guard, st')" and "mutating_method method"
    and "path \<noteq> ''/api/runtime/drain''"
  shows "\<exists>a. lock (ss_runtime_admission st) = Some a \<and> guard
      \<and> (ra_accepting a \<or> ra_completion_accepting a \<and> runtime_completion_route method path)
      \<and> st' = st\<lparr>ss_runtime_admission := unlock (ss_runtime_admission st)
              (a\<lparr>ra_in_flight := saturating_add64 (ra_in_flight a) 1\<rparr>)\<rparr>"
  using assms unfolding enter_runtime_admission_def mutating_method_def
  by (auto split: if_splits option.splits)


definition demo_client :: client_request where
  "demo_client = \<lparr> cl_head = demo_bearer_request, cl_method = ''POST'', cl_raw_path = ''/api/production/tasks'',
     cl_body = [] \<rparr>"

abbreviation demo_client_state :: service_state where
  "demo_client_state \<equiv> demo_accounts\<lparr>ss_sessions := Mutex False [''T'' \<mapsto> demo_session]\<rparr>"

lemma demo_client_front:
  "\<exists>d st'. client_front auth_env HeadlessCpp None demo_client demo_client_state = (Dispatch_To d, st')
    \<and> di_actor d = ''root'' \<and> (\<exists>h. di_target d = Handler h)"
proof -
  have "bearer_token demo_bearer_request = Some ''T''" by code_simp
  then have s: "session_from_request auth_env demo_bearer_request demo_client_state = (Some demo_session, demo_client_state)"
    by (simp add: session_from_request_def lock_def current_time_millis_def demo_session_def demo_accounts_def
        empty_database_def demo_service_env_def demo_db_env_def)
  have q: "required_permission demo_bearer_request ''POST'' ''/api/production/tasks'' = Some (Some ''admin.services'')"
    by code_simp
  have a: "authorize_request auth_env demo_bearer_request ''POST'' ''/api/production/tasks'' demo_client_state
      = Some (Inr (Some demo_session), demo_client_state)"
    by (simp add: authorize_request_def q s) (simp add: demo_session_def)
  have o: "request_origin_allowed demo_bearer_request ''POST'' = True" by code_simp
  have pth: "cl_path demo_client = ''/api/production/tasks''" by code_simp
  have sel: "cl_method demo_client = ''POST''" "cl_head demo_client = demo_bearer_request" "cl_body demo_client = []"
    by (simp_all add: demo_client_def)
  have u: "as_user_id demo_session = ''root''" by (simp add: demo_session_def)
  have t: "trusted_trigger_service_request auth_env demo_bearer_request ''POST'' ''/api/production/tasks'' None = False"
    by (simp add: trusted_trigger_service_request_def loopback_peer_def)
  have g: "runtime_mode_guard_response_for_request auth_env ''POST'' ''/api/production/tasks'' [] = None"
    "runtime_capability_guard_response_for_request auth_env ''POST'' ''/api/production/tasks'' [] = None"
    "mutation_requires_reconciliation_fence ''POST'' ''/api/production/tasks'' = False" by code_simp+
  have r: "route_of HeadlessCpp demo_bearer_request ''POST'' ''/api/production/tasks''
      = Handler ''production_tasks::enqueue_response''" by code_simp
  have adm: "\<exists>st'. enter_runtime_admission auth_env ''POST'' ''/api/production/tasks'' demo_client_state = (Inr True, st')"
    by (simp add: enter_runtime_admission_def lock_def demo_accounts_def demo_service_def runtime_admission_default_def)
  from adm obtain st' where "enter_runtime_admission auth_env ''POST'' ''/api/production/tasks'' demo_client_state = (Inr True, st')"
    by blast
  then have c: "client_admission auth_env HeadlessCpp demo_client ''root'' demo_client_state
      = (Dispatch_To \<lparr> di_actor = ''root'', di_target = Handler ''production_tasks::enqueue_response'',
           di_admission_guard = True, di_command_guard = is_production_mutation_route ''POST'' ''/api/production/tasks''
             \<and> lock (ss_command_lock st') \<noteq> None \<rparr>, st')"
    by (simp only: client_admission_def pth sel g if_False r prod.case sum.case Let_def option.case)
  have "client_front auth_env HeadlessCpp None demo_client demo_client_state
      = client_admission auth_env HeadlessCpp demo_client ''root'' demo_client_state"
    by (simp only: client_front_def pth sel o t a g Let_def if_False not_True_eq_False option.case prod.case sum.case
        client_actor_def u) simp
  with c show ?thesis by auto
qed


section \<open>The admission guard of a connection\<close>

definition in_flight_count :: "service_state \<Rightarrow> nat" where
  "in_flight_count st = ra_in_flight (mx_value (ss_runtime_admission st))"

lemma lock_mx_value: "lock m = Some a \<Longrightarrow> mx_value m = a \<and> \<not> mx_poisoned m"
  by (cases m) (simp add: lock_def split: if_splits)

lemma fence_admission: "reconciliation_fence_response env oid st = (r, st') \<Longrightarrow> ss_runtime_admission st' = ss_runtime_admission st"
  by (auto simp: reconciliation_fence_response_def block_on_simp split: prod.splits sum.splits)

text \<open>Entering and leaving the gate around anything that keeps the gate.\<close>

lemma enter_admission_cases:
  assumes "enter_runtime_admission env method path st = (Inr guard, st1)"
  shows "\<not> guard \<and> st1 = st \<or> (\<exists>a. lock (ss_runtime_admission st) = Some a \<and> guard
    \<and> st1 = st\<lparr>ss_runtime_admission := unlock (ss_runtime_admission st)
        (a\<lparr>ra_in_flight := saturating_add64 (ra_in_flight a) 1\<rparr>)\<rparr>)"
  using assms by (cases "lock (ss_runtime_admission st)")
    (simp_all add: enter_runtime_admission_def del: set_simps split: if_splits)

lemma guard_released:
  assumes "enter_runtime_admission env method path st = (Inr guard, st1)"
    and k: "ss_runtime_admission st2 = ss_runtime_admission st1" and "in_flight_count st < u64_max"
  shows "in_flight_count (release_admission guard st2) = in_flight_count st"
  using enter_admission_cases [OF assms(1)]
proof
  assume "\<not> guard \<and> st1 = st"
  then show ?thesis using k by (simp add: release_admission_def in_flight_count_def)
next
  assume "\<exists>a. lock (ss_runtime_admission st) = Some a \<and> guard
    \<and> st1 = st\<lparr>ss_runtime_admission := unlock (ss_runtime_admission st)
        (a\<lparr>ra_in_flight := saturating_add64 (ra_in_flight a) 1\<rparr>)\<rparr>"
  then obtain a where a: "lock (ss_runtime_admission st) = Some a" "guard"
    "ss_runtime_admission st2 = unlock (ss_runtime_admission st) (a\<lparr>ra_in_flight := saturating_add64 (ra_in_flight a) 1\<rparr>)"
    using k by auto
  note m = lock_mx_value [OF a(1)]
  have "lock (ss_runtime_admission st2) = Some (a\<lparr>ra_in_flight := saturating_add64 (ra_in_flight a) 1\<rparr>)"
    using m by (simp add: a(3))
  then show ?thesis using assms(3) m a(2)
    by (simp add: release_admission_def in_flight_count_def drop_runtime_admission_guard_def saturating_add64_def)
qed

lemma drain_response_count: "in_flight_count (snd (runtime_drain_response env request peer st)) = in_flight_count st"
  by (auto simp: in_flight_count_def runtime_drain_response_def close_runtime_admission_def Let_def
      dest!: lock_mx_value split: option.splits)

lemma authorize_frame:
  assumes "authorize_request env request method path st = Some (r, st')"
  shows "ss_runtime_admission st' = ss_runtime_admission st"
proof -
  obtain found st1 where f: "session_from_request env request st = (found, st1)" by fastforce
  obtain required where q: "required_permission request method path = Some required"
    using assms by (cases "required_permission request method path") (simp_all add: authorize_request_def)
  have "ss_runtime_admission st' = ss_runtime_admission st1"
    using assms by (cases required; cases found)
      (auto simp: authorize_request_def f q append_authorization_audit_def block_on_ignored_simp Let_def split: if_splits)
  with session_from_request_frame [OF f] show ?thesis by simp
qed

lemma origin_audit_frame: "ss_runtime_admission (append_origin_audit env request method path st) = ss_runtime_admission st"
proof -
  obtain found st1 where f: "session_from_request env request st = (found, st1)" by fastforce
  with session_from_request_frame [OF f] show ?thesis
    by (simp add: append_origin_audit_def block_on_ignored_simp Let_def)
qed

lemma admission_reply_count:
  assumes "client_admission env provider rq actor st = (out, st')" and "in_flight_count st < u64_max"
  shows "(case out of Dispatch_To d \<Rightarrow>
            \<exists>st1. enter_runtime_admission env (cl_method rq) (cl_path rq) st = (Inr (di_admission_guard d), st1)
              \<and> ss_runtime_admission st' = ss_runtime_admission st1
          | _ \<Rightarrow> in_flight_count st' = in_flight_count st)"
proof (cases "enter_runtime_admission env (cl_method rq) (cl_path rq) st")
  case (Pair r st1)
  show ?thesis
  proof (cases r)
    case (Inl e)
    then have "st1 = st" using Pair by (auto simp: enter_runtime_admission_def split: if_splits option.splits)
    with assms Pair Inl show ?thesis by (auto simp: client_admission_def)
  next
    case (Inr guard)
    note e = Pair [unfolded Inr]
    obtain fence st2 where f: "(if mutation_requires_reconciliation_fence (cl_method rq) (cl_path rq)
        then reconciliation_fence_response env (cl_path rq) st1 else (None, st1)) = (fence, st2)" by fastforce
    then have k: "ss_runtime_admission st2 = ss_runtime_admission st1" by (auto split: if_splits dest: fence_admission)
    show ?thesis using assms(1) guard_released [OF e k assms(2)] k f
      by (cases fence) (auto simp: client_admission_def e)
  qed
qed

lemma client_front_count:
  assumes "client_front env provider peer rq st = (out, st')" and "in_flight_count st < u64_max"
  shows "(case out of Dispatch_To d \<Rightarrow>
            \<exists>st0 st1. in_flight_count st0 = in_flight_count st
              \<and> enter_runtime_admission env (cl_method rq) (cl_path rq) st0 = (Inr (di_admission_guard d), st1)
              \<and> ss_runtime_admission st' = ss_runtime_admission st1
          | _ \<Rightarrow> in_flight_count st' = in_flight_count st)"
proof (cases out)
  case (Dispatch_To d)
  obtain session st0 where a: "(if trusted_trigger_service_request env (cl_head rq) (cl_method rq) (cl_path rq) peer
      then Some (Inr None, st) else authorize_request env (cl_head rq) (cl_method rq) (cl_path rq) st) = Some (Inr session, st0)"
    and c: "client_admission env provider rq (client_actor
      (trusted_trigger_service_request env (cl_head rq) (cl_method rq) (cl_path rq) peer) session) st0 = (out, st')"
    using client_front_dispatched [OF assms(1) [unfolded Dispatch_To]] Dispatch_To by metis
  have k: "in_flight_count st0 = in_flight_count st"
    using a authorize_frame by (auto simp: in_flight_count_def split: if_splits)
  with admission_reply_count [OF c] assms(2) Dispatch_To show ?thesis by auto
next
  case (Reply response)
  show ?thesis
  proof (cases "\<exists>actor st0. client_admission env provider rq actor st0 = (out, st')
      \<and> ss_runtime_admission st0 = ss_runtime_admission st")
    case True
    then obtain actor st0 where c: "client_admission env provider rq actor st0 = (out, st')"
      and k: "in_flight_count st0 = in_flight_count st" by (auto simp: in_flight_count_def)
    from admission_reply_count [OF c] k assms(2) Reply show ?thesis by auto
  next
    case False
    with assms(1) have "ss_runtime_admission st' = ss_runtime_admission st
        \<or> st' = snd (runtime_drain_response env (cl_head rq) peer st)"
      unfolding client_front_def Let_def Reply
      by (auto simp: origin_audit_frame dest: authorize_frame split: if_splits prod.splits option.splits sum.splits)
    then show ?thesis using drain_response_count [of env "cl_head rq" peer st]
      by (auto simp: Reply in_flight_count_def)
  qed
next
  case Client_Panic
  with assms(1) have "st' = st" unfolding client_front_def Let_def client_admission_def
    by (auto split: if_splits prod.splits option.splits sum.splits)
  then show ?thesis by (simp add: Client_Panic)
qed



end
