(* ===== verification/Calibration_Request_Props.thy ===== *)
theory Calibration_Request_Props
  imports Calibration_Operations "HOL-Library.Multiset"
begin

text \<open>
  What the rules for camera writes guarantee of an accepted calibration set, and that the recorded form
  of a request does not depend on the order in which its keys are written.
\<close>

section \<open>An accepted calibration set\<close>

abbreviation entry_ip :: "string \<times> string \<times> string \<Rightarrow> string" where "entry_ip e \<equiv> fst e"
abbreviation entry_serial :: "string \<times> string \<times> string \<Rightarrow> string" where "entry_serial e \<equiv> fst (snd e)"
abbreviation entry_path :: "string \<times> string \<times> string \<Rightarrow> string" where "entry_path e \<equiv> snd (snd e)"

lemma mapping_loop_ok:
  assumes "mapping_loop ms ips serials paths = Inr ips'"
  shows "\<exists>es. map mapping_entry ms = map Inr es \<and> ips' = rev (map entry_ip es) @ ips
    \<and> distinct (map entry_ip es) \<and> distinct (map entry_serial es) \<and> distinct (map entry_path es)
    \<and> set (map entry_ip es) \<inter> set ips = {} \<and> set (map entry_serial es) \<inter> set serials = {}
    \<and> set (map entry_path es) \<inter> set paths = {}"
  using assms
proof (induction ms ips serials paths rule: mapping_loop.induct)
  case (1 ips serials paths)
  then show ?case by (intro exI [where x = "[]"]) simp
next
  case (2 m ms ips serials paths)
  then obtain ip sn path where e: "mapping_entry m = Inr (ip, sn, path)"
    and n: "ip \<notin> set ips" "sn \<notin> set serials" "path \<notin> set paths"
    and l: "mapping_loop ms (ip # ips) (sn # serials) (path # paths) = Inr ips'"
    by (auto split: sum.splits if_splits)
  from "2.IH" [OF e refl refl n l] obtain es where
    "map mapping_entry ms = map Inr es" "ips' = rev (map entry_ip es) @ ip # ips"
    "distinct (map entry_ip es)" "distinct (map entry_serial es)" "distinct (map entry_path es)"
    "set (map entry_ip es) \<inter> set (ip # ips) = {}" "set (map entry_serial es) \<inter> set (sn # serials) = {}"
    "set (map entry_path es) \<inter> set (path # paths) = {}" by blast
  with e n show ?case by (intro exI [where x = "(ip, sn, path) # es"]) auto
qed

definition safe_calibration_set :: "json \<Rightarrow> nat \<Rightarrow> (string \<times> string \<times> string) list \<Rightarrow> json list \<Rightarrow> bool" where
  "safe_calibration_set object cameras es targets \<longleftrightarrow>
     list_all (\<lambda>flag. get_bool flag object = Some True)
       [''atomic'', ''rollbackOnFailure'', ''requireAllMapped'', ''stopStreams'']
     \<and> get_bool ''allowBestEffortDeviceRollback'' object \<noteq> Some True \<and> get_bool ''saveCameraParams'' object \<noteq> Some True
     \<and> length es = cameras \<and> length targets = cameras
     \<and> distinct (map entry_ip es) \<and> distinct (map entry_serial es) \<and> distinct (map entry_path es)
     \<and> distinct (map target_ip targets) \<and> set (map target_ip targets) = set (map entry_ip es)"

lemma as_array_Some: "as_array v = Some vs \<longleftrightarrow> v = JArray vs"
  by (cases v) auto

section \<open>The order of keys\<close>

text \<open>Texts that differ only in the order in which the keys of their objects are written.\<close>

inductive reordered :: "raw_json \<Rightarrow> raw_json \<Rightarrow> bool" where
  ro_same: "reordered r r"
| ro_array: "list_all2 reordered vs vs' \<Longrightarrow> reordered (RArray vs) (RArray vs')"
| ro_object: "list_all2 (rel_prod (=) reordered) kvs mid \<Longrightarrow> mset mid = mset kvs'
    \<Longrightarrow> reordered (RObject kvs) (RObject kvs')"

text \<open>A sorted object is determined by its contents.\<close>

lemma sorted_keys_Cons: "sorted_keys ((k, v) # m) \<longleftrightarrow> (\<forall>k'\<in>fst ` set m. k < k') \<and> sorted_keys m"
  by (auto simp: sorted_keys_def)

lemma sorted_keys_distinct: "sorted_keys m \<Longrightarrow> distinct (map fst m)"
  by (auto simp: sorted_keys_def strict_sorted_iff)

lemma sorted_keys_unique:
  assumes "sorted_keys m" and "sorted_keys m'" and "map_of m = map_of m'"
  shows "m = m'"
proof (rule map_sorted_distinct_set_unique [where f = fst])
  have d: "distinct (map fst m)" "distinct (map fst m')" using assms(1,2) sorted_keys_distinct by auto
  have "set m = set m'"
    using map_of_eq_Some_iff [OF d(1)] map_of_eq_Some_iff [OF d(2)] assms(3) by auto
  then show "set m = set m'" .
  show "inj_on fst (set m \<union> set m')" using d(1) \<open>set m = set m'\<close> by (simp add: distinct_map)
  show "sorted (map fst m)" "sorted (map fst m')"
    using assms(1,2) by (auto simp: sorted_keys_def strict_sorted_iff)
qed (use assms(1,2) sorted_keys_distinct in auto)

text \<open>When reading an object succeeds, and what it gives.\<close>

definition object_values :: "(string \<times> raw_json) list \<Rightarrow> (string \<times> json option) list" where
  "object_values kvs = map (\<lambda>(k, v). (k, unique_json v)) kvs"

lemma unique_object_Some:
  "unique_object m kvs = Some m' \<longleftrightarrow>
     distinct (map fst kvs) \<and> fst ` set kvs \<inter> fst ` set m = {} \<and> (\<forall>(k, j)\<in>set (object_values kvs). j \<noteq> None)
     \<and> m' = foldl (\<lambda>m (k, v). obj_insert k v m) m (map (\<lambda>(k, j). (k, the j)) (object_values kvs))"
proof (induction kvs arbitrary: m)
  case Nil
  then show ?case by (auto simp: object_values_def)
next
  case (Cons kv kvs)
  obtain k v where kv: "kv = (k, v)" by fastforce
  show ?case
  proof (cases "unique_json v")
    case None
    then show ?thesis by (simp add: kv object_values_def)
  next
    case (Some j)
    have "unique_object m (kv # kvs) = Some m' \<longleftrightarrow>
        k \<notin> fst ` set m \<and> unique_object (obj_insert k j m) kvs = Some m'" by (simp add: kv Some)
    then show ?thesis unfolding Cons.IH by (auto simp: kv Some object_values_def obj_insert_keys)
  qed
qed

lemma unique_object_reordered:
  assumes "mset (object_values kvs) = mset (object_values kvs')"
  shows "unique_object [] kvs = unique_object [] kvs'"
proof -
  have keys: "map fst kvs = map fst (object_values kvs)" for kvs by (auto simp: object_values_def)
  have one: "unique_object [] kvs = Some m \<Longrightarrow> unique_object [] kvs' = Some m"
    if eq: "mset (object_values kvs) = mset (object_values kvs')" for kvs kvs' m
  proof -
    assume a: "unique_object [] kvs = Some m"
    let ?es = "\<lambda>kvs. map (\<lambda>(k, j). (k, the j)) (object_values kvs)"
    from a have d: "distinct (map fst kvs)" and ok: "\<forall>(k, j)\<in>set (object_values kvs). j \<noteq> None"
      and m: "m = obj_of (?es kvs)" by (auto simp: unique_object_Some obj_of_def)
    have "mset (map fst kvs) = mset (map fst kvs')" using eq unfolding keys by (metis mset_map)
    then have d': "distinct (map fst kvs')" using d by (metis mset_eq_imp_distinct_iff)
    have ok': "\<forall>(k, j)\<in>set (object_values kvs'). j \<noteq> None" using ok eq by (metis mset_eq_setD)
    have fe: "map fst (?es kvs) = map fst kvs" for kvs by (auto simp: object_values_def)
    have "mset (?es kvs) = mset (?es kvs')" using eq by (metis mset_map)
    then have "set (?es kvs) = set (?es kvs')" by (rule mset_eq_setD)
    moreover have "distinct (map fst (rev (?es kvs)))" "distinct (map fst (rev (?es kvs')))"
      using d d' by (simp_all only: rev_map [symmetric] distinct_rev fe)
    ultimately have "map_of (rev (?es kvs)) = map_of (rev (?es kvs'))" by (simp add: map_of_inject_set)
    then have "obj_of (?es kvs) = obj_of (?es kvs')"
      by (intro sorted_keys_unique sorted_keys_obj_of) (simp add: map_of_obj_of)
    then show "unique_object [] kvs' = Some m" using d' ok' m by (simp add: unique_object_Some obj_of_def)
  qed
  show ?thesis using one [OF assms] one [OF assms [symmetric]] by (metis not_Some_eq)
qed

lemma unique_json_reordered: "reordered r r' \<Longrightarrow> unique_json r = unique_json r'"
proof (induction rule: reordered.induct)
  case (ro_array vs vs')
  then have "unique_array vs = unique_array vs'" by (induction rule: list_all2_induct) (auto split: option.splits)
  then show ?case by simp
next
  case (ro_object kvs mid kvs')
  from ro_object(1) have "object_values kvs = object_values mid"
    by (induction rule: list_all2_induct) (auto simp: object_values_def)
  then have "mset (object_values kvs) = mset (object_values kvs')"
    using ro_object(2) by (simp add: object_values_def)
  from unique_object_reordered [OF this] show ?case by simp
qed simp

text \<open>A value that was read is already in normal form, since objects are kept sorted.\<close>

lemma obj_of_sorted: "sorted_keys m \<Longrightarrow> obj_of (sort_key fst m) = m"
proof -
  assume m: "sorted_keys m"
  then have "sort_key fst m = m" by (intro sort_key_id_if_sorted) (simp add: sorted_keys_def strict_sorted_iff)
  moreover have "map_of (rev m) = map_of m"
    using sorted_keys_distinct [OF m] by (intro map_of_inject_set [THEN iffD2]) (simp_all add: rev_map [symmetric])
  ultimately show ?thesis using m by (intro sorted_keys_unique sorted_keys_obj_of) (simp_all add: map_of_obj_of)
qed

lemma canonical_fields_insert:
  "canonicalize j = j \<Longrightarrow> canonical_fields m = m \<Longrightarrow> canonical_fields (obj_insert k j m) = obj_insert k j m"
  by (induction k j m rule: obj_insert.induct) auto

lemma canonicalize_read:
  "unique_json r = Some v \<Longrightarrow> canonicalize v = v"
  "unique_array rs = Some vs \<Longrightarrow> canonical_array vs = vs"
  "unique_object m kvs = Some m' \<Longrightarrow> canonical_fields m = m \<and> sorted_keys m
     \<Longrightarrow> canonical_fields m' = m' \<and> sorted_keys m'"
proof (induction r and rs and m kvs arbitrary: v and vs and m' rule: unique_json_unique_array_unique_object.induct)
  case (6 kvs)
  then show ?case by (auto simp: sorted_keys_def obj_of_sorted)
next
  case (10 m k v rest)
  then show ?case by (auto simp: canonical_fields_insert sorted_keys_obj_insert split: if_splits option.splits)
qed (auto split: option.splits)

definition demo_set :: json where
  "demo_set = mk_obj
     [(''atomic'', JBool True), (''rollbackOnFailure'', JBool True), (''requireAllMapped'', JBool True),
      (''stopStreams'', JBool True), (''expectedCameras'', jint 1), (''ips'', JArray [JString ''10.0.0.1'']),
      (''cameraCalibrations'', JArray [mk_obj [(''ip'', JString ''10.0.0.1''), (''path'', JString ''a.json''),
         (''expectedSn'', JString ''SN1''), (''rollbackPath'', JString ''b.json'')]])]"

text \<open>
  C25: An accepted calibration set is atomic with rollback, requests no unsafe option, and maps exactly the
  expected number of cameras with pairwise different addresses, serial numbers and artifacts, compared
  without case and path separators; its target list names each mapped camera once and nothing else.
\<close>
theorem calibration_set_validated:
  assumes "validate_calibration_set_safety_for_camera_count object cameras = Inr ()"
  shows "\<exists>mappings targets es. value_get ''cameraCalibrations'' object = Some (JArray mappings)
    \<and> value_get ''ips'' object = Some (JArray targets) \<and> map mapping_entry mappings = map Inr es
    \<and> safe_calibration_set object (max 1 cameras) es targets"
proof -
  from assms obtain mappings ips targets where
    flags: "get_bool ''atomic'' object = Some True" "get_bool ''rollbackOnFailure'' object = Some True"
      "get_bool ''requireAllMapped'' object = Some True" "get_bool ''stopStreams'' object = Some True"
      "get_bool ''allowBestEffortDeviceRollback'' object \<noteq> Some True" "get_bool ''saveCameraParams'' object \<noteq> Some True"
    and m: "Option.bind (value_get ''cameraCalibrations'' object) as_array = Some mappings"
      "length mappings = max 1 cameras" "mapping_loop mappings [] [] [] = Inr ips"
    and t: "Option.bind (value_get ''ips'' object) as_array = Some targets" "length targets = max 1 cameras"
      "length (remdups (map target_ip targets)) = max 1 cameras"
      "\<not> list_ex (\<lambda>ip. ip \<notin> set ips) (remdups (map target_ip targets))"
    unfolding validate_calibration_set_safety_for_camera_count_def Let_def
    by (simp split: if_splits option.splits sum.splits)
  from mapping_loop_ok [OF m(3)] obtain es where es: "map mapping_entry mappings = map Inr es"
    "ips = rev (map entry_ip es)" "distinct (map entry_ip es)" "distinct (map entry_serial es)"
    "distinct (map entry_path es)" by auto
  have len: "length es = max 1 cameras" using arg_cong [OF es(1), of length] m(2) by simp
  have "length (remdups (map target_ip targets)) = length (map target_ip targets)" using t(2,3) by simp
  then have dt: "distinct (map target_ip targets)" by (metis distinct_remdups length_remdups_eq)
  have "set (map target_ip targets) \<subseteq> set (map entry_ip es)" using t(4) es(2) by (auto simp: list_ex_iff)
  moreover have "card (set (map target_ip targets)) = card (set (map entry_ip es))"
    using dt es(3) t(2) len by (simp only: distinct_card length_map)
  ultimately have "set (map target_ip targets) = set (map entry_ip es)" by (intro card_subset_eq) auto
  then have "safe_calibration_set object (max 1 cameras) es targets"
    unfolding safe_calibration_set_def using flags len t(2) es(3-5) dt by simp
  then show ?thesis using m(1) t(1) es(1) by (auto simp: bind_eq_Some_conv as_array_Some)
qed

theorem calibration_set_validated_witness:
  "\<exists>targets es. value_get ''ips'' demo_set = Some (JArray targets) \<and> safe_calibration_set demo_set 1 es targets"
proof -
  have "validate_calibration_set_safety_for_camera_count demo_set 1 = Inr ()" by code_simp
  from calibration_set_validated [OF this] show ?thesis by auto
qed

text \<open>
  C26: Two texts that differ only in the order of the keys of their objects, at any depth, are the same
  request: the same refusal, or the same identifier, recorded text and hash.
\<close>
theorem request_identity_ignores_key_order:
  assumes "ce_reader ce (trim body) = Some r" and "ce_reader ce (trim body') = Some r'" and "reordered r r'"
  shows "mutation_request ce path body actor = mutation_request ce path body' actor"
proof -
  have "parse_unique_json ce body = parse_unique_json ce body'"
    by (simp add: parse_unique_json_def assms(1,2) unique_json_reordered [OF assms(3)])
  then have "normalized_request ce body = normalized_request ce body'"
    by (simp only: normalized_request_def)
  then show ?thesis by (simp only: mutation_request_def)
qed

theorem request_identity_ignores_key_order_witness:
  "mutation_request \<lparr> ce_env = demo_service_env demo_serde, ce_reader =
       (\<lambda>s. if s = ''a'' then Some (RObject [(''x'', RNull), (''operationId'', RString ''op'')])
            else Some (RObject [(''operationId'', RString ''op''), (''x'', RNull)])), ce_camera_count = 8 \<rparr>
      rollback_path ''a'' ''amy''
   = mutation_request \<lparr> ce_env = demo_service_env demo_serde, ce_reader =
       (\<lambda>s. if s = ''a'' then Some (RObject [(''x'', RNull), (''operationId'', RString ''op'')])
            else Some (RObject [(''operationId'', RString ''op''), (''x'', RNull)])), ce_camera_count = 8 \<rparr>
      rollback_path ''b'' ''amy''"
proof -
  have t: "trim ''a'' = ''a''" "trim ''b'' = ''b''" by code_simp+
  have "reordered (RObject [(''x'', RNull), (''operationId'', RString ''op'')])
      (RObject [(''operationId'', RString ''op''), (''x'', RNull)])"
    by (rule ro_object [where mid = "[(''x'', RNull), (''operationId'', RString ''op'')]"])
      (auto intro: ro_same)
  then show ?thesis by (intro request_identity_ignores_key_order) (simp_all add: t)
qed

end
