(* ===== verification/Image_Http.thy ===== *)
theory Image_Http
  imports Service_State
begin

text \<open>
  The HTTP layer of the image service, \<open>app/image-service/src/http.rs\<close>: reading a request from its chunks,
  parsing it, and the two kinds of responses.
\<close>

section \<open>Requests\<close>

record image_request =
  iq_method :: string
  iq_path :: string
  iq_query :: "(string \<times> string) list"
  iq_if_none_match :: string
  iq_connection_close :: bool

text \<open>
  One read from the stream: bytes (none at its end), one of the errors that end an idle connection, or
  another error.
\<close>

datatype stream_read = Chunk string | Idle_Error | Read_Error

definition header_pairs :: "string list \<Rightarrow> (string \<times> string) list" where
  "header_pairs ls = List.map_filter (split_once_char (CHR '':'')) ls"

definition request_is_complete :: "string \<Rightarrow> bool" where
  "request_is_complete bytes =
     (case find_sub (crlf @ crlf) bytes of
        None \<Rightarrow> False
      | Some header_end \<Rightarrow>
          let header = from_utf8_lossy (take header_end bytes);
              content_length = unwrap_or 0 (Option.bind
                (find (\<lambda>(name, _). eq_ignore_ascii_case name ''content-length'') (header_pairs (str_lines header)))
                (\<lambda>(_, v). parse_u64 (trim v)))
          in wrapping_add64 (header_end + 4) content_length \<le> length bytes)"

text \<open>The same loop as in the service: \<open>None\<close> is the panic of a slice inside a character.\<close>

definition percent_decode :: "string \<Rightarrow> string option" where
  "percent_decode v = map_option from_utf8_lossy (decode_query_bytes v)"

text \<open>The pairs in order; the map keeps the last value of a key.\<close>

fun decode_pairs :: "string list \<Rightarrow> (string \<times> string) list option" where
  "decode_pairs [] = Some []"
| "decode_pairs (part # parts) =
     (let (k, v) = (case split_once_char (CHR ''='') part of None \<Rightarrow> (part, []) | Some kv \<Rightarrow> kv)
      in case (percent_decode k, percent_decode v) of
           (Some k', Some v') \<Rightarrow> map_option ((#) (k', v')) (decode_pairs parts)
         | _ \<Rightarrow> None)"

definition parse_query :: "string \<Rightarrow> (string \<times> string) list option" where
  "parse_query q = decode_pairs (filter (\<lambda>part. part \<noteq> []) (split_on (\<lambda>c. c = CHR ''&'') q))"

definition param :: "string \<Rightarrow> (string \<times> string) list \<Rightarrow> string option" where
  "param k q = map_of (rev q) k"

text \<open>The headers a request uses, the last one counting.\<close>

fun request_headers :: "(string \<times> string) list \<Rightarrow> string \<Rightarrow> bool \<Rightarrow> string \<times> bool" where
  "request_headers [] tag close = (tag, close)"
| "request_headers ((name, v) # rest) tag close =
     (if eq_ignore_ascii_case name ''if-none-match'' then request_headers rest (trim v) close
      else if eq_ignore_ascii_case name ''connection''
      then request_headers rest tag (eq_ignore_ascii_case (trim v) ''close'')
      else request_headers rest tag close)"

text \<open>\<open>None\<close> is a panic, \<open>Inl\<close> the error that is answered with status 400.\<close>

definition parse_request :: "string \<Rightarrow> (string + image_request) option" where
  "parse_request bytes =
     (let ls = str_lines (from_utf8_lossy bytes);
          first = split_whitespace (nth_or_empty ls 0)
      in if length first < 2 then Some (Inl ''invalid_request'')
         else
           let (path, raw_query) = (case split_once_char (CHR ''?'') (first ! 1) of
                  None \<Rightarrow> (first ! 1, []) | Some pq \<Rightarrow> pq);
               (tag, close) = request_headers (header_pairs (drop 1 ls)) [] (nth_or_empty first 2 \<noteq> ''HTTP/1.1'')
           in map_option (\<lambda>q. Inr \<lparr> iq_method = first ! 0, iq_path = path, iq_query = q,
                 iq_if_none_match = tag, iq_connection_close = close \<rparr>) (parse_query raw_query))"

fun read_request_loop :: "string \<Rightarrow> stream_read list \<Rightarrow> (string + image_request option) option" where
  "read_request_loop bytes [] =
     (if bytes = [] then Some (Inr None) else map_option (map_sum id Some) (parse_request bytes))"
| "read_request_loop bytes (Chunk c # rs) =
     (if c = [] then (if bytes = [] then Some (Inr None) else map_option (map_sum id Some) (parse_request bytes))
      else if request_is_complete (bytes @ c) then map_option (map_sum id Some) (parse_request (bytes @ c))
      else if 1024 * 1024 < length (bytes @ c) then Some (Inl ''request_too_large'')
      else read_request_loop (bytes @ c) rs)"
| "read_request_loop bytes (Idle_Error # rs) =
     (if bytes = [] then Some (Inr None) else Some (Inl ''request_read_failed''))"
| "read_request_loop bytes (Read_Error # rs) = Some (Inl ''request_read_failed'')"

definition read_request :: "stream_read list \<Rightarrow> (string + image_request option) option" where
  "read_request reads = read_request_loop [] reads"

section \<open>Responses\<close>

record image_response =
  ir_head :: string
  ir_body :: string

definition image_reason :: "nat \<Rightarrow> string" where
  "image_reason code = unwrap_or ''Error'' (map_of
     [(200, ''OK''), (400, ''Bad Request''), (404, ''Not Found''), (413, ''Payload Too Large''),
      (422, ''Unprocessable Entity''), (503, ''Service Unavailable'')] code)"

definition image_json_response :: "serde \<Rightarrow> nat \<Rightarrow> json \<Rightarrow> image_response" where
  "image_json_response sd code v =
     (let body = to_string sd v
      in \<lparr> ir_head = ''HTTP/1.1 '' @ show_nat code @ '' '' @ image_reason code @ crlf
             @ ''Content-Type: application/json; charset=utf-8'' @ crlf
             @ ''Content-Length: '' @ show_nat (length body) @ crlf,
           ir_body = body \<rparr>)"

definition error_json :: "serde \<Rightarrow> nat \<Rightarrow> string \<Rightarrow> image_response" where
  "error_json sd code e = image_json_response sd code (mk_obj [(''error'', JString e)])"

definition safe_header_value :: "string \<Rightarrow> string" where
  "safe_header_value v = filter (\<lambda>c. c \<noteq> CR \<and> c \<noteq> LF) v"

definition header_lines :: "(string \<times> string) list \<Rightarrow> string" where
  "header_lines hs = concat (map (\<lambda>(name, v). name @ '': '' @ safe_header_value v @ crlf) hs)"

definition binary_response ::
  "string \<Rightarrow> string \<Rightarrow> string \<Rightarrow> string \<Rightarrow> (string \<times> string) list \<Rightarrow> image_response" where
  "binary_response bytes tag if_none_match cache_control headers =
     (if if_none_match = tag
      then \<lparr> ir_head = ''HTTP/1.1 304 Not Modified'' @ crlf @ ''ETag: '' @ tag @ crlf
               @ ''Cache-Control: '' @ cache_control @ crlf @ header_lines headers,
             ir_body = [] \<rparr>
      else \<lparr> ir_head = ''HTTP/1.1 200 OK'' @ crlf @ ''Content-Type: image/jpeg'' @ crlf
               @ ''Content-Length: '' @ show_nat (length bytes) @ crlf @ ''ETag: '' @ tag @ crlf
               @ ''Cache-Control: '' @ cache_control @ crlf @ header_lines headers,
             ir_body = bytes \<rparr>)"

definition write_to :: "image_response \<Rightarrow> bool \<Rightarrow> string" where
  "write_to r connection_close =
     ir_head r
     @ (if connection_close then ''Connection: close'' @ crlf @ crlf
        else ''Connection: keep-alive'' @ crlf @ ''Keep-Alive: timeout=2, max=256'' @ crlf @ crlf)
     @ ir_body r"

end
