(* ===== verification/Image_Cache.thy ===== *)
theory Image_Cache
  imports Rust_Std
begin

text \<open>
  The in-memory cache of the image service, \<open>ByteLruCache\<close> of \<open>app/image-service/src/cache.rs\<close>: entries in
  the order of their last use, oldest first, with their sizes, and a running total that is kept below a
  limit by evicting from the front.
\<close>

record 'v byte_lru =
  bl_max :: nat
  bl_current :: nat
  bl_entries :: "(string \<times> 'v \<times> nat) list"

definition lru_new :: "nat \<Rightarrow> 'v byte_lru" where
  "lru_new max_bytes = \<lparr> bl_max = max_bytes, bl_current = 0, bl_entries = [] \<rparr>"

text \<open>\<open>LinkedHashMap\<close>: \<open>to_back\<close> and \<open>remove\<close> of a key.\<close>

definition without :: "string \<Rightarrow> (string \<times> 'v \<times> nat) list \<Rightarrow> (string \<times> 'v \<times> nat) list" where
  "without k es = filter (\<lambda>e. fst e \<noteq> k) es"

definition lru_get :: "string \<Rightarrow> 'v byte_lru \<Rightarrow> 'v option \<times> 'v byte_lru" where
  "lru_get k c =
     (case map_of (bl_entries c) k of
        None \<Rightarrow> (None, c)
      | Some (v, byte_size) \<Rightarrow> (Some v, c\<lparr>bl_entries := without k (bl_entries c) @ [(k, v, byte_size)]\<rparr>))"

fun lru_evict :: "nat \<Rightarrow> nat \<Rightarrow> (string \<times> 'v \<times> nat) list \<Rightarrow> nat \<times> (string \<times> 'v \<times> nat) list" where
  "lru_evict max_bytes current [] = (current, [])"
| "lru_evict max_bytes current ((k, v, byte_size) # es) =
     (if max_bytes < current then lru_evict max_bytes (current - byte_size) es else (current, (k, v, byte_size) # es))"

definition lru_insert :: "string \<Rightarrow> 'v \<Rightarrow> nat \<Rightarrow> 'v byte_lru \<Rightarrow> 'v byte_lru" where
  "lru_insert k v byte_size c =
     (if bl_max c < byte_size \<or> bl_max c = 0 then c
      else
        let current = (case map_of (bl_entries c) k of
               None \<Rightarrow> bl_current c | Some (_, previous) \<Rightarrow> bl_current c - previous);
            (current', es) = lru_evict (bl_max c) (saturating_add64 current byte_size)
               (without k (bl_entries c) @ [(k, v, byte_size)])
        in c\<lparr>bl_current := current', bl_entries := es\<rparr>)"

section \<open>Invariant\<close>

definition total_size :: "(string \<times> 'v \<times> nat) list \<Rightarrow> nat" where
  "total_size es = sum_list (map (\<lambda>e. snd (snd e)) es)"

definition lru_ok :: "'v byte_lru \<Rightarrow> bool" where
  "lru_ok c \<longleftrightarrow> distinct (map fst (bl_entries c)) \<and> bl_current c = total_size (bl_entries c)
     \<and> bl_current c \<le> bl_max c \<and> 2 * bl_max c \<le> u64_max"

lemma total_size_simps [simp]:
  "total_size [] = 0" "total_size (e # es) = snd (snd e) + total_size es"
  "total_size (es @ fs) = total_size es + total_size fs"
  by (simp_all add: total_size_def)

lemma without_keys: "map fst (without k es) = filter (\<lambda>x. x \<noteq> k) (map fst es)"
  by (simp add: without_def filter_map o_def)

lemma without_size:
  "distinct (map fst es) \<Longrightarrow>
     total_size (without k es) = total_size es - (case map_of es k of None \<Rightarrow> 0 | Some (_, byte_size) \<Rightarrow> byte_size)
     \<and> (case map_of es k of None \<Rightarrow> 0 | Some (_, byte_size) \<Rightarrow> byte_size) \<le> total_size es"
proof (induction es)
  case (Cons e es)
  have "without k es = es" if "k \<notin> fst ` set es" using that by (auto simp: without_def filter_id_conv)
  with Cons show ?case
    by (cases e) (auto simp: without_def split: option.splits dest: map_of_SomeD intro: rev_image_eqI)
qed (simp add: without_def)

lemma lru_get_ok: "lru_ok c \<Longrightarrow> lru_ok (snd (lru_get k c))"
proof (cases "map_of (bl_entries c) k")
  case (Some vs)
  assume ok: "lru_ok c"
  obtain v byte_size where vs: "vs = (v, byte_size)" by fastforce
  from ok have d: "distinct (map fst (bl_entries c))" by (simp add: lru_ok_def)
  from ok without_size [OF d, of k] Some vs show ?thesis
    by (auto simp: lru_get_def lru_ok_def without_keys)
qed (simp add: lru_get_def)

text \<open>What eviction leaves: the longest suffix that fits.\<close>

lemma lru_evict_spec:
  assumes "lru_evict max_bytes current es = (current', es')" and "current = total_size es"
  shows "\<exists>gone. es = gone @ es' \<and> current' = total_size es' \<and> current' \<le> max_bytes
    \<and> (\<forall>e before. gone = before @ [e] \<longrightarrow> max_bytes < snd (snd e) + current')"
  using assms
proof (induction max_bytes current es rule: lru_evict.induct)
  case (2 max_bytes current k v byte_size es)
  show ?case
  proof (cases "max_bytes < current")
    case True
    with 2 obtain gone where g: "es = gone @ es'" "current' = total_size es'" "current' \<le> max_bytes"
      "\<forall>e before. gone = before @ [e] \<longrightarrow> max_bytes < snd (snd e) + current'" by auto
    have "max_bytes < snd (snd e) + current'" if "(k, v, byte_size) # gone = before @ [e]" for e before
    proof (cases gone rule: rev_cases)
      case Nil
      with that g True 2(3) show ?thesis by (cases before) auto
    next
      case (snoc bs x)
      with that have "x = e" by (metis append_Cons last_snoc)
      with g(4) snoc show ?thesis by blast
    qed
    with g show ?thesis by (intro exI [where x = "(k, v, byte_size) # gone"]) auto
  next
    case False
    with 2 show ?thesis by (intro exI [where x = "[]"]) auto
  qed
qed auto

lemma lru_insert_spec:
  assumes ok: "lru_ok c" and fits: "byte_size \<le> bl_max c" "bl_max c \<noteq> 0"
  obtains gone where
    "without k (bl_entries c) @ [(k, v, byte_size)] = gone @ bl_entries (lru_insert k v byte_size c)"
    "bl_current (lru_insert k v byte_size c) = total_size (bl_entries (lru_insert k v byte_size c))"
    "bl_current (lru_insert k v byte_size c) \<le> bl_max c"
    "\<forall>e before. gone = before @ [e] \<longrightarrow> bl_max c < snd (snd e) + bl_current (lru_insert k v byte_size c)"
proof -
  let ?es = "without k (bl_entries c) @ [(k, v, byte_size)]"
  let ?cur = "case map_of (bl_entries c) k of None \<Rightarrow> bl_current c | Some (_, previous) \<Rightarrow> bl_current c - previous"
  from ok have d: "distinct (map fst (bl_entries c))" and t: "bl_current c = total_size (bl_entries c)"
    and b: "bl_current c \<le> bl_max c" "2 * bl_max c \<le> u64_max" by (simp_all add: lru_ok_def)
  have cur: "?cur = total_size (without k (bl_entries c))"
    using without_size [OF d, of k] t by (auto split: option.splits)
  have "?cur \<le> bl_max c" using b(1) by (auto split: option.splits)
  then have sat: "saturating_add64 ?cur byte_size = total_size ?es"
    using b fits(1) cur by (simp add: saturating_add64_def)
  obtain current' es' where e: "lru_evict (bl_max c) (total_size ?es) ?es = (current', es')" by fastforce
  have "lru_insert k v byte_size c = c\<lparr>bl_current := current', bl_entries := es'\<rparr>"
    using fits e by (simp add: lru_insert_def sat)
  with lru_evict_spec [OF e refl] that show thesis by auto
qed

lemma lru_insert_ok: "lru_ok c \<Longrightarrow> lru_ok (lru_insert k v byte_size c)"
proof (cases "bl_max c < byte_size \<or> bl_max c = 0")
  case False
  assume ok: "lru_ok c"
  from False obtain gone where g: "without k (bl_entries c) @ [(k, v, byte_size)] = gone @ bl_entries (lru_insert k v byte_size c)"
    "bl_current (lru_insert k v byte_size c) = total_size (bl_entries (lru_insert k v byte_size c))"
    "bl_current (lru_insert k v byte_size c) \<le> bl_max c"
    using lru_insert_spec [OF ok, of byte_size k v] by (metis not_le)
  have "distinct (map fst (without k (bl_entries c) @ [(k, v, byte_size)]))"
    using ok by (auto simp: lru_ok_def without_keys)
  then have "distinct (map fst (bl_entries (lru_insert k v byte_size c)))" unfolding g(1) by simp
  moreover have "bl_max (lru_insert k v byte_size c) = bl_max c" by (simp add: lru_insert_def Let_def split: prod.splits)
  ultimately show ?thesis using g(2,3) ok by (simp add: lru_ok_def)
qed (simp add: lru_insert_def)

lemma lru_new_ok: "2 * max_bytes \<le> u64_max \<Longrightarrow> lru_ok (lru_new max_bytes)"
  by (simp add: lru_ok_def lru_new_def)

text \<open>What the operations return and keep.\<close>

lemma lru_get_max [simp]: "bl_max (snd (lru_get k c)) = bl_max c"
  by (simp add: lru_get_def split: option.splits)

lemma lru_insert_max [simp]: "bl_max (lru_insert k v byte_size c) = bl_max c"
  by (simp add: lru_insert_def Let_def split: prod.splits)

lemma lru_get_Some: "fst (lru_get k c) = Some v \<Longrightarrow> \<exists>n. (k, v, n) \<in> set (bl_entries c)"
  by (auto simp: lru_get_def split: option.splits) (blast dest: map_of_SomeD)

lemma lru_get_entries: "set (bl_entries (snd (lru_get k c))) \<subseteq> set (bl_entries c)"
  by (auto simp: lru_get_def without_def split: option.splits dest: map_of_SomeD)

lemma lru_evict_subset: "set (snd (lru_evict m n es)) \<subseteq> set es"
  by (induction m n es rule: lru_evict.induct) auto

lemma lru_insert_entries: "set (bl_entries (lru_insert k v n c)) \<subseteq> insert (k, v, n) (set (bl_entries c))"
proof -
  have "set es' \<subseteq> insert (k, v, n) (set (bl_entries c))"
    if "lru_evict a b (without k (bl_entries c) @ [(k, v, n)]) = (x, es')" for a b x es'
    using lru_evict_subset [of a b "without k (bl_entries c) @ [(k, v, n)]"] that by (auto simp: without_def)
  then show ?thesis by (auto simp: lru_insert_def Let_def split: prod.splits option.splits)
qed

end
