(* ===== verification/Image_Service.thy ===== *)
theory Image_Service
  imports Image_Http Image_Cache Calibration_Request Transition_System
begin

text \<open>
  The image service, \<open>app/image-service/src\<close>: the catalogue of artifacts (\<open>catalog.rs\<close>), the rendition
  cache in memory and on disk (\<open>cache.rs\<close>), the decoded images and the renderings (\<open>image_codec.rs\<close>), the
  preview and tile endpoints (\<open>rendition.rs\<close>, \<open>tile.rs\<close>) and the router and connection loop
  (\<open>server.rs\<close>). Requests are handled one at a time; the build locks, which only make concurrent requests
  for one key wait for each other, have no effect on such a run.
\<close>

section \<open>Libraries and the environment\<close>

text \<open>
  The \<open>image\<close> and \<open>sha2\<close> crates, and the two computations on floating point numbers,
  \<open>target_dimensions\<close> and \<open>resize_preview\<close>. A blob is named by the hash of its content, so what decoding
  it yields is a function of the identity.
\<close>

record 'i image_codec =
  ic_sha256_hex :: "string \<Rightarrow> string"
  ic_decode :: "string \<Rightarrow> 'i option"
  ic_byte_size :: "'i \<Rightarrow> nat"
  ic_width :: "'i \<Rightarrow> nat"
  ic_height :: "'i \<Rightarrow> nat"
  ic_target_dimensions :: "nat \<times> nat \<Rightarrow> nat \<times> nat \<Rightarrow> nat \<times> nat"
  ic_resize_preview :: "'i \<Rightarrow> nat \<times> nat \<Rightarrow> 'i \<times> string"
  ic_resize :: "'i \<Rightarrow> nat \<Rightarrow> nat \<Rightarrow> 'i"
  ic_crop :: "'i \<Rightarrow> nat \<Rightarrow> nat \<Rightarrow> nat \<Rightarrow> nat \<Rightarrow> 'i"
  ic_encode_jpeg :: "'i \<Rightarrow> string option"

datatype catalog_answer = Row string | No_Row | Catalog_Error

datatype store_outcome = Store_Ok | Dir_Fails | Write_Fails | Rename_Fails

text \<open>What a request meets outside the process: the catalogue, the files, and the text of its timings.\<close>

record image_world =
  iw_serde :: serde
  iw_catalog_file :: bool
  iw_select :: "string \<Rightarrow> string \<Rightarrow> int \<Rightarrow> string \<Rightarrow> catalog_answer"
  iw_blob_file :: "string \<Rightarrow> bool"
  iw_readable :: "string \<Rightarrow> bool"
  iw_store :: "string \<Rightarrow> store_outcome"
  iw_server_timing :: string

section \<open>State\<close>

record artifact_key =
  ak_record_id :: string
  ak_camera_id :: string
  ak_sequence :: int
  ak_kind :: string

record 'i image_state =
  is_sources :: "(artifact_key \<times> string) list mutex"
  is_cache_hits :: nat
  is_database_queries :: nat
  is_memory :: "string byte_lru mutex"
  is_disk :: "string \<Rightarrow> string option"
  is_memory_hits :: nat
  is_disk_hits :: nat
  is_misses :: nat
  is_decoded :: "'i byte_lru mutex"
  is_decoded_hits :: nat
  is_decoded_misses :: nat
  is_result_root :: string
  is_encoded_cache_bytes :: nat
  is_decoded_cache_bytes :: nat
  is_catalog_cache_entries :: nat

definition with_cache_limits ::
  "string \<Rightarrow> (string \<Rightarrow> string option) \<Rightarrow> nat \<Rightarrow> nat \<Rightarrow> nat \<Rightarrow> 'i image_state" where
  "with_cache_limits result_root disk encoded decoded entries =
     \<lparr> is_sources = Mutex False [], is_cache_hits = 0, is_database_queries = 0,
       is_memory = Mutex False (lru_new encoded), is_disk = disk,
       is_memory_hits = 0, is_disk_hits = 0, is_misses = 0,
       is_decoded = Mutex False (lru_new decoded), is_decoded_hits = 0, is_decoded_misses = 0,
       is_result_root = result_root, is_encoded_cache_bytes = encoded, is_decoded_cache_bytes = decoded,
       is_catalog_cache_entries = entries \<rparr>"

section \<open>The catalogue\<close>

datatype resolve_error = CatalogUnavailable | NotFound | InvalidReference

definition is_ascii_hexdigit :: "char \<Rightarrow> bool" where
  "is_ascii_hexdigit c \<longleftrightarrow> is_ascii_digit c \<or> 65 \<le> byte c \<and> byte c \<le> 70 \<or> 97 \<le> byte c \<and> byte c \<le> 102"

definition validated_blob_identity :: "string \<Rightarrow> string option" where
  "validated_blob_identity path =
     (case strip_prefix ''blobs/'' (replace_char (CHR 0x5C) (CHR ''/'') path) of
        None \<Rightarrow> None
      | Some identity \<Rightarrow>
          if length identity \<noteq> 64 \<or> CHR ''/'' \<in> set identity \<or> \<not> list_all is_ascii_hexdigit identity then None
          else Some (to_ascii_lowercase identity))"

text \<open>The loop before an insertion, and the insertion at the back.\<close>

definition source_insert ::
  "nat \<Rightarrow> artifact_key \<Rightarrow> string \<Rightarrow> (artifact_key \<times> string) list \<Rightarrow> (artifact_key \<times> string) list" where
  "source_insert max_entries key source entries =
     (if 0 < max_entries
      then filter (\<lambda>e. fst e \<noteq> key) (drop (length entries + 1 - max_entries) entries) @ [(key, source)]
      else entries)"

definition source_to_back ::
  "artifact_key \<Rightarrow> (artifact_key \<times> string) list \<Rightarrow> string option \<times> (artifact_key \<times> string) list" where
  "source_to_back key entries =
     (case map_of entries key of
        None \<Rightarrow> (None, entries)
      | Some source \<Rightarrow> (Some source, filter (\<lambda>e. fst e \<noteq> key) entries @ [(key, source)]))"

definition resolve_database ::
  "image_world \<Rightarrow> artifact_key \<Rightarrow> 'i image_state \<Rightarrow> (resolve_error + string) \<times> 'i image_state" where
  "resolve_database w key st =
     (let st = st\<lparr>is_database_queries := wrapping_add64 (is_database_queries st) 1\<rparr>
      in case iw_select w (ak_record_id key) (ak_camera_id key) (ak_sequence key) (ak_kind key) of
           Catalog_Error \<Rightarrow> (Inl CatalogUnavailable, st)
         | No_Row \<Rightarrow> (Inl NotFound, st)
         | Row path \<Rightarrow>
             (case validated_blob_identity path of
                None \<Rightarrow> (Inl InvalidReference, st)
              | Some identity \<Rightarrow>
                  if \<not> iw_blob_file w identity then (Inl NotFound, st)
                  else (Inr identity, case lock (is_sources st) of
                     None \<Rightarrow> st
                   | Some entries \<Rightarrow> st\<lparr>is_sources := unlock (is_sources st)
                        (source_insert (is_catalog_cache_entries st) key identity entries)\<rparr>)))"

definition resolve_artifact ::
  "image_world \<Rightarrow> artifact_key \<Rightarrow> 'i image_state \<Rightarrow> (resolve_error + string) \<times> 'i image_state" where
  "resolve_artifact w key st =
     (if \<not> iw_catalog_file w then (Inl CatalogUnavailable, st)
      else case lock (is_sources st) of
             None \<Rightarrow> resolve_database w key st
           | Some entries \<Rightarrow>
               (case source_to_back key entries of
                  (Some source, entries') \<Rightarrow>
                    (Inr source, st\<lparr>is_sources := unlock (is_sources st) entries',
                                    is_cache_hits := wrapping_add64 (is_cache_hits st) 1\<rparr>)
                | (None, _) \<Rightarrow> resolve_database w key st))"

section \<open>The rendition cache\<close>

definition disk_path :: "string \<Rightarrow> string" where
  "disk_path key =
     (if 2 \<le> length key \<and> char_boundary (drop 2 key) then take 2 key else ''00'') @ ''/'' @ key @ ''.jpg''"

definition insert_memory :: "string \<Rightarrow> string \<Rightarrow> 'i image_state \<Rightarrow> 'i image_state" where
  "insert_memory key bytes st =
     (case lock (is_memory st) of
        None \<Rightarrow> st
      | Some memory \<Rightarrow> st\<lparr>is_memory := unlock (is_memory st) (lru_insert key bytes (length bytes) memory)\<rparr>)"

definition rendition_disk_get :: "image_world \<Rightarrow> string \<Rightarrow> 'i image_state \<Rightarrow> string option \<times> 'i image_state" where
  "rendition_disk_get w key st =
     (case (if iw_readable w (disk_path key) then is_disk st (disk_path key) else None) of
        Some bytes \<Rightarrow>
          if bytes \<noteq> [] then
            (Some bytes, insert_memory key bytes (st\<lparr>is_disk_hits := wrapping_add64 (is_disk_hits st) 1\<rparr>))
          else (None, st\<lparr>is_misses := wrapping_add64 (is_misses st) 1\<rparr>)
      | None \<Rightarrow> (None, st\<lparr>is_misses := wrapping_add64 (is_misses st) 1\<rparr>))"

definition rendition_get :: "image_world \<Rightarrow> string \<Rightarrow> 'i image_state \<Rightarrow> string option \<times> 'i image_state" where
  "rendition_get w key st =
     (case lock (is_memory st) of
        None \<Rightarrow> rendition_disk_get w key st
      | Some memory \<Rightarrow>
          (case lru_get key memory of
             (Some bytes, memory') \<Rightarrow>
               (Some bytes, st\<lparr>is_memory := unlock (is_memory st) memory',
                               is_memory_hits := wrapping_add64 (is_memory_hits st) 1\<rparr>)
           | (None, _) \<Rightarrow> rendition_disk_get w key st))"

text \<open>\<open>False\<close> is an error of the file system.\<close>

definition rendition_store ::
  "image_world \<Rightarrow> string \<Rightarrow> string \<Rightarrow> 'i image_state \<Rightarrow> bool \<times> 'i image_state" where
  "rendition_store w key bytes st =
     (let destination = disk_path key
      in if iw_store w destination = Dir_Fails then (False, st)
         else if is_disk st destination \<noteq> None then (True, insert_memory key bytes st)
         else if iw_store w destination = Store_Ok
         then (True, insert_memory key bytes (st\<lparr>is_disk := (is_disk st)(destination \<mapsto> bytes)\<rparr>))
         else (False, st))"

section \<open>Decoding and rendering\<close>

datatype codec_error = Codec_Decode | Codec_Encode

definition decoded_get :: "string \<Rightarrow> 'i image_state \<Rightarrow> 'i option \<times> 'i image_state" where
  "decoded_get identity st =
     (case lock (is_decoded st) of
        None \<Rightarrow> (None, st)
      | Some memory \<Rightarrow>
          (case lru_get identity memory of
             (Some img, memory') \<Rightarrow>
               (Some img, st\<lparr>is_decoded := unlock (is_decoded st) memory',
                               is_decoded_hits := wrapping_add64 (is_decoded_hits st) 1\<rparr>)
           | (None, _) \<Rightarrow> (None, st)))"

definition decoded_load ::
  "'i image_codec \<Rightarrow> string \<Rightarrow> 'i image_state \<Rightarrow> (codec_error + 'i \<times> string) \<times> 'i image_state" where
  "decoded_load codec identity st =
     (case decoded_get identity st of
        (Some img, st) \<Rightarrow> (Inr (img, ''hit''), st)
      | (None, st) \<Rightarrow>
          (case decoded_get identity st of
             (Some img, st) \<Rightarrow> (Inr (img, ''coalesced-hit''), st)
           | (None, st) \<Rightarrow>
               let st = st\<lparr>is_decoded_misses := wrapping_add64 (is_decoded_misses st) 1\<rparr>
               in case ic_decode codec identity of
                    None \<Rightarrow> (Inl Codec_Decode, st)
                  | Some img \<Rightarrow>
                      (Inr (img, ''miss''),
                       case lock (is_decoded st) of
                         None \<Rightarrow> st
                       | Some memory \<Rightarrow> st\<lparr>is_decoded := unlock (is_decoded st)
                            (lru_insert identity img (ic_byte_size codec img) memory)\<rparr>)))"

record rendered_image =
  rd_bytes :: string
  rd_source_size :: "nat \<times> nat"
  rd_rendition_size :: "nat \<times> nat"
  rd_decode_cache :: string
  rd_resize_mode :: string

text \<open>The part after decoding.\<close>

definition render_decoded :: "'i image_codec \<Rightarrow> 'i \<Rightarrow> string \<Rightarrow> nat \<times> nat \<Rightarrow> codec_error + rendered_image" where
  "render_decoded codec img cache_status bounds =
     (let source_size = (ic_width codec img, ic_height codec img);
          rendition_size = ic_target_dimensions codec source_size bounds;
          (resized, resize_mode) = (if rendition_size = source_size then (img, ''identity'')
             else ic_resize_preview codec img rendition_size)
      in case ic_encode_jpeg codec resized of
           None \<Rightarrow> Inl Codec_Encode
         | Some bytes \<Rightarrow> Inr \<lparr> rd_bytes = bytes, rd_source_size = source_size,
              rd_rendition_size = rendition_size, rd_decode_cache = cache_status, rd_resize_mode = resize_mode \<rparr>)"

definition render_contained_jpeg ::
  "'i image_codec \<Rightarrow> string \<Rightarrow> nat \<times> nat \<Rightarrow> 'i image_state
     \<Rightarrow> (codec_error + rendered_image) \<times> 'i image_state" where
  "render_contained_jpeg codec identity bounds st =
     (case decoded_load codec identity st of
        (Inl e, st) \<Rightarrow> (Inl e, st)
      | (Inr (img, cache_status), st) \<Rightarrow> (render_decoded codec img cache_status bounds, st))"

definition u32_max :: nat where
  "u32_max = 2 ^ 32 - 1"

definition render_tile_jpeg ::
  "'i image_codec \<Rightarrow> string \<Rightarrow> nat \<Rightarrow> nat \<Rightarrow> nat \<Rightarrow> nat \<Rightarrow> codec_error + string option" where
  "render_tile_jpeg codec identity level x y tile_size =
     (case ic_decode codec identity of
        None \<Rightarrow> Inl Codec_Decode
      | Some img \<Rightarrow>
          let resized = (if level = 0 then img
                else ic_resize codec img (max (ic_width codec img div 2 ^ level) 1)
                                           (max (ic_height codec img div 2 ^ level) 1));
              left = min (x * tile_size) u32_max;
              top = min (y * tile_size) u32_max
          in if ic_width codec resized \<le> left \<or> ic_height codec resized \<le> top then Inr None
             else case ic_encode_jpeg codec (ic_crop codec resized left top
                         (min tile_size (ic_width codec resized - left))
                         (min tile_size (ic_height codec resized - top))) of
                    None \<Rightarrow> Inl Codec_Encode
                  | Some bytes \<Rightarrow> Inr (Some bytes))"

section \<open>Previews\<close>

definition rendition_schema :: string where
  "rendition_schema = ''steel.thumbnail.v1''"

definition encoder_revision :: string where
  "encoder_revision = ''image-jpeg-v2-adaptive-staged-triangle''"

datatype profile = Xs | Sm | Md | Lg | Xl

definition profile_parse :: "string \<Rightarrow> profile option" where
  "profile_parse v = map_of [(''xs'', Xs), (''sm'', Sm), (''md'', Md), (''lg'', Lg), (''xl'', Xl)]
     (to_ascii_lowercase v)"

fun profile_bounds :: "profile \<Rightarrow> nat \<times> nat" where
  "profile_bounds Xs = (512, 128)"
| "profile_bounds Sm = (768, 192)"
| "profile_bounds Md = (1024, 256)"
| "profile_bounds Lg = (1536, 384)"
| "profile_bounds Xl = (2048, 512)"

fun profile_name :: "profile \<Rightarrow> string" where
  "profile_name Xs = ''xs''"
| "profile_name Sm = ''sm''"
| "profile_name Md = ''md''"
| "profile_name Lg = ''lg''"
| "profile_name Xl = ''xl''"

definition profile_select :: "nat \<Rightarrow> nat \<Rightarrow> profile" where
  "profile_select slot_width slot_height =
     unwrap_or Xl (find (\<lambda>p. slot_width \<le> fst (profile_bounds p) \<and> slot_height \<le> snd (profile_bounds p))
       [Xs, Sm, Md, Lg, Xl])"

abbreviation parse_u32 :: "string \<Rightarrow> nat option" where
  "parse_u32 \<equiv> parse_unsigned u32_max"

definition requested_profile :: "(string \<times> string) list \<Rightarrow> string + profile" where
  "requested_profile params =
     (case param ''profile'' params of
        Some v \<Rightarrow> (case profile_parse v of None \<Rightarrow> Inl ''profile_invalid'' | Some p \<Rightarrow> Inr p)
      | None \<Rightarrow>
          let width = unwrap_or 1024 (Option.bind (param ''slotWidth'' params) parse_u32);
              height = unwrap_or 256 (Option.bind (param ''slotHeight'' params) parse_u32)
          in Inr (profile_select (max width 1) (max height 1)))"

definition rendition_material :: "string \<Rightarrow> string \<Rightarrow> artifact_key \<Rightarrow> string \<Rightarrow> profile \<Rightarrow> string" where
  "rendition_material identity revision key color_mode p =
     rendition_schema @ ''|'' @ encoder_revision @ ''|'' @ identity @ ''|'' @ revision @ ''|''
     @ ak_record_id key @ ''|'' @ ak_camera_id key @ ''|'' @ show_int (ak_sequence key) @ ''|''
     @ ak_kind key @ ''|'' @ color_mode @ ''|'' @ profile_name p"

definition rendition_key ::
  "'i image_codec \<Rightarrow> string \<Rightarrow> string \<Rightarrow> artifact_key \<Rightarrow> string \<Rightarrow> profile \<Rightarrow> string" where
  "rendition_key codec identity revision key color_mode p =
     ic_sha256_hex codec (rendition_material identity revision key color_mode p)"

definition show_size :: "nat \<times> nat \<Rightarrow> string" where
  "show_size s = show_nat (fst s) @ ''x'' @ show_nat (snd s)"

definition entity_tag :: "string \<Rightarrow> string" where
  "entity_tag key = [CHR 0x22] @ key @ [CHR 0x22]"

definition preview_response ::
  "image_world \<Rightarrow> string \<Rightarrow> string \<Rightarrow> string \<Rightarrow> string \<Rightarrow> profile \<Rightarrow> string \<Rightarrow> string
     \<Rightarrow> rendered_image option \<Rightarrow> image_response" where
  "preview_response w bytes key if_none_match cache_control p revision cache_status rendered =
     binary_response bytes (entity_tag key) if_none_match cache_control
       ([(''X-Steel-Rendition-Schema'', rendition_schema),
         (''X-Steel-Rendition-Profile'', profile_name p),
         (''X-Steel-Source-Revision'', revision),
         (''X-Steel-Rendition-Cache'', cache_status),
         (''X-Steel-Encoder-Revision'', encoder_revision),
         (''Server-Timing'', iw_server_timing w)]
        @ (case rendered of
             None \<Rightarrow> []
           | Some r \<Rightarrow>
               [(''X-Steel-Decode-Cache'', rd_decode_cache r), (''X-Steel-Resize-Mode'', rd_resize_mode r),
                (''X-Steel-Source-Size'', show_size (rd_source_size r)),
                (''X-Steel-Rendition-Size'', show_size (rd_rendition_size r))]))"

fun resolve_error_response :: "serde \<Rightarrow> resolve_error \<Rightarrow> image_response" where
  "resolve_error_response sd CatalogUnavailable = error_json sd 503 ''catalog_unavailable''"
| "resolve_error_response sd NotFound = error_json sd 404 ''artifact_not_found''"
| "resolve_error_response sd InvalidReference = error_json sd 422 ''artifact_reference_invalid''"

text \<open>What a preview request asks for, or the error it is refused with.\<close>

record preview_request =
  pr_key :: artifact_key
  pr_color_mode :: string
  pr_profile :: profile
  pr_live :: bool
  pr_revision :: "string option"

definition or_param :: "string \<Rightarrow> string \<Rightarrow> (string \<times> string) list \<Rightarrow> string option" where
  "or_param a b params = (case param a params of None \<Rightarrow> param b params | Some v \<Rightarrow> Some v)"

definition request_artifact :: "string \<Rightarrow> string \<Rightarrow> (string \<times> string) list \<Rightarrow> artifact_key" where
  "request_artifact record_id kind params =
     \<lparr> ak_record_id = record_id,
       ak_camera_id = unwrap_or ''C1'' (or_param ''camera'' ''cameraId'' params),
       ak_sequence = unwrap_or 0 (Option.bind (or_param ''sequenceNo'' ''sequence'' params) parse_i64),
       ak_kind = kind \<rparr>"

definition preview_params :: "(string \<times> string) list \<Rightarrow> string + preview_request" where
  "preview_params params =
     (case or_param ''recordId'' ''inspectionId'' params of
        None \<Rightarrow> Inl ''recordId_required''
      | Some record_id \<Rightarrow>
          let color_mode = unwrap_or ''gray'' (map_option to_ascii_lowercase (param ''colorMode'' params));
              kind = unwrap_or (if color_mode = ''jet'' then ''jet'' else ''intensity'') (param ''kind'' params)
          in if color_mode \<noteq> ''gray'' \<and> color_mode \<noteq> ''jet'' then Inl ''colorMode_invalid''
             else if color_mode = ''jet'' \<and> kind \<noteq> ''jet'' then Inl ''jet_requires_processed_jet_artifact''
             else case requested_profile params of
                    Inl e \<Rightarrow> Inl e
                  | Inr p \<Rightarrow> Inr \<lparr> pr_key = request_artifact record_id kind params,
                       pr_color_mode = color_mode, pr_profile = p,
                       pr_live = (case param ''live'' params of None \<Rightarrow> False | Some v \<Rightarrow> v = ''1'' \<or> v = ''true''),
                       pr_revision = param ''revision'' params \<rparr>)"

text \<open>The part of \<open>serve\<close> behind the two cache lookups: render, and store unless the request is live.\<close>

definition preview_build ::
  "'i image_codec \<Rightarrow> image_world \<Rightarrow> string \<Rightarrow> string \<Rightarrow> string \<Rightarrow> string \<Rightarrow> string \<Rightarrow> profile \<Rightarrow> bool
     \<Rightarrow> 'i image_state \<Rightarrow> image_response \<times> 'i image_state" where
  "preview_build codec w identity key if_none_match cache_control revision p live st =
     (case render_contained_jpeg codec identity (profile_bounds p) st of
        (Inl Codec_Decode, st) \<Rightarrow> (error_json (iw_serde w) 422 ''image_decode_failed'', st)
      | (Inl Codec_Encode, st) \<Rightarrow> (error_json (iw_serde w) 422 ''preview_encode_failed'', st)
      | (Inr r, st) \<Rightarrow>
          let (cache_status, st) =
                (if live then (''bypass'', st)
                 else case rendition_store w key (rd_bytes r) st of
                        (True, st) \<Rightarrow> (''miss'', st)
                      | (False, st) \<Rightarrow> (''miss-memory-only'', insert_memory key (rd_bytes r) st))
          in (preview_response w (rd_bytes r) key if_none_match cache_control p revision cache_status (Some r), st))"

definition rendition_serve ::
  "'i image_codec \<Rightarrow> image_world \<Rightarrow> (string \<times> string) list \<Rightarrow> string \<Rightarrow> 'i image_state
     \<Rightarrow> image_response \<times> 'i image_state" where
  "rendition_serve codec w params if_none_match st =
     (case preview_params params of
        Inl e \<Rightarrow> (error_json (iw_serde w) 400 e, st)
      | Inr q \<Rightarrow>
          (case resolve_artifact w (pr_key q) st of
             (Inl e, st) \<Rightarrow> (resolve_error_response (iw_serde w) e, st)
           | (Inr identity, st) \<Rightarrow>
               let revision = unwrap_or identity (pr_revision q);
                   p = pr_profile q;
                   key = rendition_key codec identity revision (pr_key q) (pr_color_mode q) p;
                   cache_control = (if pr_live q then ''no-store'' else ''public, max-age=31536000, immutable'')
               in if pr_live q
                  then preview_build codec w identity key if_none_match cache_control revision p True st
                  else case rendition_get w key st of
                    (Some bytes, st) \<Rightarrow>
                      (preview_response w bytes key if_none_match cache_control p revision ''hit'' None, st)
                  | (None, st) \<Rightarrow>
                      (case rendition_get w key st of
                         (Some bytes, st) \<Rightarrow>
                           (preview_response w bytes key if_none_match cache_control p revision ''coalesced-hit'' None, st)
                       | (None, st) \<Rightarrow>
                           preview_build codec w identity key if_none_match cache_control revision p False st)))"

section \<open>Tiles\<close>

definition tile_size :: nat where "tile_size = 512"
definition max_tile_level :: nat where "max_tile_level = 3"

definition tile_material :: "string \<Rightarrow> nat \<Rightarrow> nat \<Rightarrow> nat \<Rightarrow> string" where
  "tile_material identity level x y =
     ''steel.legacy-tile.v1|'' @ identity @ ''|'' @ show_nat level @ ''|'' @ show_nat x @ ''|'' @ show_nat y"

definition tile_response :: "string \<Rightarrow> string \<Rightarrow> string \<Rightarrow> image_response" where
  "tile_response bytes key if_none_match =
     binary_response bytes (entity_tag key) if_none_match ''public, max-age=31536000, immutable''
       [(''Warning'', ''299 steel-image-service '' @ [CHR 0x22]
           @ ''legacy tile endpoint; use /internal/v1/preview'' @ [CHR 0x22])]"

definition tile_serve ::
  "'i image_codec \<Rightarrow> image_world \<Rightarrow> (string \<times> string) list \<Rightarrow> string \<Rightarrow> 'i image_state
     \<Rightarrow> image_response \<times> 'i image_state" where
  "tile_serve codec w params if_none_match st =
     (case or_param ''recordId'' ''inspectionId'' params of
        None \<Rightarrow> (error_json (iw_serde w) 400 ''recordId_required'', st)
      | Some record_id \<Rightarrow>
          let coordinate = (\<lambda>name. unwrap_or 0 (Option.bind (param name params) parse_u32));
              level = min (coordinate ''level'') max_tile_level;
              x = coordinate ''x''; y = coordinate ''y''
          in case resolve_artifact w
                    (request_artifact record_id (unwrap_or ''intensity'' (param ''kind'' params)) params) st of
               (Inl e, st) \<Rightarrow> (resolve_error_response (iw_serde w) e, st)
             | (Inr identity, st) \<Rightarrow>
                 let key = ic_sha256_hex codec (tile_material identity level x y)
                 in case rendition_get w key st of
                      (Some bytes, st) \<Rightarrow> (tile_response bytes key if_none_match, st)
                    | (None, st) \<Rightarrow>
                        (case render_tile_jpeg codec identity level x y tile_size of
                           Inr (Some bytes) \<Rightarrow> (tile_response bytes key if_none_match, insert_memory key bytes st)
                         | Inr None \<Rightarrow> (error_json (iw_serde w) 404 ''tile_not_found'', st)
                         | Inl Codec_Decode \<Rightarrow> (error_json (iw_serde w) 422 ''image_decode_failed'', st)
                         | Inl Codec_Encode \<Rightarrow> (error_json (iw_serde w) 422 ''tile_encode_failed'', st)))"

section \<open>Routing and connections\<close>

definition image_status :: "image_world \<Rightarrow> 'i image_state \<Rightarrow> json" where
  "image_status w st = mk_obj
     [(''schema'', JString ''steel.image-service.status.v3''), (''service'', JString ''steel-image-service''),
      (''role'', JString ''media-artifact-rendition''), (''ready'', JBool (iw_catalog_file w)),
      (''resultRoot'', JString (is_result_root st)), (''previewContract'', JString ''steel.thumbnail.v1''),
      (''legacyTileCompatibility'', JBool True),
      (''cacheLimits'', mk_obj [(''encodedBytes'', jint (is_encoded_cache_bytes st)),
         (''decodedBytes'', jint (is_decoded_cache_bytes st)),
         (''catalogEntries'', jint (is_catalog_cache_entries st))]),
      (''cacheCounters'', mk_obj [(''encodedMemoryHits'', jint (is_memory_hits st)),
         (''encodedDiskHits'', jint (is_disk_hits st)), (''encodedMisses'', jint (is_misses st)),
         (''decodedHits'', jint (is_decoded_hits st)), (''decodedMisses'', jint (is_decoded_misses st)),
         (''catalogHits'', jint (is_cache_hits st)),
         (''catalogDatabaseQueries'', jint (is_database_queries st))])]"

definition image_route ::
  "'i image_codec \<Rightarrow> image_world \<Rightarrow> image_request \<Rightarrow> 'i image_state \<Rightarrow> image_response \<times> 'i image_state" where
  "image_route codec w rq st =
     (if iq_method rq \<noteq> ''GET'' then (error_json (iw_serde w) 404 ''not_found'', st)
      else if iq_path rq \<in> {''/api/health/live'', ''/health''}
      then (image_json_response (iw_serde w) 200 (mk_obj [(''status'', JString ''live''),
              (''service'', JString ''steel-image-service''),
              (''schema'', JString ''steel.image-service.health.v1'')]), st)
      else if iq_path rq = ''/internal/v1/status''
      then (image_json_response (iw_serde w) 200 (image_status w st), st)
      else if iq_path rq \<in> {''/api/preview'', ''/internal/v1/preview''}
      then rendition_serve codec w (iq_query rq) (iq_if_none_match rq) st
      else if iq_path rq \<in> {''/api/tile'', ''/internal/v1/tile''}
      then tile_serve codec w (iq_query rq) (iq_if_none_match rq) st
      else (error_json (iw_serde w) 404 ''not_found'', st))"

text \<open>
  One connection: what each of its requests reads and meets, and whether its response can be written. The
  result is the responses it sends, and \<open>True\<close> when the thread panicked.
\<close>

record image_exchange =
  ix_world :: image_world
  ix_reads :: "stream_read list"
  ix_written :: bool

fun image_requests ::
  "'i image_codec \<Rightarrow> nat \<Rightarrow> image_exchange list \<Rightarrow> 'i image_state \<Rightarrow> bool \<times> string list \<times> 'i image_state" where
  "image_requests codec request_index [] st = (False, [], st)"
| "image_requests codec request_index (x # xs) st =
     (if 256 \<le> request_index then (False, [], st)
      else case read_request (ix_reads x) of
             None \<Rightarrow> (True, [], st)
           | Some (Inl e) \<Rightarrow> (False, [write_to (error_json (iw_serde (ix_world x)) 400 e) True], st)
           | Some (Inr None) \<Rightarrow> (False, [], st)
           | Some (Inr (Some rq)) \<Rightarrow>
               let connection_close = (iq_connection_close rq \<or> request_index = 255);
                   (response, st) = image_route codec (ix_world x) rq st
               in if \<not> ix_written x \<or> connection_close then (False, [write_to response connection_close], st)
                  else let (panicked, out, st) = image_requests codec (request_index + 1) xs st
                       in (panicked, write_to response connection_close # out, st))"

definition image_handle_client ::
  "'i image_codec \<Rightarrow> image_exchange list \<Rightarrow> 'i image_state \<Rightarrow> bool \<times> string list \<times> 'i image_state" where
  "image_handle_client codec xs st = image_requests codec 0 xs st"

section \<open>The worker pool\<close>

text \<open>
  The accepting thread offers a connection to the bounded channel and answers 503 itself when it is full.
  A worker takes the oldest connection; one whose connection panics is gone, since nothing restarts it.
\<close>

definition configured_worker_count :: "string option \<Rightarrow> nat option \<Rightarrow> nat" where
  "configured_worker_count variable available_parallelism =
     (case Option.bind variable parse_u64 of
        Some n \<Rightarrow> if 0 < n then n else min (max (unwrap_or 4 available_parallelism * 2) 4) 32
      | None \<Rightarrow> min (max (unwrap_or 4 available_parallelism * 2) 4) 32)"

record 'i image_pool =
  ip_worker_count :: nat
  ip_workers :: nat
  ip_queue :: "image_exchange list list"
  ip_refused :: nat
  ip_state :: "'i image_state"

definition image_accept :: "image_exchange list \<Rightarrow> 'i image_pool \<Rightarrow> 'i image_pool" where
  "image_accept c pool =
     (if length (ip_queue pool) < ip_worker_count pool * 16 mod 2 ^ 64 then pool\<lparr>ip_queue := ip_queue pool @ [c]\<rparr>
      else pool\<lparr>ip_refused := ip_refused pool + 1\<rparr>)"

definition image_work :: "'i image_codec \<Rightarrow> 'i image_pool \<Rightarrow> 'i image_pool" where
  "image_work codec pool =
     (if ip_workers pool = 0 then pool
      else case ip_queue pool of
             [] \<Rightarrow> pool
           | c # cs \<Rightarrow>
               let (panicked, _, st) = image_handle_client codec c (ip_state pool)
               in pool\<lparr>ip_queue := cs, ip_state := st,
                       ip_workers := (if panicked then ip_workers pool - 1 else ip_workers pool)\<rparr>)"

inductive image_step :: "'i image_codec \<Rightarrow> 'i image_pool \<Rightarrow> 'i image_pool \<Rightarrow> bool" for codec where
  step_accept: "image_step codec pool (image_accept c pool)"
| step_work: "image_step codec pool (image_work codec pool)"

text \<open>A restart keeps the renditions on disk and nothing else.\<close>

inductive image_life :: "'i image_codec \<Rightarrow> 'i image_pool \<Rightarrow> 'i image_pool \<Rightarrow> bool" for codec where
  life_step: "image_step codec pool pool' \<Longrightarrow> image_life codec pool pool'"
| life_restart: "2 * encoded \<le> u64_max \<Longrightarrow> 2 * decoded \<le> u64_max \<Longrightarrow>
    image_life codec pool \<lparr> ip_worker_count = n, ip_workers = n, ip_queue = [], ip_refused = 0,
      ip_state = with_cache_limits root (is_disk (ip_state pool)) encoded decoded entries \<rparr>"

definition image_init :: "'i image_pool \<Rightarrow> bool" where
  "image_init pool \<longleftrightarrow> ip_workers pool = ip_worker_count pool \<and> ip_queue pool = [] \<and> ip_refused pool = 0
     \<and> (\<exists>root encoded decoded entries. 2 * encoded \<le> u64_max \<and> 2 * decoded \<le> u64_max
          \<and> ip_state pool = with_cache_limits root Map.empty encoded decoded entries)"

end
