(* ===== verification/Image_Invariant.thy ===== *)
theory Image_Invariant
  imports Image_Service
begin

text \<open>
  The invariant of the image service: every cached rendition is the rendering its key stands for, every
  decoded image is the decoding of its blob, every cached source is a blob name, and the caches keep to
  their limits.
\<close>

section \<open>What a key stands for\<close>

definition preview_rendering :: "'i image_codec \<Rightarrow> string \<Rightarrow> profile \<Rightarrow> codec_error + string" where
  "preview_rendering codec identity p =
     (case ic_decode codec identity of
        None \<Rightarrow> Inl Codec_Decode
      | Some img \<Rightarrow> map_sum id rd_bytes (render_decoded codec img '''' (profile_bounds p)))"

definition lower_hex :: "char \<Rightarrow> bool" where
  "lower_hex c \<longleftrightarrow> is_ascii_digit c \<or> 97 \<le> byte c \<and> byte c \<le> 102"

definition blob_name :: "string \<Rightarrow> bool" where
  "blob_name identity \<longleftrightarrow> length identity = 64 \<and> list_all lower_hex identity"

inductive genuine :: "'i image_codec \<Rightarrow> string \<Rightarrow> string \<Rightarrow> bool" for codec where
  genuine_preview: "blob_name identity \<Longrightarrow> preview_rendering codec identity p = Inr bytes \<Longrightarrow>
    genuine codec (rendition_key codec identity revision key color_mode p) bytes"
| genuine_tile: "blob_name identity \<Longrightarrow> render_tile_jpeg codec identity level x y tile_size = Inr (Some bytes) \<Longrightarrow>
    genuine codec (ic_sha256_hex codec (tile_material identity level x y)) bytes"

lemma rendition_material_profile: "take 2 (rev (rendition_material i r k c p)) = rev (profile_name p)"
  by (cases p) (simp_all add: rendition_material_def)

lemma rendition_material_inj:
  assumes m: "rendition_material i r k c p = rendition_material i' r' k' c' p'" and "blob_name i" "blob_name i'"
  shows "i = i' \<and> p = p'"
proof
  from assms show "i = i'" by (simp add: rendition_material_def blob_name_def)
  from arg_cong [OF m, of "\<lambda>s. take 2 (rev s)"] show "p = p'"
    unfolding rendition_material_profile by (cases p; cases p') simp_all
qed

lemma bar_free_split:
  assumes "a @ CHR ''|'' # s = b @ CHR ''|'' # t" and "CHR ''|'' \<notin> set a" "CHR ''|'' \<notin> set b"
  shows "a = b \<and> s = t"
  using assms
proof (induction a arbitrary: b)
  case Nil
  then show ?case by (cases b) auto
next
  case (Cons x a)
  then show ?case by (cases b) auto
qed

lemma show_nat_bar_free [simp]: "CHR ''|'' \<notin> set (show_nat n)"
  using show_nat_digits [of "CHR ''|''" n] by (auto simp: is_ascii_digit_def)

lemma show_nat_inj: "show_nat m = show_nat n \<Longrightarrow> m = n"
  by (metis digits_val_show_nat option.inject)

lemma tile_material_inj:
  assumes "tile_material i l x y = tile_material i' l' x' y'" and "blob_name i" "blob_name i'"
  shows "i = i' \<and> l = l' \<and> x = x' \<and> y = y'"
proof -
  from assms have i: "i = i'" and r: "show_nat l @ CHR ''|'' # show_nat x @ CHR ''|'' # show_nat y
      = show_nat l' @ CHR ''|'' # show_nat x' @ CHR ''|'' # show_nat y'"
    by (auto simp: tile_material_def blob_name_def)
  from bar_free_split [OF r] have l: "show_nat l = show_nat l'"
    and q: "show_nat x @ CHR ''|'' # show_nat y = show_nat x' @ CHR ''|'' # show_nat y'" by simp_all
  from bar_free_split [OF q] i l show ?thesis by (auto dest: show_nat_inj)
qed

lemma materials_distinct: "rendition_material i r k c p \<noteq> tile_material i' l x y"
  by (simp add: rendition_material_def tile_material_def rendition_schema_def)

lemma genuine_previewD:
  assumes "genuine codec (rendition_key codec i r k c p) bytes" and "inj (ic_sha256_hex codec)" and "blob_name i"
  shows "preview_rendering codec i p = Inr bytes"
  using assms(1)
proof cases
  case (genuine_preview i' p' r' k' c')
  then have "rendition_material i r k c p = rendition_material i' r' k' c' p'"
    using assms(2) by (simp add: rendition_key_def inj_eq)
  with rendition_material_inj genuine_preview assms(3) show ?thesis by metis
next
  case (genuine_tile i' l x y)
  then show ?thesis using assms(2) materials_distinct by (metis rendition_key_def inj_eq)
qed

lemma genuine_tileD:
  assumes "genuine codec (ic_sha256_hex codec (tile_material i l x y)) bytes"
    and "inj (ic_sha256_hex codec)" and "blob_name i"
  shows "render_tile_jpeg codec i l x y tile_size = Inr (Some bytes)"
  using assms(1)
proof cases
  case (genuine_preview i' p' r' k' c')
  then show ?thesis using assms(2) materials_distinct by (metis rendition_key_def inj_eq)
next
  case (genuine_tile i' l' x' y')
  then have "tile_material i l x y = tile_material i' l' x' y'" using assms(2) by (simp add: inj_eq)
  with tile_material_inj genuine_tile assms(3) show ?thesis by metis
qed

lemma disk_path_inj: "disk_path k = disk_path k' \<Longrightarrow> k = k'"
  by (auto simp: disk_path_def split: if_splits dest: arg_cong [where f = "drop 3"])

section \<open>Blob names\<close>

lemma ascii_lower_hex: "is_ascii_hexdigit c \<Longrightarrow> lower_hex (ascii_lower c)"
  by (auto simp: lower_hex_def is_ascii_hexdigit_def byte_ascii_lower is_ascii_digit_def is_ascii_upper_def)

lemma validated_blob_identity_name: "validated_blob_identity path = Some i \<Longrightarrow> blob_name i"
  by (auto simp: validated_blob_identity_def blob_name_def to_ascii_lowercase_def list_all_iff ascii_lower_hex
      split: option.splits if_splits)

section \<open>The invariant\<close>

definition memory_ok :: "'i image_codec \<Rightarrow> string byte_lru \<Rightarrow> bool" where
  "memory_ok codec c \<longleftrightarrow> lru_ok c \<and> (\<forall>(k, v, n) \<in> set (bl_entries c). genuine codec k v)"

definition decoded_ok :: "'i image_codec \<Rightarrow> 'i byte_lru \<Rightarrow> bool" where
  "decoded_ok codec c \<longleftrightarrow> lru_ok c \<and> (\<forall>(k, v, n) \<in> set (bl_entries c). ic_decode codec k = Some v)"

definition sources_ok :: "nat \<Rightarrow> (artifact_key \<times> string) list \<Rightarrow> bool" where
  "sources_ok m es \<longleftrightarrow> length es \<le> m \<and> distinct (map fst es) \<and> (\<forall>(key, identity) \<in> set es. blob_name identity)"

definition disk_ok :: "'i image_codec \<Rightarrow> (string \<Rightarrow> string option) \<Rightarrow> bool" where
  "disk_ok codec d \<longleftrightarrow> (\<forall>path v. d path = Some v \<longrightarrow> (\<exists>k. path = disk_path k \<and> genuine codec k v))"

definition image_ok :: "'i image_codec \<Rightarrow> 'i image_state \<Rightarrow> bool" where
  "image_ok codec st \<longleftrightarrow> memory_ok codec (mx_value (is_memory st)) \<and> decoded_ok codec (mx_value (is_decoded st))
     \<and> sources_ok (is_catalog_cache_entries st) (mx_value (is_sources st)) \<and> disk_ok codec (is_disk st)"

lemma lock_value: "lock m = Some v \<Longrightarrow> mx_value m = v"
  by (simp add: lock_Some)

lemma memory_ok_get:
  assumes "memory_ok codec c" and "lru_get k c = (r, c')"
  shows "memory_ok codec c'" and "r = Some v \<Longrightarrow> genuine codec k v"
  using assms lru_get_ok [of c k] lru_get_entries [of k c] lru_get_Some [of k c v]
  by (fastforce simp: memory_ok_def)+

lemma memory_ok_insert: "memory_ok codec c \<Longrightarrow> genuine codec k v \<Longrightarrow> memory_ok codec (lru_insert k v n c)"
  using lru_insert_ok [of c k v n] lru_insert_entries [of k v n c] by (fastforce simp: memory_ok_def)

lemma decoded_ok_get:
  assumes "decoded_ok codec c" and "lru_get k c = (r, c')"
  shows "decoded_ok codec c'" and "r = Some v \<Longrightarrow> ic_decode codec k = Some v"
  using assms lru_get_ok [of c k] lru_get_entries [of k c] lru_get_Some [of k c v]
  by (fastforce simp: decoded_ok_def)+

lemma decoded_ok_insert:
  "decoded_ok codec c \<Longrightarrow> ic_decode codec k = Some v \<Longrightarrow> decoded_ok codec (lru_insert k v n c)"
  using lru_insert_ok [of c k v n] lru_insert_entries [of k v n c] by (fastforce simp: decoded_ok_def)

lemma sources_ok_to_back:
  assumes ok: "sources_ok m es" and g: "source_to_back key es = (Some source, es')"
  shows "sources_ok m es' \<and> blob_name source"
proof -
  from g have k: "map_of es key = Some source" and es': "es' = filter (\<lambda>e. fst e \<noteq> key) es @ [(key, source)]"
    by (auto simp: source_to_back_def split: option.splits)
  from k have i: "(key, source) \<in> set es" by (rule map_of_SomeD)
  then have "length (filter (\<lambda>e. fst e \<noteq> key) es) < length es" by (intro length_filter_less) auto
  moreover from ok i have "blob_name source" by (auto simp: sources_ok_def)
  moreover from ok have "distinct (map fst (filter (\<lambda>e. fst e \<noteq> key) es))"
    by (simp add: sources_ok_def distinct_map_filter)
  ultimately show ?thesis using ok by (auto simp: sources_ok_def es')
qed

lemma sources_ok_insert:
  assumes ok: "sources_ok m es" and b: "blob_name source"
  shows "sources_ok m (source_insert m key source es)"
proof (cases "0 < m")
  case True
  let ?f = "filter (\<lambda>e. fst e \<noteq> key) (drop (length es + 1 - m) es)"
  have "length ?f \<le> length es - (length es + 1 - m)" by (rule order_trans [OF length_filter_le]) simp
  with True ok have "length ?f < m" by (simp add: sources_ok_def)
  moreover from ok have "distinct (map fst ?f)"
    by (simp add: sources_ok_def distinct_map_filter drop_map [symmetric])
  ultimately show ?thesis using ok b True
    by (auto simp: sources_ok_def source_insert_def dest: in_set_dropD)
qed (use ok in \<open>simp add: source_insert_def\<close>)

section \<open>The operations keep the invariant\<close>

lemma resolve_database_ok:
  assumes "image_ok codec st" and "resolve_database w key st = (r, st')"
  shows "image_ok codec st' \<and> (\<forall>identity. r = Inr identity \<longrightarrow> blob_name identity)"
  using assms
  by (auto simp: resolve_database_def Let_def image_ok_def sources_ok_insert lock_value
      split: catalog_answer.splits option.splits if_splits dest!: validated_blob_identity_name)

lemma resolve_artifact_ok:
  assumes "image_ok codec st" and "resolve_artifact w key st = (r, st')"
  shows "image_ok codec st' \<and> (\<forall>identity. r = Inr identity \<longrightarrow> blob_name identity)"
proof (cases "iw_catalog_file w \<and> (\<exists>es s es'. lock (is_sources st) = Some es \<and> source_to_back key es = (Some s, es'))")
  case True
  then obtain es s es' where "iw_catalog_file w" "lock (is_sources st) = Some es"
    and g: "source_to_back key es = (Some s, es')" by blast
  moreover from this have "sources_ok (is_catalog_cache_entries st) es"
    using assms(1) by (simp add: image_ok_def lock_value)
  from sources_ok_to_back [OF this g] have "sources_ok (is_catalog_cache_entries st) es' \<and> blob_name s" .
  ultimately show ?thesis using assms by (auto simp: resolve_artifact_def image_ok_def)
next
  case False
  then have "(r, st') = (Inl CatalogUnavailable, st) \<or> resolve_database w key st = (r, st')"
    using assms(2) by (auto simp: resolve_artifact_def split: option.splits prod.splits if_splits)
  with resolve_database_ok [OF assms(1)] assms(1) show ?thesis by auto
qed

lemma insert_memory_ok: "image_ok codec st \<Longrightarrow> genuine codec k v \<Longrightarrow> image_ok codec (insert_memory k v st)"
  by (auto simp: insert_memory_def image_ok_def memory_ok_insert lock_value split: option.splits)

lemma image_ok_counters [simp]:
  "image_ok codec (st\<lparr>is_disk_hits := n\<rparr>) = image_ok codec st"
  "image_ok codec (st\<lparr>is_misses := n\<rparr>) = image_ok codec st"
  "image_ok codec (st\<lparr>is_memory_hits := n\<rparr>) = image_ok codec st"
  "image_ok codec (st\<lparr>is_decoded_hits := n\<rparr>) = image_ok codec st"
  "image_ok codec (st\<lparr>is_decoded_misses := n\<rparr>) = image_ok codec st"
  by (simp_all add: image_ok_def)

lemma disk_okD: "disk_ok codec d \<Longrightarrow> d (disk_path k) = Some v \<Longrightarrow> genuine codec k v"
  unfolding disk_ok_def using disk_path_inj by metis

lemma rendition_disk_get_ok:
  assumes "image_ok codec st" and "rendition_disk_get w k st = (r, st')"
  shows "image_ok codec st' \<and> (\<forall>v. r = Some v \<longrightarrow> genuine codec k v)"
proof -
  have "genuine codec k v" if "is_disk st (disk_path k) = Some v" for v
    using assms(1) that by (auto simp: image_ok_def intro: disk_okD)
  with assms show ?thesis
    by (auto simp: rendition_disk_get_def insert_memory_ok split: option.splits if_splits)
qed

lemma rendition_get_ok:
  assumes ok: "image_ok codec st" and g: "rendition_get w k st = (r, st')"
  shows "image_ok codec st' \<and> (\<forall>v. r = Some v \<longrightarrow> genuine codec k v)"
proof (cases "\<exists>c v c'. lock (is_memory st) = Some c \<and> lru_get k c = (Some v, c')")
  case True
  then obtain c v c' where l: "lock (is_memory st) = Some c" and h: "lru_get k c = (Some v, c')" by blast
  from ok l have "memory_ok codec c" by (simp add: image_ok_def lock_value)
  from memory_ok_get [OF this h] have "memory_ok codec c'" "genuine codec k v" by simp_all
  with ok g l h show ?thesis by (auto simp: rendition_get_def image_ok_def)
next
  case False
  then have "rendition_disk_get w k st = (r, st')"
    using g by (auto simp: rendition_get_def split: option.splits prod.splits)
  with rendition_disk_get_ok [OF ok] show ?thesis by blast
qed

lemma rendition_store_ok:
  assumes "image_ok codec st" and "genuine codec k v" and "rendition_store w k v st = (r, st')"
  shows "image_ok codec st'"
proof -
  have "image_ok codec (st\<lparr>is_disk := (is_disk st)(disk_path k \<mapsto> v)\<rparr>)"
    using assms(1,2) by (auto simp: image_ok_def disk_ok_def)
  with assms show ?thesis
    by (auto simp: rendition_store_def Let_def insert_memory_ok split: if_splits)
qed

lemma decoded_get_ok:
  assumes ok: "image_ok codec st" and g: "decoded_get i st = (r, st')"
  shows "image_ok codec st' \<and> (\<forall>v. r = Some v \<longrightarrow> ic_decode codec i = Some v)"
proof (cases "\<exists>c v c'. lock (is_decoded st) = Some c \<and> lru_get i c = (Some v, c')")
  case True
  then obtain c v c' where l: "lock (is_decoded st) = Some c" and h: "lru_get i c = (Some v, c')" by blast
  from ok l have "decoded_ok codec c" by (simp add: image_ok_def lock_value)
  from decoded_ok_get [OF this h] have "decoded_ok codec c'" "ic_decode codec i = Some v" by simp_all
  with ok g l h show ?thesis by (auto simp: decoded_get_def image_ok_def)
next
  case False
  then have "r = None" "st' = st" using g by (auto simp: decoded_get_def split: option.splits prod.splits)
  with ok show ?thesis by simp
qed

lemma decoded_load_ok:
  assumes ok: "image_ok codec st" and g: "decoded_load codec i st = (r, st')"
  shows "image_ok codec st'
    \<and> (case ic_decode codec i of None \<Rightarrow> r = Inl Codec_Decode | Some v \<Rightarrow> \<exists>s. r = Inr (v, s))"
proof -
  obtain r1 st1 where g1: "decoded_get i st = (r1, st1)" by fastforce
  obtain r2 st2 where g2: "decoded_get i st1 = (r2, st2)" by fastforce
  note ok1 = decoded_get_ok [OF ok g1]
  note ok2 = decoded_get_ok [OF conjunct1 [OF ok1] g2]
  have ins: "image_ok codec (st2\<lparr>is_decoded_misses := n,
      is_decoded := unlock (is_decoded st2) (lru_insert i v z (mx_value (is_decoded st2)))\<rparr>)"
    if "ic_decode codec i = Some v" for v z n
    using ok2 that by (simp add: image_ok_def decoded_ok_insert)
  show ?thesis
  proof (cases r1)
    case (Some v)
    with g g1 ok1 show ?thesis by (auto simp: decoded_load_def)
  next
    case r1: None
    show ?thesis
    proof (cases r2)
      case (Some v)
      with g g1 g2 r1 ok2 show ?thesis by (auto simp: decoded_load_def)
    next
      case None
      with g g1 g2 r1 ok2 ins show ?thesis
        by (auto simp: decoded_load_def Let_def lock_def split: option.splits if_splits)
    qed
  qed
qed

lemma render_contained_ok:
  assumes ok: "image_ok codec st" and g: "render_contained_jpeg codec i (profile_bounds p) st = (r, st')"
  shows "image_ok codec st' \<and> map_sum id rd_bytes r = preview_rendering codec i p"
proof -
  obtain d st1 where l: "decoded_load codec i st = (d, st1)" by fastforce
  have status: "map_sum id rd_bytes (render_decoded codec v s b) = map_sum id rd_bytes (render_decoded codec v t b)" for v s t b
    by (simp add: render_decoded_def Let_def split: option.splits prod.splits)
  show ?thesis
  proof (cases "ic_decode codec i")
    case None
    with decoded_load_ok [OF ok l] g l show ?thesis
      by (auto simp: render_contained_jpeg_def preview_rendering_def)
  next
    case (Some v)
    with decoded_load_ok [OF ok l] obtain s where "d = Inr (v, s)" "image_ok codec st1" by auto
    with g l Some status [of v s "profile_bounds p" "[]"] show ?thesis
      by (auto simp: render_contained_jpeg_def preview_rendering_def)
  qed
qed

end
