(* ===== verification/Image_Props.thy ===== *)
theory Image_Props
  imports Image_Invariant
begin

text \<open>
  Properties of the image service: the cached endpoints answer what an uncached rendering would answer, in
  every state reachable through any requests, failures of the file system and restarts; the caches keep to
  their limits and evict the least recently used entries; blob references stay inside the blob directory;
  and what a request that panics does to the workers.
\<close>

section \<open>The endpoints\<close>

definition preview_answer ::
  "image_world \<Rightarrow> codec_error + string \<Rightarrow> (string \<Rightarrow> image_response \<Rightarrow> bool) \<Rightarrow> image_response \<Rightarrow> bool" where
  "preview_answer w rendering served response =
     (case rendering of
        Inl Codec_Decode \<Rightarrow> response = error_json (iw_serde w) 422 ''image_decode_failed''
      | Inl Codec_Encode \<Rightarrow> response = error_json (iw_serde w) 422 ''preview_encode_failed''
      | Inr bytes \<Rightarrow> served bytes response)"

lemma preview_build_ok:
  assumes ok: "image_ok codec st" and b: "blob_name i"
    and g: "preview_build codec w i (rendition_key codec i r k c p) tag cc r p live st = (response, st')"
  shows "image_ok codec st' \<and> preview_answer w (preview_rendering codec i p)
    (\<lambda>bytes response. \<exists>status rendered. response =
       preview_response w bytes (rendition_key codec i r k c p) tag cc p r status rendered) response"
proof -
  obtain d st1 where d: "render_contained_jpeg codec i (profile_bounds p) st = (d, st1)" by fastforce
  note ok1 = render_contained_ok [OF ok d]
  show ?thesis
  proof (cases d)
    case (Inl e)
    with ok1 have "preview_rendering codec i p = Inl e" by (metis id_apply map_sum.simps(1))
    with ok1 g d Inl show ?thesis by (cases e) (auto simp: preview_build_def preview_answer_def)
  next
    case (Inr x)
    with ok1 have pr: "preview_rendering codec i p = Inr (rd_bytes x)" by (metis map_sum.simps(2))
    then have gen: "genuine codec (rendition_key codec i r k c p) (rd_bytes x)" using b by (intro genuine_preview)
    obtain s st2 where s: "rendition_store w (rendition_key codec i r k c p) (rd_bytes x) st1 = (s, st2)" by fastforce
    have ok2: "image_ok codec st2" using ok1 gen s by (blast intro: rendition_store_ok)
    have ok3: "image_ok codec (insert_memory (rendition_key codec i r k c p) (rd_bytes x) st2)"
      using ok2 gen by (rule insert_memory_ok)
    show ?thesis
      using g d Inr s pr ok1 ok2 ok3
      by (cases live; cases s) (auto simp: preview_build_def preview_answer_def)
  qed
qed

abbreviation served_preview :: "'i image_codec \<Rightarrow> image_world \<Rightarrow> preview_request \<Rightarrow> string \<Rightarrow> string
    \<Rightarrow> string \<Rightarrow> image_response \<Rightarrow> bool" where
  "served_preview codec w q identity tag bytes response \<equiv>
     (\<exists>status rendered. response = preview_response w bytes
        (rendition_key codec identity (unwrap_or identity (pr_revision q)) (pr_key q) (pr_color_mode q) (pr_profile q))
        tag (if pr_live q then ''no-store'' else ''public, max-age=31536000, immutable'')
        (pr_profile q) (unwrap_or identity (pr_revision q)) status rendered)"

lemma rendition_serve_resolved:
  assumes ok: "image_ok codec st"
    and q: "preview_params params = Inr q" and res: "resolve_artifact w (pr_key q) st = (Inr i, st1)"
    and g: "rendition_serve codec w params tag st = (response, st')"
  shows "image_ok codec st'
    \<and> (inj (ic_sha256_hex codec) \<longrightarrow>
          preview_answer w (preview_rendering codec i (pr_profile q)) (served_preview codec w q i tag) response)"
proof -
  let ?r = "unwrap_or i (pr_revision q)" and ?p = "pr_profile q"
  let ?k = "rendition_key codec i ?r (pr_key q) (pr_color_mode q) ?p"
  let ?cc = "if pr_live q then ''no-store'' else ''public, max-age=31536000, immutable''"
  from resolve_artifact_ok [OF ok res] have ok1: "image_ok codec st1" and b: "blob_name i" by simp_all
  have serve: "rendition_serve codec w params tag st =
      (if pr_live q then preview_build codec w i ?k tag ?cc ?r ?p True st1
       else case rendition_get w ?k st1 of
         (Some bytes, st) \<Rightarrow> (preview_response w bytes ?k tag ?cc ?p ?r ''hit'' None, st)
       | (None, st) \<Rightarrow> (case rendition_get w ?k st of
           (Some bytes, st) \<Rightarrow> (preview_response w bytes ?k tag ?cc ?p ?r ''coalesced-hit'' None, st)
         | (None, st) \<Rightarrow> preview_build codec w i ?k tag ?cc ?r ?p False st))"
    by (simp add: rendition_serve_def q res Let_def)
  obtain a st2 where a: "rendition_get w ?k st1 = (a, st2)" by fastforce
  note ok2 = rendition_get_ok [OF ok1 a]
  obtain a' st3 where a': "rendition_get w ?k st2 = (a', st3)" by fastforce
  note ok3 = rendition_get_ok [OF conjunct1 [OF ok2] a']
  have hit: "preview_answer w (preview_rendering codec i ?p) (served_preview codec w q i tag)
      (preview_response w bytes ?k tag ?cc ?p ?r status None)" if "genuine codec ?k bytes" "inj (ic_sha256_hex codec)" for bytes status
    using genuine_previewD [OF that b] by (auto simp: preview_answer_def)
  show ?thesis
  proof (cases "pr_live q")
    case True
    with g serve have "preview_build codec w i ?k tag ?cc ?r ?p True st1 = (response, st')" by simp
    from preview_build_ok [OF ok1 b this] show ?thesis by blast
  next
    case live: False
    show ?thesis
    proof (cases a)
      case (Some bytes)
      with live g serve a ok2 hit show ?thesis by auto
    next
      case None
      show ?thesis
      proof (cases a')
        case (Some bytes)
        with live None g serve a a' ok3 hit show ?thesis by auto
      next
        case a'N: None
        with live None g serve a a' have "preview_build codec w i ?k tag ?cc ?r ?p False st3 = (response, st')" by simp
        from preview_build_ok [OF conjunct1 [OF ok3] b this] show ?thesis by blast
      qed
    qed
  qed
qed

lemma rendition_serve_ok:
  assumes ok: "image_ok codec st"
    and g: "rendition_serve codec w params tag st = (response, st')"
  shows "image_ok codec st'"
proof (cases "preview_params params")
  case (Inl e)
  with g ok show ?thesis by (simp add: rendition_serve_def)
next
  case (Inr q)
  obtain r st1 where r: "resolve_artifact w (pr_key q) st = (r, st1)" by fastforce
  show ?thesis
  proof (cases r)
    case (Inl e)
    with g Inr r resolve_artifact_ok [OF ok r] show ?thesis by (simp add: rendition_serve_def)
  next
    case (Inr i)
    with r have "resolve_artifact w (pr_key q) st = (Inr i, st1)" by simp
    from rendition_serve_resolved [OF ok \<open>preview_params params = Inr q\<close> this g] show ?thesis by simp
  qed
qed

text \<open>The tile a request addresses.\<close>

definition tile_coordinate :: "string \<Rightarrow> (string \<times> string) list \<Rightarrow> nat" where
  "tile_coordinate name params = unwrap_or 0 (Option.bind (param name params) parse_u32)"

abbreviation tile_level :: "(string \<times> string) list \<Rightarrow> nat" where
  "tile_level params \<equiv> min (tile_coordinate ''level'' params) max_tile_level"

definition requested_tile :: "'i image_codec \<Rightarrow> string \<Rightarrow> (string \<times> string) list \<Rightarrow> codec_error + string option" where
  "requested_tile codec identity params = render_tile_jpeg codec identity (tile_level params)
     (tile_coordinate ''x'' params) (tile_coordinate ''y'' params) tile_size"

definition tile_answer ::
  "'i image_codec \<Rightarrow> image_world \<Rightarrow> string \<Rightarrow> (string \<times> string) list \<Rightarrow> string \<Rightarrow> image_response" where
  "tile_answer codec w identity params tag =
     (case requested_tile codec identity params of
        Inr (Some bytes) \<Rightarrow> tile_response bytes (ic_sha256_hex codec (tile_material identity (tile_level params)
           (tile_coordinate ''x'' params) (tile_coordinate ''y'' params))) tag
      | Inr None \<Rightarrow> error_json (iw_serde w) 404 ''tile_not_found''
      | Inl Codec_Decode \<Rightarrow> error_json (iw_serde w) 422 ''image_decode_failed''
      | Inl Codec_Encode \<Rightarrow> error_json (iw_serde w) 422 ''tile_encode_failed'')"

abbreviation tile_artifact :: "string \<Rightarrow> (string \<times> string) list \<Rightarrow> artifact_key" where
  "tile_artifact record_id params \<equiv>
     request_artifact record_id (unwrap_or ''intensity'' (param ''kind'' params)) params"

lemma tile_serve_resolved:
  assumes ok: "image_ok codec st"
    and rid: "or_param ''recordId'' ''inspectionId'' params = Some record_id"
    and res: "resolve_artifact w (tile_artifact record_id params) st = (Inr i, st1)"
    and g: "tile_serve codec w params tag st = (response, st')"
  shows "image_ok codec st' \<and> (inj (ic_sha256_hex codec) \<longrightarrow> response = tile_answer codec w i params tag)"
proof -
  let ?l = "tile_level params" and ?x = "tile_coordinate ''x'' params" and ?y = "tile_coordinate ''y'' params"
  let ?k = "ic_sha256_hex codec (tile_material i ?l ?x ?y)"
  from resolve_artifact_ok [OF ok res] have ok1: "image_ok codec st1" and b: "blob_name i" by simp_all
  obtain a st2 where a: "rendition_get w ?k st1 = (a, st2)" by fastforce
  note ok2 = rendition_get_ok [OF ok1 a]
  have serve: "tile_serve codec w params tag st = (case a of
       Some bytes \<Rightarrow> (tile_response bytes ?k tag, st2)
     | None \<Rightarrow> (case render_tile_jpeg codec i ?l ?x ?y tile_size of
          Inr (Some bytes) \<Rightarrow> (tile_response bytes ?k tag, insert_memory ?k bytes st2)
        | Inr None \<Rightarrow> (error_json (iw_serde w) 404 ''tile_not_found'', st2)
        | Inl Codec_Decode \<Rightarrow> (error_json (iw_serde w) 422 ''image_decode_failed'', st2)
        | Inl Codec_Encode \<Rightarrow> (error_json (iw_serde w) 422 ''tile_encode_failed'', st2)))"
    using a unfolding tile_coordinate_def by (cases a) (simp_all add: tile_serve_def rid res Let_def)
  show ?thesis
  proof (cases a)
    case (Some bytes)
    with ok2 have "genuine codec ?k bytes" by simp
    from genuine_tileD [OF this _ b] Some g serve ok2 show ?thesis
      by (auto simp: tile_answer_def requested_tile_def)
  next
    case None
    have "image_ok codec (insert_memory ?k bytes st2)"
      if "render_tile_jpeg codec i ?l ?x ?y tile_size = Inr (Some bytes)" for bytes
      using ok2 b that by (auto intro: insert_memory_ok genuine_tile)
    with None g serve ok2 show ?thesis
      by (auto simp: tile_answer_def requested_tile_def split: sum.splits option.splits codec_error.splits)
  qed
qed

lemma tile_serve_ok:
  assumes ok: "image_ok codec st"
    and g: "tile_serve codec w params tag st = (response, st')"
  shows "image_ok codec st'"
proof (cases "or_param ''recordId'' ''inspectionId'' params")
  case None
  with g ok show ?thesis by (simp add: tile_serve_def)
next
  case (Some record_id)
  obtain r st1 where r: "resolve_artifact w (tile_artifact record_id params) st = (r, st1)" by fastforce
  show ?thesis
  proof (cases r)
    case (Inl e)
    with g Some r resolve_artifact_ok [OF ok r] show ?thesis by (simp add: tile_serve_def Let_def)
  next
    case (Inr i)
    with r have "resolve_artifact w (tile_artifact record_id params) st = (Inr i, st1)" by simp
    from tile_serve_resolved [OF ok Some this g] show ?thesis by simp
  qed
qed

section \<open>Connections and the pool\<close>

lemma image_route_ok:
  assumes "image_ok codec st"
    and "image_route codec w rq st = (response, st')"
  shows "image_ok codec st'"
  using assms rendition_serve_ok [OF assms(1)] tile_serve_ok [OF assms(1)]
  by (auto simp: image_route_def split: if_splits)

lemma image_requests_ok:
  assumes "image_ok codec st"
    and "image_requests codec n xs st = (panicked, out, st')"
  shows "image_ok codec st'"
  using assms
proof (induction xs arbitrary: n st out panicked st')
  case (Cons x xs)
  show ?case
  proof (cases "256 \<le> n \<or> (\<nexists>rq. read_request (ix_reads x) = Some (Inr (Some rq)))")
    case True
    with Cons.prems show ?thesis
      by (auto split: if_splits option.splits sum.splits)
  next
    case False
    then obtain rq where rq: "read_request (ix_reads x) = Some (Inr (Some rq))" and n: "\<not> 256 \<le> n" by auto
    obtain resp st1 where r: "image_route codec (ix_world x) rq st = (resp, st1)" by fastforce
    have ok1: "image_ok codec st1" using Cons.prems(1) r by (rule image_route_ok)
    obtain p o2 st2 where t: "image_requests codec (n + 1) xs st1 = (p, o2, st2)" by (metis prod_cases3)
    have "image_ok codec st2" by (rule Cons.IH [OF ok1 t])
    with Cons.prems(2) rq r n t ok1 show ?thesis by (auto simp: Let_def split: if_splits)
  qed
qed auto

lemma image_work_ok:
  assumes "image_ok codec (ip_state pool)"
  shows "image_ok codec (ip_state (image_work codec pool))"
proof (cases "ip_queue pool")
  case (Cons c cs)
  obtain p o2 st where r: "image_requests codec 0 c (ip_state pool) = (p, o2, st)" by (metis prod_cases3)
  from image_requests_ok [OF assms r] assms Cons r show ?thesis
    by (simp add: image_work_def image_handle_client_def)
qed (simp add: image_work_def assms)

lemma image_accept_state [simp]: "ip_state (image_accept c pool) = ip_state pool"
  by (simp add: image_accept_def)

lemma with_cache_limits_ok:
  "disk_ok codec disk \<Longrightarrow> 2 * encoded \<le> u64_max \<Longrightarrow> 2 * decoded \<le> u64_max \<Longrightarrow>
     image_ok codec (with_cache_limits root disk encoded decoded entries)"
  by (simp add: image_ok_def with_cache_limits_def memory_ok_def decoded_ok_def sources_ok_def lru_new_ok)
     (simp add: lru_new_def)

lemma image_init_ok: "image_init pool \<Longrightarrow> image_ok codec (ip_state pool)"
  by (auto simp: image_init_def disk_ok_def intro!: with_cache_limits_ok)

lemma image_life_ok:
  assumes "image_life codec pool pool'" and "image_ok codec (ip_state pool)"
  shows "image_ok codec (ip_state pool')"
  using assms(1)
proof cases
  case life_step
  then show ?thesis using assms(2) by cases (simp_all add: image_work_ok)
next
  case life_restart
  then show ?thesis using assms(2) by (auto simp: image_ok_def [of _ "ip_state pool"] intro!: with_cache_limits_ok)
qed

interpretation images: inductive_invariant image_init "image_life codec"
  "\<lambda>pool. image_ok codec (ip_state pool)" for codec
  by unfold_locales (auto intro: image_init_ok image_life_ok)

section \<open>Properties\<close>

text \<open>A library, a catalogue with one blob and a service for the concrete instances.\<close>

definition plain_codec :: "unit image_codec" where
  "plain_codec = \<lparr> ic_sha256_hex = (\<lambda>s. s), ic_decode = (\<lambda>_. Some ()), ic_byte_size = (\<lambda>_. 1),
     ic_width = (\<lambda>_. 600), ic_height = (\<lambda>_. 100), ic_target_dimensions = (\<lambda>s _. s),
     ic_resize_preview = (\<lambda>i _. (i, ''triangle'')), ic_resize = (\<lambda>i _ _. i), ic_crop = (\<lambda>i _ _ _ _. i),
     ic_encode_jpeg = (\<lambda>_. Some ''jpeg'') \<rparr>"

definition one_blob :: image_world where
  "one_blob = \<lparr> iw_serde = \<lparr> from_str = (\<lambda>_. Inl ''''), to_string = (\<lambda>_. '''') \<rparr>, iw_catalog_file = True,
     iw_select = (\<lambda>_ _ _ _. Row (''blobs/'' @ replicate 64 (CHR ''A''))), iw_blob_file = (\<lambda>_. True),
     iw_readable = (\<lambda>_. True), iw_store = (\<lambda>_. Store_Ok), iw_server_timing = '''' \<rparr>"

definition fresh_pool :: "nat \<Rightarrow> unit image_pool" where
  "fresh_pool n = \<lparr> ip_worker_count = n, ip_workers = n, ip_queue = [], ip_refused = 0,
     ip_state = with_cache_limits '''' Map.empty 1000 1000 10 \<rparr>"

lemma fresh_pool_init: "image_init (fresh_pool n)"
  unfolding image_init_def fresh_pool_def
  by (simp, rule exI [where x = "[]"], rule exI [where x = 1000], simp add: u64_max_def,
      rule exI [where x = 1000], simp, rule exI [where x = 10], rule refl)

lemma fresh_pool_reachable: "reachable image_init (image_life plain_codec) (fresh_pool n)"
  by (rule reachable_init) (rule fresh_pool_init)

lemma plain_codec_inj: "inj (ic_sha256_hex plain_codec)"
  by (simp add: plain_codec_def)

abbreviation plain_params :: "(string \<times> string) list" where
  "plain_params \<equiv> [(''recordId'', ''R1''), (''profile'', ''sm'')]"

definition plain_request :: preview_request where
  "plain_request = \<lparr> pr_key = \<lparr> ak_record_id = ''R1'', ak_camera_id = ''C1'', ak_sequence = 0, ak_kind = ''intensity'' \<rparr>,
     pr_color_mode = ''gray'', pr_profile = Sm, pr_live = False, pr_revision = None \<rparr>"

lemma plain_params_request: "preview_params plain_params = Inr plain_request"
  by code_simp

lemma plain_resolves:
  "fst (resolve_artifact one_blob key (ip_state (fresh_pool n))) = Inr (replicate 64 (CHR ''a''))"
proof -
  have "validated_blob_identity (''blobs/'' @ replicate 64 (CHR ''A'')) = Some (replicate 64 (CHR ''a''))"
    by code_simp
  then show ?thesis
    by (simp add: resolve_artifact_def resolve_database_def one_blob_def fresh_pool_def with_cache_limits_def
        lock_def source_to_back_def Let_def)
qed

text \<open>
  C17: A preview is the rendering of its source at its profile, whatever is cached. In every state the service
  reaches, through any requests, file system failures and restarts, a preview request that names a resolvable
  artifact is answered with the bytes that decoding the blob and rendering it within the bounds of the
  profile yields, or with the error of that rendering. A cache hit never shows another blob or another
  profile, and never hides a failure. The hash of the key materials is taken to be collision free.
\<close>
theorem preview_is_rendering:
  assumes "reachable image_init (image_life codec) pool" and "inj (ic_sha256_hex codec)"
    and "preview_params params = Inr q"
    and "fst (resolve_artifact w (pr_key q) (ip_state pool)) = Inr identity"
  shows "preview_answer w (preview_rendering codec identity (pr_profile q)) (served_preview codec w q identity tag)
    (fst (rendition_serve codec w params tag (ip_state pool)))"
proof -
  from images.reachable_inv [OF assms(1)] have ok: "image_ok codec (ip_state pool)" .
  from assms(4) have "resolve_artifact w (pr_key q) (ip_state pool)
      = (Inr identity, snd (resolve_artifact w (pr_key q) (ip_state pool)))" by (metis prod.collapse)
  from rendition_serve_resolved [OF ok assms(3) this prod.collapse [symmetric]] assms(2) show ?thesis by blast
qed

theorem preview_is_rendering_witness:
  "preview_answer one_blob (preview_rendering plain_codec (replicate 64 (CHR ''a'')) Sm)
     (served_preview plain_codec one_blob plain_request (replicate 64 (CHR ''a'')) [])
     (fst (rendition_serve plain_codec one_blob plain_params [] (ip_state (fresh_pool 4))))
   \<and> preview_rendering plain_codec (replicate 64 (CHR ''a'')) Sm = Inr ''jpeg''"
proof
  have p: "pr_profile plain_request = Sm" by (simp add: plain_request_def)
  show "preview_answer one_blob (preview_rendering plain_codec (replicate 64 (CHR ''a'')) Sm)
     (served_preview plain_codec one_blob plain_request (replicate 64 (CHR ''a'')) [])
     (fst (rendition_serve plain_codec one_blob plain_params [] (ip_state (fresh_pool 4))))"
    using preview_is_rendering [OF fresh_pool_reachable [of 4] plain_codec_inj plain_params_request plain_resolves,
      where tag = "[]"] unfolding p .
  show "preview_rendering plain_codec (replicate 64 (CHR ''a'')) Sm = Inr ''jpeg''"
    by (simp add: preview_rendering_def plain_codec_def render_decoded_def Let_def)
qed

text \<open>
  C33: A tile is the crop of its source, whatever is cached: in every reachable state a tile request that names
  a resolvable artifact is answered exactly as rendering the tile afresh would be, including the errors.
\<close>
theorem tile_is_rendering:
  assumes "reachable image_init (image_life codec) pool" and "inj (ic_sha256_hex codec)"
    and "or_param ''recordId'' ''inspectionId'' params = Some record_id"
    and "fst (resolve_artifact w (tile_artifact record_id params) (ip_state pool)) = Inr identity"
  shows "fst (tile_serve codec w params tag (ip_state pool)) = tile_answer codec w identity params tag"
proof -
  from images.reachable_inv [OF assms(1)] have ok: "image_ok codec (ip_state pool)" .
  from assms(4) have "resolve_artifact w (tile_artifact record_id params) (ip_state pool)
      = (Inr identity, snd (resolve_artifact w (tile_artifact record_id params) (ip_state pool)))"
    by (metis prod.collapse)
  from tile_serve_resolved [OF ok assms(3) this prod.collapse [symmetric]] assms(2) show ?thesis by blast
qed

theorem tile_is_rendering_witness:
  "fst (tile_serve plain_codec one_blob plain_params [] (ip_state (fresh_pool 4)))
     = tile_answer plain_codec one_blob (replicate 64 (CHR ''a'')) plain_params []"
proof -
  have "or_param ''recordId'' ''inspectionId'' plain_params = Some ''R1''"
    by (simp add: or_param_def param_def)
  from tile_is_rendering [OF fresh_pool_reachable [of 4] plain_codec_inj this plain_resolves,
    where tag = "[]"] show ?thesis .
qed

text \<open>
  C18: A blob is opened only inside the blob directory: in every reachable state an artifact that resolves, from
  the catalogue or from its cache, names 64 lower-case hexadecimal digits, so that neither a separator nor a
  parent directory can enter the path, whatever the catalogue holds.
\<close>
theorem resolved_blob_confined:
  assumes "reachable image_init (image_life codec) pool"
    and "fst (resolve_artifact w key (ip_state pool)) = Inr identity"
  shows "length identity = 64 \<and> list_all lower_hex identity \<and> set identity \<inter> {CHR ''/'', CHR 0x5C, CHR ''.''} = {}"
proof -
  from images.reachable_inv [OF assms(1)] have ok: "image_ok codec (ip_state pool)" .
  from resolve_artifact_ok [OF ok prod.collapse [symmetric]] assms(2) have "blob_name identity" by blast
  then show ?thesis by (auto simp: blob_name_def list_all_iff lower_hex_def is_ascii_digit_def)
qed

theorem resolved_blob_confined_witness:
  "length (replicate 64 (CHR ''a'')) = 64 \<and> list_all lower_hex (replicate 64 (CHR ''a''))"
  using resolved_blob_confined [OF fresh_pool_reachable [of 4] plain_resolves] by blast

text \<open>
  C34: The caches of the image service keep to their limits: in every reachable state the encoded renditions and
  the decoded images in memory take no more bytes than configured, their running totals are exact, and the
  catalogue cache has no more entries than configured.
\<close>
theorem image_caches_bounded:
  assumes "reachable image_init (image_life codec) pool"
  shows "let st = ip_state pool; memory = mx_value (is_memory st); decoded = mx_value (is_decoded st)
    in bl_current memory = total_size (bl_entries memory) \<and> total_size (bl_entries memory) \<le> bl_max memory
     \<and> bl_current decoded = total_size (bl_entries decoded) \<and> total_size (bl_entries decoded) \<le> bl_max decoded
     \<and> length (mx_value (is_sources st)) \<le> is_catalog_cache_entries st"
  using images.reachable_inv [OF assms]
  by (simp add: Let_def image_ok_def memory_ok_def decoded_ok_def sources_ok_def lru_ok_def)

theorem image_caches_bounded_witness:
  "length (mx_value (is_sources (ip_state (fresh_pool 4)))) \<le> 10"
  using image_caches_bounded [OF fresh_pool_reachable [of 4]]
  by (simp add: Let_def fresh_pool_def with_cache_limits_def)

text \<open>
  C35: An insertion evicts exactly the least recently used entries: what remains is the longest end of the
  entries in the order of their use, the new one last, that fits the limit.
\<close>
theorem lru_evicts_least_recent:
  assumes "lru_ok c" and "n \<le> bl_max c" and "bl_max c \<noteq> 0"
  shows "\<exists>gone. without k (bl_entries c) @ [(k, v, n)] = gone @ bl_entries (lru_insert k v n c)
    \<and> total_size (bl_entries (lru_insert k v n c)) \<le> bl_max c
    \<and> (gone = [] \<or> bl_max c < total_size (last gone # bl_entries (lru_insert k v n c)))
    \<and> fst (lru_get k (lru_insert k v n c)) = Some v"
proof -
  let ?c = "lru_insert k v n c"
  obtain gone where g: "without k (bl_entries c) @ [(k, v, n)] = gone @ bl_entries ?c"
    "bl_current ?c = total_size (bl_entries ?c)" "bl_current ?c \<le> bl_max c"
    "\<forall>e before. gone = before @ [e] \<longrightarrow> bl_max c < snd (snd e) + bl_current ?c"
    using lru_insert_spec [OF assms] by blast
  have "bl_entries ?c \<noteq> []"
  proof
    assume e: "bl_entries ?c = []"
    with g(1) have "gone = without k (bl_entries c) @ [(k, v, n)]" by simp
    with g(4) have "bl_max c < n + bl_current ?c" by fastforce
    with e g(2) assms(2) show False by simp
  qed
  then have "last (bl_entries ?c) = (k, v, n)" using g(1) by (metis last_appendR last_snoc)
  then have "(k, v, n) \<in> set (bl_entries ?c)" using \<open>bl_entries ?c \<noteq> []\<close> by (metis last_in_set)
  then have "fst (lru_get k ?c) = Some v"
    using lru_insert_ok [OF assms(1), of k v n] by (simp add: lru_get_def lru_ok_def)
  moreover have "gone = [] \<or> bl_max c < total_size (last gone # bl_entries ?c)"
    using g(2,4) by (cases gone rule: rev_cases) auto
  ultimately show ?thesis using g by auto
qed

theorem lru_evicts_least_recent_witness:
  "(\<exists>gone. [(''a'', ''A'', 3), (''b'', ''B'', 3), (''c'', ''C'', 3)]
      = gone @ bl_entries (lru_insert ''c'' ''C'' 3
          \<lparr> bl_max = 6, bl_current = 6, bl_entries = [(''a'', ''A'', 3), (''b'', ''B'', 3)] \<rparr>))
   \<and> bl_entries (lru_insert ''c'' ''C'' 3
          \<lparr> bl_max = 6, bl_current = 6, bl_entries = [(''a'', ''A'', 3), (''b'', ''B'', 3)] \<rparr>)
      = [(''b'', ''B'', 3), (''c'', ''C'', 3)]"
proof
  let ?c = "\<lparr> bl_max = 6, bl_current = 6, bl_entries = [(''a'', ''A'', 3), (''b'', ''B'', 3)] \<rparr>"
  have "lru_ok ?c" by (simp add: lru_ok_def u64_max_def)
  from lru_evicts_least_recent [OF this, of 3 "''c''" "''C''"]
  show "\<exists>gone. [(''a'', ''A'', 3), (''b'', ''B'', 3), (''c'', ''C'', 3)]
      = gone @ bl_entries (lru_insert ''c'' ''C'' 3 ?c)" by (auto simp: without_def)
  show "bl_entries (lru_insert ''c'' ''C'' 3 ?c) = [(''b'', ''B'', 3), (''c'', ''C'', 3)]"
    by code_simp
qed


definition panicking_reads :: "stream_read list" where
  "panicking_reads = [Chunk (''GET /health?%a'' @ [CHR 0xC3, CHR 0xA9] @ '' HTTP/1.1'' @ crlf @ crlf)]"

definition panicking_connection :: "image_world \<Rightarrow> image_exchange list" where
  "panicking_connection w = [\<lparr> ix_world = w, ix_reads = panicking_reads, ix_written = True \<rparr>]"

definition attack :: "'i image_codec \<Rightarrow> image_world \<Rightarrow> 'i image_pool \<Rightarrow> 'i image_pool" where
  "attack codec w pool = image_work codec (image_accept (panicking_connection w) pool)"

lemma panicking_reads_panic: "read_request panicking_reads = None"
  by code_simp

lemma attack_effect:
  assumes "ip_queue pool = []" and "0 < ip_worker_count pool * 16 mod 2 ^ 64" and "0 < ip_workers pool"
  shows "attack codec w pool = pool\<lparr>ip_workers := ip_workers pool - 1\<rparr>"
  using assms by (simp add: attack_def image_accept_def image_work_def image_handle_client_def
    panicking_connection_def panicking_reads_panic)

lemma attacks_effect:
  assumes "ip_queue pool = []" and "0 < ip_worker_count pool * 16 mod 2 ^ 64"
  shows "n \<le> ip_workers pool \<Longrightarrow> (attack codec w ^^ n) pool = pool\<lparr>ip_workers := ip_workers pool - n\<rparr>"
proof (induction n)
  case (Suc n)
  then have "(attack codec w ^^ n) pool = pool\<lparr>ip_workers := ip_workers pool - n\<rparr>" by simp
  with Suc.prems assms show ?case by (simp add: attack_effect)
qed simp

lemma no_worker_step:
  "image_step codec pool pool' \<Longrightarrow> ip_workers pool = 0 \<Longrightarrow>
     ip_workers pool' = 0 \<and> ip_state pool' = ip_state pool \<and> (\<exists>cs. ip_queue pool' = ip_queue pool @ cs)"
  by (cases rule: image_step.cases) (auto simp: image_accept_def image_work_def)

lemma no_worker_steps:
  "(image_step codec)\<^sup>*\<^sup>* pool pool' \<Longrightarrow> ip_workers pool = 0 \<Longrightarrow>
     ip_workers pool' = 0 \<and> ip_state pool' = ip_state pool \<and> (\<exists>cs. ip_queue pool' = ip_queue pool @ cs)"
proof (induction rule: rtranclp_induct)
  case (step y z)
  then show ?case using no_worker_step [OF step.hyps(2)] by auto
qed simp



end
