(* ===== verification/Spec2Isabelle.thy ===== *)
theory Spec2Isabelle
  imports Trigger_Safety Task_Propagation Worker_Outcome Client_Props Calibration_Request_Props Image_Props
begin

text \<open>
  Verification library for the steel plate inspection system.

  \<^bold>\<open>The program.\<close> A trigger gateway (\<open>src/app/trigger\<close>) receives events over HTTP, TCP and UDP,
  authenticates them and forwards them to the inspection service (\<open>src/app/service\<close>). The service checks
  the permission of every request, admits it unless it drains, and hands it to a handler. Production
  requests become rows of a task table that one worker thread executes in order. Calibration writes pass
  through a ledger that fences further writes until every outcome is known. The image service
  (\<open>src/app/image-service\<close>) renders previews and tiles of stored artifacts through several caches.

  \<^bold>\<open>Foundations.\<close> \<open>Rust_Std\<close> models what the code uses of the standard library: strings as bytes, UTF-8,
  trimming and splitting, number parsing, 64-bit arithmetic, locks that can be poisoned. \<open>Net_Addr\<close> parses
  addresses, \<open>Json_Value\<close> has JSON values with the codec as a parameter, \<open>Transition_System\<close> reachable states
  and the interface of invariants, \<open>Admission\<close> the contract of counted admission with draining that the
  gateway and the service both implement, \<open>Database\<close> the tables with statements that may fail, and the
  interfaces of row updates and table relations.

  \<^bold>\<open>Trigger gateway\<close> (\<open>trigger/src/main.rs\<close>). \<open>Trigger_Http\<close> reads requests, \<open>Trigger_Security\<close> has the
  security configuration, signatures, replay cache and allowed networks, \<open>Trigger_Gateway\<close> modes, admission,
  forwarding and the three handlers, \<open>Trigger_Safety\<close> the properties: which events reach the service, that
  every handler is a run of the lock-level transition system, its invariant, and draining.

  \<^bold>\<open>Production tasks\<close> (\<open>service/src/db/mod.rs\<close>, \<open>production_tasks.rs\<close>). \<open>Task_Store\<close> has the operations on the
  table, \<open>Task_Queue\<close> the HTTP handlers, \<open>Task_Worker\<close> the worker loop as a step machine. \<open>Task_Invariant\<close>
  shows the table well formed under every operation and fault, \<open>Task_Identity\<close> and \<open>Enqueue_Props\<close> idempotent
  insertion and the order of dependencies, \<open>Task_Claim\<close> which task is claimed, \<open>Task_Propagation\<close> which tasks
  a failure blocks, \<open>Worker_Props\<close> that at most one task runs while requests interleave with the worker,
  \<open>Worker_Outcome\<close> that the outcome of a provider is stored.

  \<^bold>\<open>Access to the service\<close> (\<open>service/src/main.rs\<close>). \<open>Service_State\<close> has the shared state, responses and the
  handler monad, \<open>Service_Admission\<close> admission and the drain endpoint, \<open>Service_Routes\<close> permissions, origin
  check, mode guards and dispatch table, \<open>Admin_Store\<close> and \<open>Service_Auth\<close> policies, accounts, login, lockout
  and sessions, \<open>Service_Client\<close> the path of a connection to its handler. \<open>Route_Props\<close>, \<open>Auth_Props\<close> and
  \<open>Client_Props\<close> show who can open a session, what a request has passed when its handler runs, and that its
  admission is released.

  \<^bold>\<open>Calibration\<close> (\<open>service/src/calibration_operations.rs\<close>). \<open>Calibration_Store\<close> is the ledger,
  \<open>Calibration_Request\<close> strict parsing, canonical form and validation, \<open>Calibration_Operations\<close> the machine of
  a request. \<open>Calibration_Ledger\<close> interleaves requests, faults and restarts and proves the invariant;
  \<open>Calibration_Props\<close> and \<open>Calibration_Request_Props\<close> show that the provider is called at most once per
  operation, what is recorded, how a rollback reconciles, what the fence stops, and what it does not.

  \<^bold>\<open>Image service.\<close> \<open>Image_Http\<close>, \<open>Image_Cache\<close> and \<open>Image_Service\<close> model HTTP, the byte-bounded cache, the
  catalogue, renderings, endpoints and worker pool; \<open>Image_Invariant\<close> says what a cached entry stands for, and
  \<open>Image_Props\<close> that cached answers equal fresh ones, the bounds, eviction, confinement of blob names, and
  the loss of workers to a request that panics.

  \<^bold>\<open>Parameters.\<close> Keyed hash, digests, password hash, JSON codec, network exchanges, providers, clock, image
  library and database faults are arguments; a theorem that needs a law of one of them states it as a
  premise. The equality of cached and fresh images takes the digest of key materials to be injective.

  \<^bold>\<open>Bounds.\<close> Loops are structural or have a termination proof. The step machines are run for a number of
  steps: nine answer every calibration request, and ten bring the worker back to the head of its loop, both
  proved for all inputs. The byte-bounded caches assume limits of at most half the range of a 64-bit
  integer. An image connection serves at most 256 requests, as in the code.

  \<^bold>\<open>Not modelled.\<close> The record, report, device and history handlers of the service with their queries, user
  administration, the BKV import and bridge, the site, profile and registry configuration, cleanup, record
  store, inspection world, result and runtime contracts, the algorithm service, the monitor and the capture
  program are not covered; much of it is access to files, processes and databases, but parts could be
  modelled in the same way. Floating point and pixel computations (surface arrays, alignment, preview
  dimensions) and the user interfaces are outside the model. In the image service requests run one at a
  time, so its build locks have no effect; durations and the environment of \<open>main\<close> are left out.
\<close>

end
